(* ===== verification/Go_Prelude.thy ===== *)
theory Go_Prelude
  imports Main "HOL-Library.Word" "HOL-Library.Finite_Map" "HOL-Library.State_Monad"
    "HOL-Library.Sublist"
begin

text \<open>
  What the program uses of Go itself, and the generic lemmas the components share.
  Strings and byte slices are both Isabelle's \<open>string\<close> (a Go string is a sequence of bytes, as
  is a HOL \<open>char list\<close>), so the conversions between the two are the identity.  An \<open>int32\<close> is a
  32-bit word read with \<open>sint\<close>.  A Go map is a finite map; the order in which \<open>range\<close> visits
  it is left open (it is a parameter of the functions that depend on it).  An \<open>error\<close> value is
  \<open>go_error option\<close>, with \<open>None\<close> for \<open>nil\<close>.  Code that calls out of the program runs in the
  state monad of the library: the state is whatever the outside world is.
\<close>

section \<open>Collections of rules\<close>

named_theorems names \<open>definitions of the names derived from a custom resource\<close>
named_theorems built \<open>definitions of the Kubernetes objects the controllers build\<close>
named_theorems keeps \<open>state predicates kept by monadic code\<close>

section \<open>Errors\<close>

text \<open>
  An error value, told apart by its message; a run-time panic (a dereference of \<open>nil\<close>) ends the
  call like an error does and has its own constructor.
\<close>

datatype go_error = GoErr string | Panic string

type_synonym int32 = "32 word"
type_synonym bytes = string

section \<open>Decimal numbers\<close>

text \<open>The rendering of integers by \<open>fmt.Sprintf("%d")\<close> and by the templates.\<close>

definition digit_char :: "nat \<Rightarrow> char" where
  "digit_char d = char_of (48 + d)"

fun nat_digits :: "nat \<Rightarrow> string" where
  "nat_digits n =
     (if n < 10 then [digit_char n] else nat_digits (n div 10) @ [digit_char (n mod 10)])"

declare nat_digits.simps [simp del]

definition itoa :: "int \<Rightarrow> string" where
  "itoa i = (if i < 0 then CHR ''-'' # nat_digits (nat (- i)) else nat_digits (nat i))"

text \<open>Reading the digits back: the inverse used for the injectivity of derived names.\<close>

definition digits_val :: "string \<Rightarrow> nat" where
  "digits_val ds = foldl (\<lambda>a c. 10 * a + (of_char c - 48)) 0 ds"

lemma of_digit_char [simp]: "d < 10 \<Longrightarrow> of_char (digit_char d) = (48 + d :: nat)"
  by (simp add: digit_char_def)

lemma digit_char_range: "d < 10 \<Longrightarrow> digit_char d \<in> set ''0123456789''"
proof -
  assume "d < 10"
  then have "d = 0 \<or> d = 1 \<or> d = 2 \<or> d = 3 \<or> d = 4 \<or> d = 5 \<or> d = 6 \<or> d = 7 \<or> d = 8 \<or> d = 9"
    by presburger
  then show ?thesis
    by (elim disjE) (simp_all add: digit_char_def char_of_def bit_simps)
qed

lemma nat_digits_nonempty [simp]: "nat_digits n \<noteq> []"
  by (subst nat_digits.simps) simp

lemma nat_digits_chars: "set (nat_digits n) \<subseteq> set ''0123456789''"
proof (induction n rule: nat_digits.induct)
  case (1 n)
  show ?case
  proof (cases "n < 10")
    case True
    then show ?thesis
      using digit_char_range [of n] by (subst nat_digits.simps) simp
  next
    case False
    then have "set (nat_digits (n div 10)) \<subseteq> set ''0123456789''"
      by (rule "1.IH")
    with False show ?thesis
      using digit_char_range [of "n mod 10"] by (subst nat_digits.simps) simp
  qed
qed

lemma digits_val_nat_digits: "digits_val (nat_digits n) = n"
proof (induction n rule: nat_digits.induct)
  case (1 n)
  show ?case
  proof (cases "n < 10")
    case True
    then show ?thesis by (subst nat_digits.simps) (simp add: digits_val_def)
  next
    case False
    then have "digits_val (nat_digits (n div 10)) = n div 10"
      by (rule "1.IH")
    with False show ?thesis
      by (subst nat_digits.simps) (simp add: digits_val_def)
  qed
qed

lemma nat_digits_inject [simp]: "nat_digits m = nat_digits n \<longleftrightarrow> m = n"
  using digits_val_nat_digits by metis

lemma dash_not_in_digits [simp]: "CHR ''-'' \<notin> set (nat_digits n)"
  using nat_digits_chars [of n] by auto

lemma newline_not_in_digits [simp]: "CHR 10 \<notin> set (nat_digits n)"
  using nat_digits_chars [of n] by auto

lemma itoa_inject [simp]: "itoa i = itoa j \<longleftrightarrow> i = j"
proof
  assume eq: "itoa i = itoa j"
  have "CHR ''-'' # nat_digits m \<noteq> nat_digits n" for m n
    using dash_not_in_digits [of n] by (metis list.set_intros(1))
  with eq show "i = j"
    by (auto simp: itoa_def split: if_splits) (metis)+
qed simp

lemma itoa_nonempty [simp]: "itoa i \<noteq> []"
  by (simp add: itoa_def)

lemma newline_not_in_itoa [simp]: "CHR 10 \<notin> set (itoa i)"
  by (simp add: itoa_def)

section \<open>Strings\<close>

text \<open>\<open>strings.Join\<close>.\<close>

fun strings_join :: "string list \<Rightarrow> string \<Rightarrow> string" where
  "strings_join [] sep = []"
| "strings_join [x] sep = x"
| "strings_join (x # y # xs) sep = x @ sep @ strings_join (y # xs) sep"

lemma set_strings_join: "set (strings_join xs sep) \<subseteq> \<Union> (set (map set xs)) \<union> set sep"
  by (induction xs sep rule: strings_join.induct) auto

text \<open>\<open>strings.HasSuffix\<close>.\<close>

definition has_suffix :: "string \<Rightarrow> string \<Rightarrow> bool" where
  "has_suffix s suf \<longleftrightarrow> suffix suf s"

text \<open>\<open>strings.ToLower\<close> on the ASCII letters, the only ones kinds and hexadecimal digits have.\<close>

definition char_lower :: "char \<Rightarrow> char" where
  "char_lower c =
     (let n = of_char c :: nat in if 65 \<le> n \<and> n \<le> 90 then char_of (n + 32) else c)"

definition to_lower :: "string \<Rightarrow> string" where
  "to_lower s = map char_lower s"

text \<open>
  \<open>strings.TrimSpace\<close>: the white space of Unicode, each character as its UTF-8 bytes, is removed
  from both ends.
\<close>

definition space_runes :: "string list" where
  "space_runes =
     [[CHR 0x09], [CHR 0x0A], [CHR 0x0B], [CHR 0x0C], [CHR 0x0D], [CHR 0x20],
      [CHR 0xC2, CHR 0x85], [CHR 0xC2, CHR 0xA0], [CHR 0xE1, CHR 0x9A, CHR 0x80],
      [CHR 0xE2, CHR 0x80, CHR 0x80], [CHR 0xE2, CHR 0x80, CHR 0x81],
      [CHR 0xE2, CHR 0x80, CHR 0x82], [CHR 0xE2, CHR 0x80, CHR 0x83],
      [CHR 0xE2, CHR 0x80, CHR 0x84], [CHR 0xE2, CHR 0x80, CHR 0x85],
      [CHR 0xE2, CHR 0x80, CHR 0x86], [CHR 0xE2, CHR 0x80, CHR 0x87],
      [CHR 0xE2, CHR 0x80, CHR 0x88], [CHR 0xE2, CHR 0x80, CHR 0x89],
      [CHR 0xE2, CHR 0x80, CHR 0x8A], [CHR 0xE2, CHR 0x80, CHR 0xA8],
      [CHR 0xE2, CHR 0x80, CHR 0xA9], [CHR 0xE2, CHR 0x80, CHR 0xAF],
      [CHR 0xE2, CHR 0x81, CHR 0x9F], [CHR 0xE3, CHR 0x80, CHR 0x80]]"

definition leading_space :: "string \<Rightarrow> string option" where
  "leading_space s = find (\<lambda>r. prefix r s) space_runes"

definition trailing_space :: "string \<Rightarrow> string option" where
  "trailing_space s = find (\<lambda>r. suffix r s) space_runes"

lemma space_runes_nonempty: "r \<in> set space_runes \<Longrightarrow> r \<noteq> []"
  by (auto simp: space_runes_def)

lemma leading_space_Some:
  assumes "leading_space s = Some r"
  shows "r \<noteq> []" and "prefix r s"
  using assms by (auto simp: leading_space_def find_Some_iff dest: space_runes_nonempty [OF nth_mem])

lemma trailing_space_Some:
  assumes "trailing_space s = Some r"
  shows "r \<noteq> []" and "suffix r s"
  using assms by (auto simp: trailing_space_def find_Some_iff dest: space_runes_nonempty [OF nth_mem])

function trim_left :: "string \<Rightarrow> string" where
  "trim_left s =
     (case leading_space s of None \<Rightarrow> s | Some r \<Rightarrow> trim_left (drop (length r) s))"
  by pat_completeness auto
termination
proof (relation "measure length")
  fix s r
  assume "leading_space s = Some r"
  from leading_space_Some [OF this] show "(drop (length r) s, s) \<in> measure length"
    using prefix_length_le [of r s] by (cases r) auto
qed simp

function trim_right :: "string \<Rightarrow> string" where
  "trim_right s =
     (case trailing_space s of None \<Rightarrow> s | Some r \<Rightarrow> trim_right (take (length s - length r) s))"
  by pat_completeness auto
termination
proof (relation "measure length")
  fix s r
  assume "trailing_space s = Some r"
  from trailing_space_Some [OF this]
  show "(take (length s - length r) s, s) \<in> measure length"
    using suffix_length_le [of r s] by (cases r) auto
qed simp

declare trim_left.simps [simp del] trim_right.simps [simp del]

definition trim_space :: "string \<Rightarrow> string" where
  "trim_space s = trim_right (trim_left s)"

section \<open>Lines of text\<close>

text \<open>The lines of a text, and the text of a list of lines.\<close>

abbreviation newline :: "string" where
  "newline \<equiv> [CHR 10]"

fun split_lines :: "string \<Rightarrow> string list" where
  "split_lines [] = [[]]"
| "split_lines (c # cs) =
     (if c = CHR 10 then [] # split_lines cs
      else (case split_lines cs of [] \<Rightarrow> [[c]] | l # ls \<Rightarrow> (c # l) # ls))"

definition single_line :: "string \<Rightarrow> bool" where
  "single_line s \<longleftrightarrow> CHR 10 \<notin> set s"

lemma split_lines_nonempty [simp]: "split_lines s \<noteq> []"
  by (cases s) (auto split: list.splits)

lemma split_lines_single: "single_line s \<Longrightarrow> split_lines s = [s]"
  by (induction s) (auto simp: single_line_def)

lemma split_lines_append_newline:
  "split_lines (s @ CHR 10 # t) = split_lines s @ split_lines t"
  by (induction s) (auto split: list.splits simp: append_eq_Cons_conv)

lemma single_line_append [simp]: "single_line (s @ t) \<longleftrightarrow> single_line s \<and> single_line t"
  by (auto simp: single_line_def)

lemma single_line_Cons [simp]: "single_line (c # t) \<longleftrightarrow> c \<noteq> CHR 10 \<and> single_line t"
  by (auto simp: single_line_def)

lemma single_line_Nil [simp]: "single_line []"
  by (simp add: single_line_def)

lemma single_line_itoa [simp]: "single_line (itoa i)"
  by (simp add: single_line_def)

lemma single_line_join:
  "(\<And>x. x \<in> set xs \<Longrightarrow> single_line x) \<Longrightarrow> single_line sep \<Longrightarrow> single_line (strings_join xs sep)"
  by (induction xs sep rule: strings_join.induct) auto

section \<open>Monadic code that keeps a state predicate\<close>

text \<open>
  \<open>holds_after P m\<close>: running \<open>m\<close> from a state with \<open>P\<close> ends in a state with \<open>P\<close>, whatever it
  returns.  \<open>P\<close> is used for "only permitted operations have been performed".
\<close>

definition holds_after :: "('s \<Rightarrow> bool) \<Rightarrow> ('s, 'a) state \<Rightarrow> bool" where
  "holds_after P m \<longleftrightarrow> (\<forall>s. P s \<longrightarrow> P (snd (run_state m s)))"

lemma holds_afterI: "(\<And>s a s'. P s \<Longrightarrow> run_state m s = (a, s') \<Longrightarrow> P s') \<Longrightarrow> holds_after P m"
  unfolding holds_after_def by (metis surjective_pairing)

lemma holds_afterD: "holds_after P m \<Longrightarrow> P s \<Longrightarrow> run_state m s = (a, s') \<Longrightarrow> P s'"
  by (auto simp: holds_after_def dest: spec [where x = s])

lemma holds_after_return [keeps, simp]: "holds_after P (State_Monad.return x)"
  by (simp add: holds_after_def)

lemma holds_after_bind [keeps]:
  "holds_after P m \<Longrightarrow> (\<And>x. holds_after P (f x)) \<Longrightarrow> holds_after P (State_Monad.bind m f)"
  by (rule holds_afterI) (auto split: prod.splits dest: holds_afterD)

lemma holds_after_if [keeps]:
  "(b \<Longrightarrow> holds_after P m) \<Longrightarrow> (\<not> b \<Longrightarrow> holds_after P n) \<Longrightarrow> holds_after P (if b then m else n)"
  by simp

lemma holds_after_case_sum [keeps]:
  "(\<And>e. x = Inl e \<Longrightarrow> holds_after P (f e)) \<Longrightarrow> (\<And>a. x = Inr a \<Longrightarrow> holds_after P (g a)) \<Longrightarrow>
   holds_after P (case x of Inl e \<Rightarrow> f e | Inr a \<Rightarrow> g a)"
  by (cases x) simp_all

lemma holds_after_case_option [keeps]:
  "(x = None \<Longrightarrow> holds_after P m) \<Longrightarrow> (\<And>a. x = Some a \<Longrightarrow> holds_after P (g a)) \<Longrightarrow>
   holds_after P (case x of None \<Rightarrow> m | Some a \<Rightarrow> g a)"
  by (cases x) simp_all

lemma holds_after_case_prod [keeps]:
  "(\<And>a b. x = (a, b) \<Longrightarrow> holds_after P (f a b)) \<Longrightarrow> holds_after P (case x of (a, b) \<Rightarrow> f a b)"
  by (cases x) simp

text \<open>\<open>yields Q m\<close>: whatever \<open>m\<close> returns has \<open>Q\<close>; it carries a fact about a result past a bind.\<close>

definition yields :: "('a \<Rightarrow> bool) \<Rightarrow> ('s, 'a) state \<Rightarrow> bool" where
  "yields Q m \<longleftrightarrow> (\<forall>s. Q (fst (run_state m s)))"

lemma yieldsD: "yields Q m \<Longrightarrow> run_state m s = (a, s') \<Longrightarrow> Q a"
  unfolding yields_def by (metis fst_conv)

lemma yields_return [simp]: "yields Q (State_Monad.return x) \<longleftrightarrow> Q x"
  by (simp add: yields_def)

lemma yields_bind: "(\<And>x. yields Q (f x)) \<Longrightarrow> yields Q (State_Monad.bind m f)"
  by (auto simp: yields_def split: prod.splits)

lemma yields_bind_yields:
  "yields Q m \<Longrightarrow> (\<And>x. Q x \<Longrightarrow> yields R (f x)) \<Longrightarrow> yields R (State_Monad.bind m f)"
  by (auto simp: yields_def split: prod.splits) (metis fst_conv snd_conv)

lemma yields_cases:
  "(\<And>e. x = Inl e \<Longrightarrow> yields Q (f e)) \<Longrightarrow> (\<And>a. x = Inr a \<Longrightarrow> yields Q (g a)) \<Longrightarrow>
   yields Q (case x of Inl e \<Rightarrow> f e | Inr a \<Rightarrow> g a)"
  "(y = None \<Longrightarrow> yields Q m) \<Longrightarrow> (\<And>a. y = Some a \<Longrightarrow> yields Q (h a)) \<Longrightarrow>
   yields Q (case y of None \<Rightarrow> m | Some a \<Rightarrow> h a)"
  "(\<And>a b. z = (a, b) \<Longrightarrow> yields Q (k a b)) \<Longrightarrow> yields Q (case z of (a, b) \<Rightarrow> k a b)"
  "(c \<Longrightarrow> yields Q m) \<Longrightarrow> (\<not> c \<Longrightarrow> yields Q n) \<Longrightarrow> yields Q (if c then m else n)"
  by (auto split: sum.splits option.splits prod.splits)

lemma holds_after_bind_yields:
  "holds_after P m \<Longrightarrow> yields Q m \<Longrightarrow> (\<And>x. Q x \<Longrightarrow> holds_after P (f x)) \<Longrightarrow>
   holds_after P (State_Monad.bind m f)"
  by (rule holds_afterI) (auto split: prod.splits dest: holds_afterD yieldsD)

end
