(* ===== verification/K8s_Types.thy ===== *)
theory K8s_Types
  imports Go_Prelude
begin

text \<open>
  The Kubernetes data the controllers read and build: the fields of the API types the program
  uses, under short prefixes.  What the program only carries along (the parts of a user's pod
  template it never looks at, server-side status, resource requirements) is one field of the type
  \<open>opaque\<close>; its zero value is the empty string.  An \<open>int_or_string\<close> is named by the call that
  makes it.  These types come from libraries the repository calls, so they carry no claim of
  their own; the comparison functions of \<open>controllers/tor/utils_equal.go\<close> and
  \<open>utils_exist.go\<close>, which are the program's, follow them.
\<close>

type_synonym opaque = string
type_synonym labels = "(string, string) fmap"

section \<open>Metadata\<close>

record gvk =
  gvk_group :: string
  gvk_version :: string
  gvk_kind :: string

record owner_reference =
  or_gvk :: gvk
  or_name :: string
  or_uid :: string
  or_controller :: bool

record object_meta =
  om_name :: string
  om_namespace :: string
  om_uid :: string
  om_labels :: "labels option"
  om_owner_refs :: "owner_reference list"
  om_other :: opaque

definition zero_meta :: object_meta where
  "zero_meta = \<lparr>om_name = [], om_namespace = [], om_uid = [], om_labels = None,
     om_owner_refs = [], om_other = []\<rparr>"

text \<open>The key of an object: the \<open>types.NamespacedName\<close> the client is called with.\<close>

record nsname =
  nn_namespace :: string
  nn_name :: string

definition key_of :: "object_meta \<Rightarrow> nsname" where
  "key_of m = \<lparr>nn_namespace = om_namespace m, nn_name = om_name m\<rparr>"

section \<open>Services and service monitors\<close>

datatype int_or_string = FromInt int | FromString string

record service_port =
  sp_name :: string
  sp_protocol :: string
  sp_port :: int32
  sp_target_port :: int_or_string

record service_spec =
  ss_selector :: labels
  ss_ports :: "service_port list"
  ss_cluster_ip :: string
  ss_other :: opaque

record service =
  svc_meta :: object_meta
  svc_spec :: service_spec
  svc_status :: opaque

record endpoint =
  ep_port :: string
  ep_path :: string

record service_monitor_spec =
  sms_match_labels :: labels
  sms_endpoints :: "endpoint list"
  sms_match_names :: "string list"
  sms_other :: opaque

record service_monitor =
  sm_meta :: object_meta
  sm_spec :: service_monitor_spec

section \<open>Secrets, config maps and access control\<close>

record secret =
  sec_meta :: object_meta
  sec_type :: string
  sec_data :: "(string, bytes) fmap"

record config_map =
  cm_meta :: object_meta
  cm_data :: "(string, string) fmap"

record service_account =
  sa_meta :: object_meta
  sa_secrets :: "opaque list"
  sa_image_pull_secrets :: "opaque list"
  sa_automount_token :: "bool option"

record policy_rule =
  pr_api_groups :: "string list"
  pr_verbs :: "string list"
  pr_resources :: "string list"

record role =
  role_meta :: object_meta
  role_rules :: "policy_rule list"

record subject =
  sj_kind :: string
  sj_api_group :: string
  sj_name :: string
  sj_namespace :: string

record role_ref =
  rr_api_group :: string
  rr_kind :: string
  rr_name :: string

record role_binding =
  rb_meta :: object_meta
  rb_subjects :: "subject list"
  rb_role_ref :: role_ref

section \<open>Pods and deployments\<close>

record key_to_path =
  kp_key :: string
  kp_path :: string

datatype volume_source =
  EmptyDir
| ConfigMapVolume string "key_to_path list"
| SecretVolume string "key_to_path list" "int32 option"
| OtherVolume opaque

record volume =
  vol_name :: string
  vol_source :: volume_source

record volume_mount =
  vm_name :: string
  vm_path :: string
  vm_read_only :: bool

record container_port =
  cp_name :: string
  cp_protocol :: string
  cp_port :: int32

record container =
  ct_name :: string
  ct_image :: string
  ct_command :: "string list"
  ct_args :: "string list"
  ct_pull_policy :: string
  ct_mounts :: "volume_mount list"
  ct_ports :: "container_port list"
  ct_resources :: opaque
  ct_other :: opaque

record pod_spec =
  ps_service_account :: string
  ps_volumes :: "volume list"
  ps_containers :: "container list"
  ps_other :: opaque

record pod_template =
  pt_meta :: object_meta
  pt_spec :: pod_spec

record deployment_spec =
  ds_match_labels :: labels
  ds_replicas :: "int32 option"
  ds_template :: pod_template
  ds_other :: opaque

record deployment =
  dep_meta :: object_meta
  dep_spec :: deployment_spec
  dep_status :: opaque

section \<open>Comparisons (utils_equal.go)\<close>

definition deploymentEqual :: "deployment \<Rightarrow> deployment \<Rightarrow> bool" where
  "deploymentEqual dep1 dep2 =
     (if dep_meta dep1 \<noteq> dep_meta dep2 then False
      else if dep_spec dep1 \<noteq> dep_spec dep2 then False
      else if dep_status dep1 \<noteq> dep_status dep2 then False
      else True)"

definition serviceEqual :: "service \<Rightarrow> service \<Rightarrow> bool" where
  "serviceEqual svc1 svc2 =
     (if svc_meta svc1 \<noteq> svc_meta svc2 then False
      else if svc_spec svc1 \<noteq> svc_spec svc2 then False
      else if svc_status svc1 \<noteq> svc_status svc2 then False
      else True)"

definition monitorServiceEqual :: "service_monitor \<Rightarrow> service_monitor \<Rightarrow> bool" where
  "monitorServiceEqual sm1 sm2 =
     (if sm_meta sm1 \<noteq> sm_meta sm2 then False
      else if sm_spec sm1 \<noteq> sm_spec sm2 then False
      else True)"

definition serviceAccountEqual :: "service_account \<Rightarrow> service_account \<Rightarrow> bool" where
  "serviceAccountEqual sa1 sa2 =
     (if sa_meta sa1 \<noteq> sa_meta sa2 then False
      else if sa_secrets sa1 \<noteq> sa_secrets sa2 then False
      else if sa_image_pull_secrets sa1 \<noteq> sa_image_pull_secrets sa2 then False
      else if sa_automount_token sa1 \<noteq> sa_automount_token sa2 then False
      else True)"

definition rolebindingEqual :: "role_binding \<Rightarrow> role_binding \<Rightarrow> bool" where
  "rolebindingEqual rb1 rb2 =
     (if rb_meta rb1 \<noteq> rb_meta rb2 then False
      else if rb_subjects rb1 \<noteq> rb_subjects rb2 then False
      else if rb_role_ref rb1 \<noteq> rb_role_ref rb2 then False
      else True)"

definition roleEqual :: "role \<Rightarrow> role \<Rightarrow> bool" where
  "roleEqual role1 role2 =
     (if role_meta role1 \<noteq> role_meta role2 then False
      else if role_rules role1 \<noteq> role_rules role2 then False
      else True)"

lemmas equal_defs =
  deploymentEqual_def serviceEqual_def monitorServiceEqual_def serviceAccountEqual_def
  rolebindingEqual_def roleEqual_def

text \<open>
  For the fields the model keeps, the comparisons leave nothing out: equal means the same object.
\<close>

lemma equal_iffs:
  "deploymentEqual d d' \<longleftrightarrow> d = d'" "serviceEqual s s' \<longleftrightarrow> s = s'"
  "monitorServiceEqual m m' \<longleftrightarrow> m = m'" "serviceAccountEqual a a' \<longleftrightarrow> a = a'"
  "rolebindingEqual b b' \<longleftrightarrow> b = b'" "roleEqual r r' \<longleftrightarrow> r = r'"
  by (auto simp: equal_defs)

section \<open>Looking a port up in a service (utils_exist.go)\<close>

text \<open>
  The reflection test at the start of \<open>portExists\<close> asks whether the argument is a slice, which
  its type says; the loop returns at the first port that matches by number or by name.
\<close>

fun portExists :: "service_port list \<Rightarrow> service_port \<Rightarrow> bool" where
  "portExists [] item = False"
| "portExists (port # ports) item =
     (if sp_protocol port = sp_protocol item then
        if sp_port port = sp_port item then True
        else if sp_name port \<noteq> [] \<and> sp_name port = sp_name item then True
        else portExists ports item
      else portExists ports item)"

lemma portExists_iff:
  "portExists ports item \<longleftrightarrow>
     (\<exists>p \<in> set ports. sp_protocol p = sp_protocol item \<and>
        (sp_port p = sp_port item \<or> sp_name p \<noteq> [] \<and> sp_name p = sp_name item))"
  by (induction ports) auto

end
