(* ===== verification/Derived_Names.thy ===== *)
theory Derived_Names
  imports K8s_Types
begin

text \<open>
  The contract of the name functions: every name of a child object is the name of the custom
  resource followed by one of a few suffixes, none of which is a suffix of another.  The locale
  states it and derives what the controllers need: the names of one instance are distinct, and
  two instances with different names share none.  \<open>Tor_Types\<close>, \<open>Onion_Types\<close> and
  \<open>Legacy_Types\<close> interpret it.  The last section is about selectors and the labels of pods.
\<close>

section \<open>Suffix-free families\<close>

definition suffix_free :: "string list \<Rightarrow> bool" where
  "suffix_free sufs \<longleftrightarrow>
     distinct sufs \<and> list_all (\<lambda>s. list_all (\<lambda>t. s = t \<or> \<not> suffix s t) sufs) sufs"

lemma suffix_free_append:
  assumes "suffix_free sufs" "s \<in> set sufs" "t \<in> set sufs" "a @ s = b @ t"
  shows "a = b \<and> s = t"
proof -
  have "suffix s (b @ t)" and "suffix t (b @ t)"
    using assms(4) by (metis suffixI)+
  then have "suffix s t \<or> suffix t s"
    using suffix_same_cases by blast
  with assms(1,2,3) have "s = t"
    by (auto simp: suffix_free_def list_all_iff)
  with assms(4) show ?thesis by simp
qed

lemma suffix_eval: "suffix xs ys \<longleftrightarrow> prefix (rev xs) (rev ys)"
  by (simp add: suffix_to_prefix)

section \<open>Derived names\<close>

locale derived_children =
  fixes name_of :: "'r \<Rightarrow> string"
    and children :: "'r \<Rightarrow> string list"
    and suffixes :: "string list"
  assumes children_eq: "children r = map (\<lambda>s. name_of r @ s) suffixes"
    and free: "suffix_free suffixes"
begin

lemma child_inj:
  assumes "n \<in> set (children r)" "n \<in> set (children q)"
  shows "name_of r = name_of q"
proof -
  from assms obtain s t where "s \<in> set suffixes" "t \<in> set suffixes"
    and "name_of r @ s = name_of q @ t"
    by (auto simp: children_eq)
  with free show ?thesis by (metis suffix_free_append)
qed

lemma children_disjoint: "name_of r \<noteq> name_of q \<Longrightarrow> set (children r) \<inter> set (children q) = {}"
  using child_inj by blast

lemma distinct_children: "distinct (children r)"
proof -
  have "distinct suffixes" using free by (simp add: suffix_free_def)
  then show ?thesis by (auto simp: children_eq distinct_map inj_on_def)
qed

end

section \<open>Selectors and pod labels\<close>

text \<open>
  Kubernetes routes a service to the pods whose labels contain its selector, and a deployment
  owns the pods whose labels contain its match labels.
\<close>

definition selects :: "labels \<Rightarrow> labels \<Rightarrow> bool" where
  "selects sel lbls \<longleftrightarrow> sel \<subseteq>\<^sub>f lbls"

text \<open>
  How every deployment of the program labels its pods: the template's labels, when it has any,
  are kept and the deployment's own are written over them; otherwise the deployment's own are
  used.  The loop over \<open>DeploymentLabels()\<close> stores each of its keys once.
\<close>

definition add_labels :: "labels option \<Rightarrow> labels \<Rightarrow> labels" where
  "add_labels tmpl own = (case tmpl of None \<Rightarrow> own | Some ls \<Rightarrow> ls ++\<^sub>f own)"

lemma selects_refl [simp]: "selects l l"
  by (simp add: selects_def fmsubset_alt_def fmpred_iff)

lemma selects_add_labels [simp]: "selects own (add_labels tmpl own)"
  by (auto simp: selects_def add_labels_def fmsubset_alt_def fmpred_iff fmlookup_dom_iff
        split: option.splits)

lemma add_labels_keeps:
  "fmlookup own k = None \<Longrightarrow> fmlookup (add_labels (Some ls) own) k = fmlookup ls k"
  by (auto simp: add_labels_def fmlookup_dom_iff)

end
