(* ===== verification/Tor_Types.thy ===== *)
theory Tor_Types
  imports Derived_Names
begin

text \<open>
  The \<open>Tor\<close> custom resource: \<open>apis/tor/v1alpha2/tor_types.go\<close> and \<open>tor_util.go\<close>.  A Go
  struct that embeds another is a record that extends it, so the methods of the embedded struct
  (here \<open>setPortsDefaults\<close>) apply to the embedding one as they do in Go.  The lemmas show what
  the defaulting promises, that it is idempotent, and which names instances can share.
\<close>

section \<open>Types (tor_types.go)\<close>

record TorGenericPortSpec =
  Enable :: bool
  Port :: int32
  Address :: "string list"

record TorGenericPortWithFlagSpec = TorGenericPortSpec +
  Flags :: "string list"
  Policy :: "string list"

type_synonym TorServerSpec = TorGenericPortWithFlagSpec

record key_selector =
  ks_name :: string
  ks_key :: string

record TorControlSpec = TorGenericPortWithFlagSpec +
  Secret :: "string list"
  SecretRef :: "key_selector list"

record TorClientSpec =
  DNS :: TorGenericPortWithFlagSpec
  NATD :: TorGenericPortWithFlagSpec
  Socks :: TorGenericPortWithFlagSpec
  HTTPTunnel :: TorGenericPortWithFlagSpec
  Trans :: TorGenericPortWithFlagSpec
  TransProxyType :: string

record TorPodTemplate =
  tpt_meta :: object_meta
  tpt_spec :: pod_spec
  tpt_resources :: opaque

record TorSpec =
  Replicas :: int32
  Template :: TorPodTemplate
  Client :: TorClientSpec
  Server :: TorServerSpec
  Control :: TorControlSpec
  Metrics :: TorGenericPortWithFlagSpec
  ServiceMonitor :: bool
  Config :: string
  ConfigMapKeyRef :: "key_selector list"
  ExtraArgs :: "string list"

record TorStatus =
  ts_config :: string

record Tor =
  tor_kind :: string
  tor_meta :: object_meta
  tor_spec :: TorSpec
  tor_status :: TorStatus

record TorGenericPortDef =
  pd_name :: string
  pd_protocol :: string
  pd_port :: TorGenericPortSpec

text \<open>The zero value of a \<open>Tor\<close>, with a name and a namespace: what a minimal manifest gives.\<close>

definition zero_port :: TorGenericPortWithFlagSpec where
  "zero_port = \<lparr>Enable = False, Port = 0, Address = [], Flags = [], Policy = []\<rparr>"

definition zero_pod_spec :: pod_spec where
  "zero_pod_spec =
     \<lparr>ps_service_account = [], ps_volumes = [], ps_containers = [], ps_other = []\<rparr>"

definition zero_tor :: "string \<Rightarrow> string \<Rightarrow> Tor" where
  "zero_tor name namespace =
     \<lparr>tor_kind = ''Tor'', tor_meta = zero_meta\<lparr>om_name := name, om_namespace := namespace\<rparr>,
      tor_spec =
        \<lparr>Replicas = 0,
         Template = \<lparr>tpt_meta = zero_meta, tpt_spec = zero_pod_spec, tpt_resources = []\<rparr>,
         Client = \<lparr>DNS = zero_port, NATD = zero_port, Socks = zero_port,
           HTTPTunnel = zero_port, Trans = zero_port, TransProxyType = []\<rparr>,
         Server = zero_port,
         Control = \<lparr>Enable = False, Port = 0, Address = [], Flags = [], Policy = [],
           Secret = [], SecretRef = []\<rparr>,
         Metrics = zero_port, ServiceMonitor = False, Config = [], ConfigMapKeyRef = [],
         ExtraArgs = []\<rparr>,
      tor_status = \<lparr>ts_config = []\<rparr>\<rparr>"

section \<open>Constants and derived names (tor_util.go)\<close>

definition dnsPort :: int32 where "dnsPort = 53"
definition natdPort :: int32 where "natdPort = 8082"
definition httpTunnelPort :: int32 where "httpTunnelPort = 8080"
definition transPort :: int32 where "transPort = 8081"
definition socksPort :: int32 where "socksPort = 9050"
definition controlPort :: int32 where "controlPort = 9051"
definition metricsPort :: int32 where "metricsPort = 9035"
definition serverPort :: int32 where "serverPort = 9999"

lemmas port_defs = dnsPort_def natdPort_def httpTunnelPort_def transPort_def socksPort_def
  controlPort_def metricsPort_def serverPort_def

abbreviation tor_name :: "Tor \<Rightarrow> string" where
  "tor_name tor \<equiv> om_name (tor_meta tor)"

abbreviation tor_namespace :: "Tor \<Rightarrow> string" where
  "tor_namespace tor \<equiv> om_namespace (tor_meta tor)"

definition tor_DeploymentName :: "Tor \<Rightarrow> string" where
  [names]: "tor_DeploymentName tor = tor_name tor @ ''-tor-daemon''"

definition tor_ConfigMapName :: "Tor \<Rightarrow> string" where
  [names]: "tor_ConfigMapName tor = tor_name tor @ ''-tor-config''"

definition tor_InstanceName :: "Tor \<Rightarrow> string" where
  [names]: "tor_InstanceName tor = tor_name tor @ ''-tor-svc''"

definition tor_ServiceMetricsName :: "Tor \<Rightarrow> string" where
  [names]: "tor_ServiceMetricsName tor = tor_name tor @ ''-tor-metrics-svc''"

definition tor_ServiceMetricsSelector :: "Tor \<Rightarrow> labels" where
  "tor_ServiceMetricsSelector tor =
     fmap_of_list [(''app'', tor_ServiceMetricsName tor), (''controller'', tor_name tor)]"

definition tor_ServiceSelector :: "Tor \<Rightarrow> labels" where
  "tor_ServiceSelector tor =
     fmap_of_list [(''app'', tor_InstanceName tor), (''controller'', tor_name tor)]"

definition tor_ServiceName :: "Tor \<Rightarrow> string" where
  [names]: "tor_ServiceName tor = tor_name tor @ ''-tor-svc''"

definition tor_SecretName :: "Tor \<Rightarrow> string" where
  [names]: "tor_SecretName tor = tor_name tor @ ''-tor-secret''"

definition tor_DeploymentLabels :: "Tor \<Rightarrow> labels" where
  "tor_DeploymentLabels tor = tor_ServiceSelector tor"

definition tor_RoleName :: "Tor \<Rightarrow> string" where
  [names]: "tor_RoleName tor = tor_name tor @ ''-tor-role''"

definition tor_ServiceAccountName :: "Tor \<Rightarrow> string" where
  [names]: "tor_ServiceAccountName tor = tor_name tor @ ''-tor-sa''"

section \<open>Defaults (SetTorDefaults)\<close>

text \<open>
  The method mutates the port spec it is called on; the model returns it updated.  The scheme
  type lets it run on a \<open>TorControlSpec\<close>, which embeds the port spec.
\<close>

definition setPortsDefaults ::
  "int32 \<Rightarrow> 'a TorGenericPortWithFlagSpec_scheme \<Rightarrow> 'a TorGenericPortWithFlagSpec_scheme" where
  "setPortsDefaults portDefault torPort0 =
     (let defaultAddress = [''0.0.0.0'', ''::''];
          torPort1 = (if length (Address torPort0) = 0
                      then torPort0\<lparr>Address := defaultAddress\<rparr> else torPort0);
          torPort2 = (if length (Policy torPort1) = 0
                      then torPort1\<lparr>Policy := [''accept 0.0.0.0/0'', ''accept ::/0'']\<rparr> else torPort1);
          torPort3 = (if Port torPort2 = 0 then torPort2\<lparr>Port := portDefault\<rparr> else torPort2)
      in torPort3)"

definition client_ports_defaults :: "TorClientSpec \<Rightarrow> TorClientSpec" where
  "client_ports_defaults c =
     c\<lparr>DNS := setPortsDefaults dnsPort (DNS c),
       NATD := setPortsDefaults natdPort (NATD c),
       HTTPTunnel := setPortsDefaults httpTunnelPort (HTTPTunnel c),
       Trans := setPortsDefaults transPort (Trans c),
       Socks := setPortsDefaults socksPort (Socks c)\<rparr>"

definition anyPortEnabled :: "TorSpec \<Rightarrow> bool" where
  "anyPortEnabled spec =
     fold (\<lambda>enabled found. if enabled then True else found)
       [Enable (DNS (Client spec)), Enable (NATD (Client spec)),
        Enable (HTTPTunnel (Client spec)), Enable (Trans (Client spec)),
        Enable (Socks (Client spec)), Enable (Server spec)] False"

definition SetTorDefaults :: "Tor \<Rightarrow> Tor" where
  "SetTorDefaults tor =
     (let spec1 = (tor_spec tor)
            \<lparr>Client := client_ports_defaults (Client (tor_spec tor)),
             Control := setPortsDefaults controlPort (Control (tor_spec tor)),
             Metrics := setPortsDefaults metricsPort (Metrics (tor_spec tor)),
             Server := setPortsDefaults serverPort (Server (tor_spec tor))\<rparr>;
          spec2 = (if TransProxyType (Client spec1) = []
                   then spec1\<lparr>Client := (Client spec1)\<lparr>TransProxyType := ''default''\<rparr>\<rparr>
                   else spec1);
          spec3 = (if \<not> anyPortEnabled spec2
                   then spec2\<lparr>Client := (Client spec2)
                          \<lparr>Socks := (Socks (Client spec2))\<lparr>Enable := True\<rparr>\<rparr>\<rparr>
                   else spec2)
      in tor\<lparr>tor_spec := spec3\<rparr>)"

section \<open>All ports, pod template (tor_util.go)\<close>

abbreviation generic_port :: "'a TorGenericPortSpec_scheme \<Rightarrow> TorGenericPortSpec" where
  "generic_port p \<equiv> TorGenericPortSpec.truncate p"

definition GetAllPorts :: "Tor \<Rightarrow> TorGenericPortDef list" where
  "GetAllPorts tor =
     (let spec = tor_spec tor; client = Client spec in
      [\<lparr>pd_name = ''control'', pd_protocol = ''TCP'', pd_port = generic_port (Control spec)\<rparr>,
       \<lparr>pd_name = ''metrics'', pd_protocol = ''TCP'', pd_port = generic_port (Metrics spec)\<rparr>,
       \<lparr>pd_name = ''server'', pd_protocol = ''TCP'', pd_port = generic_port (Server spec)\<rparr>,
       \<lparr>pd_name = ''dns'', pd_protocol = ''UDP'', pd_port = generic_port (DNS client)\<rparr>,
       \<lparr>pd_name = ''httptunnel'', pd_protocol = ''TCP'', pd_port = generic_port (HTTPTunnel client)\<rparr>,
       \<lparr>pd_name = ''natd'', pd_protocol = ''TCP'', pd_port = generic_port (NATD client)\<rparr>,
       \<lparr>pd_name = ''socks'', pd_protocol = ''TCP'', pd_port = generic_port (Socks client)\<rparr>,
       \<lparr>pd_name = ''trans'', pd_protocol = ''TCP'', pd_port = generic_port (Trans client)\<rparr>])"

definition tor_PodTemplate :: "Tor \<Rightarrow> pod_template" where
  "tor_PodTemplate tor =
     \<lparr>pt_meta = tpt_meta (Template (tor_spec tor)), pt_spec = tpt_spec (Template (tor_spec tor))\<rparr>"

definition tor_Resources :: "Tor \<Rightarrow> opaque" where
  "tor_Resources tor = tpt_resources (Template (tor_spec tor))"

section \<open>What the defaults promise\<close>

lemma setPortsDefaults_fields [simp]:
  "Enable (setPortsDefaults d p) = Enable p"
  "Port (setPortsDefaults d p) = (if Port p = 0 then d else Port p)"
  "Address (setPortsDefaults d p) = (if Address p = [] then [''0.0.0.0'', ''::''] else Address p)"
  "Policy (setPortsDefaults d p) =
     (if Policy p = [] then [''accept 0.0.0.0/0'', ''accept ::/0''] else Policy p)"
  "Flags (setPortsDefaults d p) = Flags p"
  by (simp_all add: setPortsDefaults_def Let_def)

lemma setPortsDefaults_control [simp]:
  "Secret (setPortsDefaults d c) = Secret c"
  "SecretRef (setPortsDefaults d c) = SecretRef c"
  by (simp_all add: setPortsDefaults_def Let_def)

lemma setPortsDefaults_idem [simp]:
  "d \<noteq> 0 \<Longrightarrow> setPortsDefaults d (setPortsDefaults d p) = setPortsDefaults d p"
  by (simp add: setPortsDefaults_def Let_def)

lemma port_constants_nonzero [simp]:
  "dnsPort \<noteq> 0" "natdPort \<noteq> 0" "httpTunnelPort \<noteq> 0" "transPort \<noteq> 0" "socksPort \<noteq> 0"
  "controlPort \<noteq> 0" "metricsPort \<noteq> 0" "serverPort \<noteq> 0"
  by (simp_all add: port_defs)

lemma anyPortEnabled_iff:
  "anyPortEnabled spec \<longleftrightarrow>
     Enable (DNS (Client spec)) \<or> Enable (NATD (Client spec)) \<or> Enable (HTTPTunnel (Client spec)) \<or>
     Enable (Trans (Client spec)) \<or> Enable (Socks (Client spec)) \<or> Enable (Server spec)"
  by (simp add: anyPortEnabled_def)

lemma SetTorDefaults_meta [simp]:
  "tor_meta (SetTorDefaults tor) = tor_meta tor" "tor_kind (SetTorDefaults tor) = tor_kind tor"
  "tor_status (SetTorDefaults tor) = tor_status tor"
  by (simp_all add: SetTorDefaults_def Let_def)

lemma setPortsDefaults_Enable [simp]:
  "setPortsDefaults d (p\<lparr>Enable := b\<rparr>) = (setPortsDefaults d p)\<lparr>Enable := b\<rparr>"
  by (simp add: setPortsDefaults_def Let_def)

lemma SetTorDefaults_kept [simp]:
  fixes tor :: Tor
  defines "new \<equiv> tor_spec (SetTorDefaults tor)"
  shows "Replicas new = Replicas (tor_spec tor)" "Template new = Template (tor_spec tor)"
    "ServiceMonitor new = ServiceMonitor (tor_spec tor)" "Config new = Config (tor_spec tor)"
    "ConfigMapKeyRef new = ConfigMapKeyRef (tor_spec tor)"
    "ExtraArgs new = ExtraArgs (tor_spec tor)"
    "Control new = setPortsDefaults controlPort (Control (tor_spec tor))"
    "Metrics new = setPortsDefaults metricsPort (Metrics (tor_spec tor))"
    "Server new = setPortsDefaults serverPort (Server (tor_spec tor))"
  by (simp_all add: new_def SetTorDefaults_def Let_def)

lemma SetTorDefaults_client [simp]:
  fixes tor :: Tor
  defines "old \<equiv> Client (tor_spec tor)" and "new \<equiv> Client (tor_spec (SetTorDefaults tor))"
  shows "DNS new = setPortsDefaults dnsPort (DNS old)"
    "NATD new = setPortsDefaults natdPort (NATD old)"
    "HTTPTunnel new = setPortsDefaults httpTunnelPort (HTTPTunnel old)"
    "Trans new = setPortsDefaults transPort (Trans old)"
    "Socks new = (setPortsDefaults socksPort (Socks old))
       \<lparr>Enable := Enable (Socks old) \<or> \<not> anyPortEnabled (tor_spec tor)\<rparr>"
    "TransProxyType new = (if TransProxyType old = [] then ''default'' else TransProxyType old)"
proof -
  have id: "p\<lparr>Enable := Enable p\<rparr> = p" for p :: TorGenericPortWithFlagSpec
    by simp
  show "DNS new = setPortsDefaults dnsPort (DNS old)"
    "NATD new = setPortsDefaults natdPort (NATD old)"
    "HTTPTunnel new = setPortsDefaults httpTunnelPort (HTTPTunnel old)"
    "Trans new = setPortsDefaults transPort (Trans old)"
    "TransProxyType new = (if TransProxyType old = [] then ''default'' else TransProxyType old)"
    by (simp_all add: old_def new_def SetTorDefaults_def Let_def client_ports_defaults_def)
  show "Socks new = (setPortsDefaults socksPort (Socks old))
       \<lparr>Enable := Enable (Socks old) \<or> \<not> anyPortEnabled (tor_spec tor)\<rparr>"
    using id [of "setPortsDefaults socksPort (Socks old)"]
    by (cases "Enable (Socks old)")
      (simp_all add: old_def new_def SetTorDefaults_def Let_def client_ports_defaults_def
        anyPortEnabled_iff)
qed

lemma SetTorDefaults_anyPortEnabled [simp]: "anyPortEnabled (tor_spec (SetTorDefaults tor))"
  by (auto simp: anyPortEnabled_iff)

definition port_ready :: "'a TorGenericPortWithFlagSpec_scheme \<Rightarrow> bool" where
  "port_ready p \<longleftrightarrow> Port p \<noteq> 0 \<and> Address p \<noteq> [] \<and> Policy p \<noteq> []"

lemma port_ready_defaults [simp]: "d \<noteq> 0 \<Longrightarrow> port_ready (setPortsDefaults d p)"
  by (simp add: port_ready_def)

lemma port_ready_enable [simp]: "port_ready (p\<lparr>Enable := b\<rparr>) = port_ready p"
  by (simp add: port_ready_def)

definition ports_ready :: "TorSpec \<Rightarrow> bool" where
  "ports_ready spec \<longleftrightarrow>
     port_ready (DNS (Client spec)) \<and> port_ready (NATD (Client spec)) \<and>
     port_ready (HTTPTunnel (Client spec)) \<and> port_ready (Trans (Client spec)) \<and>
     port_ready (Socks (Client spec)) \<and> port_ready (Control spec) \<and>
     port_ready (Metrics spec) \<and> port_ready (Server spec)"

text \<open>
  After \<open>SetTorDefaults\<close> every one of the eight ports has a port number, a listening address
  and a policy, the transparent proxy type is set, and at least one client or server port is
  enabled.
\<close>

theorem SetTorDefaults_ready:
  "ports_ready (tor_spec (SetTorDefaults tor)) \<and>
   TransProxyType (Client (tor_spec (SetTorDefaults tor))) \<noteq> [] \<and>
   anyPortEnabled (tor_spec (SetTorDefaults tor))"
  by (simp add: ports_ready_def)

text \<open>
  The defaulting never overrides what the user enabled: the flag of each of the eight ports is
  the user's, except that \<open>socks\<close> is switched on exactly when no client or server port was
  enabled.  In particular \<open>control\<close> and \<open>metrics\<close>, whose field comments in \<open>tor_types.go\<close> say
  "Enabled by default", stay off unless the user enables them.
\<close>

theorem SetTorDefaults_enable:
  fixes tor :: Tor
  defines "old \<equiv> tor_spec tor" and "new \<equiv> tor_spec (SetTorDefaults tor)"
  shows "Enable (Control new) = Enable (Control old) \<and>
    Enable (Metrics new) = Enable (Metrics old) \<and>
    Enable (Server new) = Enable (Server old) \<and>
    Enable (DNS (Client new)) = Enable (DNS (Client old)) \<and>
    Enable (NATD (Client new)) = Enable (NATD (Client old)) \<and>
    Enable (HTTPTunnel (Client new)) = Enable (HTTPTunnel (Client old)) \<and>
    Enable (Trans (Client new)) = Enable (Trans (Client old)) \<and>
    Enable (Socks (Client new)) = (if anyPortEnabled old then Enable (Socks (Client old)) else True)"
  by (simp add: old_def new_def)

text \<open>
  Defaulting is idempotent, so that reconciling an object that was already defaulted (and
  stored) changes nothing.
\<close>

theorem SetTorDefaults_idem: "SetTorDefaults (SetTorDefaults tor) = SetTorDefaults tor"
proof -
  have "Client (tor_spec (SetTorDefaults (SetTorDefaults tor))) =
      Client (tor_spec (SetTorDefaults tor))"
    by (intro TorClientSpec.equality) simp_all
  then have "tor_spec (SetTorDefaults (SetTorDefaults tor)) = tor_spec (SetTorDefaults tor)"
    by (intro TorSpec.equality) simp_all
  then show ?thesis
    by (intro Tor.equality) simp_all
qed

section \<open>What the names promise\<close>

definition tor_child_names :: "Tor \<Rightarrow> string list" where
  "tor_child_names tor =
     [tor_DeploymentName tor, tor_ConfigMapName tor, tor_ServiceName tor,
      tor_ServiceMetricsName tor, tor_SecretName tor, tor_RoleName tor,
      tor_ServiceAccountName tor]"

interpretation tor_nm: derived_children tor_name tor_child_names
  "[''-tor-daemon'', ''-tor-config'', ''-tor-svc'', ''-tor-metrics-svc'', ''-tor-secret'',
    ''-tor-role'', ''-tor-sa'']"
  by unfold_locales (simp_all add: tor_child_names_def names suffix_free_def suffix_eval)

text \<open>
  The seven names a \<open>Tor\<close> instance gives its objects are distinct, and instances with
  different names never claim the same object name.
\<close>

theorem tor_child_names_disjoint:
  "distinct (tor_child_names t) \<and>
   (tor_name t = tor_name u \<or> set (tor_child_names t) \<inter> set (tor_child_names u) = {})"
  using tor_nm.distinct_children tor_nm.children_disjoint by blast

lemma GetAllPorts_names_distinct: "distinct (map pd_name (GetAllPorts tor))"
  by (simp add: GetAllPorts_def Let_def)

lemma selectors_nonempty: "fmlookup (tor_ServiceSelector tor) ''controller'' = Some (tor_name tor)"
  by (simp add: tor_ServiceSelector_def fmlookup_of_list)

end
