(* ===== verification/Onion_Types.thy ===== *)
theory Onion_Types
  imports Derived_Names Tor_Types
begin

text \<open>
  The \<open>OnionService\<close> and \<open>OnionBalancedService\<close> custom resources:
  \<open>apis/tor/v1alpha2/onionservice_types.go\<close>, \<open>onionservice_util.go\<close>,
  \<open>onionbalancedservice_types.go\<close> and \<open>onionbalancedservice_util.go\<close>.  The lemmas show that
  backend names identify the service and the index, which names services share, and what
  \<open>IsSynced\<close> tests.
\<close>

section \<open>Types (onionservice_types.go)\<close>

text \<open>
  A rule's \<open>Backend\<close> holds a pointer to the target service in the Kubernetes API; the code
  dereferences it without a test, and the model's rules always have one.
\<close>

record service_backend_port =
  sbp_name :: string
  sbp_number :: int32

record service_backend =
  sb_name :: string
  sb_port :: service_backend_port

record ServiceRule =
  rule_port :: service_backend_port
  rule_backend :: service_backend

record SecretReference =
  sr_name :: string
  sr_key :: string

record ServicePodTemplate =
  spt_meta :: object_meta
  spt_spec :: pod_spec
  spt_resources :: opaque

record OnionServiceSpec =
  os_Rules :: "ServiceRule list"
  os_Template :: ServicePodTemplate
  os_PrivateKeySecret :: SecretReference
  os_AuthorizedClients :: "SecretReference list"
  os_Version :: int32
  os_MasterOnionAddress :: string
  os_ServiceMonitor :: bool
  os_ExtraConfig :: string

record OnionServiceStatus =
  oss_Hostname :: string
  oss_TargetClusterIP :: string

record OnionService =
  os_kind :: string
  os_meta :: object_meta
  os_spec :: OnionServiceSpec
  os_status :: OnionServiceStatus

abbreviation os_name :: "OnionService \<Rightarrow> string" where
  "os_name s \<equiv> om_name (os_meta s)"

abbreviation os_namespace :: "OnionService \<Rightarrow> string" where
  "os_namespace s \<equiv> om_namespace (os_meta s)"

section \<open>Methods (onionservice_util.go)\<close>

definition os_GetVersion :: "OnionServiceSpec \<Rightarrow> int" where
  "os_GetVersion s = (let v = 3 in if os_Version s = 2 then 2 else v)"

definition os_DeploymentName :: "OnionService \<Rightarrow> string" where
  [names]: "os_DeploymentName s = os_name s @ ''-tor-daemon''"

definition os_ServiceName :: "OnionService \<Rightarrow> string" where
  [names]: "os_ServiceName s = os_name s @ ''-tor-svc''"

definition os_ServiceMetricsName :: "OnionService \<Rightarrow> string" where
  [names]: "os_ServiceMetricsName s = os_name s @ ''-tor-metrics-svc''"

definition os_ServiceMetricsSelector :: "OnionService \<Rightarrow> labels" where
  "os_ServiceMetricsSelector s =
     fmap_of_list [(''app'', os_ServiceMetricsName s), (''controller'', os_name s)]"

definition os_SecretName :: "OnionService \<Rightarrow> string" where
  "os_SecretName s =
     (if length (sr_name (os_PrivateKeySecret (os_spec s))) > 0
      then sr_name (os_PrivateKeySecret (os_spec s))
      else os_name s @ ''-tor-secret'')"

definition os_AuthorizedClientsSecretName :: "OnionService \<Rightarrow> string" where
  [names]: "os_AuthorizedClientsSecretName s = os_name s @ ''-tor-auth''"

definition os_ServiceSelector :: "OnionService \<Rightarrow> labels" where
  "os_ServiceSelector s =
     fmap_of_list [(''app'', os_ServiceName s), (''controller'', os_name s)]"

definition os_DeploymentLabels :: "OnionService \<Rightarrow> labels" where
  "os_DeploymentLabels s = os_ServiceSelector s"

definition os_RoleName :: "OnionService \<Rightarrow> string" where
  [names]: "os_RoleName s = os_name s @ ''-tor-role''"

definition os_ServiceAccountName :: "OnionService \<Rightarrow> string" where
  [names]: "os_ServiceAccountName s = os_name s @ ''-tor-sa''"

definition os_PodTemplate :: "OnionService \<Rightarrow> pod_template" where
  "os_PodTemplate s =
     \<lparr>pt_meta = spt_meta (os_Template (os_spec s)), pt_spec = spt_spec (os_Template (os_spec s))\<rparr>"

definition os_Resources :: "OnionService \<Rightarrow> opaque" where
  "os_Resources s = spt_resources (os_Template (os_spec s))"

section \<open>Types (onionbalancedservice_types.go)\<close>

record TemplateReference =
  tr_spec :: OnionServiceSpec

record BalancerTemplate =
  bt_meta :: object_meta
  bt_spec :: pod_spec
  bt_TorResources :: opaque
  bt_BalancerResources :: opaque

record OnionBalancedServiceSpec =
  ob_Backends :: int32
  ob_PrivateKeySecret :: SecretReference
  ob_Version :: int32
  ob_ServiceMonitor :: bool
  ob_Template :: TemplateReference
  ob_BalancerTemplate :: BalancerTemplate

record OnionBalancedServiceStatus =
  obs_Hostname :: string
  obs_TargetClusterIP :: string
  obs_Backends :: "(string, OnionServiceStatus) fmap"

record OnionBalancedService =
  ob_kind :: string
  ob_meta :: object_meta
  ob_spec :: OnionBalancedServiceSpec
  ob_status :: OnionBalancedServiceStatus

abbreviation ob_name :: "OnionBalancedService \<Rightarrow> string" where
  "ob_name s \<equiv> om_name (ob_meta s)"

abbreviation ob_namespace :: "OnionBalancedService \<Rightarrow> string" where
  "ob_namespace s \<equiv> om_namespace (ob_meta s)"

section \<open>Methods (onionbalancedservice_util.go, OnionServiceBackendName)\<close>

definition OnionServiceBackendName :: "OnionBalancedService \<Rightarrow> int32 \<Rightarrow> string" where
  "OnionServiceBackendName s n = ob_name s @ ''-tor-obb-'' @ itoa (sint n)"

definition ob_GetVersion :: "OnionBalancedServiceSpec \<Rightarrow> int" where
  "ob_GetVersion s = (let v = 3 in if ob_Version s = 2 then 2 else v)"

definition ob_GetBackends :: "OnionBalancedServiceSpec \<Rightarrow> int" where
  "ob_GetBackends s = sint (ob_Backends s)"

definition ob_DeploymentName :: "OnionBalancedService \<Rightarrow> string" where
  [names]: "ob_DeploymentName s = ob_name s @ ''-tor-daemon''"

definition ob_ConfigMapName :: "OnionBalancedService \<Rightarrow> string" where
  [names]: "ob_ConfigMapName s = ob_name s @ ''-tor-config''"

definition ob_ServiceName :: "OnionBalancedService \<Rightarrow> string" where
  [names]: "ob_ServiceName s = ob_name s @ ''-tor-svc''"

definition ob_ServiceMetricsName :: "OnionBalancedService \<Rightarrow> string" where
  [names]: "ob_ServiceMetricsName s = ob_name s @ ''-tor-metrics-svc''"

definition ob_SecretName :: "OnionBalancedService \<Rightarrow> string" where
  "ob_SecretName s =
     (if ob_PrivateKeySecret (ob_spec s) \<noteq> \<lparr>sr_name = [], sr_key = []\<rparr>
         \<and> length (sr_name (ob_PrivateKeySecret (ob_spec s))) > 0
      then sr_name (ob_PrivateKeySecret (ob_spec s))
      else ob_name s @ ''-tor-secret'')"

definition ob_ServiceSelector :: "OnionBalancedService \<Rightarrow> labels" where
  "ob_ServiceSelector s =
     fmap_of_list [(''app'', ob_ServiceName s), (''controller'', ob_name s)]"

definition ob_ServiceMetricsSelector :: "OnionBalancedService \<Rightarrow> labels" where
  "ob_ServiceMetricsSelector s =
     fmap_of_list [(''app'', ob_ServiceMetricsName s), (''controller'', ob_name s)]"

definition ob_DeploymentLabels :: "OnionBalancedService \<Rightarrow> labels" where
  "ob_DeploymentLabels s = ob_ServiceSelector s"

definition ob_RoleName :: "OnionBalancedService \<Rightarrow> string" where
  [names]: "ob_RoleName s = ob_name s @ ''-tor-role''"

definition ob_ServiceAccountName :: "OnionBalancedService \<Rightarrow> string" where
  [names]: "ob_ServiceAccountName s = ob_name s @ ''-tor-sa''"

text \<open>
  \<open>IsSynced\<close>: the number of backends in the status is the requested one, and each has a
  hostname.  The loop over the map returns at the first backend without one, so the order it
  visits them in does not matter.
\<close>

definition IsSynced :: "OnionBalancedService \<Rightarrow> bool" where
  "IsSynced s =
     (if int (fcard (fmdom (obs_Backends (ob_status s)))) \<noteq> ob_GetBackends (ob_spec s) then False
      else fmpred (\<lambda>name backend. \<not> oss_Hostname backend = []) (obs_Backends (ob_status s)))"

definition ob_PodTemplate :: "OnionBalancedService \<Rightarrow> pod_template" where
  "ob_PodTemplate s =
     \<lparr>pt_meta = bt_meta (ob_BalancerTemplate (ob_spec s)),
      pt_spec = bt_spec (ob_BalancerTemplate (ob_spec s))\<rparr>"

definition ob_TorResources :: "OnionBalancedService \<Rightarrow> opaque" where
  "ob_TorResources s = bt_TorResources (ob_BalancerTemplate (ob_spec s))"

definition ob_BalancerResources :: "OnionBalancedService \<Rightarrow> opaque" where
  "ob_BalancerResources s = bt_BalancerResources (ob_BalancerTemplate (ob_spec s))"

section \<open>Names\<close>

definition os_child_names :: "OnionService \<Rightarrow> string list" where
  "os_child_names s =
     [os_DeploymentName s, os_ServiceName s, os_ServiceMetricsName s,
      os_AuthorizedClientsSecretName s, os_RoleName s, os_ServiceAccountName s]"

definition ob_child_names :: "OnionBalancedService \<Rightarrow> string list" where
  "ob_child_names s =
     [ob_DeploymentName s, ob_ConfigMapName s, ob_ServiceName s, ob_ServiceMetricsName s,
      ob_RoleName s, ob_ServiceAccountName s]"

interpretation os_nm: derived_children os_name os_child_names
  "[''-tor-daemon'', ''-tor-svc'', ''-tor-metrics-svc'', ''-tor-auth'', ''-tor-role'', ''-tor-sa'']"
  by unfold_locales (simp_all add: os_child_names_def names suffix_free_def suffix_eval)

interpretation ob_nm: derived_children ob_name ob_child_names
  "[''-tor-daemon'', ''-tor-config'', ''-tor-svc'', ''-tor-metrics-svc'', ''-tor-role'', ''-tor-sa'']"
  by unfold_locales (simp_all add: ob_child_names_def names suffix_free_def suffix_eval)

text \<open>
  The objects of two onion services, or of two balanced services, with different names never
  share a name; but the names are derived the same way for every kind of resource, so a \<open>Tor\<close>, an
  \<open>OnionService\<close> and an \<open>OnionBalancedService\<close> of one name claim the same deployment, service
  and role, and only the ownership test of the reconcilers keeps them apart.
\<close>

theorem onion_child_names:
  "(os_name s = os_name s' \<or> set (os_child_names s) \<inter> set (os_child_names s') = {}) \<and>
   (ob_name b = ob_name b' \<or> set (ob_child_names b) \<inter> set (ob_child_names b') = {}) \<and>
   (tor_name t = os_name s \<longleftrightarrow> tor_DeploymentName t = os_DeploymentName s) \<and>
   (os_name s = ob_name b \<longleftrightarrow> os_DeploymentName s = ob_DeploymentName b)"
  using os_nm.children_disjoint [of s s'] ob_nm.children_disjoint [of b b']
  by (auto simp: names)

section \<open>Backend names\<close>

lemma last_dash_unique:
  assumes "a @ CHR ''-'' # x = b @ CHR ''-'' # y" "CHR ''-'' \<notin> set x" "CHR ''-'' \<notin> set y"
  shows "a = b \<and> x = y"
proof -
  have "takeWhile (\<lambda>c. c \<noteq> CHR ''-'') (rev (a @ CHR ''-'' # x)) = rev x"
    using assms(2) by (simp add: takeWhile_append)
  moreover have "takeWhile (\<lambda>c. c \<noteq> CHR ''-'') (rev (b @ CHR ''-'' # y)) = rev y"
    using assms(3) by (simp add: takeWhile_append)
  ultimately have "x = y"
    using assms(1) by (metis rev_rev_ident)
  with assms(1) show ?thesis by simp
qed

text \<open>
  A backend's name determines the balanced service it belongs to (by name) and its index, for
  the indexes \<open>reconcileBackends\<close> uses (from 1 up): two different backends never collide.
\<close>

theorem OnionServiceBackendName_inj:
  assumes "0 \<le> sint m" "0 \<le> sint n"
  shows "OnionServiceBackendName s m = OnionServiceBackendName t n \<longleftrightarrow> ob_name s = ob_name t \<and> m = n"
proof
  assume "OnionServiceBackendName s m = OnionServiceBackendName t n"
  then have "(ob_name s @ ''-tor-obb'') @ CHR ''-'' # nat_digits (nat (sint m)) =
      (ob_name t @ ''-tor-obb'') @ CHR ''-'' # nat_digits (nat (sint n))"
    using assms by (simp add: OnionServiceBackendName_def itoa_def)
  then have "ob_name s @ ''-tor-obb'' = ob_name t @ ''-tor-obb'' \<and>
      nat_digits (nat (sint m)) = nat_digits (nat (sint n))"
    by (rule last_dash_unique) simp_all
  with assms have "ob_name s = ob_name t \<and> sint m = sint n"
    by (simp add: eq_nat_nat_iff)
  then show "ob_name s = ob_name t \<and> m = n"
    by (auto intro: signed_word_eqI)
qed (simp add: OnionServiceBackendName_def)

definition zero_ob :: "string \<Rightarrow> string \<Rightarrow> OnionBalancedService" where
  "zero_ob name namespace =
     \<lparr>ob_kind = ''OnionBalancedService'',
      ob_meta = zero_meta\<lparr>om_name := name, om_namespace := namespace\<rparr>,
      ob_spec =
        \<lparr>ob_Backends = 1, ob_PrivateKeySecret = \<lparr>sr_name = [], sr_key = []\<rparr>, ob_Version = 3,
         ob_ServiceMonitor = False,
         ob_Template = \<lparr>tr_spec = \<lparr>os_Rules = [],
           os_Template = \<lparr>spt_meta = zero_meta, spt_spec = zero_pod_spec, spt_resources = []\<rparr>,
           os_PrivateKeySecret = \<lparr>sr_name = [], sr_key = []\<rparr>, os_AuthorizedClients = [],
           os_Version = 3, os_MasterOnionAddress = [], os_ServiceMonitor = False,
           os_ExtraConfig = []\<rparr>\<rparr>,
         ob_BalancerTemplate = \<lparr>bt_meta = zero_meta, bt_spec = zero_pod_spec, bt_TorResources = [],
           bt_BalancerResources = []\<rparr>\<rparr>,
      ob_status = \<lparr>obs_Hostname = [], obs_TargetClusterIP = [], obs_Backends = fmempty\<rparr>\<rparr>"

theorem OnionServiceBackendName_inj_witness:
  "OnionServiceBackendName (zero_ob ''web'' ''default'') 1 \<noteq>
     OnionServiceBackendName (zero_ob ''web'' ''default'') 2"
proof -
  have "0 \<le> sint (1 :: int32)" "0 \<le> sint (2 :: int32)" by simp_all
  from OnionServiceBackendName_inj [OF this] show ?thesis by simp
qed

section \<open>IsSynced\<close>

lemma IsSynced_iff:
  "IsSynced s \<longleftrightarrow>
     int (fcard (fmdom (obs_Backends (ob_status s)))) = sint (ob_Backends (ob_spec s)) \<and>
     (\<forall>name b. fmlookup (obs_Backends (ob_status s)) name = Some b \<longrightarrow> oss_Hostname b \<noteq> [])"
  by (auto simp: IsSynced_def ob_GetBackends_def fmpred_iff)

end
