(* ===== verification/Onion_Crypto.thy ===== *)
theory Onion_Crypto
  imports Go_Prelude "HOL-Library.While_Combinator"
begin

text \<open>
  \<open>controllers/tor/util.go\<close>: the key files of an onion service and Tor's hashed control
  passwords.  SHA-1 is the standard library's \<open>crypto/sha1\<close>, written out on 32-bit words;
  \<open>hex.EncodeToString\<close> and \<open>strings.ToUpper\<close> are modelled for the bytes the program feeds them.
  The random source is a parameter.  The lemmas show that the stretching loop ends and hashes the
  first 65536 bytes of the repetition of salt and password, and that the printed hash can be
  decoded again.
\<close>

unbundle bit_operations_syntax

section \<open>SHA-1\<close>

definition byte_word :: "char \<Rightarrow> 32 word" where
  "byte_word c = word_of_nat (of_char c)"

definition word_bytes :: "32 word \<Rightarrow> bytes" where
  "word_bytes w =
     map (\<lambda>n. char_of (unat (drop_bit n w AND 255))) [24, 16, 8, 0]"

fun words_of :: "bytes \<Rightarrow> 32 word list" where
  "words_of (a # b # c # d # cs) =
     (push_bit 24 (byte_word a) OR push_bit 16 (byte_word b) OR push_bit 8 (byte_word c)
        OR byte_word d) # words_of cs"
| "words_of cs = []"

definition sha1_pad :: "bytes \<Rightarrow> bytes" where
  "sha1_pad m =
     (let n = length m; bits = 8 * n in
      m @ [CHR 0x80] @ replicate ((119 - n mod 64) mod 64) (CHR 0x00) @
      map (\<lambda>i. char_of (drop_bit i bits mod 256)) [56, 48, 40, 32, 24, 16, 8, 0])"

text \<open>The message schedule, newest word first.\<close>

fun sha1_expand :: "nat \<Rightarrow> 32 word list \<Rightarrow> 32 word list" where
  "sha1_expand 0 ws = ws"
| "sha1_expand (Suc n) ws =
     sha1_expand n (word_rotl 1 (ws ! 2 XOR ws ! 7 XOR ws ! 13 XOR ws ! 15) # ws)"

type_synonym sha1_state = "32 word \<times> 32 word \<times> 32 word \<times> 32 word \<times> 32 word"

definition sha1_f :: "nat \<Rightarrow> 32 word \<Rightarrow> 32 word \<Rightarrow> 32 word \<Rightarrow> 32 word" where
  "sha1_f t b c d =
     (if t < 20 then (b AND c) OR (NOT b AND d)
      else if t < 40 then b XOR c XOR d
      else if t < 60 then (b AND c) OR (b AND d) OR (c AND d)
      else b XOR c XOR d)"

definition sha1_k :: "nat \<Rightarrow> 32 word" where
  "sha1_k t =
     (if t < 20 then 0x5A827999 else if t < 40 then 0x6ED9EBA1
      else if t < 60 then 0x8F1BBCDC else 0xCA62C1D6)"

fun sha1_rounds :: "nat \<Rightarrow> 32 word list \<Rightarrow> sha1_state \<Rightarrow> sha1_state" where
  "sha1_rounds t [] st = st"
| "sha1_rounds t (w # ws) (a, b, c, d, e) =
     sha1_rounds (Suc t) ws
       (word_rotl 5 a + sha1_f t b c d + e + w + sha1_k t, a, word_rotl 30 b, c, d)"

fun sha1_block :: "sha1_state \<Rightarrow> bytes \<Rightarrow> sha1_state" where
  "sha1_block (h0, h1, h2, h3, h4) blk =
     (case sha1_rounds 0 (rev (sha1_expand 64 (rev (words_of blk)))) (h0, h1, h2, h3, h4) of
        (a, b, c, d, e) \<Rightarrow> (h0 + a, h1 + b, h2 + c, h3 + d, h4 + e))"

function sha1_blocks :: "bytes \<Rightarrow> sha1_state \<Rightarrow> sha1_state" where
  "sha1_blocks m st =
     (if length m < 64 then st else sha1_blocks (drop 64 m) (sha1_block st (take 64 m)))"
  by pat_completeness auto
termination
  by (relation "measure (\<lambda>(m, st). length m)") auto

declare sha1_blocks.simps [simp del]

definition sha1_init :: sha1_state where
  "sha1_init = (0x67452301, 0xEFCDAB89, 0x98BADCFE, 0x10325476, 0xC3D2E1F0)"

definition sha1_sum :: "bytes \<Rightarrow> bytes" where
  "sha1_sum m =
     (case sha1_blocks (sha1_pad m) sha1_init of
        (a, b, c, d, e) \<Rightarrow>
          word_bytes a @ word_bytes b @ word_bytes c @ word_bytes d @ word_bytes e)"

lemma length_word_bytes [simp]: "length (word_bytes w) = 4"
  by (simp add: word_bytes_def)

lemma length_sha1_sum [simp]: "length (sha1_sum m) = 20"
  by (simp add: sha1_sum_def split: prod.splits)

lemma length_sha1_pad: "length (sha1_pad m) mod 64 = 0"
proof -
  define n where "n = length m"
  have "n mod 64 \<le> 119" by (rule order_trans [of _ 63]) (simp_all add: less_Suc_eq_le [symmetric])
  then have "(n mod 64 + (119 - n mod 64) + 9) mod 64 = 0" by simp
  then have "(n + (119 - n mod 64) mod 64 + 9) mod 64 = 0"
    by (metis (no_types) mod_add_left_eq mod_add_right_eq)
  then show ?thesis
    by (simp add: sha1_pad_def Let_def n_def add.commute add.left_commute)
qed

section \<open>Hexadecimal\<close>

definition hex_digit :: "nat \<Rightarrow> char" where
  "hex_digit n = (if n < 10 then char_of (48 + n) else char_of (87 + n))"

definition hex_encode :: "bytes \<Rightarrow> string" where
  "hex_encode bs =
     concat (map (\<lambda>c. [hex_digit (of_char c div 16), hex_digit (of_char c mod 16)]) bs)"

definition char_upper :: "char \<Rightarrow> char" where
  "char_upper c =
     (let n = of_char c :: nat in if 97 \<le> n \<and> n \<le> 122 then char_of (n - 32) else c)"

definition to_upper :: "string \<Rightarrow> string" where
  "to_upper s = map char_upper s"

text \<open>Decoding upper-case hexadecimal digits, the inverse of what the program prints.\<close>

definition hex_val :: "char \<Rightarrow> nat" where
  "hex_val c = (let n = of_char c in if n < 58 then n - 48 else n - 55)"

fun hex_decode :: "string \<Rightarrow> bytes" where
  "hex_decode (h # l # cs) = char_of (16 * hex_val h + hex_val l) # hex_decode cs"
| "hex_decode cs = []"

lemma of_char_char_of_small [simp]: "n < 256 \<Longrightarrow> of_char (char_of n :: char) = (n :: nat)"
  by simp

lemma hex_val_upper [simp]: "n < 16 \<Longrightarrow> hex_val (char_upper (hex_digit n)) = n"
  by (simp add: hex_val_def char_upper_def hex_digit_def Let_def)

lemma hex_decode_upper [simp]: "hex_decode (to_upper (hex_encode bs)) = bs"
proof (induction bs)
  case Nil
  then show ?case by (simp add: hex_encode_def to_upper_def)
next
  case (Cons c cs)
  have "(of_char c :: nat) < 256" by (rule nat_of_char_less_256)
  then have "(of_char c :: nat) div 16 < 16" by arith
  then have "char_of (16 * hex_val (char_upper (hex_digit (of_char c div 16))) +
      hex_val (char_upper (hex_digit (of_char c mod 16)))) = c"
    by simp
  with Cons.IH show ?case by (simp add: hex_encode_def to_upper_def)
qed

lemma length_hex_encode [simp]: "length (hex_encode bs) = 2 * length bs"
  by (induction bs) (simp_all add: hex_encode_def)

lemma length_to_upper [simp]: "length (to_upper s) = length s"
  by (simp add: to_upper_def)

lemma hex_Cons: "hex_encode (c # cs) =
    [hex_digit (of_char c div 16), hex_digit (of_char c mod 16)] @ hex_encode cs"
  by (simp add: hex_encode_def)

lemma hex_Nil: "hex_encode [] = []"
  by (simp add: hex_encode_def)

lemma hex_append: "hex_encode (xs @ ys) = hex_encode xs @ hex_encode ys"
  and upper_append: "to_upper (s @ t) = to_upper s @ to_upper t"
  by (simp_all add: hex_encode_def to_upper_def)

section \<open>Hashed control passwords (doHashPassword)\<close>

definition SpecifierLen :: nat where "SpecifierLen = 9"
definition Iterations :: nat where "Iterations = 96"
definition expbias :: nat where "expbias = 6"

definition s2k_count :: nat where
  "s2k_count =
     (let c = Iterations in push_bit (drop_bit 4 c + expbias) (16 + (c AND 15)))"

text \<open>
  The loop: \<open>count\<close> bytes are written to the digest, the whole of \<open>tmp\<close> at a time while more
  than its length is missing, the rest at the end.  The digest is what has been written to it.
\<close>

definition hash_loop_step :: "bytes \<Rightarrow> nat \<times> bytes \<Rightarrow> nat \<times> bytes" where
  "hash_loop_step tmp = (\<lambda>(count, d).
     let slen = length tmp in
     if count > slen then (count - slen, d @ tmp) else (0, d @ take count tmp))"

definition hash_loop :: "bytes \<Rightarrow> nat \<Rightarrow> bytes" where
  "hash_loop tmp count =
     snd (while (\<lambda>(count, d). count > 0) (hash_loop_step tmp) (count, []))"

text \<open>
  \<open>rand.Read\<close> fills the 8-byte buffer from the bytes it gets; \<open>rand_read n\<close> is its result.  The
  error is wrapped by the error library, the parameter \<open>wrap\<close>.
\<close>

definition fill_buffer :: "nat \<Rightarrow> bytes \<Rightarrow> bytes" where
  "fill_buffer n bs = take n (bs @ replicate n (CHR 0x00))"

definition hashed_password :: "bytes \<Rightarrow> string \<Rightarrow> string" where
  "hashed_password salt input =
     (let inb = input;
          tmp = take (SpecifierLen - 1) salt @ inb;
          d = hash_loop tmp s2k_count
      in ''16:'' @ to_upper (hex_encode salt) @ to_upper (hex_encode [char_of Iterations]) @
         to_upper (hex_encode (sha1_sum d)))"

definition doHashPassword ::
  "(nat \<Rightarrow> ('s, go_error + bytes) state) \<Rightarrow> (go_error option \<Rightarrow> string \<Rightarrow> go_error option) \<Rightarrow>
   string \<Rightarrow> ('s, string \<times> go_error option) state" where
  "doHashPassword rand_read wrap input = do {
     r \<leftarrow> rand_read (SpecifierLen - 1);
     (case r of
        Inl err \<Rightarrow> State_Monad.return ([], wrap (Some err) ''failed to generate random salt'')
      | Inr bs \<Rightarrow>
          (let salt = fill_buffer (SpecifierLen - 1) bs
           in State_Monad.return (hashed_password salt input, None)))
   }"

section \<open>The loop\<close>

text \<open>The first \<open>n\<close> bytes of the endless repetition of \<open>xs\<close>.\<close>

definition cycle_take :: "nat \<Rightarrow> 'a list \<Rightarrow> 'a list" where
  "cycle_take n xs = map (\<lambda>i. xs ! (i mod length xs)) [0..<n]"

lemma cycle_take_step:
  assumes "length xs \<le> n" "xs \<noteq> []"
  shows "cycle_take n xs = xs @ cycle_take (n - length xs) xs"
proof (rule nth_equalityI)
  show "length (cycle_take n xs) = length (xs @ cycle_take (n - length xs) xs)"
    using assms by (simp add: cycle_take_def)
next
  fix i
  assume "i < length (cycle_take n xs)"
  then have i: "i < n" by (simp add: cycle_take_def)
  show "cycle_take n xs ! i = (xs @ cycle_take (n - length xs) xs) ! i"
    using i assms by (cases "i < length xs") (simp_all add: cycle_take_def nth_append le_mod_geq)
qed

lemma cycle_take_short: "n \<le> length xs \<Longrightarrow> cycle_take n xs = take n xs"
  by (rule nth_equalityI) (simp_all add: cycle_take_def)

lemma hash_loop_run:
  assumes "tmp \<noteq> []"
  shows "\<exists>r. while_option (\<lambda>(count, d). count > 0) (hash_loop_step tmp) (count, d) = Some r \<and>
    snd r = d @ cycle_take count tmp"
proof (induction count arbitrary: d rule: less_induct)
  case (less count)
  show ?case
  proof (cases "count > length tmp")
    case True
    with assms have "count - length tmp < count" by (cases tmp) auto
    with True assms show ?thesis
      using less.IH [of "count - length tmp" "d @ tmp"]
      by (subst while_option_unfold) (simp add: hash_loop_step_def cycle_take_step)
  next
    case False
    then show ?thesis
      by (cases "count = 0")
        (simp_all add: while_option_unfold hash_loop_step_def cycle_take_short)
  qed
qed

lemma hash_loop_eq: "tmp \<noteq> [] \<Longrightarrow> hash_loop tmp count = cycle_take count tmp"
  using hash_loop_run [of tmp count "[]"] by (auto simp: hash_loop_def while_def)

lemma s2k_count_eq: "s2k_count = 65536"
  by (simp add: s2k_count_def Iterations_def expbias_def)

lemma length_fill_buffer [simp]: "length (fill_buffer n bs) = n"
  by (simp add: fill_buffer_def)

text \<open>
  The stretching loop of \<open>doHashPassword\<close> ends, whatever the password (the 8-byte salt in
  front keeps its buffer from being empty), and what it has fed to the digest is exactly the first
  65536 bytes of the repetition of salt and password, which is the iterated salted S2K that Tor
  computes when it checks the password.
\<close>

theorem hash_loop_stretches:
  "\<exists>n. while_option (\<lambda>(count, d). count > 0) (hash_loop_step (fill_buffer 8 bs @ input))
      (s2k_count, []) = Some (n, cycle_take 65536 (fill_buffer 8 bs @ input)) \<and>
   hash_loop (fill_buffer 8 bs @ input) s2k_count = cycle_take 65536 (fill_buffer 8 bs @ input)"
proof -
  have "length (fill_buffer 8 bs @ input) \<noteq> 0" by simp
  then have ne: "fill_buffer 8 bs @ input \<noteq> []" by (metis list.size(3))
  show ?thesis
    using hash_loop_run [OF ne, of s2k_count "[]"] hash_loop_eq [OF ne, of s2k_count]
    by (auto simp: s2k_count_eq)
qed

lemma hashed_password_eq:
  assumes "length salt = 8"
  shows "hashed_password salt input =
    ''16:'' @ to_upper (hex_encode
      (salt @ [CHR 0x60] @ sha1_sum (cycle_take 65536 (salt @ input))))"
proof -
  have "salt @ input \<noteq> []" using assms by auto
  then have "hash_loop (salt @ input) s2k_count = cycle_take 65536 (salt @ input)"
    by (simp add: hash_loop_eq s2k_count_eq)
  moreover have "char_of Iterations = CHR 0x60"
    by (simp add: Iterations_def char_of_def bit_simps)
  ultimately show ?thesis
    using assms
    by (simp add: hashed_password_def Let_def SpecifierLen_def hex_append hex_Cons hex_Nil
        to_upper_def)
qed

text \<open>
  C26: when the random source answers, \<open>doHashPassword\<close> returns no error and a 61-character string
  \<open>16:\<close> followed by hexadecimal digits, which decode to the 8-byte salt, the iteration byte 96
  and the SHA-1 digest of the stretched input: everything Tor needs to recompute and compare.
\<close>

theorem doHashPassword_roundtrip:
  assumes "run_state (rand_read 8) s = (Inr bs, s')"
  shows "\<exists>h. run_state (doHashPassword rand_read wrap input) s = ((h, None), s') \<and>
    length h = 61 \<and> take 3 h = ''16:'' \<and>
    hex_decode (drop 3 h) =
      fill_buffer 8 bs @ [CHR 0x60] @ sha1_sum (cycle_take 65536 (fill_buffer 8 bs @ input))"
proof -
  have "run_state (doHashPassword rand_read wrap input) s =
      ((hashed_password (fill_buffer 8 bs) input, None), s')"
    using assms by (simp add: doHashPassword_def SpecifierLen_def Let_def)
  then show ?thesis
    by (simp add: hashed_password_eq)
qed

theorem doHashPassword_roundtrip_witness:
  "\<exists>h. run_state (doHashPassword (\<lambda>n. State_Monad.return (Inr ''saltsalt''))
        (\<lambda>e m. e) ''secret'') () = ((h, None), ()) \<and>
    length h = 61 \<and> take 3 h = ''16:'' \<and>
    hex_decode (drop 3 h) = fill_buffer 8 ''saltsalt'' @ [CHR 0x60] @
      sha1_sum (cycle_take 65536 (fill_buffer 8 ''saltsalt'' @ ''secret''))"
  by (rule doHashPassword_roundtrip) simp

section \<open>Onion service keys (GenerateOnionV3)\<close>

record OnionV3 =
  onionAddress :: string
  publicKey :: bytes
  privateKey :: bytes
  privateKeyFile :: bytes
  publicKeyFile :: bytes

definition secret_key_header :: bytes where
  "secret_key_header = ''== ed25519v1-secret: type0 =='' @ [CHR 0x00, CHR 0x00, CHR 0x00]"

definition public_key_header :: bytes where
  "public_key_header = ''== ed25519v1-public: type0 =='' @ [CHR 0x00, CHR 0x00, CHR 0x00]"

text \<open>
  The service identifier is computed from the public key by the Tor utility library, the
  parameter \<open>onion_id\<close>; \<open>gen_key\<close> is the key generator of its ed25519 package.
\<close>

definition GenerateOnionV3FromKeys :: "(bytes \<Rightarrow> string) \<Rightarrow> bytes \<Rightarrow> bytes \<Rightarrow> OnionV3" where
  "GenerateOnionV3FromKeys onion_id pub priv =
     \<lparr>onionAddress = onion_id pub @ ''.onion'',
      publicKey = pub,
      privateKey = priv,
      privateKeyFile = secret_key_header @ priv,
      publicKeyFile = public_key_header @ pub\<rparr>"

definition GenerateOnionV3 ::
  "('s, go_error + bytes \<times> bytes) state \<Rightarrow> (go_error option \<Rightarrow> string \<Rightarrow> go_error option) \<Rightarrow>
   (bytes \<Rightarrow> string) \<Rightarrow> ('s, OnionV3 option \<times> go_error option) state" where
  "GenerateOnionV3 gen_key wrap onion_id = do {
     r \<leftarrow> gen_key;
     (case r of
        Inl err \<Rightarrow> State_Monad.return (None, wrap (Some err) ''failed to generate ed25519 key'')
      | Inr (pub, priv) \<Rightarrow>
          State_Monad.return (Some (GenerateOnionV3FromKeys onion_id pub priv), None))
   }"

text \<open>
  The two key files are Tor's on-disk format: a 32-byte header, different for the secret and
  the public key, and then the key itself, which a reader that skips the header gets back; the
  address is the identifier of the public key under \<open>.onion\<close>.
\<close>

theorem onion_key_files:
  fixes onion_id :: "bytes \<Rightarrow> string" and pub priv :: bytes
  defines "o3 \<equiv> GenerateOnionV3FromKeys onion_id pub priv"
  shows "take 32 (privateKeyFile o3) \<noteq> take 32 (publicKeyFile o3) \<and>
    take 32 (privateKeyFile o3) = secret_key_header \<and>
    take 32 (publicKeyFile o3) = public_key_header \<and>
    drop 32 (privateKeyFile o3) = privateKey o3 \<and> drop 32 (publicKeyFile o3) = publicKey o3 \<and>
    has_suffix (onionAddress o3) ''.onion''"
  by (simp add: o3_def GenerateOnionV3FromKeys_def secret_key_header_def public_key_header_def
        has_suffix_def suffix_def)

end
