(* ===== verification/Client_Lib.thy ===== *)
theory Client_Lib
  imports Onion_Types Onion_Crypto
begin

text \<open>
  The libraries the controllers call, which are not in the repository, as one record of functions:
  the Kubernetes client (one group of operations per kind of object), the error library, the
  ownership helpers of the Kubernetes API machinery, the key, password and random generators.
  Every controller function takes the record as its first argument.  The type variable is the
  state of the world outside; nothing is assumed of it.  What a theorem relies on is a named
  hypothesis: \<open>wrap_law\<close>, \<open>ownership_law\<close> and their like, each the documented behaviour of the
  function it speaks of.
\<close>

section \<open>The client\<close>

text \<open>
  \<open>Create\<close> writes the server's answer into the object it was given, so it returns the object as
  it is after the call.
\<close>

record ('s, 'o) ops =
  op_get :: "nsname \<Rightarrow> ('s, go_error + 'o) state"
  op_create :: "'o \<Rightarrow> ('s, go_error + 'o) state"
  op_update :: "'o \<Rightarrow> ('s, go_error option) state"
  op_delete :: "'o \<Rightarrow> ('s, go_error option) state"

record generator_config =
  gc_Length :: nat
  gc_IncludeSymbols :: bool
  gc_IncludeNumbers :: bool
  gc_IncludeLowercaseLetters :: bool
  gc_IncludeUppercaseLetters :: bool
  gc_ExcludeSimilarCharacters :: bool
  gc_ExcludeAmbiguousCharacters :: bool

record 's lib =
  l_services :: "('s, service) ops"
  l_secrets :: "('s, secret) ops"
  l_config_maps :: "('s, config_map) ops"
  l_service_accounts :: "('s, service_account) ops"
  l_roles :: "('s, role) ops"
  l_role_bindings :: "('s, role_binding) ops"
  l_deployments :: "('s, deployment) ops"
  l_service_monitors :: "('s, service_monitor) ops"
  l_onions :: "('s, OnionService) ops"
  l_get_crd :: "nsname \<Rightarrow> ('s, go_error + opaque) state"
  l_get_tor :: "nsname \<Rightarrow> ('s, go_error + Tor) state"
  l_get_ob :: "nsname \<Rightarrow> ('s, go_error + OnionBalancedService) state"
  l_list_onions :: "string \<Rightarrow> ('s, go_error + OnionService list) state"
  l_status_tor :: "Tor \<Rightarrow> ('s, go_error option) state"
  l_status_os :: "OnionService \<Rightarrow> ('s, go_error option) state"
  l_status_ob :: "OnionBalancedService \<Rightarrow> ('s, go_error option) state"
  l_create_nil_secret :: "('s, go_error option) state"
  l_is_not_found :: "go_error \<Rightarrow> bool"
  l_ignore_not_found :: "go_error \<Rightarrow> go_error option"
  l_wrap :: "go_error option \<Rightarrow> string \<Rightarrow> go_error option"
  l_controlled :: "object_meta \<Rightarrow> object_meta \<Rightarrow> bool"
  l_controller_ref :: "object_meta \<Rightarrow> gvk \<Rightarrow> owner_reference"
  l_gen_key :: "('s, go_error + bytes \<times> bytes) state"
  l_onion_id :: "bytes \<Rightarrow> string"
  l_rand_read :: "nat \<Rightarrow> ('s, go_error + bytes) state"
  l_password :: "generator_config \<Rightarrow> ('s, string) state"
  l_range_data :: "(string, bytes) fmap \<Rightarrow> (string \<times> bytes) list"

section \<open>Documented behaviour\<close>

text \<open>The error library: \<open>Wrap\<close> of \<open>nil\<close> is \<open>nil\<close>, of an error it is an error.\<close>

definition wrap_law :: "'s lib \<Rightarrow> bool" where
  "wrap_law L \<longleftrightarrow> (\<forall>m. l_wrap L None m = None) \<and> (\<forall>e m. l_wrap L (Some e) m \<noteq> None)"

text \<open>\<open>client.IgnoreNotFound\<close> turns a not-found error, and only that, into \<open>nil\<close>.\<close>

definition ignore_law :: "'s lib \<Rightarrow> bool" where
  "ignore_law L \<longleftrightarrow>
     (\<forall>e. l_ignore_not_found L e = (if l_is_not_found L e then None else Some e))"

text \<open>
  An object whose only owner reference is the controller reference of an owner is controlled by
  it.
\<close>

definition ownership_law :: "'s lib \<Rightarrow> bool" where
  "ownership_law L \<longleftrightarrow>
     (\<forall>m owner g. om_owner_refs m = [l_controller_ref L owner g] \<longrightarrow> l_controlled L m owner)"

text \<open>A \<open>range\<close> over a map visits each of its entries once.\<close>

definition range_law :: "'s lib \<Rightarrow> bool" where
  "range_law L \<longleftrightarrow>
     (\<forall>m. distinct (map fst (l_range_data L m)) \<and> map_of (l_range_data L m) = fmlookup m)"

lemma wrap_None [simp]: "wrap_law L \<Longrightarrow> l_wrap L None m = None"
  and wrap_Some [simp]: "wrap_law L \<Longrightarrow> l_wrap L (Some e) m \<noteq> None"
  by (simp_all add: wrap_law_def)

section \<open>The API group\<close>

definition api_group :: string where "api_group = ''tor.k8s.torproject.org''"
definition api_version :: string where "api_version = ''v1alpha2''"

definition tor_gvk :: "string \<Rightarrow> gvk" where
  "tor_gvk kind = \<lparr>gvk_group = api_group, gvk_version = api_version, gvk_kind = kind\<rparr>"

text \<open>The metadata every builder starts from: name, namespace, one controller reference.\<close>

definition owned_meta ::
  "'s lib \<Rightarrow> object_meta \<Rightarrow> string \<Rightarrow> labels option \<Rightarrow> string \<Rightarrow> object_meta" where
  "owned_meta L owner name lbls kind =
     zero_meta\<lparr>om_name := name, om_namespace := om_namespace owner, om_labels := lbls,
       om_owner_refs := [l_controller_ref L owner (tor_gvk kind)]\<rparr>"

lemma owned_meta_simps [simp]:
  "om_name (owned_meta L owner n ls k) = n"
  "om_namespace (owned_meta L owner n ls k) = om_namespace owner"
  "om_labels (owned_meta L owner n ls k) = ls"
  "om_owner_refs (owned_meta L owner n ls k) = [l_controller_ref L owner (tor_gvk k)]"
  by (simp_all add: owned_meta_def)

end
