(* ===== verification/Ensure_Child.thy ===== *)
theory Ensure_Child
  imports Client_Lib
begin

text \<open>
  The shape the reconcilers of child objects share (the program writes it out once per kind of
  object): read the object; create it when it is missing; return the error when the read failed;
  leave it alone when it is not controlled by the custom resource; update it when it differs from
  what the builder makes.  Three variants: with update (\<open>ensure_child\<close>), without
  (\<open>ensure_created\<close>), and the service monitors, which are deleted when no longer requested
  (\<open>ensure_monitor\<close>).  The locale \<open>owned_child\<close> is the contract between a builder and these
  routines; every builder of the development interprets it.
\<close>

section \<open>The routines\<close>

text \<open>
  What the code returns for a failed creation, read, update and deletion: usually the error,
  wrapped with a message (\<open>failing\<close>; a routine that never updates or deletes has no message for
  it).
\<close>

record failures =
  f_create :: "go_error \<Rightarrow> go_error option"
  f_get :: "go_error \<Rightarrow> go_error option"
  f_update :: "go_error \<Rightarrow> go_error option"
  f_delete :: "go_error \<Rightarrow> go_error option"

definition wrapped :: "'s lib \<Rightarrow> string \<Rightarrow> go_error \<Rightarrow> go_error option" where
  "wrapped L msg e = l_wrap L (Some e) msg"

definition failing :: "'s lib \<Rightarrow> string \<Rightarrow> string \<Rightarrow> string \<Rightarrow> string \<Rightarrow> failures" where
  "failing L create get update delete =
     \<lparr>f_create = wrapped L create, f_get = wrapped L get, f_update = wrapped L update,
      f_delete = wrapped L delete\<rparr>"

definition update_child ::
  "('s, 'o) ops \<Rightarrow> ('o \<Rightarrow> 'o \<Rightarrow> bool) \<Rightarrow> failures \<Rightarrow> 'o \<Rightarrow> 'o \<Rightarrow> ('s, go_error option) state" where
  "update_child ops equal fails obj newObj =
     (if \<not> equal obj newObj then do {
        u \<leftarrow> op_update ops newObj;
        (case u of
           Some err \<Rightarrow> State_Monad.return (f_update fails err)
         | None \<Rightarrow> State_Monad.return None)
      } else State_Monad.return None)"

definition ensure_child ::
  "'s lib \<Rightarrow> ('s, 'o) ops \<Rightarrow> ('o \<Rightarrow> object_meta) \<Rightarrow> ('o \<Rightarrow> 'o \<Rightarrow> bool) \<Rightarrow> failures \<Rightarrow>
   object_meta \<Rightarrow> nsname \<Rightarrow> bool \<Rightarrow> 'o \<Rightarrow> ('s, go_error option) state" where
  "ensure_child L ops meta equal fails owner key skip newObj = do {
     r \<leftarrow> op_get ops key;
     (case r of
        Inl err \<Rightarrow>
          if l_is_not_found L err then
            (if skip then State_Monad.return None
             else do {
               c \<leftarrow> op_create ops newObj;
               (case c of
                  Inl err \<Rightarrow> State_Monad.return (f_create fails err)
                | Inr created \<Rightarrow>
                    if \<not> l_controlled L (meta created) owner then State_Monad.return None
                    else update_child ops equal fails created created)
             })
          else State_Monad.return (f_get fails err)
      | Inr obj \<Rightarrow>
          if \<not> l_controlled L (meta obj) owner then State_Monad.return None
          else update_child ops equal fails obj newObj)
   }"

text \<open>
  Without update: the result is what the function returns (\<open>Inl\<close>) or the object that is there
  after it (\<open>Inr\<close>), with which the caller goes on.
\<close>

definition ensure_created ::
  "'s lib \<Rightarrow> ('s, 'o) ops \<Rightarrow> failures \<Rightarrow> (go_error + 'o) \<Rightarrow> 'o \<Rightarrow>
   ('s, go_error option + 'o) state" where
  "ensure_created L ops fails r newObj =
     (case r of
        Inl err \<Rightarrow>
          if l_is_not_found L err then do {
            c \<leftarrow> op_create ops newObj;
            (case c of
               Inl err \<Rightarrow> State_Monad.return (Inl (f_create fails err))
             | Inr created \<Rightarrow> State_Monad.return (Inr created))
          } else State_Monad.return (Inl (f_get fails err))
      | Inr obj \<Rightarrow> State_Monad.return (Inr obj))"

definition ensure_monitor ::
  "'s lib \<Rightarrow> ('s, 'o) ops \<Rightarrow> ('o \<Rightarrow> object_meta) \<Rightarrow> ('o \<Rightarrow> 'o \<Rightarrow> bool) \<Rightarrow> failures \<Rightarrow>
   object_meta \<Rightarrow> nsname \<Rightarrow> bool \<Rightarrow> 'o \<Rightarrow> ('s, go_error option) state" where
  "ensure_monitor L ops meta equal fails owner key requested newObj = do {
     r \<leftarrow> op_get ops key;
     (case r of
        Inl err \<Rightarrow>
          if l_is_not_found L err then
            (if \<not> requested then State_Monad.return None
             else do {
               c \<leftarrow> op_create ops newObj;
               (case c of
                  Inl err \<Rightarrow> State_Monad.return (f_create fails err)
                | Inr created \<Rightarrow>
                    if \<not> l_controlled L (meta created) owner then State_Monad.return None
                    else update_child ops equal fails created created)
             })
          else State_Monad.return (f_get fails err)
      | Inr obj \<Rightarrow>
          if \<not> l_controlled L (meta obj) owner then State_Monad.return None
          else if \<not> requested then do {
            d \<leftarrow> op_delete ops obj;
            (case d of
               Some err \<Rightarrow> State_Monad.return (f_delete fails err)
             | None \<Rightarrow> State_Monad.return None)
          }
          else update_child ops equal fails obj newObj)
   }"

text \<open>\<open>monitoringInstalled\<close>: the CRD of the service monitors can be read, or the read failed
  otherwise than by not finding it.\<close>

definition monitoringInstalled :: "'s lib \<Rightarrow> ('s, bool) state" where
  "monitoringInstalled L = do {
     r \<leftarrow> l_get_crd L \<lparr>nn_namespace = ''default'',
            nn_name = ''servicemonitors.monitoring.coreos.com''\<rparr>;
     State_Monad.return (case r of Inl err \<Rightarrow> \<not> l_is_not_found L err | Inr _ \<Rightarrow> True)
   }"

section \<open>Permitted operations\<close>

text \<open>
  An object made for an owner lies in the owner's namespace and has the owner as its controller.
  \<open>permits P L ops meta owner\<close>: \<open>P\<close> is kept by the operations an owner may perform on one kind
  of object, which are reading; creating objects made for it; updating, with an object made for it,
  a key it has just read and found under its control; and deleting an object it has just read and
  found under its control.  A routine that keeps every such \<open>P\<close> performs nothing else.
\<close>

definition made_for :: "'s lib \<Rightarrow> object_meta \<Rightarrow> object_meta \<Rightarrow> bool" where
  "made_for L owner m \<longleftrightarrow>
     om_namespace m = om_namespace owner \<and>
     (\<exists>g. om_owner_refs m = [l_controller_ref L owner g])"

lemma made_for_owned [simp]: "made_for L owner (owned_meta L owner n ls k)"
  by (auto simp: made_for_def)

definition permits ::
  "('s \<Rightarrow> bool) \<Rightarrow> 's lib \<Rightarrow> ('s, 'o) ops \<Rightarrow> ('o \<Rightarrow> object_meta) \<Rightarrow> object_meta \<Rightarrow> bool" where
  "permits P L ops meta owner \<longleftrightarrow>
     (\<forall>key. holds_after P (op_get ops key)) \<and>
     (\<forall>new. made_for L owner (meta new) \<longrightarrow> holds_after P (op_create ops new)) \<and>
     (\<forall>s key old s' new. P s \<longrightarrow> run_state (op_get ops key) s = (Inr old, s') \<longrightarrow>
        l_controlled L (meta old) owner \<longrightarrow> made_for L owner (meta new) \<longrightarrow>
        key_of (meta new) = key \<longrightarrow> P (snd (run_state (op_update ops new) s'))) \<and>
     (\<forall>s key old s'. P s \<longrightarrow> run_state (op_get ops key) s = (Inr old, s') \<longrightarrow>
        l_controlled L (meta old) owner \<longrightarrow> P (snd (run_state (op_delete ops old) s')))"

lemma permits_get: "permits P L ops meta owner \<Longrightarrow> holds_after P (op_get ops key)"
  by (simp add: permits_def)

lemma permits_create:
  "permits P L ops meta owner \<Longrightarrow> made_for L owner (meta new) \<Longrightarrow> holds_after P (op_create ops new)"
  by (simp add: permits_def)

lemma permits_update:
  assumes "permits P L ops meta owner" "P s" "run_state (op_get ops key) s = (Inr old, s')"
    "l_controlled L (meta old) owner" "made_for L owner (meta new)" "key_of (meta new) = key"
  shows "P (snd (run_state (op_update ops new) s'))"
  using assms unfolding permits_def by blast

lemma permits_delete:
  assumes "permits P L ops meta owner" "P s" "run_state (op_get ops key) s = (Inr old, s')"
    "l_controlled L (meta old) owner"
  shows "P (snd (run_state (op_delete ops old) s'))"
  using assms unfolding permits_def by blast

text \<open>
  \<open>children_permits P L owner\<close>: \<open>P\<close> is kept by what the reconciler of the custom resource \<open>owner\<close> may do
  to each kind of object, by the reads, and by the generators.
\<close>

definition reads_keep :: "('s \<Rightarrow> bool) \<Rightarrow> 's lib \<Rightarrow> bool" where
  "reads_keep P L \<longleftrightarrow>
     (\<forall>k. holds_after P (l_get_crd L k)) \<and> (\<forall>k. holds_after P (l_get_tor L k)) \<and>
     (\<forall>k. holds_after P (l_get_ob L k)) \<and> (\<forall>n. holds_after P (l_list_onions L n)) \<and>
     (\<forall>n. holds_after P (l_rand_read L n)) \<and> (\<forall>c. holds_after P (l_password L c)) \<and>
     holds_after P (l_gen_key L)"

definition children_permits :: "('s \<Rightarrow> bool) \<Rightarrow> 's lib \<Rightarrow> object_meta \<Rightarrow> bool" where
  "children_permits P L owner \<longleftrightarrow>
     permits P L (l_services L) svc_meta owner \<and> permits P L (l_secrets L) sec_meta owner \<and>
     permits P L (l_config_maps L) cm_meta owner \<and>
     permits P L (l_service_accounts L) sa_meta owner \<and>
     permits P L (l_roles L) role_meta owner \<and> permits P L (l_role_bindings L) rb_meta owner \<and>
     permits P L (l_deployments L) dep_meta owner \<and>
     permits P L (l_service_monitors L) sm_meta owner \<and> permits P L (l_onions L) os_meta owner \<and>
     reads_keep P L"

lemma children_permitsD:
  assumes "children_permits P L owner"
  shows "permits P L (l_services L) svc_meta owner" "permits P L (l_secrets L) sec_meta owner"
    "permits P L (l_config_maps L) cm_meta owner" "permits P L (l_service_accounts L) sa_meta owner"
    "permits P L (l_roles L) role_meta owner" "permits P L (l_role_bindings L) rb_meta owner"
    "permits P L (l_deployments L) dep_meta owner"
    "permits P L (l_service_monitors L) sm_meta owner" "permits P L (l_onions L) os_meta owner"
    "holds_after P (l_get_crd L k)" "holds_after P (l_get_tor L k)" "holds_after P (l_get_ob L k)"
    "holds_after P (l_list_onions L ns)" "holds_after P (l_rand_read L n)"
    "holds_after P (l_password L c)" "holds_after P (l_gen_key L)"
  using assms by (simp_all add: children_permits_def reads_keep_def)

lemma children_permits_reads: "children_permits P L owner \<Longrightarrow> reads_keep P L"
  by (simp add: children_permits_def)

lemma reads_keepD:
  assumes "reads_keep P L"
  shows "holds_after P (l_get_crd L k)" "holds_after P (l_get_tor L k)" "holds_after P (l_get_ob L k)"
    "holds_after P (l_list_onions L ns)" "holds_after P (l_rand_read L n)"
    "holds_after P (l_password L c)" "holds_after P (l_gen_key L)"
  using assms by (simp_all add: reads_keep_def)

lemma monitoringInstalled_keeps: "children_permits P L owner \<Longrightarrow> holds_after P (monitoringInstalled L)"
  unfolding monitoringInstalled_def by (intro keeps) (simp_all add: children_permitsD)

section \<open>What the operations do to the stored objects\<close>

text \<open>
  \<open>served L ops meta view agree\<close>: \<open>view\<close> gives the stored objects, and the operations that succeed
  do to it what the API documents.  The server may fill in fields (\<open>agree\<close> relates the stored
  object to the one that was sent); any operation may fail; nobody else writes during the run.
\<close>

definition served ::
  "'s lib \<Rightarrow> ('s, 'o) ops \<Rightarrow> ('o \<Rightarrow> object_meta) \<Rightarrow> ('s \<Rightarrow> nsname \<Rightarrow> 'o option) \<Rightarrow>
   ('o \<Rightarrow> 'o \<Rightarrow> bool) \<Rightarrow> bool" where
  "served L ops meta view agree \<longleftrightarrow>
     (\<forall>x. agree x x) \<and>
     (\<forall>key s x s'. run_state (op_get ops key) s = (Inr x, s') \<longrightarrow>
        view s key = Some x \<and> view s' = view s) \<and>
     (\<forall>key s e s'. run_state (op_get ops key) s = (Inl e, s') \<longrightarrow> l_is_not_found L e \<longrightarrow>
        view s key = None \<and> view s' = view s) \<and>
     (\<forall>x s y s'. run_state (op_create ops x) s = (Inr y, s') \<longrightarrow>
        agree y x \<and> view s' = (view s)(key_of (meta x) := Some y)) \<and>
     (\<forall>x s s'. run_state (op_update ops x) s = (None, s') \<longrightarrow>
        (\<exists>y. agree y x \<and> view s' = (view s)(key_of (meta x) := Some y))) \<and>
     (\<forall>x s s'. run_state (op_delete ops x) s = (None, s') \<longrightarrow>
        view s' = (view s)(key_of (meta x) := None))"

lemma servedD:
  assumes "served L ops meta view agree"
  shows "agree x x"
    "run_state (op_get ops key) s = (Inr x, s') \<Longrightarrow> view s key = Some x \<and> view s' = view s"
    "run_state (op_get ops key) s = (Inl e, s') \<Longrightarrow> l_is_not_found L e \<Longrightarrow>
       view s key = None \<and> view s' = view s"
    "run_state (op_create ops x) s = (Inr y, s') \<Longrightarrow>
       agree y x \<and> view s' = (view s)(key_of (meta x) := Some y)"
    "run_state (op_update ops x) s = (None, s') \<Longrightarrow>
       \<exists>y. agree y x \<and> view s' = (view s)(key_of (meta x) := Some y)"
    "run_state (op_delete ops x) s = (None, s') \<Longrightarrow> view s' = (view s)(key_of (meta x) := None)"
  using assms unfolding served_def by blast+

text \<open>
  The stored object a routine aims at: one that agrees with the wanted one; or the old one, when
  another owner controls it; or none, when it may be left out.
\<close>

definition settled ::
  "'s lib \<Rightarrow> ('o \<Rightarrow> object_meta) \<Rightarrow> object_meta \<Rightarrow> ('o \<Rightarrow> 'o \<Rightarrow> bool) \<Rightarrow> 'o \<Rightarrow> bool \<Rightarrow>
   'o option \<Rightarrow> 'o option \<Rightarrow> bool" where
  "settled L meta owner agree want skip old new =
     (case new of
        None \<Rightarrow> skip
      | Some y \<Rightarrow> agree y want \<or> old = Some y \<and> \<not> l_controlled L (meta y) owner)"

definition reports :: "failures \<Rightarrow> bool" where
  "reports fails \<longleftrightarrow> (\<forall>e. f_create fails e \<noteq> None \<and> f_get fails e \<noteq> None \<and>
     f_update fails e \<noteq> None \<and> f_delete fails e \<noteq> None)"

lemma reportsD [simp]:
  assumes "reports fails"
  shows "f_create fails e \<noteq> None" "f_get fails e \<noteq> None" "f_update fails e \<noteq> None"
    "f_delete fails e \<noteq> None"
  using assms unfolding reports_def by blast+

lemma reports_failing [simp]: "wrap_law L \<Longrightarrow> reports (failing L c g u d)"
  by (simp add: reports_def failing_def wrapped_def)

section \<open>The contract of the builders\<close>

locale owned_child =
  fixes meta :: "'o \<Rightarrow> object_meta"
    and equal :: "'o \<Rightarrow> 'o \<Rightarrow> bool"
    and owner :: "'r \<Rightarrow> object_meta"
    and key :: "'r \<Rightarrow> nsname"
    and build :: "'s lib \<Rightarrow> 'r \<Rightarrow> 'o"
  assumes build_key: "key_of (meta (build L r)) = key r"
    and build_made: "made_for L (owner r) (meta (build L r))"
    and equal_iff: "equal x y \<longleftrightarrow> x = y"
begin

lemma equal_same: "equal x x"
  by (simp add: equal_iff)

lemma update_same: "update_child ops equal fails x x = State_Monad.return None"
  by (simp add: update_child_def equal_same)

text \<open>The three answers of the read, and what the routine does on each.\<close>

lemma ensure_foreign:
  assumes "run_state (op_get ops (key r)) s = (Inr obj, s')" "\<not> l_controlled L (meta obj) (owner r)"
  shows "run_state (ensure_child L ops meta equal fails (owner r) (key r) skip (build L r)) s = (None, s')"
  using assms by (simp add: ensure_child_def)

lemma ensure_missing:
  assumes "run_state (op_get ops (key r)) s = (Inl e, s')" "l_is_not_found L e"
    "run_state (op_create ops (build L r)) s' = (Inr created, s'')"
  shows "run_state (ensure_child L ops meta equal fails (owner r) (key r) False (build L r)) s =
    (None, s'')"
  using assms by (simp add: ensure_child_def update_same)

lemma ensure_drifted:
  assumes "run_state (op_get ops (key r)) s = (Inr obj, s')" "l_controlled L (meta obj) (owner r)"
    "\<not> equal obj (build L r)" "run_state (op_update ops (build L r)) s' = (None, s'')"
  shows "run_state (ensure_child L ops meta equal fails (owner r) (key r) skip (build L r)) s = (None, s'')"
  using assms by (simp add: ensure_child_def update_child_def)

lemma build_controlled: "ownership_law L \<Longrightarrow> l_controlled L (meta (build L r)) (owner r)"
  using build_made [of L r] by (auto simp: ownership_law_def made_for_def)

text \<open>No operation but the permitted ones.\<close>

lemma update_child_keeps:
  assumes "permits P L ops meta (owner r)" "P s" "run_state (op_get ops (key r)) s = (Inr obj, s')"
    "l_controlled L (meta obj) (owner r)"
  shows "P (snd (run_state (update_child ops equal fails obj (build L r)) s'))"
proof -
  have "P s'"
    using assms(1,2,3) by (blast intro: holds_afterD permits_get)
  moreover have "P (snd (run_state (op_update ops (build L r)) s'))"
    using assms build_made build_key by (rule permits_update)
  ultimately show ?thesis
    by (auto simp: update_child_def split: prod.splits option.splits)
qed

lemma create_keeps:
  assumes "permits P L ops meta (owner r)"
  shows "holds_after P (op_create ops (build L r))"
  using assms build_made by (rule permits_create)

lemma ensure_child_keeps:
  assumes "permits P L ops meta (owner r)"
  shows "holds_after P (ensure_child L ops meta equal fails (owner r) (key r) skip (build L r))"
proof (rule holds_afterI)
  fix s a t
  assume P: "P s" and run: "run_state (ensure_child L ops meta equal fails (owner r) (key r) skip (build L r)) s = (a, t)"
  obtain res s' where get: "run_state (op_get ops (key r)) s = (res, s')"
    by (cases "run_state (op_get ops (key r)) s")
  with assms P have P': "P s'" by (blast intro: holds_afterD permits_get)
  show "P t"
  proof (cases res)
    case (Inl e)
    with get run P' create_keeps [OF assms] show ?thesis
      by (auto simp: ensure_child_def update_same dest: holds_afterD
          split: if_splits prod.splits sum.splits)
  next
    case (Inr obj)
    with get run P' update_child_keeps [OF assms P] show ?thesis
      by (auto simp: ensure_child_def split: if_splits) (metis snd_conv)
  qed
qed

lemma ensure_monitor_keeps:
  assumes "permits P L ops meta (owner r)"
  shows "holds_after P (ensure_monitor L ops meta equal fails (owner r) (key r) requested (build L r))"
proof (rule holds_afterI)
  fix s a t
  assume P: "P s"
    and run: "run_state (ensure_monitor L ops meta equal fails (owner r) (key r) requested (build L r)) s = (a, t)"
  obtain res s' where get: "run_state (op_get ops (key r)) s = (res, s')"
    by (cases "run_state (op_get ops (key r)) s")
  with assms P have P': "P s'" by (blast intro: holds_afterD permits_get)
  show "P t"
  proof (cases res)
    case (Inl e)
    with get run P' create_keeps [OF assms] show ?thesis
      by (auto simp: ensure_monitor_def update_same dest: holds_afterD
          split: if_splits prod.splits sum.splits)
  next
    case (Inr obj)
    have "l_controlled L (meta obj) (owner r) \<Longrightarrow> P (snd (run_state (op_delete ops obj) s'))"
      using permits_delete [OF assms P] get Inr by blast
    with Inr get run P' update_child_keeps [OF assms P] show ?thesis
      by (auto simp: ensure_monitor_def split: if_splits prod.splits option.splits)
        (metis snd_conv)+
  qed
qed

lemma ensure_created_keeps:
  assumes "permits P L ops meta (owner r)"
  shows "holds_after P (ensure_created L ops fails res (build L r))"
  unfolding ensure_created_def by (intro keeps create_keeps [OF assms])

text \<open>A routine that reports no error has settled the object, and left every other key alone.\<close>

lemma update_child_settles:
  assumes srv: "served L ops meta view agree" and rep: "reports fails"
    and run: "run_state (update_child ops equal fails obj (build L r)) s = (None, s')"
    and old: "view s (key r) = Some obj"
  shows "(\<exists>y. view s' (key r) = Some y \<and> agree y (build L r)) \<and>
    (\<forall>k. k \<noteq> key r \<longrightarrow> view s' k = view s k)"
proof (cases "obj = build L r")
  case True
  with run old servedD(1) [OF srv] show ?thesis by (auto simp: update_child_def equal_iff)
next
  case False
  with run rep obtain u where "run_state (op_update ops (build L r)) s = (None, s')"
    by (auto simp: update_child_def equal_iff split: prod.splits option.splits)
  from servedD(5) [OF srv this] show ?thesis by (auto simp: build_key)
qed

lemma ensure_child_settles:
  assumes srv: "served L ops meta view agree" and rep: "reports fails"
    and run: "run_state (ensure_child L ops meta equal fails (owner r) (key r) skip (build L r)) s =
      (None, s')"
  shows "settled L meta (owner r) agree (build L r) skip (view s (key r)) (view s' (key r)) \<and>
    (\<forall>k. k \<noteq> key r \<longrightarrow> view s' k = view s k)"
proof -
  obtain res s1 where get: "run_state (op_get ops (key r)) s = (res, s1)"
    by (cases "run_state (op_get ops (key r)) s")
  show ?thesis
  proof (cases res)
    case (Inl e)
    with get run rep have nf: "l_is_not_found L e"
      by (auto simp: ensure_child_def split: if_splits)
    note old = servedD(3) [OF srv get [unfolded Inl] nf]
    show ?thesis
    proof (cases skip)
      case True
      with get run Inl nf old show ?thesis by (simp add: ensure_child_def settled_def)
    next
      case False
      then obtain y where "run_state (op_create ops (build L r)) s1 = (Inr y, s')"
        using get run Inl nf rep
        by (auto simp: ensure_child_def update_same split: prod.splits sum.splits if_splits)
      from servedD(4) [OF srv this] old show ?thesis by (simp add: settled_def build_key)
    qed
  next
    case (Inr obj)
    note old = servedD(2) [OF srv get [unfolded Inr]]
    show ?thesis
    proof (cases "l_controlled L (meta obj) (owner r)")
      case True
      with get run Inr have "run_state (update_child ops equal fails obj (build L r)) s1 = (None, s')"
        by (simp add: ensure_child_def)
      from update_child_settles [OF srv rep this] old show ?thesis
        by (auto simp: settled_def split: option.splits)
    next
      case False
      with get run Inr old show ?thesis by (simp add: ensure_child_def settled_def)
    qed
  qed
qed

text \<open>The monitors: as before when requested, and gone (or another owner's) when not.\<close>

lemma ensure_monitor_requested:
  "requested \<Longrightarrow> ensure_monitor L ops meta equal fails own ky requested new =
     ensure_child L ops meta equal fails own ky False new"
  unfolding ensure_monitor_def ensure_child_def
  by (intro arg_cong2 [where f = State_Monad.bind] refl ext) (simp split: sum.split)

lemma ensure_monitor_not_requested:
  assumes srv: "served L ops meta view agree" and rep: "reports fails"
    and keyed: "\<And>obj. view s (key r) = Some obj \<Longrightarrow> key_of (meta obj) = key r"
    and run: "run_state (ensure_monitor L ops meta equal fails (owner r) (key r) False (build L r)) s =
      (None, s')"
  shows "view s' = (case view s (key r) of
      None \<Rightarrow> view s
    | Some y \<Rightarrow> if l_controlled L (meta y) (owner r) then (view s)(key r := None) else view s)"
proof -
  obtain res s1 where get: "run_state (op_get ops (key r)) s = (res, s1)"
    by (cases "run_state (op_get ops (key r)) s")
  show ?thesis
  proof (cases res)
    case (Inl e)
    with get run rep have nf: "l_is_not_found L e"
      by (auto simp: ensure_monitor_def split: if_splits)
    note old = servedD(3) [OF srv get [unfolded Inl] nf]
    with get run Inl nf show ?thesis by (simp add: ensure_monitor_def)
  next
    case (Inr obj)
    note old = servedD(2) [OF srv get [unfolded Inr]]
    show ?thesis
    proof (cases "l_controlled L (meta obj) (owner r)")
      case True
      with get run Inr rep have "run_state (op_delete ops obj) s1 = (None, s')"
        by (auto simp: ensure_monitor_def split: prod.splits option.splits)
      from servedD(6) [OF srv this] old keyed True show ?thesis by simp
    next
      case False
      with get run Inr old show ?thesis by (simp add: ensure_monitor_def)
    qed
  qed
qed

end

end
