(* ===== verification/Cluster_State.thy ===== *)
theory Cluster_State
  imports Ensure_Child
begin

text \<open>
  The objects of a cluster, kind by kind, and what the calls of the controllers do to them.
  \<open>served\<close> speaks of one kind of object; here a call on one kind leaves the objects of the others
  alone, so that the outcome of a whole reconciliation can be put together from its steps.
  \<open>cluster_law\<close> is the documented behaviour of the API server; \<open>slot_settled\<close> is what a step that
  reports no error has done, and \<open>resting\<close> the condition under which a step does nothing.
\<close>

text \<open>\<open>x\<close> is a result the computation \<open>m\<close> can have, in some world.\<close>

definition can_return :: "('s, 'a) state \<Rightarrow> 'a \<Rightarrow> bool" where
  "can_return m x \<longleftrightarrow> (\<exists>s s'. run_state m s = (x, s'))"

lemma can_returnI: "run_state m s = (x, s') \<Longrightarrow> can_return m x"
  unfolding can_return_def by blast

section \<open>The stores\<close>

record stores =
  st_services :: "nsname \<Rightarrow> service option"
  st_secrets :: "nsname \<Rightarrow> secret option"
  st_config_maps :: "nsname \<Rightarrow> config_map option"
  st_service_accounts :: "nsname \<Rightarrow> service_account option"
  st_roles :: "nsname \<Rightarrow> role option"
  st_role_bindings :: "nsname \<Rightarrow> role_binding option"
  st_deployments :: "nsname \<Rightarrow> deployment option"
  st_service_monitors :: "nsname \<Rightarrow> service_monitor option"
  st_onions :: "nsname \<Rightarrow> OnionService option"

abbreviation put_services :: "(nsname \<Rightarrow> service option) \<Rightarrow> stores \<Rightarrow> stores" where
  "put_services m S \<equiv> S\<lparr>st_services := m\<rparr>"
abbreviation put_secrets :: "(nsname \<Rightarrow> secret option) \<Rightarrow> stores \<Rightarrow> stores" where
  "put_secrets m S \<equiv> S\<lparr>st_secrets := m\<rparr>"
abbreviation put_config_maps :: "(nsname \<Rightarrow> config_map option) \<Rightarrow> stores \<Rightarrow> stores" where
  "put_config_maps m S \<equiv> S\<lparr>st_config_maps := m\<rparr>"
abbreviation put_service_accounts :: "(nsname \<Rightarrow> service_account option) \<Rightarrow> stores \<Rightarrow> stores" where
  "put_service_accounts m S \<equiv> S\<lparr>st_service_accounts := m\<rparr>"
abbreviation put_roles :: "(nsname \<Rightarrow> role option) \<Rightarrow> stores \<Rightarrow> stores" where
  "put_roles m S \<equiv> S\<lparr>st_roles := m\<rparr>"
abbreviation put_role_bindings :: "(nsname \<Rightarrow> role_binding option) \<Rightarrow> stores \<Rightarrow> stores" where
  "put_role_bindings m S \<equiv> S\<lparr>st_role_bindings := m\<rparr>"
abbreviation put_deployments :: "(nsname \<Rightarrow> deployment option) \<Rightarrow> stores \<Rightarrow> stores" where
  "put_deployments m S \<equiv> S\<lparr>st_deployments := m\<rparr>"
abbreviation put_service_monitors :: "(nsname \<Rightarrow> service_monitor option) \<Rightarrow> stores \<Rightarrow> stores" where
  "put_service_monitors m S \<equiv> S\<lparr>st_service_monitors := m\<rparr>"
abbreviation put_onions :: "(nsname \<Rightarrow> OnionService option) \<Rightarrow> stores \<Rightarrow> stores" where
  "put_onions m S \<equiv> S\<lparr>st_onions := m\<rparr>"

text \<open>A kind of object is a way to read its store and a way to replace it.\<close>

definition slot :: "('r \<Rightarrow> 'm) \<Rightarrow> ('m \<Rightarrow> 'r \<Rightarrow> 'r) \<Rightarrow> bool" where
  "slot get put \<longleftrightarrow> (\<forall>m r. get (put m r) = m) \<and> (\<forall>m m' r. put m (put m' r) = put m r) \<and>
     (\<forall>r. put (get r) r = r)"

lemma slotD:
  assumes "slot get put"
  shows "get (put m r) = m" "put m (put m' r) = put m r" "put (get r) r = r"
  using assms unfolding slot_def by blast+

lemma slots [simp]:
  "slot st_services put_services" "slot st_secrets put_secrets"
  "slot st_config_maps put_config_maps" "slot st_service_accounts put_service_accounts"
  "slot st_roles put_roles" "slot st_role_bindings put_role_bindings"
  "slot st_deployments put_deployments" "slot st_service_monitors put_service_monitors"
  "slot st_onions put_onions"
  by (simp_all add: slot_def)

section \<open>What the API server does\<close>

text \<open>
  \<open>stored\<close> gives the stores of a state of the world.  A read changes nothing, and returns the object
  stored under the key.  A creation, update or deletion that succeeds stores an object that agrees
  with the one sent, or removes it; one that fails may have had any effect on that object; the
  objects under other keys and of other kinds stay.
\<close>

definition stored_by ::
  "'s lib \<Rightarrow> ('s, 'o) ops \<Rightarrow> ('o \<Rightarrow> object_meta) \<Rightarrow> (stores \<Rightarrow> nsname \<Rightarrow> 'o option) \<Rightarrow>
   ((nsname \<Rightarrow> 'o option) \<Rightarrow> stores \<Rightarrow> stores) \<Rightarrow> ('o \<Rightarrow> 'o \<Rightarrow> bool) \<Rightarrow> ('s \<Rightarrow> stores) \<Rightarrow> bool" where
  "stored_by L ops meta get put agree stored \<longleftrightarrow>
     (\<forall>x. agree x x) \<and>
     (\<forall>key s r s'. run_state (op_get ops key) s = (r, s') \<longrightarrow> stored s' = stored s \<and>
        (case r of
           Inr x \<Rightarrow> get (stored s) key = Some x
         | Inl e \<Rightarrow> l_is_not_found L e \<longrightarrow> get (stored s) key = None)) \<and>
     (\<forall>x s r s'. run_state (op_create ops x) s = (r, s') \<longrightarrow>
        (\<exists>v. stored s' = put ((get (stored s))(key_of (meta x) := v)) (stored s) \<and>
           (\<forall>y. r = Inr y \<longrightarrow> v = Some y \<and> agree y x))) \<and>
     (\<forall>x s r s'. run_state (op_update ops x) s = (r, s') \<longrightarrow>
        (\<exists>v. stored s' = put ((get (stored s))(key_of (meta x) := v)) (stored s) \<and>
           (r = None \<longrightarrow> (\<exists>y. v = Some y \<and> agree y x)))) \<and>
     (\<forall>x s r s'. run_state (op_delete ops x) s = (r, s') \<longrightarrow>
        (\<exists>v. stored s' = put ((get (stored s))(key_of (meta x) := v)) (stored s) \<and>
           (r = None \<longrightarrow> v = None)))"

lemma stored_byD:
  assumes "stored_by L ops meta get put agree stored"
  shows "agree x x"
    "run_state (op_get ops key) s = (r, s') \<Longrightarrow> stored s' = stored s"
    "run_state (op_get ops key) s = (Inr x, s') \<Longrightarrow> get (stored s) key = Some x"
    "run_state (op_get ops key) s = (Inl e, s') \<Longrightarrow> l_is_not_found L e \<Longrightarrow> get (stored s) key = None"
    "run_state (op_create ops x) s = (r, s') \<Longrightarrow>
       \<exists>v. stored s' = put ((get (stored s))(key_of (meta x) := v)) (stored s) \<and>
         (\<forall>y. r = Inr y \<longrightarrow> v = Some y \<and> agree y x)"
    "run_state (op_update ops x) s = (u, s') \<Longrightarrow>
       \<exists>v. stored s' = put ((get (stored s))(key_of (meta x) := v)) (stored s) \<and>
         (u = None \<longrightarrow> (\<exists>y. v = Some y \<and> agree y x))"
    "run_state (op_delete ops x) s = (u, s') \<Longrightarrow>
       \<exists>v. stored s' = put ((get (stored s))(key_of (meta x) := v)) (stored s) \<and> (u = None \<longrightarrow> v = None)"
  using assms unfolding stored_by_def by (blast, blast, fastforce, fastforce, blast+)

lemma stored_by_served:
  assumes "stored_by L ops meta get put agree stored" "slot get put"
  shows "served L ops meta (\<lambda>s. get (stored s)) agree"
  unfolding served_def
  using stored_byD [OF assms(1)] slotD [OF assms(2)] by (intro conjI allI impI) metis+

text \<open>Whatever happens to one kind of object, the others stay.\<close>

definition only_slot ::
  "((nsname \<Rightarrow> 'o option) \<Rightarrow> stores \<Rightarrow> stores) \<Rightarrow> ('s \<Rightarrow> stores) \<Rightarrow> stores \<Rightarrow> 's \<Rightarrow> bool" where
  "only_slot put stored S s \<longleftrightarrow> (\<exists>m. stored s = put m S)"

lemma stored_by_permits:
  assumes "stored_by L ops meta get put agree stored" "slot get put"
  shows "permits (only_slot put stored S) L ops meta owner"
  unfolding permits_def only_slot_def
proof (intro conjI allI impI holds_afterI)
  note D = stored_byD [OF assms(1)] and sl = slotD [OF assms(2)]
  show "\<exists>m. stored s' = put m S" if "\<exists>m. stored s = put m S" "run_state (op_get ops key) s = (a, s')" for key s a s'
    using D(2) [OF that(2)] that(1) by simp
  show "\<exists>m. stored s' = put m S" if "\<exists>m. stored s = put m S" "run_state (op_create ops x) s = (a, s')" for x s a s'
    using D(5) [OF that(2)] that(1) sl(2) by metis
  fix key s old s' new assume "\<exists>m. stored s = put m S" "run_state (op_get ops key) s = (Inr old, s')"
  then obtain m where m: "stored s' = put m S" using D(2) by metis
  show "\<exists>m. stored (snd (run_state (op_update ops new) s')) = put m S"
    using D(6) [of new s'] m sl(2) by (metis surjective_pairing)
next
  note D = stored_byD [OF assms(1)] and sl = slotD [OF assms(2)]
  fix key s old s' assume "\<exists>m. stored s = put m S" "run_state (op_get ops key) s = (Inr old, s')"
  then obtain m where m: "stored s' = put m S" using D(2) by metis
  show "\<exists>m. stored (snd (run_state (op_delete ops old) s')) = put m S"
    using D(7) [of old s'] m sl(2) by (metis surjective_pairing)
qed

text \<open>How the stored objects agree with those that were sent, for each kind.\<close>

record agreement =
  ag_services :: "service \<Rightarrow> service \<Rightarrow> bool"
  ag_secrets :: "secret \<Rightarrow> secret \<Rightarrow> bool"
  ag_config_maps :: "config_map \<Rightarrow> config_map \<Rightarrow> bool"
  ag_service_accounts :: "service_account \<Rightarrow> service_account \<Rightarrow> bool"
  ag_roles :: "role \<Rightarrow> role \<Rightarrow> bool"
  ag_role_bindings :: "role_binding \<Rightarrow> role_binding \<Rightarrow> bool"
  ag_deployments :: "deployment \<Rightarrow> deployment \<Rightarrow> bool"
  ag_service_monitors :: "service_monitor \<Rightarrow> service_monitor \<Rightarrow> bool"
  ag_onions :: "OnionService \<Rightarrow> OnionService \<Rightarrow> bool"

text \<open>A server that stores the objects as they are sent.\<close>

definition exactly :: agreement where
  "exactly = \<lparr>ag_services = (=), ag_secrets = (=), ag_config_maps = (=), ag_service_accounts = (=),
     ag_roles = (=), ag_role_bindings = (=), ag_deployments = (=), ag_service_monitors = (=),
     ag_onions = (=)\<rparr>"

lemma exactly_simps [simp]:
  "ag_services exactly = (=)" "ag_secrets exactly = (=)" "ag_config_maps exactly = (=)"
  "ag_service_accounts exactly = (=)" "ag_roles exactly = (=)" "ag_role_bindings exactly = (=)"
  "ag_deployments exactly = (=)" "ag_service_monitors exactly = (=)" "ag_onions exactly = (=)"
  by (simp_all add: exactly_def)

definition cluster_law :: "'s lib \<Rightarrow> agreement \<Rightarrow> ('s \<Rightarrow> stores) \<Rightarrow> bool" where
  "cluster_law L ag stored \<longleftrightarrow>
     stored_by L (l_services L) svc_meta st_services put_services (ag_services ag) stored \<and>
     stored_by L (l_secrets L) sec_meta st_secrets put_secrets (ag_secrets ag) stored \<and>
     stored_by L (l_config_maps L) cm_meta st_config_maps put_config_maps (ag_config_maps ag) stored \<and>
     stored_by L (l_service_accounts L) sa_meta st_service_accounts put_service_accounts
       (ag_service_accounts ag) stored \<and>
     stored_by L (l_roles L) role_meta st_roles put_roles (ag_roles ag) stored \<and>
     stored_by L (l_role_bindings L) rb_meta st_role_bindings put_role_bindings (ag_role_bindings ag) stored \<and>
     stored_by L (l_deployments L) dep_meta st_deployments put_deployments (ag_deployments ag) stored \<and>
     stored_by L (l_service_monitors L) sm_meta st_service_monitors put_service_monitors
       (ag_service_monitors ag) stored \<and>
     stored_by L (l_onions L) os_meta st_onions put_onions (ag_onions ag) stored \<and>
     (\<forall>S. reads_keep (\<lambda>s. stored s = S) L)"

lemma cluster_lawD:
  assumes "cluster_law L ag stored"
  shows "stored_by L (l_services L) svc_meta st_services put_services (ag_services ag) stored"
    "stored_by L (l_secrets L) sec_meta st_secrets put_secrets (ag_secrets ag) stored"
    "stored_by L (l_config_maps L) cm_meta st_config_maps put_config_maps (ag_config_maps ag) stored"
    "stored_by L (l_service_accounts L) sa_meta st_service_accounts put_service_accounts
       (ag_service_accounts ag) stored"
    "stored_by L (l_roles L) role_meta st_roles put_roles (ag_roles ag) stored"
    "stored_by L (l_role_bindings L) rb_meta st_role_bindings put_role_bindings (ag_role_bindings ag) stored"
    "stored_by L (l_deployments L) dep_meta st_deployments put_deployments (ag_deployments ag) stored"
    "stored_by L (l_service_monitors L) sm_meta st_service_monitors put_service_monitors
       (ag_service_monitors ag) stored"
    "stored_by L (l_onions L) os_meta st_onions put_onions (ag_onions ag) stored"
    "reads_keep (\<lambda>s. stored s = S) L"
  using assms by (simp_all add: cluster_law_def)

text \<open>
  An update of an object that asks for what is stored already, up to what the server fills in
  itself, changes nothing, whatever the call returns: the server does not write an object that
  would stay the same.
\<close>

definition idle_updates ::
  "('s, 'o) ops \<Rightarrow> ('o \<Rightarrow> object_meta) \<Rightarrow> (stores \<Rightarrow> nsname \<Rightarrow> 'o option) \<Rightarrow> ('o \<Rightarrow> 'o \<Rightarrow> bool) \<Rightarrow>
   ('s \<Rightarrow> stores) \<Rightarrow> bool" where
  "idle_updates ops meta get agree stored \<longleftrightarrow>
     (\<forall>x y s u s'. get (stored s) (key_of (meta x)) = Some y \<longrightarrow> agree y x \<longrightarrow>
        run_state (op_update ops x) s = (u, s') \<longrightarrow> stored s' = stored s)"

lemma idle_updatesD:
  "idle_updates ops meta get agree stored \<Longrightarrow> get (stored s) (key_of (meta x)) = Some y \<Longrightarrow> agree y x \<Longrightarrow>
   run_state (op_update ops x) s = (u, s') \<Longrightarrow> stored s' = stored s"
  unfolding idle_updates_def by blast

definition idle_law :: "'s lib \<Rightarrow> agreement \<Rightarrow> ('s \<Rightarrow> stores) \<Rightarrow> bool" where
  "idle_law L ag stored \<longleftrightarrow>
     idle_updates (l_services L) svc_meta st_services (ag_services ag) stored \<and>
     idle_updates (l_service_accounts L) sa_meta st_service_accounts (ag_service_accounts ag) stored \<and>
     idle_updates (l_roles L) role_meta st_roles (ag_roles ag) stored \<and>
     idle_updates (l_role_bindings L) rb_meta st_role_bindings (ag_role_bindings ag) stored \<and>
     idle_updates (l_deployments L) dep_meta st_deployments (ag_deployments ag) stored \<and>
     idle_updates (l_service_monitors L) sm_meta st_service_monitors (ag_service_monitors ag) stored"

lemma idle_lawD:
  assumes "idle_law L ag stored"
  shows "idle_updates (l_services L) svc_meta st_services (ag_services ag) stored"
    "idle_updates (l_service_accounts L) sa_meta st_service_accounts (ag_service_accounts ag) stored"
    "idle_updates (l_roles L) role_meta st_roles (ag_roles ag) stored"
    "idle_updates (l_role_bindings L) rb_meta st_role_bindings (ag_role_bindings ag) stored"
    "idle_updates (l_deployments L) dep_meta st_deployments (ag_deployments ag) stored"
    "idle_updates (l_service_monitors L) sm_meta st_service_monitors (ag_service_monitors ag) stored"
  using assms by (simp_all add: idle_law_def)

lemma stored_by_reads:
  "stored_by L ops meta get put agree stored \<Longrightarrow> holds_after (\<lambda>s. stored s = S) (op_get ops key)"
  by (auto intro!: holds_afterI dest: stored_byD(2))

section \<open>Settled steps and resting objects\<close>

text \<open>A step that reports no error: the object under \<open>key\<close> is settled, and nothing else changed.\<close>

definition slot_settled ::
  "'s lib \<Rightarrow> ('o \<Rightarrow> object_meta) \<Rightarrow> object_meta \<Rightarrow> ('o \<Rightarrow> 'o \<Rightarrow> bool) \<Rightarrow> 'o \<Rightarrow> bool \<Rightarrow> nsname \<Rightarrow>
   (stores \<Rightarrow> nsname \<Rightarrow> 'o option) \<Rightarrow> ((nsname \<Rightarrow> 'o option) \<Rightarrow> stores \<Rightarrow> stores) \<Rightarrow>
   stores \<Rightarrow> stores \<Rightarrow> bool" where
  "slot_settled L meta owner agree want skip key get put old new \<longleftrightarrow>
     (\<exists>m. new = put m old \<and> settled L meta owner agree want skip (get old key) (m key) \<and>
        (\<forall>k. k \<noteq> key \<longrightarrow> m k = get old k))"

text \<open>A step without an update: what is there stays, and what is missing is created.\<close>

definition created_once :: "('o \<Rightarrow> 'o \<Rightarrow> bool) \<Rightarrow> 'o \<Rightarrow> 'o option \<Rightarrow> 'o option \<Rightarrow> bool" where
  "created_once agree want old new =
     (case old of Some x \<Rightarrow> new = Some x | None \<Rightarrow> \<exists>y. new = Some y \<and> agree y want)"

definition slot_created ::
  "('o \<Rightarrow> 'o \<Rightarrow> bool) \<Rightarrow> 'o \<Rightarrow> nsname \<Rightarrow> (stores \<Rightarrow> nsname \<Rightarrow> 'o option) \<Rightarrow>
   ((nsname \<Rightarrow> 'o option) \<Rightarrow> stores \<Rightarrow> stores) \<Rightarrow> stores \<Rightarrow> stores \<Rightarrow> bool" where
  "slot_created agree want key get put old new \<longleftrightarrow>
     (\<exists>m. new = put m old \<and> created_once agree want (get old key) (m key) \<and>
        (\<forall>k. k \<noteq> key \<longrightarrow> m k = get old k))"

text \<open>A monitor that is not requested is removed, unless another owner controls it.\<close>

definition withdrawn :: "'s lib \<Rightarrow> ('o \<Rightarrow> object_meta) \<Rightarrow> object_meta \<Rightarrow> 'o option \<Rightarrow> 'o option" where
  "withdrawn L meta owner old =
     (case old of None \<Rightarrow> None | Some y \<Rightarrow> if l_controlled L (meta y) owner then None else Some y)"

definition monitor_settled ::
  "'s lib \<Rightarrow> ('o \<Rightarrow> object_meta) \<Rightarrow> object_meta \<Rightarrow> ('o \<Rightarrow> 'o \<Rightarrow> bool) \<Rightarrow> 'o \<Rightarrow> bool \<Rightarrow> bool \<Rightarrow>
   'o option \<Rightarrow> 'o option \<Rightarrow> bool" where
  "monitor_settled L meta owner agree want installed requested old new =
     (if \<not> installed then new = old
      else if requested then settled L meta owner agree want False old new
      else new = withdrawn L meta owner old)"

definition slot_monitor ::
  "'s lib \<Rightarrow> ('o \<Rightarrow> object_meta) \<Rightarrow> object_meta \<Rightarrow> ('o \<Rightarrow> 'o \<Rightarrow> bool) \<Rightarrow> 'o \<Rightarrow> bool \<Rightarrow> bool \<Rightarrow> nsname \<Rightarrow>
   (stores \<Rightarrow> nsname \<Rightarrow> 'o option) \<Rightarrow> ((nsname \<Rightarrow> 'o option) \<Rightarrow> stores \<Rightarrow> stores) \<Rightarrow>
   stores \<Rightarrow> stores \<Rightarrow> bool" where
  "slot_monitor L meta owner agree want installed requested key get put old new \<longleftrightarrow>
     (\<exists>m. new = put m old \<and>
        monitor_settled L meta owner agree want installed requested (get old key) (m key) \<and>
        (\<forall>k. k \<noteq> key \<longrightarrow> m k = get old k))"

text \<open>The stored object a step leaves alone, or asks for again.\<close>

definition resting ::
  "'s lib \<Rightarrow> ('o \<Rightarrow> object_meta) \<Rightarrow> object_meta \<Rightarrow> ('o \<Rightarrow> 'o \<Rightarrow> bool) \<Rightarrow> 'o \<Rightarrow> bool \<Rightarrow> 'o option \<Rightarrow> bool" where
  "resting L meta owner agree want skip v =
     (case v of None \<Rightarrow> skip | Some y \<Rightarrow> agree y want \<or> \<not> l_controlled L (meta y) owner)"

definition monitor_rests ::
  "'s lib \<Rightarrow> ('o \<Rightarrow> object_meta) \<Rightarrow> object_meta \<Rightarrow> ('o \<Rightarrow> 'o \<Rightarrow> bool) \<Rightarrow> 'o \<Rightarrow> bool \<Rightarrow> bool \<Rightarrow>
   'o option \<Rightarrow> bool" where
  "monitor_rests L meta owner agree want installed requested v =
     (installed \<longrightarrow> (if requested then resting L meta owner agree want False v
        else withdrawn L meta owner v = v))"

text \<open>Whether the monitors' CRD is installed does not change in the course of a reconciliation.\<close>

definition crd_law :: "'s lib \<Rightarrow> bool \<Rightarrow> bool" where
  "crd_law L installed \<longleftrightarrow> yields ((=) installed) (monitoringInstalled L)"

lemma monitoringInstalled_same:
  assumes "crd_law L installed" "cluster_law L ag stored" "run_state (monitoringInstalled L) s = (i, t)"
  shows "i = installed" "stored t = stored s"
proof -
  show "i = installed" using assms(1,3) by (auto simp: crd_law_def dest: yieldsD)
  have "holds_after (\<lambda>u. stored u = stored s) (monitoringInstalled L)"
    unfolding monitoringInstalled_def using cluster_lawD(10) [OF assms(2)]
    by (intro keeps) (simp_all add: reads_keep_def)
  from holds_afterD [OF this refl assms(3)] show "stored t = stored s" by simp
qed

lemma settled_rests: "settled L meta owner agree want skip old new \<Longrightarrow>
  resting L meta owner agree want skip new"
  by (auto simp: settled_def resting_def split: option.splits)

lemma created_there: "created_once agree want old new \<Longrightarrow> new \<noteq> None"
  by (auto simp: created_once_def split: option.splits)

lemma monitor_settled_rests:
  "monitor_settled L meta owner agree want installed requested old new \<Longrightarrow>
   monitor_rests L meta owner agree want installed requested new"
  by (auto simp: monitor_settled_def monitor_rests_def withdrawn_def settled_rests split: option.splits if_splits)

text \<open>What a step has done to its own kind of object, and that the other kinds are as before.\<close>

definition same_but :: "nsname set \<Rightarrow> (nsname \<Rightarrow> 'o option) \<Rightarrow> (nsname \<Rightarrow> 'o option) \<Rightarrow> bool" where
  "same_but keys old new \<longleftrightarrow> (\<forall>k. k \<notin> keys \<longrightarrow> new k = old k)"

lemma same_but_two:
  assumes "same_but {a} old mid" "same_but {b} mid new" "a \<noteq> b"
  shows "new a = mid a" "old b = mid b" "same_but {a, b} old new"
  using assms by (auto simp: same_but_def)

definition touches :: "((nsname \<Rightarrow> 'o option) \<Rightarrow> stores \<Rightarrow> stores) \<Rightarrow> stores \<Rightarrow> stores \<Rightarrow> bool" where
  "touches put old new \<longleftrightarrow> (\<exists>m. new = put m old)"

lemma slot_settledD:
  assumes "slot_settled L meta owner agree want skip key get put old new" "slot get put"
  shows "settled L meta owner agree want skip (get old key) (get new key)"
    "same_but {key} (get old) (get new)" "touches put old new"
  using assms slotD(1) [OF assms(2)] by (auto simp: slot_settled_def same_but_def touches_def)

lemma slot_createdD:
  assumes "slot_created agree want key get put old new" "slot get put"
  shows "created_once agree want (get old key) (get new key)"
    "same_but {key} (get old) (get new)" "touches put old new"
  using assms slotD(1) [OF assms(2)] by (auto simp: slot_created_def same_but_def touches_def)

lemma slot_monitorD:
  assumes "slot_monitor L meta owner agree want installed requested key get put old new" "slot get put"
  shows "monitor_settled L meta owner agree want installed requested (get old key) (get new key)"
    "same_but {key} (get old) (get new)" "touches put old new"
  using assms slotD(1) [OF assms(2)] by (auto simp: slot_monitor_def same_but_def touches_def)

lemma touches_services:
  assumes "touches put_services old new"
  shows "st_secrets new = st_secrets old" "st_config_maps new = st_config_maps old"
    "st_service_accounts new = st_service_accounts old" "st_roles new = st_roles old"
    "st_role_bindings new = st_role_bindings old" "st_deployments new = st_deployments old"
    "st_service_monitors new = st_service_monitors old" "st_onions new = st_onions old"
  using assms by (auto simp: touches_def)

lemma touches_secrets:
  assumes "touches put_secrets old new"
  shows "st_services new = st_services old" "st_config_maps new = st_config_maps old"
    "st_service_accounts new = st_service_accounts old" "st_roles new = st_roles old"
    "st_role_bindings new = st_role_bindings old" "st_deployments new = st_deployments old"
    "st_service_monitors new = st_service_monitors old" "st_onions new = st_onions old"
  using assms by (auto simp: touches_def)

lemma touches_config_maps:
  assumes "touches put_config_maps old new"
  shows "st_services new = st_services old" "st_secrets new = st_secrets old"
    "st_service_accounts new = st_service_accounts old" "st_roles new = st_roles old"
    "st_role_bindings new = st_role_bindings old" "st_deployments new = st_deployments old"
    "st_service_monitors new = st_service_monitors old" "st_onions new = st_onions old"
  using assms by (auto simp: touches_def)

lemma touches_service_accounts:
  assumes "touches put_service_accounts old new"
  shows "st_services new = st_services old" "st_secrets new = st_secrets old"
    "st_config_maps new = st_config_maps old" "st_roles new = st_roles old"
    "st_role_bindings new = st_role_bindings old" "st_deployments new = st_deployments old"
    "st_service_monitors new = st_service_monitors old" "st_onions new = st_onions old"
  using assms by (auto simp: touches_def)

lemma touches_roles:
  assumes "touches put_roles old new"
  shows "st_services new = st_services old" "st_secrets new = st_secrets old"
    "st_config_maps new = st_config_maps old"
    "st_service_accounts new = st_service_accounts old"
    "st_role_bindings new = st_role_bindings old" "st_deployments new = st_deployments old"
    "st_service_monitors new = st_service_monitors old" "st_onions new = st_onions old"
  using assms by (auto simp: touches_def)

lemma touches_role_bindings:
  assumes "touches put_role_bindings old new"
  shows "st_services new = st_services old" "st_secrets new = st_secrets old"
    "st_config_maps new = st_config_maps old"
    "st_service_accounts new = st_service_accounts old" "st_roles new = st_roles old"
    "st_deployments new = st_deployments old"
    "st_service_monitors new = st_service_monitors old" "st_onions new = st_onions old"
  using assms by (auto simp: touches_def)

lemma touches_deployments:
  assumes "touches put_deployments old new"
  shows "st_services new = st_services old" "st_secrets new = st_secrets old"
    "st_config_maps new = st_config_maps old"
    "st_service_accounts new = st_service_accounts old" "st_roles new = st_roles old"
    "st_role_bindings new = st_role_bindings old"
    "st_service_monitors new = st_service_monitors old" "st_onions new = st_onions old"
  using assms by (auto simp: touches_def)

lemma touches_service_monitors:
  assumes "touches put_service_monitors old new"
  shows "st_services new = st_services old" "st_secrets new = st_secrets old"
    "st_config_maps new = st_config_maps old"
    "st_service_accounts new = st_service_accounts old" "st_roles new = st_roles old"
    "st_role_bindings new = st_role_bindings old" "st_deployments new = st_deployments old"
    "st_onions new = st_onions old"
  using assms by (auto simp: touches_def)

lemma touches_onions:
  assumes "touches put_onions old new"
  shows "st_services new = st_services old" "st_secrets new = st_secrets old"
    "st_config_maps new = st_config_maps old"
    "st_service_accounts new = st_service_accounts old" "st_roles new = st_roles old"
    "st_role_bindings new = st_role_bindings old" "st_deployments new = st_deployments old"
    "st_service_monitors new = st_service_monitors old"
  using assms by (auto simp: touches_def)

section \<open>The routines on the stores\<close>

context owned_child
begin

lemma ensure_child_stores:
  assumes st: "stored_by L ops meta get put agree stored" and sl: "slot get put"
    and rep: "reports fails"
    and run: "run_state (ensure_child L ops meta equal fails (owner r) (key r) skip (build L r)) s = (None, s')"
  shows "slot_settled L meta (owner r) agree (build L r) skip (key r) get put (stored s) (stored s')"
proof -
  have "only_slot put stored (stored s) s"
    unfolding only_slot_def using slotD(3) [OF sl] by metis
  with ensure_child_keeps [OF stored_by_permits [OF st sl]] run
  have "only_slot put stored (stored s) s'" by (blast intro: holds_afterD)
  then obtain m where "stored s' = put m (stored s)" by (auto simp: only_slot_def)
  with ensure_child_settles [OF stored_by_served [OF st sl] rep run] slotD(1) [OF sl]
  show ?thesis unfolding slot_settled_def by metis
qed

lemma ensure_child_rests:
  assumes st: "stored_by L ops meta get put agree stored" and idle: "idle_updates ops meta get agree stored"
    and rest: "resting L meta (owner r) agree (build L r) skip (get S (key r))"
  shows "holds_after (\<lambda>s. stored s = S)
    (ensure_child L ops meta equal fails (owner r) (key r) skip (build L r))"
proof (rule holds_afterI)
  fix s a s'
  assume S: "stored s = S"
    and run: "run_state (ensure_child L ops meta equal fails (owner r) (key r) skip (build L r)) s = (a, s')"
  obtain v s1 where get: "run_state (op_get ops (key r)) s = (v, s1)"
    by (cases "run_state (op_get ops (key r)) s")
  note D = stored_byD(2-4) [OF st]
  have S1: "stored s1 = S" using D(1) [OF get] S by simp
  show "stored s' = S"
  proof (cases v)
    case (Inl e)
    have "skip" if "l_is_not_found L e"
      using rest D(3) [OF get [unfolded Inl] that] S by (simp add: resting_def)
    with get run Inl have "s' = s1" by (auto simp: ensure_child_def split: if_splits)
    with S1 show ?thesis by simp
  next
    case (Inr obj)
    have obj: "get S (key r) = Some obj" using D(2) [OF get [unfolded Inr]] S by simp
    obtain u t where update: "run_state (op_update ops (build L r)) s1 = (u, t)"
      by (cases "run_state (op_update ops (build L r)) s1")
    have "s' = s1 \<or> l_controlled L (meta obj) (owner r) \<and> s' = t"
      using get run Inr update
      by (auto simp: ensure_child_def update_child_def split: if_splits option.splits)
    moreover have "stored t = stored s1" if "l_controlled L (meta obj) (owner r)"
    proof (rule idle_updatesD [OF idle _ _ update])
      show "get (stored s1) (key_of (meta (build L r))) = Some obj" using obj S1 by (simp add: build_key)
      show "agree obj (build L r)" using rest obj that by (simp add: resting_def)
    qed
    ultimately show ?thesis using S1 by auto
  qed
qed

lemma ensure_created_stores:
  assumes st: "stored_by L ops meta get put agree stored" and sl: "slot get put"
    and rep: "reports fails"
    and get: "run_state (op_get ops (key r)) s = (v, s1)" and same: "stored t = stored s1"
    and run: "run_state (ensure_created L ops fails v (build L r)) t = (c, s')"
  shows "case c of
      Inl err \<Rightarrow> err \<noteq> None
    | Inr obj \<Rightarrow> slot_created agree (build L r) (key r) get put (stored s) (stored s') \<and>
        get (stored s') (key r) = Some obj"
proof -
  note D = stored_byD(2-5) [OF st] and sD = slotD [OF sl]
  have t: "stored t = stored s" using same D(1) [OF get] by simp
  show ?thesis
  proof (cases v)
    case (Inl e)
    show ?thesis
    proof (cases "l_is_not_found L e")
      case True
      obtain w s2 where create: "run_state (op_create ops (build L r)) t = (w, s2)"
        by (cases "run_state (op_create ops (build L r)) t")
      have "get (stored s) (key r) = None" using D(3) [OF get [unfolded Inl] True] .
      then have "slot_created agree (build L r) (key r) get put (stored s) (stored s2) \<and>
          get (stored s2) (key r) = Some y" if "w = Inr y" for y
        using D(4) [OF create] that t sD(1) by (auto simp: slot_created_def created_once_def build_key)
      with create run rep True Inl show ?thesis
        by (cases w) (auto simp: ensure_created_def)
    next
      case False
      with run Inl rep show ?thesis by (auto simp: ensure_created_def)
    qed
  next
    case (Inr obj)
    have obj: "get (stored s) (key r) = Some obj" by (rule D(2) [OF get [unfolded Inr]])
    then have "slot_created agree (build L r) (key r) get put (stored s) (stored s)"
      unfolding slot_created_def created_once_def
      using sD(3) by (intro exI [of _ "get (stored s)"]) simp
    with run Inr t obj show ?thesis by (auto simp: ensure_created_def)
  qed
qed

lemma ensure_created_rests:
  assumes st: "stored_by L ops meta get put agree stored" and there: "get (stored s) (key r) \<noteq> None"
    and get: "run_state (op_get ops (key r)) s = (v, s1)"
    and run: "run_state (ensure_created L ops fails v new) t = (c, s')"
  shows "s' = t"
proof (cases v)
  case (Inl e)
  have "\<not> l_is_not_found L e" using stored_byD(4) [OF st get [unfolded Inl]] there by blast
  with Inl run show ?thesis by (simp add: ensure_created_def)
next
  case (Inr obj)
  with run show ?thesis by (simp add: ensure_created_def)
qed

lemma ensure_monitor_removes:
  assumes st: "stored_by L ops meta get put agree stored" and sl: "slot get put"
    and rep: "reports fails"
    and keyed: "\<And>obj. get (stored s) (key r) = Some obj \<Longrightarrow> key_of (meta obj) = key r"
    and run: "run_state (ensure_monitor L ops meta equal fails (owner r) (key r) False (build L r)) s = (None, s')"
  shows "stored s' = put ((get (stored s))(key r := withdrawn L meta (owner r) (get (stored s) (key r)))) (stored s)"
proof -
  note D = stored_byD(2-4,7) [OF st] and sD = slotD [OF sl]
  obtain v s1 where get: "run_state (op_get ops (key r)) s = (v, s1)"
    by (cases "run_state (op_get ops (key r)) s")
  have same: "stored s1 = stored s" by (rule D(1) [OF get])
  show ?thesis
  proof (cases v)
    case (Inl e)
    with get run rep have nf: "l_is_not_found L e"
      by (auto simp: ensure_monitor_def split: if_splits)
    with D(3) [OF get [unfolded Inl]] have "get (stored s) (key r) = None" by blast
    moreover have "s' = s1" using get run Inl nf by (simp add: ensure_monitor_def)
    ultimately show ?thesis using same sD(3) by (simp add: withdrawn_def fun_upd_idem)
  next
    case (Inr obj)
    have obj: "get (stored s) (key r) = Some obj" "key_of (meta obj) = key r"
      using D(2) [OF get [unfolded Inr]] keyed by simp_all
    show ?thesis
    proof (cases "l_controlled L (meta obj) (owner r)")
      case True
      with get run Inr rep have "run_state (op_delete ops obj) s1 = (None, s')"
        by (auto simp: ensure_monitor_def split: prod.splits option.splits)
      from D(4) [OF this] obj True same show ?thesis by (simp add: withdrawn_def)
    next
      case False
      with get run Inr have "s' = s1" by (simp add: ensure_monitor_def)
      with False obj same sD(3) show ?thesis by (simp add: withdrawn_def fun_upd_idem)
    qed
  qed
qed

lemma ensure_monitor_not_requested_rests:
  assumes st: "stored_by L ops meta get put agree stored"
    and rest: "withdrawn L meta (owner r) (get S (key r)) = get S (key r)"
  shows "holds_after (\<lambda>s. stored s = S)
    (ensure_monitor L ops meta equal fails (owner r) (key r) False (build L r))"
proof (rule holds_afterI)
  fix s a s'
  assume S: "stored s = S"
    and run: "run_state (ensure_monitor L ops meta equal fails (owner r) (key r) False (build L r)) s = (a, s')"
  obtain v s1 where get: "run_state (op_get ops (key r)) s = (v, s1)"
    by (cases "run_state (op_get ops (key r)) s")
  note D = stored_byD(2,3) [OF st]
  have "s' = s1"
  proof (cases v)
    case (Inl e)
    with get run show ?thesis by (auto simp: ensure_monitor_def split: if_splits)
  next
    case (Inr obj)
    have "\<not> l_controlled L (meta obj) (owner r)"
      using rest D(2) [OF get [unfolded Inr]] S by (auto simp: withdrawn_def split: if_splits)
    with get run Inr show ?thesis by (simp add: ensure_monitor_def)
  qed
  with D(1) [OF get] S show "stored s' = S" by simp
qed

text \<open>The reconcilers of the monitors.\<close>

lemma monitor_stores:
  assumes law: "cluster_law L ag stored" "crd_law L installed"
    and st: "stored_by L ops meta get put agree stored" and sl: "slot get put" and rep: "reports fails"
    and keyed: "\<And>obj. get (stored s) (key r) = Some obj \<Longrightarrow> key_of (meta obj) = key r"
    and run: "run_state (do {
        i \<leftarrow> monitoringInstalled L;
        if \<not> i then State_Monad.return None
        else ensure_monitor L ops meta equal fails (owner r) (key r) requested (build L r) }) s = (None, s')"
  shows "slot_monitor L meta (owner r) agree (build L r) installed requested (key r) get put
    (stored s) (stored s')"
proof -
  obtain i t where i: "run_state (monitoringInstalled L) s = (i, t)"
    by (cases "run_state (monitoringInstalled L) s")
  note same = monitoringInstalled_same [OF law(2,1) i] and sD = slotD [OF sl]
  consider (absent) "\<not> installed" | (requested) "installed" "requested" | (not) "installed" "\<not> requested"
    by blast
  then show ?thesis
  proof cases
    case absent
    with run i same have "stored s' = stored s" by simp
    with absent sD(3) show ?thesis
      unfolding slot_monitor_def monitor_settled_def by (intro exI [of _ "get (stored s)"]) simp
  next
    case requested
    with run i same(1) have "run_state (ensure_child L ops meta equal fails (owner r) (key r) False (build L r)) t = (None, s')"
      by (simp add: ensure_monitor_requested)
    from ensure_child_stores [OF st sl rep this] requested same(2) show ?thesis
      by (simp add: slot_monitor_def slot_settled_def monitor_settled_def)
  next
    case not
    with run i same(1) have "run_state (ensure_monitor L ops meta equal fails (owner r) (key r) False (build L r)) t = (None, s')"
      by simp
    from ensure_monitor_removes [OF st sl rep _ this] keyed same(2) not show ?thesis
      by (auto simp: slot_monitor_def monitor_settled_def)
  qed
qed

lemma monitor_step_rests:
  assumes law: "cluster_law L ag stored" "crd_law L installed"
    and st: "stored_by L ops meta get put agree stored" and idle: "idle_updates ops meta get agree stored"
    and rest: "monitor_rests L meta (owner r) agree (build L r) installed requested (get S (key r))"
  shows "holds_after (\<lambda>s. stored s = S) (do {
      i \<leftarrow> monitoringInstalled L;
      if \<not> i then State_Monad.return None
      else ensure_monitor L ops meta equal fails (owner r) (key r) requested (build L r) })"
proof (rule holds_after_bind_yields)
  show "yields ((=) installed) (monitoringInstalled L)" using law(2) by (simp add: crd_law_def)
  show "holds_after (\<lambda>s. stored s = S) (monitoringInstalled L)"
    using monitoringInstalled_same(2) [OF law(2,1)] by (auto intro: holds_afterI)
next
  fix i assume "installed = i"
  then show "holds_after (\<lambda>s. stored s = S) (if \<not> i then State_Monad.return None
      else ensure_monitor L ops meta equal fails (owner r) (key r) requested (build L r))"
    using ensure_child_rests [OF st idle, of r False S] ensure_monitor_not_requested_rests [OF st, of r S] rest
    by (cases requested) (simp_all add: monitor_rests_def ensure_monitor_requested)
qed

end

end
