(* ===== verification/Config_Types.thy ===== *)
theory Config_Types
  imports Client_Lib
begin

text \<open>
  The operator's own configuration, \<open>apis/config/v2/projectconfig_types.go\<close>, the result type of
  the reconcilers, and the names of the pod volumes (\<open>controllers/tor/util.go\<close>).  The embedded
  \<open>ControllerManagerConfigurationSpec\<close> is read by the manager library only.
\<close>

record TorDaemonType =
  td_Image :: string

record TorDaemonManagerType =
  tdm_Image :: string

record TorOnionbalanceManagerType =
  tom_Image :: string

record ProjectConfig =
  TorDaemon :: TorDaemonType
  TorDaemonManager :: TorDaemonManagerType
  TorOnionbalanceManager :: TorOnionbalanceManagerType
  pc_Namespace :: string

section \<open>Volume names (util.go)\<close>

definition onionBalanceSecretVolume :: string where "onionBalanceSecretVolume = ''ob-secret''"
definition privateKeyVolume :: string where "privateKeyVolume = ''private-key''"
definition authorizedClientsVolume :: string where "authorizedClientsVolume = ''authorized-clients''"
definition torConfigVolume :: string where "torConfigVolume = ''tor-config''"
definition torDataVolume :: string where "torDataVolume = ''tor-data''"
definition torServiceVolume :: string where "torServiceVolume = ''tor-service''"
definition torConfigExtraVolume :: string where "torConfigExtraVolume = ''tor-config-extra''"
definition obConfigVolume :: string where "obConfigVolume = ''ob-config''"
definition onionBalanceConfigVolume :: string where
  "onionBalanceConfigVolume = ''onionbalance-config''"

lemmas volume_names =
  onionBalanceSecretVolume_def privateKeyVolume_def authorizedClientsVolume_def
  torConfigVolume_def torDataVolume_def torServiceVolume_def torConfigExtraVolume_def
  obConfigVolume_def onionBalanceConfigVolume_def

section \<open>Other constants of the controllers\<close>

definition metrics_port :: int32 where "metrics_port = 9035"
definition defaultClusterIP :: string where "defaultClusterIP = ''0.0.0.0''"

section \<open>Results of a reconciliation\<close>

text \<open>\<open>ctrl.Result\<close>: only \<open>RequeueAfter\<close>, in seconds, is used; its zero value means never.\<close>

record ctrl_result =
  requeue_after :: nat

definition zero_result :: ctrl_result where
  "zero_result = \<lparr>requeue_after = 0\<rparr>"

text \<open>\<open>if err != nil { return ctrl.Result{}, err }\<close> after a call, and what follows it.\<close>

definition and_then ::
  "('s, go_error option) state \<Rightarrow> ('s, ctrl_result \<times> go_error option) state \<Rightarrow>
   ('s, ctrl_result \<times> go_error option) state" where
  "and_then m k = do {
     err \<leftarrow> m;
     (case err of Some e \<Rightarrow> State_Monad.return (zero_result, Some e) | None \<Rightarrow> k)
   }"

lemma and_then_ok:
  "run_state m s = (None, s') \<Longrightarrow> run_state (and_then m k) s = run_state k s'"
  by (simp add: and_then_def)

lemma and_then_error:
  "run_state m s = (Some e, s') \<Longrightarrow> run_state (and_then m k) s = ((zero_result, Some e), s')"
  by (simp add: and_then_def)

lemma and_then_success:
  assumes "run_state (and_then m k) s = ((r, None), s')"
  obtains t where "run_state m s = (None, t)" "run_state k t = ((r, None), s')"
  using assms by (cases "run_state m s") (auto simp: and_then_def split: option.splits)

lemma and_then_keeps [keeps]:
  "holds_after P m \<Longrightarrow> holds_after P k \<Longrightarrow> holds_after P (and_then m k)"
  unfolding and_then_def by (intro keeps)

end
