(* ===== verification/Tor_Torfile.thy ===== *)
theory Tor_Torfile
  imports Client_Lib
begin

text \<open>
  \<open>controllers/tor/tor_configmap.go\<close>: the \<open>torfile\<close> of a \<open>Tor\<close> instance, rendered by a
  \<open>text/template\<close>.  The model writes out the text of the template: an action that begins with
  \<open>{{-\<close> removes the white space before it, so the text that is left between two actions begins
  with the newline after the first of them.  The abstract view of the file is the list of its
  lines (\<open>torfile_lines\<close>); the lemmas show that the rendering implements it, and which ports the
  daemon opens.
\<close>

section \<open>The template (torConfigFormat)\<close>

record torConfig =
  tc_Tor :: Tor
  tc_ControlHashedPasswords :: "string list"

definition join_flags :: "string list \<Rightarrow> string" where
  "join_flags flags = strings_join flags '',''"

text \<open>\<open>range $idx, $addr := Address\<close> over the line of one port directive.\<close>

definition range_port :: "string \<Rightarrow> 'a TorGenericPortWithFlagSpec_scheme \<Rightarrow> string" where
  "range_port directive p =
     concat (map (\<lambda>addr. newline @ directive @ '' '' @ addr @ '':'' @ itoa (sint (Port p)) @
        '' '' @ join_flags (Flags p)) (Address p))"

definition torConfigFormat :: "torConfig \<Rightarrow> string" where
  "torConfigFormat config =
     (let tor = tc_Tor config; spec = tor_spec tor; client = Client spec in
      ''# Config automatically generated'' @ newline @
      ''# '' @ tor_namespace tor @ ''/'' @ tor_name tor @ newline @
      ''DataDirectory /var/lib/tor/data'' @
      (if Enable (DNS client) then
         newline @ ''# Client:DNS'' @ range_port ''+DNSPort'' (DNS client) else []) @
      (if Enable (NATD client) then
         newline @ ''# Client:NATD'' @ range_port ''+NATDPort'' (NATD client) else []) @
      (if Enable (HTTPTunnel client) then
         newline @ ''# Client:HTTPTunnel'' @
         range_port ''+HTTPTunnelPort'' (HTTPTunnel client) else []) @
      (if Enable (Trans client) then
         newline @ ''# Client:Trans'' @ range_port ''+TransPort'' (Trans client) @
         newline @ ''+TransProxyType '' @ TransProxyType client else []) @
      (if Enable (Socks client) then
         newline @ ''# Client:Socks'' @ range_port ''+SocksPort'' (Socks client) @
         newline @ ''+SocksPolicy '' @ join_flags (Policy (Socks client)) else []) @
      (if Enable (Control spec) then
         newline @ ''# Control'' @ range_port ''+ControlPort'' (Control spec) @
         concat (map (\<lambda>h. newline @ ''+HashedControlPassword '' @ h)
           (tc_ControlHashedPasswords config)) else []) @
      (if Enable (Metrics spec) then
         newline @ ''# Metrics'' @ range_port ''+MetricsPort'' (Metrics spec) @
         newline @ ''+MetricsPortPolicy '' @ join_flags (Policy (Metrics spec)) else []) @
      (if Config spec \<noteq> [] then
         newline @ ''# Tor Custom config'' @ newline @ Config spec else []) @
      (if length (ConfigMapKeyRef spec) \<noteq> 0 then
         newline @ ''# Include Custom Configs mounted by ConfigMapKeyRef'' @
         newline @ ''%include /config/*/*.conf'' else []) @
      newline)"

text \<open>
  \<open>getTorControlHashedPasswords\<close>: a password whose hash fails is skipped.  \<open>torConfigFile\<close>
  parses a constant template and executes it on fields that exist, so its error branch is dead.
\<close>

fun hash_secrets :: "'s lib \<Rightarrow> string list \<Rightarrow> string list \<Rightarrow> ('s, string list) state" where
  "hash_secrets L [] hashes = State_Monad.return hashes"
| "hash_secrets L (secret # rest) hashes = do {
     r \<leftarrow> doHashPassword (l_rand_read L) (l_wrap L) secret;
     (case r of (hash, err) \<Rightarrow>
        hash_secrets L rest (if err = None then hashes @ [hash] else hashes))
   }"

definition getTorControlHashedPasswords :: "'s lib \<Rightarrow> Tor \<Rightarrow> ('s, string list) state" where
  "getTorControlHashedPasswords L tor = hash_secrets L (Secret (Control (tor_spec tor))) []"

definition torConfigFile :: "'s lib \<Rightarrow> Tor \<Rightarrow> ('s, string) state" where
  "torConfigFile L tor = do {
     hashes \<leftarrow> getTorControlHashedPasswords L tor;
     State_Monad.return
       (torConfigFormat \<lparr>tc_Tor = tor, tc_ControlHashedPasswords = hashes\<rparr>)
   }"

section \<open>The file as a list of lines\<close>

definition port_lines :: "string \<Rightarrow> 'a TorGenericPortWithFlagSpec_scheme \<Rightarrow> string list" where
  "port_lines directive p =
     map (\<lambda>addr. directive @ '' '' @ addr @ '':'' @ itoa (sint (Port p)) @ '' '' @
        join_flags (Flags p)) (Address p)"

text \<open>The lines the daemon acts on besides the port directives, and the comments.\<close>

definition torfile_lines :: "torConfig \<Rightarrow> string list" where
  "torfile_lines config =
     (let tor = tc_Tor config; spec = tor_spec tor; client = Client spec;
          section_of = (\<lambda>enabled heading body. if enabled then heading # body else [])
      in
      [''# Config automatically generated'', ''# '' @ tor_namespace tor @ ''/'' @ tor_name tor,
       ''DataDirectory /var/lib/tor/data''] @
      section_of (Enable (DNS client)) ''# Client:DNS'' (port_lines ''+DNSPort'' (DNS client)) @
      section_of (Enable (NATD client)) ''# Client:NATD''
        (port_lines ''+NATDPort'' (NATD client)) @
      section_of (Enable (HTTPTunnel client)) ''# Client:HTTPTunnel''
        (port_lines ''+HTTPTunnelPort'' (HTTPTunnel client)) @
      section_of (Enable (Trans client)) ''# Client:Trans''
        (port_lines ''+TransPort'' (Trans client) @
         [''+TransProxyType '' @ TransProxyType client]) @
      section_of (Enable (Socks client)) ''# Client:Socks''
        (port_lines ''+SocksPort'' (Socks client) @
         [''+SocksPolicy '' @ join_flags (Policy (Socks client))]) @
      section_of (Enable (Control spec)) ''# Control''
        (port_lines ''+ControlPort'' (Control spec) @
         map (\<lambda>h. ''+HashedControlPassword '' @ h) (tc_ControlHashedPasswords config)) @
      section_of (Enable (Metrics spec)) ''# Metrics''
        (port_lines ''+MetricsPort'' (Metrics spec) @
         [''+MetricsPortPolicy '' @ join_flags (Policy (Metrics spec))]) @
      section_of (Config spec \<noteq> []) ''# Tor Custom config'' (split_lines (Config spec)) @
      section_of (ConfigMapKeyRef spec \<noteq> [])
        ''# Include Custom Configs mounted by ConfigMapKeyRef''
        [''%include /config/*/*.conf''])"

text \<open>The values put into the file (other than the free-form \<open>Config\<close>) hold no newline.\<close>

definition port_clean :: "'a TorGenericPortWithFlagSpec_scheme \<Rightarrow> bool" where
  "port_clean p \<longleftrightarrow> list_all single_line (Address p) \<and> list_all single_line (Flags p) \<and>
     list_all single_line (Policy p)"

definition torfile_clean :: "torConfig \<Rightarrow> bool" where
  "torfile_clean config \<longleftrightarrow>
     (let tor = tc_Tor config; spec = tor_spec tor; client = Client spec in
      single_line (tor_namespace tor) \<and> single_line (tor_name tor) \<and>
      port_clean (DNS client) \<and> port_clean (NATD client) \<and> port_clean (HTTPTunnel client) \<and>
      port_clean (Trans client) \<and> port_clean (Socks client) \<and> port_clean (Control spec) \<and>
      port_clean (Metrics spec) \<and> single_line (TransProxyType client) \<and>
      list_all single_line (tc_ControlHashedPasswords config))"

section \<open>The rendering implements the list of lines\<close>

definition nl_lines :: "string list \<Rightarrow> string" where
  "nl_lines ls = concat (map (\<lambda>l. newline @ l) ls)"

lemma nl_lines_simps [simp]:
  "nl_lines [] = []" "nl_lines (l # ls) = newline @ l @ nl_lines ls"
  "nl_lines (ls @ ms) = nl_lines ls @ nl_lines ms"
  by (simp_all add: nl_lines_def)

lemma nl_lines_split [simp]: "nl_lines (split_lines s) = newline @ s"
proof (induction s)
  case (Cons c s)
  then show ?case
    by (cases "split_lines s") auto
qed simp

lemma split_nl_lines:
  "single_line l \<Longrightarrow> list_all single_line ls \<Longrightarrow> split_lines (l @ nl_lines ls @ newline) = l # ls @ [[]]"
proof (induction ls arbitrary: l)
  case Nil
  then show ?case using split_lines_append_newline [of l "[]"] by (simp add: split_lines_single)
next
  case (Cons k ls)
  then show ?case
    using split_lines_append_newline [of l "k @ nl_lines ls @ newline"]
    by (simp add: split_lines_single)
qed

lemma range_port_lines: "range_port d p = nl_lines (port_lines d p)"
  by (simp add: range_port_def port_lines_def nl_lines_def o_def)

lemma hash_lines: "concat (map (\<lambda>h. newline @ d @ h) hs) = nl_lines (map (\<lambda>h. d @ h) hs)"
  by (simp add: nl_lines_def o_def)

lemma torConfigFormat_eq:
  "torConfigFormat config = hd (torfile_lines config) @ nl_lines (tl (torfile_lines config)) @ newline"
  unfolding torConfigFormat_def torfile_lines_def Let_def range_port_lines hash_lines
  by simp

lemma single_line_flags: "port_clean p \<Longrightarrow> single_line (join_flags (Flags p))"
  and single_line_policy: "port_clean p \<Longrightarrow> single_line (join_flags (Policy p))"
  by (simp_all add: join_flags_def port_clean_def list_all_iff single_line_join)

lemma port_lines_single:
  "port_clean p \<Longrightarrow> single_line d \<Longrightarrow> list_all single_line (port_lines d p)"
  by (auto simp: port_lines_def list_all_iff port_clean_def single_line_flags)

lemma split_lines_single_lines: "list_all single_line (split_lines s)"
proof (induction s)
  case (Cons c s)
  then show ?case by (cases "split_lines s") auto
qed simp

lemma torfile_lines_single:
  "torfile_clean config \<Longrightarrow> list_all single_line (torfile_lines config)"
  unfolding torfile_clean_def torfile_lines_def Let_def
  by (simp add: port_lines_single single_line_policy split_lines_single_lines list_all_iff [of _ "map _ _"])
    (simp add: list_all_iff)

lemma torfile_split:
  assumes "torfile_clean config"
  shows "split_lines (torConfigFormat config) = torfile_lines config @ [[]]"
  using torfile_lines_single [OF assms] unfolding torConfigFormat_eq
  by (cases "torfile_lines config") (simp_all add: split_nl_lines, simp add: torfile_lines_def Let_def)

text \<open>
  C8: for values without newlines, the rendered file consists of exactly the lines of the abstract
  view, in order, the last one terminated: the white-space trimming of the template neither joins
  two directives nor splits one, whichever sections are enabled.
\<close>

theorem torfile_refines_lines:
  assumes "torfile_clean config"
  shows "split_lines (torConfigFormat config) = torfile_lines config @ [[]]"
  by (rule torfile_split [OF assms])

definition sample_config :: torConfig where
  "sample_config = \<lparr>tc_Tor = SetTorDefaults (zero_tor ''example'' ''default''),
     tc_ControlHashedPasswords = []\<rparr>"

lemma sample_config_clean: "torfile_clean sample_config"
  by (simp add: torfile_clean_def sample_config_def zero_tor_def zero_port_def port_clean_def
      Let_def zero_meta_def)

theorem torfile_refines_lines_witness:
  "split_lines (torConfigFormat sample_config) = torfile_lines sample_config @ [[]]"
  by (rule torfile_refines_lines [OF sample_config_clean])

section \<open>Which ports the daemon opens\<close>

definition torfile_ports :: "TorSpec \<Rightarrow> (string \<times> TorGenericPortWithFlagSpec) list" where
  "torfile_ports spec =
     [(''+DNSPort'', DNS (Client spec)), (''+NATDPort'', NATD (Client spec)),
      (''+HTTPTunnelPort'', HTTPTunnel (Client spec)), (''+TransPort'', Trans (Client spec)),
      (''+SocksPort'', Socks (Client spec)),
      (''+ControlPort'', TorGenericPortWithFlagSpec.truncate (Control spec)),
      (''+MetricsPort'', Metrics spec)]"

definition lines_with :: "string \<Rightarrow> string list \<Rightarrow> string list" where
  "lines_with keyword ls = filter (prefix (keyword @ '' '')) ls"

lemma lines_with_simps [simp]:
  "lines_with k [] = []"
  "lines_with k (l # ls) = (if prefix (k @ '' '') l then l # lines_with k ls else lines_with k ls)"
  "lines_with k (ls @ ms) = lines_with k ls @ lines_with k ms"
  by (simp_all add: lines_with_def)

lemma prefix_keyword:
  assumes "CHR '' '' \<notin> set k" "CHR '' '' \<notin> set k'"
  shows "prefix (k @ '' '') (k' @ CHR '' '' # x) \<longleftrightarrow> k = k'"
  using assms
proof (induction k arbitrary: k')
  case Nil
  then show ?case by (cases k') auto
next
  case (Cons c k)
  then show ?case by (cases k') auto
qed

lemma lines_with_ports:
  "CHR '' '' \<notin> set k \<Longrightarrow> CHR '' '' \<notin> set k' \<Longrightarrow>
   lines_with k (port_lines k' p) = (if k = k' then port_lines k' p else [])"
  using prefix_keyword [of k k'] by (auto simp: port_lines_def lines_with_def filter_map o_def)

lemma lines_with_map:
  "CHR '' '' \<notin> set k \<Longrightarrow> CHR '' '' \<notin> set k' \<Longrightarrow> k \<noteq> k' \<Longrightarrow>
   lines_with k (map (\<lambda>h. k' @ CHR '' '' # h) hs) = []"
  using prefix_keyword [of k k'] by (auto simp: lines_with_def filter_empty_conv)

lemma port_lines_truncate [simp]:
  "port_lines d (TorGenericPortWithFlagSpec.truncate p) = port_lines d p"
  "Enable (TorGenericPortWithFlagSpec.truncate p) = Enable p"
  by (simp_all add: port_lines_def TorGenericPortWithFlagSpec.truncate_def)

lemma lines_with_if:
  "lines_with k (if b then xs else ys) = (if b then lines_with k xs else lines_with k ys)"
  by simp

lemma lines_with_hashes:
  "lines_with k (map (\<lambda>h. ''+HashedControlPassword '' @ h) hs) = []"
  if "CHR '' '' \<notin> set k" "k \<noteq> ''+HashedControlPassword''"
  using lines_with_map [OF that(1), of "''+HashedControlPassword''" hs] that(2) by simp

text \<open>A line that opens a port: its first word ends in \<open>Port\<close>, as in \<open>SocksPort\<close> or \<open>ORPort\<close>.\<close>

definition opens_port :: "string \<Rightarrow> bool" where
  "opens_port l = (let w = takeWhile (\<lambda>c. c \<noteq> CHR '' '') l in drop (length w - 4) w = ''Port'')"

lemma opens_port_word:
  "CHR '' '' \<notin> set d \<Longrightarrow> opens_port (d @ CHR '' '' # x) \<longleftrightarrow> drop (length d - 4) d = ''Port''"
  by (simp add: opens_port_def Let_def takeWhile_append)

lemma opens_port_lines:
  "CHR '' '' \<notin> set d \<Longrightarrow> drop (length d - 4) d = ''Port'' \<Longrightarrow>
   filter opens_port (port_lines d p) = port_lines d p"
  using opens_port_word [of d] by (auto simp: port_lines_def filter_id_conv)

lemma opens_port_hashes:
  "filter opens_port (map (\<lambda>h. ''+HashedControlPassword '' @ h) hs) = []"
  by (simp add: filter_empty_conv opens_port_def)

lemma filter_if: "filter P (if b then xs else ys) = (if b then filter P xs else filter P ys)"
  by simp

text \<open>
  C9: the file opens exactly the client, control and metrics ports the instance enables.  For values
  without newlines, the lines of the file that open a port are, in the order of the template, one
  for each listening address of each enabled one of the seven ports, with the port number and the
  flags, and after them those of the free-form \<open>Config\<close>; files that it includes are not looked at.  The port of \<open>Spec.Server\<close> is not one of the
  seven: whatever it says, the file is the same.
\<close>

theorem torfile_opens_enabled_ports:
  assumes "torfile_clean config"
  shows "filter opens_port (split_lines (torConfigFormat config)) =
      concat (map (\<lambda>(directive, p). if Enable p then port_lines directive p else [])
        (torfile_ports (tor_spec (tc_Tor config)))) @
      (if Config (tor_spec (tc_Tor config)) \<noteq> []
       then filter opens_port (split_lines (Config (tor_spec (tc_Tor config)))) else []) \<and>
    torConfigFormat (config\<lparr>tc_Tor := (tc_Tor config)
      \<lparr>tor_spec := (tor_spec (tc_Tor config))\<lparr>Server := srv\<rparr>\<rparr>\<rparr>) = torConfigFormat config"
proof (rule conjI)
  have others: "\<not> opens_port (''# '' @ x)" "\<not> opens_port (''+TransProxyType '' @ x)"
    "\<not> opens_port (''+SocksPolicy '' @ x)" "\<not> opens_port (''+MetricsPortPolicy '' @ x)" for x
    by (simp_all add: opens_port_def)
  have fixed: "\<not> opens_port []" "\<not> opens_port ''DataDirectory /var/lib/tor/data''"
    "\<not> opens_port ''%include /config/*/*.conf''"
    by (simp_all add: opens_port_def)
  show "filter opens_port (split_lines (torConfigFormat config)) =
      concat (map (\<lambda>(directive, p). if Enable p then port_lines directive p else [])
        (torfile_ports (tor_spec (tc_Tor config)))) @
      (if Config (tor_spec (tc_Tor config)) \<noteq> []
       then filter opens_port (split_lines (Config (tor_spec (tc_Tor config)))) else [])"
    unfolding torfile_split [OF assms] torfile_lines_def torfile_ports_def Let_def
    using others fixed
    by (simp add: opens_port_lines opens_port_hashes filter_if cong: if_cong split del: if_split)
  show "torConfigFormat (config\<lparr>tc_Tor := (tc_Tor config)
      \<lparr>tor_spec := (tor_spec (tc_Tor config))\<lparr>Server := srv\<rparr>\<rparr>\<rparr>) = torConfigFormat config"
    by (simp add: torConfigFormat_def Let_def)
qed

theorem torfile_opens_enabled_ports_witness:
  "filter opens_port (split_lines (torConfigFormat sample_config)) =
     [''+SocksPort 0.0.0.0:9050 '', ''+SocksPort :::9050 '']"
  using conjunct1 [OF torfile_opens_enabled_ports [OF sample_config_clean]]
  by (simp add: torfile_ports_def sample_config_def zero_tor_def zero_port_def anyPortEnabled_iff
      port_lines_def join_flags_def port_defs itoa_def nat_digits.simps digit_char_def char_of_def bit_simps
      TorGenericPortWithFlagSpec.defs)

text \<open>
  The relay port is never opened: no line of the file depends on \<open>Spec.Server\<close>, although the
  defaults, the service and the container ports all take it into account.
\<close>

theorem torfile_ignores_server:
  "torConfigFormat (config\<lparr>tc_Tor := (tc_Tor config)
     \<lparr>tor_spec := (tor_spec (tc_Tor config))\<lparr>Server := srv\<rparr>\<rparr>\<rparr>) = torConfigFormat config"
  by (simp add: torConfigFormat_def Let_def)

section \<open>Control passwords\<close>

lemma hash_secrets_length:
  "run_state (hash_secrets L secrets hashes) s = (hs, s') \<Longrightarrow>
     length hs \<le> length hashes + length secrets"
proof (induction secrets arbitrary: hashes s)
  case (Cons x xs)
  obtain hash err t where run: "run_state (doHashPassword (l_rand_read L) (l_wrap L) x) s = ((hash, err), t)"
    by (metis surj_pair)
  have "run_state (hash_secrets L xs (if err = None then hashes @ [hash] else hashes)) t = (hs, s')"
    using Cons.prems run by simp
  from Cons.IH [OF this] show ?case by (auto split: if_splits)
qed simp

lemma hash_secrets_failing:
  assumes "wrap_law L" "\<And>n s. \<exists>e t. run_state (l_rand_read L n) s = (Inl e, t)"
  shows "fst (run_state (hash_secrets L secrets hashes) s) = hashes"
proof (induction secrets arbitrary: s)
  case (Cons x xs)
  obtain e t where "run_state (l_rand_read L (SpecifierLen - 1)) s = (Inl e, t)" using assms(2) by blast
  with Cons assms(1) show ?case by (simp add: doHashPassword_def)
qed simp

text \<open>
  C37: when a \<open>Tor\<close> with an enabled control port is rendered while its list of secrets is empty, or
  while no salt can be drawn for any of them, the file opens the port at every address without a
  single \<open>HashedControlPassword\<close> line: the port is then not protected by a password.
  (Values without newlines, and no \<open>Config\<close> of the user's own.)
\<close>

theorem control_port_unprotected:
  assumes "torfile_clean \<lparr>tc_Tor = tor, tc_ControlHashedPasswords = []\<rparr>"
    and "Enable (Control (tor_spec tor))" "Config (tor_spec tor) = []"
    and "Secret (Control (tor_spec tor)) = [] \<or>
      wrap_law L \<and> (\<forall>n s. \<exists>e t. run_state (l_rand_read L n) s = (Inl e, t))"
    and "run_state (torConfigFile L tor) s = (torfile, s')"
  shows "lines_with ''+HashedControlPassword'' (split_lines torfile) = [] \<and>
    lines_with ''+ControlPort'' (split_lines torfile) = port_lines ''+ControlPort'' (Control (tor_spec tor))"
proof -
  have "fst (run_state (getTorControlHashedPasswords L tor) s) = []"
    using assms(4) hash_secrets_failing [of L] by (auto simp: getTorControlHashedPasswords_def)
  then obtain t where "run_state (getTorControlHashedPasswords L tor) s = ([], t)"
    by (metis prod.collapse)
  with assms(5) have torfile: "torfile = torConfigFormat \<lparr>tc_Tor = tor, tc_ControlHashedPasswords = []\<rparr>"
    by (simp add: torConfigFile_def)
  with assms(2,3) show ?thesis
    unfolding torfile_split [OF assms(1), folded torfile] torfile_lines_def Let_def
    by (simp add: lines_with_ports)
qed

definition control_tor :: Tor where
  "control_tor = (tc_Tor sample_config)
     \<lparr>tor_spec := (tor_spec (tc_Tor sample_config))
        \<lparr>Control := (Control (tor_spec (tc_Tor sample_config)))\<lparr>Enable := True\<rparr>\<rparr>\<rparr>"

theorem control_port_unprotected_witness:
  "\<forall>(L :: 'r lib) s. let torfile = fst (run_state (torConfigFile L control_tor) s) in
     lines_with ''+HashedControlPassword'' (split_lines torfile) = [] \<and>
     lines_with ''+ControlPort'' (split_lines torfile) \<noteq> []"
proof (intro allI)
  fix L :: "'r lib" and s
  obtain torfile s' where run: "run_state (torConfigFile L control_tor) s = (torfile, s')"
    by (cases "run_state (torConfigFile L control_tor) s")
  have clean: "torfile_clean \<lparr>tc_Tor = control_tor, tc_ControlHashedPasswords = []\<rparr>"
    using sample_config_clean by (simp add: torfile_clean_def control_tor_def sample_config_def port_clean_def Let_def)
  have "Enable (Control (tor_spec control_tor))" "Config (tor_spec control_tor) = []"
    "Secret (Control (tor_spec control_tor)) = []" "Address (Control (tor_spec control_tor)) \<noteq> []"
    by (simp_all add: control_tor_def sample_config_def zero_tor_def)
  with control_port_unprotected [OF clean _ _ _ run] run
  show "let torfile = fst (run_state (torConfigFile L control_tor) s) in
     lines_with ''+HashedControlPassword'' (split_lines torfile) = [] \<and>
     lines_with ''+ControlPort'' (split_lines torfile) \<noteq> []"
    by (simp add: Let_def port_lines_def)
qed

end
