(* ===== verification/Tor_Children.thy ===== *)
theory Tor_Children
  imports Cluster_State Config_Types Tor_Torfile
begin

text \<open>
  The objects a \<open>Tor\<close> instance owns and the functions that reconcile each of them:
  \<open>controllers/tor/tor_serviceaccount.go\<close>, \<open>tor_role.go\<close>, \<open>tor_rolebinding.go\<close>,
  \<open>tor_service.go\<close>, \<open>tor_secret.go\<close>, \<open>tor_configmap.go\<close>, \<open>tor_deployment.go\<close>,
  \<open>tor_service_metrics.go\<close> and \<open>tor_service_monitor.go\<close>.  Log lines are left out.  An error
  message is the format string of the call; the values it formats are left out.  Every builder
  interprets the contract \<open>owned_child\<close>.
\<close>

abbreviation tor_owned :: "'s lib \<Rightarrow> Tor \<Rightarrow> string \<Rightarrow> labels option \<Rightarrow> object_meta" where
  "tor_owned L tor name lbls \<equiv> owned_meta L (tor_meta tor) name lbls ''Tor''"

abbreviation tor_key :: "Tor \<Rightarrow> string \<Rightarrow> nsname" where
  "tor_key tor name \<equiv> \<lparr>nn_namespace = tor_namespace tor, nn_name = name\<rparr>"

section \<open>Service account (tor_serviceaccount.go)\<close>

definition torServiceAccount :: "'s lib \<Rightarrow> Tor \<Rightarrow> service_account" where
  [built]: "torServiceAccount L tor =
     \<lparr>sa_meta = tor_owned L tor (tor_ServiceAccountName tor) None,
      sa_secrets = [], sa_image_pull_secrets = [], sa_automount_token = None\<rparr>"

definition tor_reconcileServiceAccount :: "'s lib \<Rightarrow> Tor \<Rightarrow> ('s, go_error option) state" where
  "tor_reconcileServiceAccount L tor =
     (let serviceAccountName = tor_ServiceAccountName tor in
      if serviceAccountName = [] then State_Monad.return None
      else ensure_child L (l_service_accounts L) sa_meta serviceAccountEqual
        (failing L ''failed to create ServiceAccount %#v'' ''failed to get ServiceAccount %s''
           ''failed to update ServiceAccount %#v'' [])
        (tor_meta tor) (tor_key tor serviceAccountName) False (torServiceAccount L tor))"

section \<open>Role (tor_role.go)\<close>

definition torRole :: "'s lib \<Rightarrow> Tor \<Rightarrow> role" where
  [built]: "torRole L tor =
     \<lparr>role_meta = tor_owned L tor (tor_RoleName tor) None,
      role_rules =
        [\<lparr>pr_api_groups = [api_group], pr_verbs = [''get'', ''list'', ''watch''],
          pr_resources = [''tors'']\<rparr>,
         \<lparr>pr_api_groups = [api_group], pr_verbs = [''update'', ''patch''],
          pr_resources = [''tors/status'']\<rparr>,
         \<lparr>pr_api_groups = [''''], pr_verbs = [''create'', ''update'', ''patch''],
          pr_resources = [''events'']\<rparr>]\<rparr>"

definition tor_reconcileRole :: "'s lib \<Rightarrow> Tor \<Rightarrow> ('s, go_error option) state" where
  "tor_reconcileRole L tor =
     (let roleName = tor_RoleName tor in
      if roleName = [] then State_Monad.return None
      else ensure_child L (l_roles L) role_meta roleEqual
        (failing L ''failed to create Role %#v'' ''failed to get Role %s''
           ''failed to update Role %#v'' [])
        (tor_meta tor) (tor_key tor roleName) False (torRole L tor))"

section \<open>Role binding (tor_rolebinding.go)\<close>

definition torRolebinding :: "'s lib \<Rightarrow> Tor \<Rightarrow> role_binding" where
  [built]: "torRolebinding L tor =
     \<lparr>rb_meta = tor_owned L tor (tor_RoleName tor) None,
      rb_subjects =
        [\<lparr>sj_kind = ''ServiceAccount'', sj_api_group = [], sj_name = tor_ServiceAccountName tor,
          sj_namespace = []\<rparr>],
      rb_role_ref = \<lparr>rr_api_group = [], rr_kind = ''Role'', rr_name = tor_RoleName tor\<rparr>\<rparr>"

definition tor_reconcileRolebinding :: "'s lib \<Rightarrow> Tor \<Rightarrow> ('s, go_error option) state" where
  "tor_reconcileRolebinding L tor =
     (let roleName = tor_RoleName tor in
      if roleName = [] then State_Monad.return None
      else ensure_child L (l_role_bindings L) rb_meta rolebindingEqual
        (failing L ''failed to create Rolebinding %s'' ''failed to get Rolebinding %s''
           ''failed to update Rolebinding %s'' [])
        (tor_meta tor) (tor_key tor roleName) False (torRolebinding L tor))"

section \<open>Service (tor_service.go)\<close>

definition getTorServicePortList :: "Tor \<Rightarrow> service_port list" where
  "getTorServicePortList tor =
     map (\<lambda>port. \<lparr>sp_name = pd_name port, sp_protocol = pd_protocol port,
            sp_port = Port (pd_port port),
            sp_target_port = FromInt (sint (Port (pd_port port)))\<rparr>)
       (filter (\<lambda>port. Enable (pd_port port)) (GetAllPorts tor))"

definition torService :: "'s lib \<Rightarrow> Tor \<Rightarrow> service" where
  [built]: "torService L tor =
     \<lparr>svc_meta = tor_owned L tor (tor_ServiceName tor) None,
      svc_spec = \<lparr>ss_selector = tor_ServiceSelector tor, ss_ports = getTorServicePortList tor,
        ss_cluster_ip = [], ss_other = []\<rparr>,
      svc_status = []\<rparr>"

definition tor_reconcileService :: "'s lib \<Rightarrow> Tor \<Rightarrow> ('s, go_error option) state" where
  "tor_reconcileService L tor =
     (let serviceName = tor_ServiceName tor; newService = torService L tor in
      if serviceName = [] then State_Monad.return None
      else ensure_child L (l_services L) svc_meta serviceEqual
        (failing L ''failed to create Service %#v'' ''failed to get Service %s''
           ''failed to update Service %#v'' [])
        (tor_meta tor) (tor_key tor serviceName)
        (length (ss_ports (svc_spec newService)) = 0) newService)"

section \<open>Metrics service (tor_service_metrics.go)\<close>

definition torMetricsService :: "'s lib \<Rightarrow> Tor \<Rightarrow> service" where
  [built]: "torMetricsService L onion =
     \<lparr>svc_meta = tor_owned L onion (tor_ServiceMetricsName onion)
        (Some (tor_ServiceMetricsSelector onion)),
      svc_spec = \<lparr>ss_selector = tor_ServiceSelector onion,
        ss_ports = [\<lparr>sp_name = ''metrics'', sp_protocol = [], sp_port = metrics_port,
          sp_target_port = FromInt (sint metrics_port)\<rparr>],
        ss_cluster_ip = [], ss_other = []\<rparr>,
      svc_status = []\<rparr>"

definition tor_reconcileMetricsService :: "'s lib \<Rightarrow> Tor \<Rightarrow> ('s, go_error option) state" where
  "tor_reconcileMetricsService L tor =
     (let serviceName = tor_ServiceMetricsName tor in
      if serviceName = [] then State_Monad.return None
      else ensure_child L (l_services L) svc_meta serviceEqual
        (failing L ''failed to create Service %#v'' ''failed to get Service %s''
           ''failed to update Service %#v'' [])
        (tor_meta tor) (tor_key tor serviceName)
        (\<not> Enable (Metrics (tor_spec tor))) (torMetricsService L tor))"

section \<open>Service monitor (tor_service_monitor.go)\<close>

definition torServiceMonitor :: "'s lib \<Rightarrow> Tor \<Rightarrow> service_monitor" where
  [built]: "torServiceMonitor L onion =
     \<lparr>sm_meta = tor_owned L onion (tor_ServiceMetricsName onion)
        (Some (tor_ServiceMetricsSelector onion)),
      sm_spec = \<lparr>sms_match_labels = tor_ServiceMetricsSelector onion,
        sms_endpoints = [\<lparr>ep_port = ''metrics'', ep_path = ''/metrics''\<rparr>],
        sms_match_names = [tor_namespace onion], sms_other = []\<rparr>\<rparr>"

definition tor_reconcileServiceMonitor :: "'s lib \<Rightarrow> Tor \<Rightarrow> ('s, go_error option) state" where
  "tor_reconcileServiceMonitor L tor = do {
     installed \<leftarrow> monitoringInstalled L;
     if \<not> installed then State_Monad.return None
     else (let serviceName = tor_ServiceMetricsName tor in
       if serviceName = [] then State_Monad.return None
       else ensure_monitor L (l_service_monitors L) sm_meta monitorServiceEqual
         (failing L ''failed to create Service %#v'' ''failed to get Service %#v''
            ''failed to update Service %#v'' ''failed to delete Service %#v'')
         (tor_meta tor) (tor_key tor serviceName) (ServiceMonitor (tor_spec tor))
         (torServiceMonitor L tor))
   }"

section \<open>Config map (tor_configmap.go)\<close>

text \<open>The config map holds the file rendered at this moment, which draws fresh salts.\<close>

definition config_map_with :: "'s lib \<Rightarrow> string \<Rightarrow> Tor \<Rightarrow> config_map" where
  [built]: "config_map_with L file tor =
     \<lparr>cm_meta = tor_owned L tor (tor_ConfigMapName tor) None,
      cm_data = fmap_of_list [(''torfile'', file)]\<rparr>"

definition torConfigMap :: "'s lib \<Rightarrow> Tor \<Rightarrow> ('s, config_map) state" where
  "torConfigMap L tor = do {
     file \<leftarrow> torConfigFile L tor;
     State_Monad.return (config_map_with L file tor)
   }"

definition tor_reconcileConfigMap :: "'s lib \<Rightarrow> Tor \<Rightarrow> ('s, go_error option) state" where
  "tor_reconcileConfigMap L tor =
     (let configMapName = tor_ConfigMapName tor in
      if configMapName = [] then State_Monad.return None
      else do {
        r \<leftarrow> op_get (l_config_maps L) (tor_key tor configMapName);
        newConfigMap \<leftarrow> torConfigMap L tor;
        c \<leftarrow> ensure_created L (l_config_maps L)
          (failing L ''failed to create configmap %s/%s'' ''failed to get configmap %s/%s'' [] [])
          r newConfigMap;
        (case c of
           Inl err \<Rightarrow> State_Monad.return err
         | Inr configmap \<Rightarrow>
             if \<not> l_controlled L (cm_meta configmap) (tor_meta tor) then State_Monad.return None
             else State_Monad.return None)
      })"

section \<open>Control secret (tor_secret.go)\<close>

definition passwordLength :: nat where "passwordLength = 16"

definition generateRandomPassword :: "'s lib \<Rightarrow> ('s, string) state" where
  "generateRandomPassword L =
     l_password L \<lparr>gc_Length = passwordLength, gc_IncludeSymbols = False,
       gc_IncludeNumbers = True, gc_IncludeLowercaseLetters = True,
       gc_IncludeUppercaseLetters = True, gc_ExcludeSimilarCharacters = True,
       gc_ExcludeAmbiguousCharacters = True\<rparr>"

definition torSecret :: "'s lib \<Rightarrow> string \<Rightarrow> Tor \<Rightarrow> secret" where
  [built]: "torSecret L password tor =
     \<lparr>sec_meta = tor_owned L tor (tor_SecretName tor) None,
      sec_type = ''tor.k8s.torproject.org/control-password'',
      sec_data = fmap_of_list [(''control'', password)]\<rparr>"

definition add_control_secrets :: "bytes list \<Rightarrow> Tor \<Rightarrow> Tor" where
  "add_control_secrets pws tor =
     tor\<lparr>tor_spec := (tor_spec tor)\<lparr>Control := (Control (tor_spec tor))
       \<lparr>Secret := Secret (Control (tor_spec tor)) @ pws\<rparr>\<rparr>\<rparr>"

text \<open>
  The loop over the references: the values of the referenced keys are appended to
  \<open>Spec.Control.Secret\<close>.  The reconciler works on the \<open>Tor\<close> it was given, so the model returns it
  updated.
\<close>

fun collect_secret_refs ::
  "'s lib \<Rightarrow> key_selector list \<Rightarrow> Tor \<Rightarrow> ('s, go_error option \<times> Tor) state" where
  "collect_secret_refs L [] tor = State_Monad.return (None, tor)"
| "collect_secret_refs L (secretRef # refs) tor = do {
     r \<leftarrow> op_get (l_secrets L) (tor_key tor (ks_name secretRef));
     (case r of
        Inl err \<Rightarrow> State_Monad.return (wrapped L ''failed to get secret %s'' err, tor)
      | Inr tmpSecret \<Rightarrow>
          collect_secret_refs L refs
            (add_control_secrets
              (map snd (filter (\<lambda>(k, v). k = ks_key secretRef) (l_range_data L (sec_data tmpSecret))))
              tor))
   }"

definition default_control_secret :: "'s lib \<Rightarrow> secret \<Rightarrow> Tor \<Rightarrow> Tor" where
  "default_control_secret L secret tor =
     (if length (Secret (Control (tor_spec tor))) = 0 \<and> length (SecretRef (Control (tor_spec tor))) = 0
      then add_control_secrets (map snd (l_range_data L (sec_data secret))) tor
      else tor)"

definition reconcileControlSecret :: "'s lib \<Rightarrow> Tor \<Rightarrow> ('s, go_error option \<times> Tor) state" where
  "reconcileControlSecret L tor =
     (let secretName = tor_SecretName tor in
      if secretName = [] then State_Monad.return (None, tor)
      else do {
        r \<leftarrow> op_get (l_secrets L) (tor_key tor secretName);
        password \<leftarrow> generateRandomPassword L;
        c \<leftarrow> ensure_created L (l_secrets L)
          (failing L ''failed to create secret %#v'' ''failed to get secret %s'' [] [])
          r (torSecret L password tor);
        (case c of
           Inl err \<Rightarrow> State_Monad.return (err, tor)
         | Inr secret \<Rightarrow> do {
             refs \<leftarrow> collect_secret_refs L (SecretRef (Control (tor_spec tor))) tor;
             (case refs of
                (Some err, tor1) \<Rightarrow> State_Monad.return (Some err, tor1)
              | (None, tor1) \<Rightarrow>
                  (let tor2 = default_control_secret L secret tor1 in
                   if \<not> l_controlled L (sec_meta secret) (tor_meta tor2)
                   then State_Monad.return (None, tor2)
                   else State_Monad.return (None, tor2)))
           })
      })"

section \<open>Deployment (tor_deployment.go)\<close>

definition getTorContainerPortList :: "Tor \<Rightarrow> container_port list" where
  "getTorContainerPortList tor =
     map (\<lambda>r. \<lparr>cp_name = pd_name r, cp_protocol = pd_protocol r, cp_port = Port (pd_port r)\<rparr>)
       (filter (\<lambda>r. Enable (pd_port r)) (GetAllPorts tor))"

definition mount :: "string \<Rightarrow> string \<Rightarrow> volume_mount" where
  "mount name path = \<lparr>vm_name = name, vm_path = path, vm_read_only = False\<rparr>"

definition custom_name :: "nat \<Rightarrow> string" where
  "custom_name i = ''custom-'' @ itoa (int i)"

definition custom_volume :: "nat \<times> key_selector \<Rightarrow> volume" where
  "custom_volume = (\<lambda>(i, configMapKeyRef).
     \<lparr>vol_name = custom_name i,
      vol_source = ConfigMapVolume (ks_name configMapKeyRef)
        [\<lparr>kp_key = ks_key configMapKeyRef, kp_path = custom_name i @ ''.conf''\<rparr>]\<rparr>)"

definition custom_mount :: "nat \<times> key_selector \<Rightarrow> volume_mount" where
  "custom_mount = (\<lambda>(i, configMapKeyRef). mount (custom_name i) (''/config/'' @ custom_name i))"

definition tor_volumes :: "Tor \<Rightarrow> volume list" where
  "tor_volumes tor =
     [\<lparr>vol_name = torConfigVolume, vol_source = ConfigMapVolume (tor_ConfigMapName tor)
        [\<lparr>kp_key = ''torfile'', kp_path = ''torfile''\<rparr>]\<rparr>,
      \<lparr>vol_name = torServiceVolume, vol_source = EmptyDir\<rparr>,
      \<lparr>vol_name = torDataVolume, vol_source = EmptyDir\<rparr>] @
     map custom_volume (List.enumerate 0 (ConfigMapKeyRef (tor_spec tor)))"

definition tor_mounts :: "Tor \<Rightarrow> volume_mount list" where
  "tor_mounts tor =
     [mount torConfigVolume ''/run/tor'', mount torServiceVolume ''/run/tor/service'',
      mount torDataVolume ''/var/lib/tor''] @
     map custom_mount (List.enumerate 0 (ConfigMapKeyRef (tor_spec tor)))"

definition tor_container :: "ProjectConfig \<Rightarrow> Tor \<Rightarrow> container" where
  "tor_container projectConfig tor =
     \<lparr>ct_name = ''tor'', ct_image = td_Image (TorDaemon projectConfig), ct_command = [],
      ct_args = [''-f'', ''/run/tor/torfile''] @ ExtraArgs (tor_spec tor),
      ct_pull_policy = ''Always'', ct_mounts = tor_mounts tor,
      ct_ports = getTorContainerPortList tor, ct_resources = tor_Resources tor, ct_other = []\<rparr>"

text \<open>
  The function writes the default number of replicas into the \<open>Tor\<close> it is given and, when the pod
  template has labels, the deployment's labels into that map, which the \<open>Tor\<close> shares with the
  template copied from it.  The model returns the \<open>Tor\<close> as it is afterwards with the deployment.
\<close>

definition torDeployment :: "'s lib \<Rightarrow> ProjectConfig \<Rightarrow> Tor \<Rightarrow> Tor \<times> deployment" where
  "torDeployment L projectConfig tor0 =
     (let tor1 = (if Replicas (tor_spec tor0) = 0
                  then tor0\<lparr>tor_spec := (tor_spec tor0)\<lparr>Replicas := 1\<rparr>\<rparr> else tor0);
          podTemplate = tor_PodTemplate tor1;
          lbls = Some (add_labels (om_labels (pt_meta podTemplate)) (tor_DeploymentLabels tor1));
          tmpl = Template (tor_spec tor1);
          tor2 = (if om_labels (pt_meta podTemplate) = None then tor1
                  else tor1\<lparr>tor_spec := (tor_spec tor1)\<lparr>Template :=
                         tmpl\<lparr>tpt_meta := (tpt_meta tmpl)\<lparr>om_labels := lbls\<rparr>\<rparr>\<rparr>\<rparr>);
          podTemplate' =
            \<lparr>pt_meta = (pt_meta podTemplate)\<lparr>om_labels := lbls\<rparr>,
             pt_spec = (pt_spec podTemplate)
               \<lparr>ps_service_account := tor_ServiceAccountName tor1,
                ps_volumes := ps_volumes (pt_spec podTemplate) @ tor_volumes tor1,
                ps_containers := ps_containers (pt_spec podTemplate) @
                  [tor_container projectConfig tor1]\<rparr>\<rparr>
      in (tor2,
          \<lparr>dep_meta = tor_owned L tor1 (tor_DeploymentName tor1) None,
           dep_spec =
             \<lparr>ds_match_labels = tor_DeploymentLabels tor1,
              ds_replicas = Some (Replicas (tor_spec tor1)),
              ds_template = podTemplate', ds_other = []\<rparr>,
           dep_status = []\<rparr>))"

definition tor_reconcileDeployment ::
  "'s lib \<Rightarrow> ProjectConfig \<Rightarrow> Tor \<Rightarrow> ('s, go_error option \<times> Tor) state" where
  "tor_reconcileDeployment L projectConfig tor =
     (let deploymentName = tor_DeploymentName tor in
      if deploymentName = [] then State_Monad.return (None, tor)
      else (case torDeployment L projectConfig tor of (tor', newDeployment) \<Rightarrow> do {
        err \<leftarrow> ensure_child L (l_deployments L) dep_meta deploymentEqual
          (failing L ''failed to create Deployment %s/%s'' ''failed to get Deployment %s/%s''
             ''failed to update Deployment %s/%s'' [])
          (tor_meta tor) (tor_key tor deploymentName) False newDeployment;
        State_Monad.return (err, tor')
      }))"

section \<open>The builders satisfy the contract\<close>

lemma torDeployment_meta [simp]:
  "dep_meta (snd (torDeployment L cfg tor)) = tor_owned L tor (tor_DeploymentName tor) None"
  by (simp add: torDeployment_def Let_def names)

interpretation tor_sa: owned_child sa_meta serviceAccountEqual tor_meta
  "\<lambda>tor. tor_key tor (tor_ServiceAccountName tor)" torServiceAccount
  by unfold_locales (simp_all add: built key_of_def equal_iffs)

interpretation tor_role: owned_child role_meta roleEqual tor_meta
  "\<lambda>tor. tor_key tor (tor_RoleName tor)" torRole
  by unfold_locales (simp_all add: built key_of_def equal_iffs)

interpretation tor_rb: owned_child rb_meta rolebindingEqual tor_meta
  "\<lambda>tor. tor_key tor (tor_RoleName tor)" torRolebinding
  by unfold_locales (simp_all add: built key_of_def equal_iffs)

interpretation tor_svc: owned_child svc_meta serviceEqual tor_meta
  "\<lambda>tor. tor_key tor (tor_ServiceName tor)" torService
  by unfold_locales (simp_all add: built key_of_def equal_iffs)

interpretation tor_msvc: owned_child svc_meta serviceEqual tor_meta
  "\<lambda>tor. tor_key tor (tor_ServiceMetricsName tor)" torMetricsService
  by unfold_locales (simp_all add: built key_of_def equal_iffs)

interpretation tor_sm: owned_child sm_meta monitorServiceEqual tor_meta
  "\<lambda>tor. tor_key tor (tor_ServiceMetricsName tor)" torServiceMonitor
  by unfold_locales (simp_all add: built key_of_def equal_iffs)

interpretation tor_cm: owned_child cm_meta "(=)" tor_meta
  "\<lambda>tor. tor_key tor (tor_ConfigMapName tor)" "\<lambda>L. config_map_with L contents" for contents
  by unfold_locales (simp_all add: built key_of_def equal_iffs)

interpretation tor_sec: owned_child sec_meta "(=)" tor_meta
  "\<lambda>tor. tor_key tor (tor_SecretName tor)" "\<lambda>L. torSecret L password" for password
  by unfold_locales (simp_all add: built key_of_def equal_iffs)

interpretation tor_dep: owned_child dep_meta deploymentEqual tor_meta
  "\<lambda>tor. tor_key tor (tor_DeploymentName tor)" "\<lambda>L tor. snd (torDeployment L cfg tor)" for cfg
  by unfold_locales (simp_all add: key_of_def equal_iffs)

section \<open>Only permitted operations\<close>

text \<open>Each reconciler keeps every predicate that the permitted operations keep.\<close>

lemma doHashPassword_keeps: "reads_keep P L \<Longrightarrow>
    holds_after P (doHashPassword (l_rand_read L) wrap input)"
  unfolding doHashPassword_def Let_def by (intro keeps) (simp_all add: reads_keepD)

lemma hash_secrets_keeps: "reads_keep P L \<Longrightarrow> holds_after P (hash_secrets L xs hs)"
  by (induction xs arbitrary: hs) (auto intro!: keeps doHashPassword_keeps)

lemma tor_ensure_keeps:
  assumes "children_permits P L (tor_meta tor)"
  shows "holds_after P (tor_reconcileServiceAccount L tor)" "holds_after P (tor_reconcileRole L tor)"
    "holds_after P (tor_reconcileRolebinding L tor)" "holds_after P (tor_reconcileService L tor)"
    "holds_after P (tor_reconcileMetricsService L tor)"
    "holds_after P (tor_reconcileServiceMonitor L tor)"
  unfolding tor_reconcileServiceAccount_def tor_reconcileRole_def tor_reconcileRolebinding_def
    tor_reconcileService_def tor_reconcileMetricsService_def tor_reconcileServiceMonitor_def Let_def
  by (intro keeps tor_sa.ensure_child_keeps tor_role.ensure_child_keeps tor_rb.ensure_child_keeps
      tor_svc.ensure_child_keeps tor_msvc.ensure_child_keeps tor_sm.ensure_monitor_keeps
      monitoringInstalled_keeps [OF assms] children_permitsD [OF assms])+

lemma torConfigMap_keeps: "reads_keep P L \<Longrightarrow> holds_after P (torConfigMap L tor)"
  unfolding torConfigMap_def torConfigFile_def getTorControlHashedPasswords_def
  by (intro keeps hash_secrets_keeps)

lemma torConfigMap_yields:
  "yields (\<lambda>cm. \<exists>contents. cm = config_map_with L contents tor) (torConfigMap L tor)"
  unfolding torConfigMap_def by (intro yields_bind) auto

lemma tor_configMap_keeps:
  assumes "children_permits P L (tor_meta tor)"
  shows "holds_after P (tor_reconcileConfigMap L tor)"
proof -
  note cm = children_permitsD(3) [OF assms]
  have "holds_after P (do {
      c \<leftarrow> ensure_created L (l_config_maps L) fails r (config_map_with L contents tor);
      (case c of Inl err \<Rightarrow> State_Monad.return err
       | Inr configmap \<Rightarrow>
           if \<not> l_controlled L (cm_meta configmap) (tor_meta tor) then State_Monad.return None
           else State_Monad.return None)})" for fails r contents
    by (intro keeps tor_cm.ensure_created_keeps [OF cm])
  note step = this
  show ?thesis
    unfolding tor_reconcileConfigMap_def Let_def
    by (rule holds_after_if, simp, rule holds_after_bind [OF permits_get [OF cm]],
        rule holds_after_bind_yields [OF torConfigMap_keeps [OF children_permits_reads [OF assms]] torConfigMap_yields],
        elim exE, hypsubst, rule step)
qed

lemma tor_deployment_keeps:
  assumes "children_permits P L (tor_meta tor)"
  shows "holds_after P (tor_reconcileDeployment L cfg tor)"
  using tor_dep.ensure_child_keeps [OF children_permitsD(7) [OF assms], where cfg = cfg]
  unfolding tor_reconcileDeployment_def Let_def
  by (auto split: prod.splits intro!: keeps)

lemma collect_secret_refs_keeps:
  "children_permits P L owner \<Longrightarrow> holds_after P (collect_secret_refs L refs tor)"
  by (induction refs arbitrary: tor)
    (auto intro!: keeps dest: permits_get [OF children_permitsD(2)])

lemma reconcileControlSecret_keeps:
  assumes "children_permits P L (tor_meta tor)"
  shows "holds_after P (reconcileControlSecret L tor)"
  unfolding reconcileControlSecret_def Let_def generateRandomPassword_def
  by (intro keeps permits_get [OF children_permitsD(2) [OF assms]] children_permitsD [OF assms]
      tor_sec.ensure_created_keeps collect_secret_refs_keeps [OF assms])

lemma add_control_secrets_meta [simp]:
  "tor_meta (add_control_secrets pws tor) = tor_meta tor"
  "tor_meta (default_control_secret L sec tor) = tor_meta tor"
  by (simp_all add: add_control_secrets_def default_control_secret_def)

lemma collect_secret_refs_meta:
  "yields (\<lambda>(err, tor'). tor_meta tor' = tor_meta tor) (collect_secret_refs L refs tor)"
proof (induction refs arbitrary: tor)
  case (Cons r rs)
  show ?case
    using Cons.IH [of "add_control_secrets pws tor" for pws]
    by (auto intro!: yields_bind split: sum.splits)
qed simp

lemma reconcileControlSecret_meta:
  "yields (\<lambda>(err, tor'). tor_meta tor' = tor_meta tor) (reconcileControlSecret L tor)"
proof -
  have "yields (\<lambda>(err, tor'). tor_meta tor' = tor_meta tor) (do {
      refs \<leftarrow> collect_secret_refs L (SecretRef (Control (tor_spec tor))) tor;
      (case refs of
         (Some err, tor1) \<Rightarrow> State_Monad.return (Some err, tor1)
       | (None, tor1) \<Rightarrow>
           (let tor2 = default_control_secret L secret tor1 in
            if \<not> l_controlled L (sec_meta secret) (tor_meta tor2)
            then State_Monad.return (None, tor2) else State_Monad.return (None, tor2)))})" for secret
    by (rule yields_bind_yields [OF collect_secret_refs_meta])
      (auto simp: Let_def split: option.splits)
  note step = this [unfolded Let_def]
  show ?thesis
    unfolding reconcileControlSecret_def Let_def
    by (rule yields_cases(4), simp, intro yields_bind, rule yields_cases(1), simp, rule step)
qed

lemma torDeployment_tor_meta [simp]: "tor_meta (fst (torDeployment L cfg tor)) = tor_meta tor"
  by (simp add: torDeployment_def Let_def)

lemma tor_reconcileDeployment_meta:
  "yields (\<lambda>(err, tor'). tor_meta tor' = tor_meta tor) (tor_reconcileDeployment L cfg tor)"
  unfolding tor_reconcileDeployment_def Let_def
  using torDeployment_tor_meta [of L cfg tor]
  by (intro yields_cases yields_bind) auto

end
