(* ===== verification/Sim_Cluster.thy ===== *)
theory Sim_Cluster
  imports Cluster_State Config_Types "HOL-Library.List_Lexorder" "HOL-Library.Char_ord"
begin

text \<open>
  One concrete instance of the libraries of \<open>Client_Lib\<close>: a cluster held in memory, with fixed
  answers for the generators.  It satisfies every law the development assumes, so the theorems
  that assume them are not vacuous; the witnesses run the reconcilers on it.  It models no code of
  the repository.
\<close>

section \<open>The cluster\<close>

type_synonym 'o store = "nsname \<Rightarrow> 'o option"

record cluster =
  c_services :: "service store"
  c_secrets :: "secret store"
  c_config_maps :: "config_map store"
  c_service_accounts :: "service_account store"
  c_roles :: "role store"
  c_role_bindings :: "role_binding store"
  c_deployments :: "deployment store"
  c_service_monitors :: "service_monitor store"
  c_onions :: "OnionService store"
  c_onion_names :: "string list"
  c_tors :: "Tor list"
  c_obs :: "OnionBalancedService list"

definition not_found :: go_error where "not_found = GoErr ''not found''"
definition already_exists :: go_error where "already_exists = GoErr ''already exists''"

definition sim_ops ::
  "('c \<Rightarrow> 'o store) \<Rightarrow> ('o store \<Rightarrow> 'c \<Rightarrow> 'c) \<Rightarrow> ('o \<Rightarrow> object_meta) \<Rightarrow> ('c, 'o) ops" where
  "sim_ops get put meta =
     \<lparr>op_get = (\<lambda>key. State (\<lambda>c. (case get c key of None \<Rightarrow> Inl not_found | Some x \<Rightarrow> Inr x, c))),
      op_create = (\<lambda>x. State (\<lambda>c.
        (case get c (key_of (meta x)) of
           None \<Rightarrow> (Inr x, put ((get c)(key_of (meta x) := Some x)) c)
         | Some y \<Rightarrow> (Inl already_exists, c)))),
      op_update = (\<lambda>x. State (\<lambda>c.
        (case get c (key_of (meta x)) of
           None \<Rightarrow> (Some not_found, c)
         | Some y \<Rightarrow> (None, put ((get c)(key_of (meta x) := Some x)) c)))),
      op_delete = (\<lambda>x. State (\<lambda>c.
        (case get c (key_of (meta x)) of
           None \<Rightarrow> (Some not_found, c)
         | Some y \<Rightarrow> (None, put ((get c)(key_of (meta x) := None)) c))))\<rparr>"

definition answer :: "'a \<Rightarrow> ('s, 'a) state" where
  "answer a = State_Monad.return a"

definition look_up :: "('c \<Rightarrow> 'o list) \<Rightarrow> ('o \<Rightarrow> object_meta) \<Rightarrow> nsname \<Rightarrow> ('c, go_error + 'o) state" where
  "look_up get meta key = State (\<lambda>c.
     (case find (\<lambda>x. key_of (meta x) = key) (get c) of None \<Rightarrow> Inl not_found | Some x \<Rightarrow> Inr x, c))"

text \<open>The names of the onion services are kept in the order of creation, for listing them.\<close>

definition sim_onions :: "(cluster, OnionService) ops" where
  "sim_onions = (sim_ops c_onions (\<lambda>m c. c\<lparr>c_onions := m\<rparr>) os_meta)
     \<lparr>op_create := (\<lambda>x. State (\<lambda>c.
        (case c_onions c (key_of (os_meta x)) of
           None \<Rightarrow> (Inr x, c\<lparr>c_onions := (c_onions c)(key_of (os_meta x) := Some x),
                            c_onion_names := c_onion_names c @ [os_name x]\<rparr>)
         | Some y \<Rightarrow> (Inl already_exists, c))))\<rparr>"

definition list_onions :: "string \<Rightarrow> cluster \<Rightarrow> OnionService list" where
  "list_onions ns c =
     List.map_filter (\<lambda>n. c_onions c \<lparr>nn_namespace = ns, nn_name = n\<rparr>) (c_onion_names c)"

definition set_onion_status :: "OnionService \<Rightarrow> OnionService store \<Rightarrow> OnionService store" where
  "set_onion_status os m = m(key_of (os_meta os) :=
     map_option (\<lambda>t. t\<lparr>os_status := os_status os\<rparr>) (m (key_of (os_meta os))))"

definition sim_lib :: "cluster lib" where
  "sim_lib =
     \<lparr>l_services = sim_ops c_services (\<lambda>m c. c\<lparr>c_services := m\<rparr>) svc_meta,
      l_secrets = sim_ops c_secrets (\<lambda>m c. c\<lparr>c_secrets := m\<rparr>) sec_meta,
      l_config_maps = sim_ops c_config_maps (\<lambda>m c. c\<lparr>c_config_maps := m\<rparr>) cm_meta,
      l_service_accounts = sim_ops c_service_accounts (\<lambda>m c. c\<lparr>c_service_accounts := m\<rparr>) sa_meta,
      l_roles = sim_ops c_roles (\<lambda>m c. c\<lparr>c_roles := m\<rparr>) role_meta,
      l_role_bindings = sim_ops c_role_bindings (\<lambda>m c. c\<lparr>c_role_bindings := m\<rparr>) rb_meta,
      l_deployments = sim_ops c_deployments (\<lambda>m c. c\<lparr>c_deployments := m\<rparr>) dep_meta,
      l_service_monitors = sim_ops c_service_monitors (\<lambda>m c. c\<lparr>c_service_monitors := m\<rparr>) sm_meta,
      l_onions = sim_onions,
      l_get_crd = (\<lambda>key. answer (Inr [])),
      l_get_tor = look_up c_tors tor_meta,
      l_get_ob = look_up c_obs ob_meta,
      l_list_onions = (\<lambda>ns. State (\<lambda>c. (Inr (list_onions ns c), c))),
      l_status_tor = (\<lambda>tor. State (\<lambda>c. (None, c\<lparr>c_tors :=
         map (\<lambda>t. if key_of (tor_meta t) = key_of (tor_meta tor)
                  then t\<lparr>tor_status := tor_status tor\<rparr> else t) (c_tors c)\<rparr>))),
      l_status_os = (\<lambda>os. State (\<lambda>c. (None, c\<lparr>c_onions := set_onion_status os (c_onions c)\<rparr>))),
      l_status_ob = (\<lambda>ob. State (\<lambda>c. (None, c\<lparr>c_obs :=
         map (\<lambda>t. if key_of (ob_meta t) = key_of (ob_meta ob)
                  then t\<lparr>ob_status := ob_status ob\<rparr> else t) (c_obs c)\<rparr>))),
      l_create_nil_secret = answer (Some (Panic ''nil object'')),
      l_is_not_found = (\<lambda>e. e = not_found),
      l_ignore_not_found = (\<lambda>e. if e = not_found then None else Some e),
      l_wrap = (\<lambda>e m. map_option (\<lambda>e'. GoErr m) e),
      l_controlled = (\<lambda>m owner. list_ex (\<lambda>r. or_controller r \<and> or_uid r = om_uid owner) (om_owner_refs m)),
      l_controller_ref = (\<lambda>owner g. \<lparr>or_gvk = g, or_name = om_name owner, or_uid = om_uid owner,
         or_controller = True\<rparr>),
      l_gen_key = answer (Inr (''public'', ''private'')),
      l_onion_id = (\<lambda>pk. ''onion''),
      l_rand_read = (\<lambda>n. answer (Inr (replicate n (CHR ''s'')))),
      l_password = (\<lambda>c. answer ''password''),
      l_range_data = sorted_list_of_fmap\<rparr>"

lemma sim_fields:
  "l_is_not_found sim_lib e \<longleftrightarrow> e = not_found"
  "l_ignore_not_found sim_lib e = (if e = not_found then None else Some e)"
  "l_wrap sim_lib err msg = map_option (\<lambda>e'. GoErr msg) err"
  "l_controlled sim_lib m owner \<longleftrightarrow>
     list_ex (\<lambda>r. or_controller r \<and> or_uid r = om_uid owner) (om_owner_refs m)"
  "l_controller_ref sim_lib owner g =
     \<lparr>or_gvk = g, or_name = om_name owner, or_uid = om_uid owner, or_controller = True\<rparr>"
  "l_password sim_lib c = answer ''password''" "l_onion_id sim_lib pk = ''onion''"
  "l_gen_key sim_lib = answer (Inr (''public'', ''private''))"
  "l_rand_read sim_lib n = answer (Inr (replicate n (CHR ''s'')))"
  "l_range_data sim_lib = sorted_list_of_fmap"
  "l_get_tor sim_lib = look_up c_tors tor_meta" "l_get_ob sim_lib = look_up c_obs ob_meta"
  "l_list_onions sim_lib ns = State (\<lambda>c. (Inr (list_onions ns c), c))"
  "l_onions sim_lib = sim_onions"
  "l_get_crd sim_lib k = answer (Inr [])"
  by (simp_all add: sim_lib_def)

section \<open>The laws hold\<close>

lemma sim_wrap: "wrap_law sim_lib"
  by (simp add: wrap_law_def sim_lib_def)

lemma sim_ignore: "ignore_law sim_lib"
  by (simp add: ignore_law_def sim_lib_def)

lemma sim_ownership: "ownership_law sim_lib"
  by (simp add: ownership_law_def sim_lib_def)

lemma sim_range: "range_law sim_lib"
proof -
  have "distinct (map fst (sorted_list_of_fmap m))" for m :: "(string, bytes) fmap"
    by (simp add: sorted_list_of_fmap_def o_def sorted_list_of_fset.rep_eq)
  then show ?thesis by (simp add: range_law_def sim_lib_def)
qed

lemma sim_crd: "crd_law sim_lib True"
  by (simp add: crd_law_def yields_def monitoringInstalled_def sim_fields answer_def)

section \<open>What another owner controls stays\<close>

abbreviation sim_controlled :: "object_meta \<Rightarrow> object_meta \<Rightarrow> bool" where
  "sim_controlled \<equiv> l_controlled sim_lib"

text \<open>
  Every object is stored under its key, and the objects of the old store that \<open>owner\<close> does not
  control are in the new store, unchanged.
\<close>

definition keyed :: "('o \<Rightarrow> object_meta) \<Rightarrow> 'o store \<Rightarrow> bool" where
  "keyed meta m \<longleftrightarrow> (\<forall>key x. m key = Some x \<longrightarrow> key_of (meta x) = key)"

definition store_kept :: "('o \<Rightarrow> object_meta) \<Rightarrow> object_meta \<Rightarrow> 'o store \<Rightarrow> 'o store \<Rightarrow> bool" where
  "store_kept meta owner old new \<longleftrightarrow> keyed meta new \<and>
     (\<forall>key x. old key = Some x \<longrightarrow> \<not> sim_controlled (meta x) owner \<longrightarrow> new key = Some x)"

definition onion_metas :: "cluster \<Rightarrow> object_meta store" where
  "onion_metas c = (\<lambda>key. map_option os_meta (c_onions c key))"

definition others_kept :: "object_meta \<Rightarrow> cluster \<Rightarrow> cluster \<Rightarrow> bool" where
  "others_kept owner old new \<longleftrightarrow>
     store_kept svc_meta owner (c_services old) (c_services new) \<and>
     store_kept sec_meta owner (c_secrets old) (c_secrets new) \<and>
     store_kept cm_meta owner (c_config_maps old) (c_config_maps new) \<and>
     store_kept sa_meta owner (c_service_accounts old) (c_service_accounts new) \<and>
     store_kept role_meta owner (c_roles old) (c_roles new) \<and>
     store_kept rb_meta owner (c_role_bindings old) (c_role_bindings new) \<and>
     store_kept dep_meta owner (c_deployments old) (c_deployments new) \<and>
     store_kept sm_meta owner (c_service_monitors old) (c_service_monitors new) \<and>
     store_kept id owner (onion_metas old) (onion_metas new) \<and>
     map tor_meta (c_tors new) = map tor_meta (c_tors old) \<and>
     map ob_meta (c_obs new) = map ob_meta (c_obs old)"

lemma store_kept_create:
  "store_kept meta owner old new \<Longrightarrow> new (key_of (meta x)) = None \<Longrightarrow>
   store_kept meta owner old (new(key_of (meta x) := Some x))"
  by (auto simp: store_kept_def keyed_def)

lemma store_kept_update:
  "store_kept meta owner old new \<Longrightarrow> new (key_of (meta x)) = Some y \<Longrightarrow>
   sim_controlled (meta y) owner \<Longrightarrow> store_kept meta owner old (new(key_of (meta x) := Some x))"
  by (auto simp: store_kept_def keyed_def)

lemma store_kept_delete:
  "store_kept meta owner old new \<Longrightarrow> new key = Some y \<Longrightarrow> sim_controlled (meta y) owner \<Longrightarrow>
   store_kept meta owner old (new(key := None))"
  unfolding store_kept_def keyed_def by (metis fun_upd_apply option.distinct(1) option.inject)

lemma store_kept_keyed: "store_kept meta owner old new \<Longrightarrow> new key = Some x \<Longrightarrow> key_of (meta x) = key"
  by (simp add: store_kept_def keyed_def)

lemma sim_permits:
  assumes get: "\<And>c. P c \<Longrightarrow> store_kept meta owner (get old) (get c)"
    and put: "\<And>c m. P c \<Longrightarrow> store_kept meta owner (get old) m \<Longrightarrow> P (put m c)"
  shows "permits P sim_lib (sim_ops get put meta) meta owner"
  unfolding permits_def
proof (intro conjI allI impI)
  fix key show "holds_after P (op_get (sim_ops get put meta) key)"
    by (auto simp: holds_after_def sim_ops_def split: option.splits)
next
  fix new show "holds_after P (op_create (sim_ops get put meta) new)"
    using store_kept_create [OF get] by (auto simp: holds_after_def sim_ops_def intro!: put split: option.splits)
next
  fix s key old s' new
  assume "P s" "run_state (op_get (sim_ops get put meta) key) s = (Inr old, s')"
    "sim_controlled (meta old) owner" "key_of (meta new) = key"
  then show "P (snd (run_state (op_update (sim_ops get put meta) new) s'))"
    using store_kept_update [OF get] by (auto simp: sim_ops_def intro!: put split: option.splits)
next
  fix s key old s'
  assume "P s" "run_state (op_get (sim_ops get put meta) key) s = (Inr old, s')"
    "sim_controlled (meta old) owner"
  then show "P (snd (run_state (op_delete (sim_ops get put meta) old) s'))"
    using store_kept_delete [OF get] store_kept_keyed [OF get]
    by (auto simp: sim_ops_def intro!: put split: option.splits)
qed

lemma onion_metas_put [simp]:
  "onion_metas (c\<lparr>c_onions := (c_onions c)(k := v)\<rparr>) = (onion_metas c)(k := map_option os_meta v)"
  "onion_metas (c\<lparr>c_onions := m, c_onion_names := ns\<rparr>) = onion_metas (c\<lparr>c_onions := m\<rparr>)"
  by (auto simp: onion_metas_def)

lemma onion_metas_status [simp]:
  "onion_metas (c\<lparr>c_onions := set_onion_status os (c_onions c)\<rparr>) = onion_metas c"
  by (auto simp: onion_metas_def set_onion_status_def option.map_comp o_def)

lemma onion_metas_other [simp]:
  "onion_metas (c\<lparr>c_services := m1\<rparr>) = onion_metas c"
  "onion_metas (c\<lparr>c_secrets := m2\<rparr>) = onion_metas c"
  "onion_metas (c\<lparr>c_config_maps := m3\<rparr>) = onion_metas c"
  "onion_metas (c\<lparr>c_service_accounts := m4\<rparr>) = onion_metas c"
  "onion_metas (c\<lparr>c_roles := m5\<rparr>) = onion_metas c"
  "onion_metas (c\<lparr>c_role_bindings := m6\<rparr>) = onion_metas c"
  "onion_metas (c\<lparr>c_deployments := m7\<rparr>) = onion_metas c"
  "onion_metas (c\<lparr>c_service_monitors := m8\<rparr>) = onion_metas c"
  "onion_metas (c\<lparr>c_tors := ts\<rparr>) = onion_metas c"
  "onion_metas (c\<lparr>c_obs := bs\<rparr>) = onion_metas c"
  by (auto simp: onion_metas_def)

lemma sim_onions_permits: "permits (others_kept owner old) sim_lib (l_onions sim_lib) os_meta owner"
proof -
  let ?P = "others_kept owner old"
  have on: "l_onions sim_lib = sim_onions" by (simp add: sim_lib_def)
  have putting: "?P (c\<lparr>c_onions := (c_onions c)(k := v)\<rparr>)"
    if "?P c" "store_kept id owner (onion_metas old) ((onion_metas c)(k := map_option os_meta v))"
    for c k v
    using that unfolding others_kept_def by simp
  have kept: "store_kept id owner (onion_metas old) (onion_metas c)" if "?P c" for c
    using that by (simp add: others_kept_def)
  show ?thesis
    unfolding permits_def on
  proof (intro conjI allI impI)
    fix key show "holds_after ?P (op_get sim_onions key)"
      by (auto simp: holds_after_def sim_onions_def sim_ops_def split: option.splits)
  next
    fix new
    have "?P (c\<lparr>c_onions := (c_onions c)(key_of (os_meta new) := Some new), c_onion_names := ns\<rparr>)"
      if "?P c" "c_onions c (key_of (os_meta new)) = None" for c ns
    proof -
      have "onion_metas c (key_of (id (os_meta new))) = None"
        using that(2) by (simp add: onion_metas_def)
      from store_kept_create [where meta = id, OF kept [OF that(1)] this] that(1) show ?thesis
        by (simp add: others_kept_def)
    qed
    then show "holds_after ?P (op_create sim_onions new)"
      by (auto simp: holds_after_def sim_onions_def split: option.splits)
  next
    fix s key x s' and new :: OnionService
    assume "?P s" "run_state (op_get sim_onions key) s = (Inr x, s')"
      "sim_controlled (os_meta x) owner" "key_of (os_meta new) = key"
    then have P: "?P s" "s' = s" and x: "onion_metas s (key_of (id (os_meta new))) = Some (os_meta x)"
      "sim_controlled (id (os_meta x)) owner"
      by (auto simp: sim_onions_def sim_ops_def onion_metas_def split: option.splits)
    from store_kept_update [where meta = id, OF kept [OF P(1)] x] P
    show "?P (snd (run_state (op_update sim_onions new) s'))"
      by (auto simp: sim_onions_def sim_ops_def intro!: putting split: option.splits)
  next
    fix s key x s'
    assume "?P s" "run_state (op_get sim_onions key) s = (Inr x, s')"
      "sim_controlled (os_meta x) owner"
    then have P: "?P s" "s' = s" and x: "onion_metas s key = Some (os_meta x)"
      "sim_controlled (id (os_meta x)) owner"
      by (auto simp: sim_onions_def sim_ops_def onion_metas_def split: option.splits)
    have "key_of (os_meta x) = key"
      using store_kept_keyed [where meta = id, OF kept [OF P(1)] x(1)] by simp
    with store_kept_delete [where meta = id, OF kept [OF P(1)] x] P
    show "?P (snd (run_state (op_delete sim_onions x) s'))"
      by (auto simp: sim_onions_def sim_ops_def intro!: putting split: option.splits)
  qed
qed

lemma sim_ops_of:
  "l_services sim_lib = sim_ops c_services (\<lambda>m c. c\<lparr>c_services := m\<rparr>) svc_meta"
  "l_secrets sim_lib = sim_ops c_secrets (\<lambda>m c. c\<lparr>c_secrets := m\<rparr>) sec_meta"
  "l_config_maps sim_lib = sim_ops c_config_maps (\<lambda>m c. c\<lparr>c_config_maps := m\<rparr>) cm_meta"
  "l_service_accounts sim_lib =
     sim_ops c_service_accounts (\<lambda>m c. c\<lparr>c_service_accounts := m\<rparr>) sa_meta"
  "l_roles sim_lib = sim_ops c_roles (\<lambda>m c. c\<lparr>c_roles := m\<rparr>) role_meta"
  "l_role_bindings sim_lib = sim_ops c_role_bindings (\<lambda>m c. c\<lparr>c_role_bindings := m\<rparr>) rb_meta"
  "l_deployments sim_lib = sim_ops c_deployments (\<lambda>m c. c\<lparr>c_deployments := m\<rparr>) dep_meta"
  "l_service_monitors sim_lib =
     sim_ops c_service_monitors (\<lambda>m c. c\<lparr>c_service_monitors := m\<rparr>) sm_meta"
  by (simp_all add: sim_lib_def)

lemma sim_children_permits:
  "children_permits (others_kept owner old) sim_lib owner"
proof -
  let ?P = "others_kept owner old"
  have "permits ?P sim_lib (l_services sim_lib) svc_meta owner"
    "permits ?P sim_lib (l_secrets sim_lib) sec_meta owner"
    "permits ?P sim_lib (l_config_maps sim_lib) cm_meta owner"
    "permits ?P sim_lib (l_service_accounts sim_lib) sa_meta owner"
    "permits ?P sim_lib (l_roles sim_lib) role_meta owner"
    "permits ?P sim_lib (l_role_bindings sim_lib) rb_meta owner"
    "permits ?P sim_lib (l_deployments sim_lib) dep_meta owner"
    "permits ?P sim_lib (l_service_monitors sim_lib) sm_meta owner"
    unfolding sim_ops_of by ((rule sim_permits [where old = old]; simp add: others_kept_def)+)
  moreover have "permits ?P sim_lib (l_onions sim_lib) os_meta owner"
    by (rule sim_onions_permits)
  moreover have "reads_keep ?P sim_lib"
    by (simp add: reads_keep_def sim_lib_def look_up_def holds_after_def answer_def)
  ultimately show ?thesis by (simp add: children_permits_def)
qed

lemma tor_metas_status:
  "map (tor_meta \<circ> (\<lambda>t. if key_of (tor_meta t) = k then t\<lparr>tor_status := st\<rparr> else t)) ts = map tor_meta ts"
  by simp

lemma ob_metas_status:
  "map (ob_meta \<circ> (\<lambda>t. if key_of (ob_meta t) = k then t\<lparr>ob_status := st'\<rparr> else t)) bs = map ob_meta bs"
  by simp

lemma sim_status_keep:
  "holds_after (others_kept owner old) (l_status_tor sim_lib t)"
  "holds_after (others_kept owner old) (l_status_os sim_lib u)"
  "holds_after (others_kept owner old) (l_status_ob sim_lib v)"
  by (simp_all add: holds_after_def sim_lib_def others_kept_def tor_metas_status ob_metas_status)

lemma sim_served:
  assumes "\<And>m c. get (put m c) = m"
  shows "served sim_lib (sim_ops get put meta) meta get (=)"
  unfolding served_def sim_ops_def using assms by (auto simp: sim_lib_def not_found_def split: option.splits)

definition stores_of :: "cluster \<Rightarrow> stores" where
  "stores_of c = \<lparr>st_services = c_services c, st_secrets = c_secrets c, st_config_maps = c_config_maps c,
     st_service_accounts = c_service_accounts c, st_roles = c_roles c,
     st_role_bindings = c_role_bindings c, st_deployments = c_deployments c,
     st_service_monitors = c_service_monitors c, st_onions = c_onions c\<rparr>"

text \<open>The simulated cluster stores what it is sent.\<close>

lemma sim_stored_by:
  assumes "\<And>c. get' (stores_of c) = get c" "\<And>m c. stores_of (put m c) = put' m (stores_of c)"
    "\<And>r. put' (get' r) r = r"
  shows "stored_by sim_lib (sim_ops get put meta) meta get' put' (=) stores_of"
proof -
  have same: "put' ((get c)(k := get c k)) (stores_of c) = stores_of c" for c k
    using assms(1,3) by (metis fun_upd_triv)
  then have "\<exists>v. stores_of c = put' ((get c)(k := v)) (stores_of c)" for c k by metis
  then show ?thesis
    unfolding stored_by_def sim_ops_def
    by (auto simp: assms(1,2) sim_lib_def not_found_def split: option.splits)
qed

lemma sim_onions_stored_by: "stored_by sim_lib sim_onions os_meta st_onions put_onions (=) stores_of"
proof -
  have "\<exists>v. stores_of c = stores_of c\<lparr>st_onions := (c_onions c)(k := v)\<rparr>" for c k
    by (intro exI [of _ "c_onions c k"]) (simp add: stores_of_def)
  then show ?thesis
    unfolding stored_by_def sim_onions_def sim_ops_def
    by (auto simp: stores_of_def sim_lib_def not_found_def split: option.splits)
qed

lemma sim_cluster_law: "cluster_law sim_lib exactly stores_of"
  unfolding cluster_law_def sim_ops_of
proof (intro conjI allI)
  show "stored_by sim_lib (l_onions sim_lib) os_meta st_onions put_onions (ag_onions exactly) stores_of"
    using sim_onions_stored_by by (simp add: sim_fields)
  show "reads_keep (\<lambda>s. stores_of s = S) sim_lib" for S
    by (simp add: reads_keep_def sim_lib_def look_up_def holds_after_def answer_def)
qed (simp only: exactly_simps, rule sim_stored_by; simp add: stores_of_def)+

lemma sim_idle_updates:
  assumes "\<And>c. stores_of (put (get' c) c) = stores_of c" "\<And>c. get (stores_of c) = get' c"
  shows "idle_updates (sim_ops get' put meta) meta get (=) stores_of"
  unfolding idle_updates_def sim_ops_def
  by (auto simp: assms fun_upd_idem split: option.splits)

lemma sim_idle_law: "idle_law sim_lib exactly stores_of"
  unfolding idle_law_def sim_ops_of exactly_simps
  by (intro conjI; rule sim_idle_updates) (simp_all add: stores_of_def)

definition empty_cluster :: cluster where
  "empty_cluster = \<lparr>c_services = (\<lambda>k. None), c_secrets = (\<lambda>k. None), c_config_maps = (\<lambda>k. None),
     c_service_accounts = (\<lambda>k. None), c_roles = (\<lambda>k. None), c_role_bindings = (\<lambda>k. None),
     c_deployments = (\<lambda>k. None), c_service_monitors = (\<lambda>k. None), c_onions = (\<lambda>k. None),
     c_onion_names = [], c_tors = [], c_obs = []\<rparr>"

lemma others_kept_same:
  "others_kept owner c c \<longleftrightarrow> keyed svc_meta (c_services c) \<and> keyed sec_meta (c_secrets c) \<and>
     keyed cm_meta (c_config_maps c) \<and> keyed sa_meta (c_service_accounts c) \<and>
     keyed role_meta (c_roles c) \<and> keyed rb_meta (c_role_bindings c) \<and>
     keyed dep_meta (c_deployments c) \<and> keyed sm_meta (c_service_monitors c) \<and>
     keyed id (onion_metas c)"
  by (auto simp: others_kept_def store_kept_def)

lemma keyed_empty [simp]: "keyed meta (\<lambda>k. None)"
  by (simp add: keyed_def)

text \<open>The custom resource a reconciler reads is one of those the cluster started with.\<close>

lemma look_up_mem: "run_state (look_up get meta key) s = (Inr x, s') \<Longrightarrow> x \<in> set (get s)"
  by (auto simp: look_up_def find_Some_iff split: option.splits)

lemma sim_get_tor_meta:
  assumes "others_kept owner old s" "run_state (l_get_tor sim_lib key) s = (Inr tor, s')"
  shows "tor_meta tor \<in> tor_meta ` set (c_tors old)"
proof -
  have "tor \<in> set (c_tors s)" using assms(2) look_up_mem by (force simp: sim_lib_def)
  then have "tor_meta tor \<in> set (map tor_meta (c_tors s))" by simp
  also have "map tor_meta (c_tors s) = map tor_meta (c_tors old)"
    using assms(1) by (simp add: others_kept_def)
  finally show ?thesis by simp
qed

lemma sim_get_ob_meta:
  assumes "others_kept owner old s" "run_state (l_get_ob sim_lib key) s = (Inr ob, s')"
  shows "ob_meta ob \<in> ob_meta ` set (c_obs old)"
proof -
  have "ob \<in> set (c_obs s)" using assms(2) look_up_mem by (force simp: sim_lib_def)
  then have "ob_meta ob \<in> set (map ob_meta (c_obs s))" by simp
  also have "map ob_meta (c_obs s) = map ob_meta (c_obs old)"
    using assms(1) by (simp add: others_kept_def)
  finally show ?thesis by simp
qed

definition sample_project :: ProjectConfig where
  "sample_project = \<lparr>TorDaemon = \<lparr>td_Image = ''tor''\<rparr>, TorDaemonManager = \<lparr>tdm_Image = ''manager''\<rparr>,
     TorOnionbalanceManager = \<lparr>tom_Image = ''balancer''\<rparr>, pc_Namespace = []\<rparr>"

end
