(* ===== verification/Tor_Reconcile.thy ===== *)
theory Tor_Reconcile
  imports Tor_Children Sim_Cluster
begin

text \<open>
  \<open>controllers/tor/tor_controller.go\<close>: one reconciliation of a \<open>Tor\<close> instance, and what its
  objects promise: the deployment, the services and the pods fit together, the control port has
  the passwords it should have, a reconciliation stops at the first error, and it touches no
  object another owner controls.
\<close>

section \<open>Reconcile\<close>

text \<open>
  The steps after the defaults, in the code's order; the secret and the deployment step hand on
  the \<open>Tor\<close> they changed.
\<close>

definition tor_status_step ::
  "'s lib \<Rightarrow> string \<Rightarrow> Tor \<Rightarrow> ('s, ctrl_result \<times> go_error option) state" where
  "tor_status_step L namespace tor =
     (let torCopy = tor; instanceName = tor_InstanceName tor in do {
        r \<leftarrow> op_get (l_services L) \<lparr>nn_namespace = namespace, nn_name = instanceName\<rparr>;
        (case r of
           Inl err \<Rightarrow>
             State_Monad.return (zero_result, wrapped L ''unable to get service'' err)
         | Inr service \<Rightarrow> do {
             u \<leftarrow> l_status_tor L
               (torCopy\<lparr>tor_status := (tor_status torCopy)\<lparr>ts_config := ''updateme''\<rparr>\<rparr>);
             (case u of
                Some err \<Rightarrow>
                  State_Monad.return (zero_result, wrapped L ''unable to update Tor status'' err)
              | None \<Rightarrow> State_Monad.return (zero_result, None))
           })
      })"

definition tor_steps_after_deployment ::
  "'s lib \<Rightarrow> string \<Rightarrow> Tor \<Rightarrow> ('s, ctrl_result \<times> go_error option) state" where
  "tor_steps_after_deployment L namespace tor =
     and_then (tor_reconcileMetricsService L tor)
     (and_then (tor_reconcileServiceMonitor L tor)
       (tor_status_step L namespace tor))"

definition tor_steps_after_secret ::
  "'s lib \<Rightarrow> ProjectConfig \<Rightarrow> string \<Rightarrow> Tor \<Rightarrow> ('s, ctrl_result \<times> go_error option) state" where
  "tor_steps_after_secret L cfg namespace tor =
     and_then (tor_reconcileConfigMap L tor) (do {
       r \<leftarrow> tor_reconcileDeployment L cfg tor;
       (case r of
          (Some err, tor') \<Rightarrow> State_Monad.return (zero_result, Some err)
        | (None, tor') \<Rightarrow> tor_steps_after_deployment L namespace tor')
     })"

definition tor_steps ::
  "'s lib \<Rightarrow> ProjectConfig \<Rightarrow> string \<Rightarrow> Tor \<Rightarrow> ('s, ctrl_result \<times> go_error option) state" where
  "tor_steps L cfg namespace tor =
     and_then (tor_reconcileServiceAccount L tor)
     (and_then (tor_reconcileRole L tor)
     (and_then (tor_reconcileRolebinding L tor)
     (and_then (tor_reconcileService L tor) (do {
        r \<leftarrow> reconcileControlSecret L tor;
        (case r of
           (Some err, tor') \<Rightarrow> State_Monad.return (zero_result, Some err)
         | (None, tor') \<Rightarrow> tor_steps_after_secret L cfg namespace tor')
      }))))"

definition tor_Reconcile ::
  "'s lib \<Rightarrow> ProjectConfig \<Rightarrow> nsname \<Rightarrow> ('s, ctrl_result \<times> go_error option) state" where
  "tor_Reconcile L cfg req = do {
     r \<leftarrow> l_get_tor L req;
     (case r of
        Inl err \<Rightarrow>
          State_Monad.return (zero_result, l_wrap L (l_ignore_not_found L err) ''unable to fetch Tor'')
      | Inr tor \<Rightarrow>
          (let namespace = tor_namespace tor; tor1 = SetTorDefaults tor in
           tor_steps L cfg namespace tor1))
   }"

section \<open>Nothing else is touched\<close>

lemma tor_status_step_keeps:
  assumes "children_permits P L owner" "\<And>t. tor_meta t = owner \<Longrightarrow> holds_after P (l_status_tor L t)"
    "tor_meta tor = owner"
  shows "holds_after P (tor_status_step L namespace tor)"
  unfolding tor_status_step_def Let_def
  by (intro keeps permits_get [OF children_permitsD(1) [OF assms(1)]] assms(2)) (simp add: assms(3))

lemma tor_steps_keeps:
  assumes ch: "children_permits P L owner"
    and st: "\<And>t. tor_meta t = owner \<Longrightarrow> holds_after P (l_status_tor L t)"
    and meta: "tor_meta tor = owner"
  shows "holds_after P (tor_steps L cfg namespace tor)"
proof -
  have after_dep: "holds_after P (tor_steps_after_deployment L namespace t)" if "tor_meta t = owner" for t
    unfolding tor_steps_after_deployment_def using ch that
    by (intro keeps tor_ensure_keeps tor_status_step_keeps [OF ch st]) simp_all
  have after_sec: "holds_after P (tor_steps_after_secret L cfg namespace t)" if t: "tor_meta t = owner" for t
    unfolding tor_steps_after_secret_def using ch t after_dep
    by (intro and_then_keeps tor_configMap_keeps
        holds_after_bind_yields [OF tor_deployment_keeps tor_reconcileDeployment_meta])
      (auto intro!: keeps split: option.splits)
  show ?thesis
    unfolding tor_steps_def using ch meta after_sec
    by (intro and_then_keeps tor_ensure_keeps
        holds_after_bind_yields [OF reconcileControlSecret_keeps reconcileControlSecret_meta])
      (auto intro!: keeps split: option.splits)
qed

text \<open>
  C1: a reconciliation of a \<open>Tor\<close> performs only permitted operations.  Every predicate on the
  world that is kept by reading, by creating objects made for this \<open>Tor\<close> (in its namespace, with
  it as the only owner), by updating or deleting objects just read and found under its control,
  and by updating its own status, is kept by \<open>Reconcile\<close>, however it ends.
\<close>

theorem tor_Reconcile_permitted:
  assumes "holds_after P (l_get_tor L req)"
    and "\<And>s tor s'. P s \<Longrightarrow> run_state (l_get_tor L req) s = (Inr tor, s') \<Longrightarrow>
      children_permits P L (tor_meta tor) \<and>
      (\<forall>t. tor_meta t = tor_meta tor \<longrightarrow> holds_after P (l_status_tor L t))"
    and "P s" "run_state (tor_Reconcile L cfg req) s = (res, s')"
  shows "P s'"
proof (cases "run_state (l_get_tor L req) s")
  case (Pair r t)
  with assms(1,3) have "P t" by (blast intro: holds_afterD)
  show ?thesis
  proof (cases r)
    case (Inl e)
    with Pair assms(4) \<open>P t\<close> show ?thesis by (simp add: tor_Reconcile_def)
  next
    case (Inr tor)
    have "holds_after P (tor_steps L cfg (tor_namespace tor) (SetTorDefaults tor))"
      using assms(2) [OF \<open>P s\<close>] Pair Inr by (intro tor_steps_keeps [where owner = "tor_meta tor"]) auto
    moreover have "run_state (tor_steps L cfg (tor_namespace tor) (SetTorDefaults tor)) t = (res, s')"
      using Pair Inr assms(4) by (simp add: tor_Reconcile_def Let_def)
    ultimately show ?thesis using \<open>P t\<close> by (blast intro: holds_afterD)
  qed
qed

definition sample_tor :: Tor where
  "sample_tor = (zero_tor ''example'' ''default'')
     \<lparr>tor_meta := zero_meta\<lparr>om_name := ''example'', om_namespace := ''default'', om_uid := ''u1''\<rparr>\<rparr>"

definition foreign_service :: service where
  "foreign_service =
     \<lparr>svc_meta = zero_meta\<lparr>om_name := ''example-tor-svc'', om_namespace := ''default''\<rparr>,
      svc_spec = \<lparr>ss_selector = fmempty, ss_ports = [], ss_cluster_ip = ''10.0.0.1'', ss_other = []\<rparr>,
      svc_status = []\<rparr>"

definition sample_req :: nsname where
  "sample_req = \<lparr>nn_namespace = ''default'', nn_name = ''example''\<rparr>"

definition sample_cluster :: cluster where
  "sample_cluster = empty_cluster
     \<lparr>c_services := [key_of (svc_meta foreign_service) \<mapsto> foreign_service], c_tors := [sample_tor]\<rparr>"

lemma sample_kept: "others_kept owner sample_cluster sample_cluster"
  unfolding others_kept_same by (simp add: sample_cluster_def empty_cluster_def keyed_def onion_metas_def)

theorem tor_Reconcile_permitted_witness:
  "c_services (snd (run_state (tor_Reconcile sim_lib sample_project sample_req) sample_cluster))
     (key_of (svc_meta foreign_service)) = Some foreign_service"
proof -
  let ?P = "others_kept (tor_meta sample_tor) sample_cluster"
  obtain res s' where run:
    "run_state (tor_Reconcile sim_lib sample_project sample_req) sample_cluster = (res, s')"
    by (cases "run_state (tor_Reconcile sim_lib sample_project sample_req) sample_cluster")
  have "?P s'"
  proof (rule tor_Reconcile_permitted [where P = ?P, OF _ _ sample_kept run])
    show "holds_after ?P (l_get_tor sim_lib sample_req)"
      by (rule children_permitsD(11) [OF sim_children_permits])
  next
    fix s tor t
    assume "?P s" "run_state (l_get_tor sim_lib sample_req) s = (Inr tor, t)"
    from sim_get_tor_meta [OF this] have "tor_meta tor = tor_meta sample_tor"
      by (simp add: sample_cluster_def)
    then show "children_permits ?P sim_lib (tor_meta tor) \<and>
        (\<forall>u. tor_meta u = tor_meta tor \<longrightarrow> holds_after ?P (l_status_tor sim_lib u))"
      using sim_children_permits sim_status_keep(1) by metis
  qed
  moreover have "c_services sample_cluster (key_of (svc_meta foreign_service)) = Some foreign_service"
    "\<not> sim_controlled (svc_meta foreign_service) (tor_meta sample_tor)"
    by (simp_all add: sample_cluster_def foreign_service_def zero_meta_def sim_lib_def)
  ultimately show ?thesis by (auto simp: run others_kept_def store_kept_def)
qed

section \<open>The outcome of a step\<close>

text \<open>
  When the deployment step reports no error, the stored deployment is the desired one (as the
  server keeps it), unless another owner controls the object of that name, which is then left as
  it was; no other deployment changes.
\<close>

theorem tor_reconcileDeployment_settles:
  assumes "served L (l_deployments L) dep_meta view agree" "wrap_law L"
    and "run_state (tor_reconcileDeployment L cfg tor) s = ((None, tor'), s')"
  shows "settled L dep_meta (tor_meta tor) agree (snd (torDeployment L cfg tor)) False
      (view s (tor_key tor (tor_DeploymentName tor))) (view s' (tor_key tor (tor_DeploymentName tor))) \<and>
    (\<forall>k. k \<noteq> tor_key tor (tor_DeploymentName tor) \<longrightarrow> view s' k = view s k)"
proof (rule tor_dep.ensure_child_settles [OF assms(1)])
  show "reports (failing L ''failed to create Deployment %s/%s'' ''failed to get Deployment %s/%s''
      ''failed to update Deployment %s/%s'' [])"
    using assms(2) by simp
  show "run_state (ensure_child L (l_deployments L) dep_meta deploymentEqual
      (failing L ''failed to create Deployment %s/%s'' ''failed to get Deployment %s/%s''
        ''failed to update Deployment %s/%s'' []) (tor_meta tor)
      (tor_key tor (tor_DeploymentName tor)) False (snd (torDeployment L cfg tor))) s = (None, s')"
    using assms(3) by (auto simp: tor_reconcileDeployment_def Let_def names split: prod.splits)
qed

lemma sample_deployment_run:
  "\<exists>tor' s'. run_state (tor_reconcileDeployment sim_lib sample_project sample_tor) sample_cluster =
     ((None, tor'), s')"
proof -
  let ?key = "tor_key sample_tor (tor_DeploymentName sample_tor)"
  let ?dep = "snd (torDeployment sim_lib sample_project sample_tor)"
  have none: "c_deployments sample_cluster k = None" for k
    by (simp add: sample_cluster_def empty_cluster_def)
  have "run_state (op_get (l_deployments sim_lib) ?key) sample_cluster = (Inl not_found, sample_cluster)"
    "\<exists>s'. run_state (op_create (l_deployments sim_lib) ?dep) sample_cluster = (Inr ?dep, s')"
    unfolding sim_ops_of by (simp_all add: sim_ops_def none)
  then obtain s' where "run_state (op_get (l_deployments sim_lib) ?key) sample_cluster =
      (Inl not_found, sample_cluster)"
    "run_state (op_create (l_deployments sim_lib) ?dep) sample_cluster = (Inr ?dep, s')"
    by blast
  note run = tor_dep.ensure_missing [OF this(1) _ this(2)]
  have "tor_DeploymentName sample_tor \<noteq> []" by (simp add: names)
  then show ?thesis
    unfolding tor_reconcileDeployment_def Let_def using run
    by (cases "torDeployment sim_lib sample_project sample_tor") (simp add: sim_fields)
qed

theorem tor_reconcileDeployment_settles_witness:
  "\<exists>s' :: cluster. settled sim_lib dep_meta (tor_meta sample_tor) (=)
      (snd (torDeployment sim_lib sample_project sample_tor)) False
      (c_deployments sample_cluster (tor_key sample_tor (tor_DeploymentName sample_tor)))
      (c_deployments s' (tor_key sample_tor (tor_DeploymentName sample_tor)))"
proof -
  obtain tor' s' where run: "run_state (tor_reconcileDeployment sim_lib sample_project sample_tor)
      sample_cluster = ((None, tor'), s')"
    using sample_deployment_run by blast
  have "served sim_lib (l_deployments sim_lib) dep_meta c_deployments (=)"
    unfolding sim_ops_of by (rule sim_served) simp
  from tor_reconcileDeployment_settles [OF this sim_wrap run] show ?thesis
    by (elim conjE) (rule exI)
qed

section \<open>The objects fit together\<close>

lemma torDeployment_parts:
  "ds_template (dep_spec (snd (torDeployment L cfg tor))) =
     \<lparr>pt_meta = (tpt_meta (Template (tor_spec tor)))
        \<lparr>om_labels := Some (add_labels (om_labels (tpt_meta (Template (tor_spec tor))))
           (tor_ServiceSelector tor))\<rparr>,
      pt_spec = (tpt_spec (Template (tor_spec tor)))
        \<lparr>ps_service_account := tor_ServiceAccountName tor,
         ps_volumes := ps_volumes (tpt_spec (Template (tor_spec tor))) @ tor_volumes tor,
         ps_containers := ps_containers (tpt_spec (Template (tor_spec tor))) @ [tor_container cfg tor]\<rparr>\<rparr>"
  by (simp add: torDeployment_def Let_def tor_PodTemplate_def names tor_volumes_def tor_container_def
      tor_mounts_def getTorContainerPortList_def GetAllPorts_def tor_Resources_def
      tor_DeploymentLabels_def tor_ServiceSelector_def)

text \<open>
  Every mount of the tor container refers to one of the volumes the deployment adds, and these
  volumes have distinct names, however many config maps the user references.
\<close>

lemma tor_mounts_have_volumes:
  "map vm_name (ct_mounts (tor_container cfg tor)) = map vol_name (tor_volumes tor) \<and>
   distinct (map vol_name (tor_volumes tor))"
proof -
  have names: "map vol_name (map custom_volume xs) = map (custom_name \<circ> fst) xs"
    "map vm_name (map custom_mount xs) = map (custom_name \<circ> fst) xs" for xs
    by (auto simp: custom_volume_def custom_mount_def mount_def)
  have "inj custom_name"
    by (rule injI) (simp add: custom_name_def)
  then have "distinct (map custom_name [0..<n])" for n
    by (auto simp: distinct_map intro: inj_on_subset)
  then have "distinct (map (custom_name \<circ> fst) (List.enumerate 0 xs))" for xs :: "key_selector list"
    by (simp add: comp_def flip: map_map [unfolded comp_def])
  moreover have "set (map (custom_name \<circ> fst) (List.enumerate 0 xs)) \<inter>
      {''tor-config'', ''tor-service'', ''tor-data''} = {}" for xs :: "key_selector list"
    by (auto simp: custom_name_def)
  ultimately show ?thesis
    by (auto simp: tor_container_def tor_mounts_def tor_volumes_def names mount_def volume_names
        simp del: map_map)
qed

text \<open>
  C29: the pods of a \<open>Tor\<close> carry labels that the deployment's selector, the service and the metrics
  service all select; the deployment asks for the requested number of replicas, or one; the
  containers and volumes of the user's pod template come first and unchanged, followed by the tor
  container and its volumes, each of which has a name of its own and is mounted once, however many
  config maps the user references; the pod runs under the instance's service account, which the
  role binding names.
\<close>

theorem tor_objects_fit:
  fixes L :: "'s lib" and cfg :: ProjectConfig and tor :: Tor
  defines "dep \<equiv> snd (torDeployment L cfg tor)"
  defines "tmpl \<equiv> ds_template (dep_spec dep)"
  shows "(\<exists>lbls. om_labels (pt_meta tmpl) = Some lbls \<and>
      selects (ds_match_labels (dep_spec dep)) lbls \<and>
      selects (ss_selector (svc_spec (torService L tor))) lbls \<and>
      selects (ss_selector (svc_spec (torMetricsService L tor))) lbls) \<and>
    ds_replicas (dep_spec dep) =
      Some (if Replicas (tor_spec tor) = 0 then 1 else Replicas (tor_spec tor)) \<and>
    ps_containers (pt_spec tmpl) =
      ps_containers (tpt_spec (Template (tor_spec tor))) @ [tor_container cfg tor] \<and>
    ps_volumes (pt_spec tmpl) = ps_volumes (tpt_spec (Template (tor_spec tor))) @ tor_volumes tor \<and>
    map vm_name (ct_mounts (tor_container cfg tor)) = map vol_name (tor_volumes tor) \<and>
    distinct (map vol_name (tor_volumes tor)) \<and>
    map sj_name (rb_subjects (torRolebinding L tor)) = [ps_service_account (pt_spec tmpl)]"
proof -
  have "ds_match_labels (dep_spec dep) = tor_ServiceSelector tor"
    by (simp add: dep_def torDeployment_def Let_def tor_DeploymentLabels_def tor_ServiceSelector_def names)
  moreover have "ds_replicas (dep_spec dep) =
      Some (if Replicas (tor_spec tor) = 0 then 1 else Replicas (tor_spec tor))"
    by (simp add: dep_def torDeployment_def Let_def)
  ultimately show ?thesis
    using tor_mounts_have_volumes [of cfg tor] by (simp add: tmpl_def dep_def torDeployment_parts built)
qed

text \<open>The enabled ports of an instance: their names, protocols and numbers.\<close>

definition enabled_ports :: "Tor \<Rightarrow> (string \<times> string \<times> int32) list" where
  "enabled_ports tor =
     (let spec = tor_spec tor; client = Client spec;
          port = (\<lambda>name protocol enable number. if enable then [(name, protocol, number)] else []) in
      port ''control'' ''TCP'' (Enable (Control spec)) (Port (Control spec)) @
      port ''metrics'' ''TCP'' (Enable (Metrics spec)) (Port (Metrics spec)) @
      port ''server'' ''TCP'' (Enable (Server spec)) (Port (Server spec)) @
      port ''dns'' ''UDP'' (Enable (DNS client)) (Port (DNS client)) @
      port ''httptunnel'' ''TCP'' (Enable (HTTPTunnel client)) (Port (HTTPTunnel client)) @
      port ''natd'' ''TCP'' (Enable (NATD client)) (Port (NATD client)) @
      port ''socks'' ''TCP'' (Enable (Socks client)) (Port (Socks client)) @
      port ''trans'' ''TCP'' (Enable (Trans client)) (Port (Trans client)))"

lemma GetAllPorts_enabled:
  "map (\<lambda>p. (pd_name p, pd_protocol p, Port (pd_port p))) (filter (\<lambda>p. Enable (pd_port p)) (GetAllPorts tor)) =
     enabled_ports tor"
  by (simp add: GetAllPorts_def enabled_ports_def Let_def TorGenericPortSpec.truncate_def)

text \<open>
  C35: the service and the container of a \<open>Tor\<close> have one port for each port the instance enables, the
  DNS port over UDP and the others over TCP, in one order, each with the number of the specification;
  the service's ports have distinct names and lead to the container's port of that number; and after
  the defaults there is at least one, so the service of an instance is never left out.
\<close>

theorem tor_service_ports:
  "map (\<lambda>p. (sp_name p, sp_protocol p, sp_port p)) (getTorServicePortList tor) = enabled_ports tor \<and>
   map (\<lambda>p. (cp_name p, cp_protocol p, cp_port p)) (getTorContainerPortList tor) = enabled_ports tor \<and>
   list_all (\<lambda>p. sp_target_port p = FromInt (sint (sp_port p))) (getTorServicePortList tor) \<and>
   distinct (map sp_name (getTorServicePortList tor)) \<and>
   enabled_ports (SetTorDefaults tor) \<noteq> []"
proof -
  have "distinct (map pd_name (GetAllPorts tor))"
    by (rule GetAllPorts_names_distinct)
  then have "distinct (map sp_name (getTorServicePortList tor))"
    by (simp add: getTorServicePortList_def o_def distinct_map_filter)
  moreover have "enabled_ports (SetTorDefaults tor) \<noteq> []"
    using SetTorDefaults_anyPortEnabled [of tor]
    by (auto simp: filter_empty_conv GetAllPorts_def Let_def anyPortEnabled_iff TorGenericPortSpec.truncate_def
        simp flip: GetAllPorts_enabled)
  ultimately show ?thesis
    by (simp add: getTorServicePortList_def getTorContainerPortList_def o_def GetAllPorts_enabled list_all_iff)
qed

lemma metrics_container_port:
  "Enable (Metrics (tor_spec tor)) \<Longrightarrow>
   \<lparr>cp_name = ''metrics'', cp_protocol = ''TCP'', cp_port = Port (Metrics (tor_spec tor))\<rparr>
     \<in> set (getTorContainerPortList tor)"
  by (simp add: getTorContainerPortList_def GetAllPorts_def Let_def TorGenericPortSpec.truncate_def)

text \<open>
  The metrics service always leads to port 9035, whatever \<open>Spec.Metrics.Port\<close> says: it reaches
  the container's metrics port exactly when that is 9035.
\<close>

theorem metrics_service_target:
  assumes "c \<in> set (getTorContainerPortList tor)" "cp_name c = ''metrics''"
  shows "map sp_target_port (ss_ports (svc_spec (torMetricsService L tor))) = [FromInt 9035] \<and>
    (map sp_target_port (ss_ports (svc_spec (torMetricsService L tor))) = [FromInt (sint (cp_port c))]
     \<longleftrightarrow> Port (Metrics (tor_spec tor)) = 9035)"
proof -
  have c: "cp_port c = Port (Metrics (tor_spec tor))"
  proof -
    from assms(1) obtain d where "d \<in> set (GetAllPorts tor)"
      and "c = \<lparr>cp_name = pd_name d, cp_protocol = pd_protocol d, cp_port = Port (pd_port d)\<rparr>"
      by (auto simp: getTorContainerPortList_def)
    with assms(2) show ?thesis
      unfolding GetAllPorts_def Let_def list.set insert_iff empty_iff
      by (elim disjE) (simp_all add: TorGenericPortSpec.truncate_def)
  qed
  have "sint (9035 :: int32) = 9035" by simp
  then have "Port (Metrics (tor_spec tor)) = 9035 \<longleftrightarrow> sint (Port (Metrics (tor_spec tor))) = 9035"
    by (metis signed_word_eqI)
  with c show ?thesis
    by (auto simp: torMetricsService_def metrics_port_def)
qed

definition metrics_tor :: Tor where
  "metrics_tor = sample_tor\<lparr>tor_spec := (tor_spec sample_tor)
     \<lparr>Metrics := zero_port\<lparr>Enable := True, Port := 9999\<rparr>\<rparr>\<rparr>"

lemma metrics_tor_port: "Metrics (tor_spec metrics_tor) = zero_port\<lparr>Enable := True, Port := 9999\<rparr>"
  by (simp add: metrics_tor_def)

theorem metrics_service_target_witness:
  "map sp_target_port (ss_ports (svc_spec (torMetricsService sim_lib metrics_tor))) = [FromInt 9035] \<and>
   map sp_target_port (ss_ports (svc_spec (torMetricsService sim_lib metrics_tor))) \<noteq> [FromInt 9999]"
proof -
  have "\<lparr>cp_name = ''metrics'', cp_protocol = ''TCP'', cp_port = 9999\<rparr>
      \<in> set (getTorContainerPortList metrics_tor)"
    using metrics_container_port [of metrics_tor] by (simp add: metrics_tor_port)
  from metrics_service_target [OF this, of sim_lib] show ?thesis by (simp add: metrics_tor_port)
qed

section \<open>Control passwords\<close>

lemma map_of_single:
  assumes "distinct (map fst xs)" "map_of xs = [k \<mapsto> v]"
  shows "xs = [(k, v)]"
proof -
  have "set (map fst xs) = {k}"
    using dom_map_of_conv_image_fst [of xs] assms(2) by simp
  then have "length (map fst xs) = 1"
    using distinct_card [OF assms(1)] by simp
  then obtain p where "xs = [p]" by (cases xs) auto
  with assms(2) show ?thesis by (cases p) (auto simp: fun_eq_iff split: if_splits)
qed

lemma range_single:
  "range_law L \<Longrightarrow> l_range_data L (fmupd k v fmempty) = [(k, v)]"
  by (rule map_of_single) (auto simp: range_law_def)

text \<open>
  An instance without secrets of its own gets a generated control password: when its control
  secret does not exist yet, the password the generator returns (asked for 16 letters and digits)
  is stored under the key \<open>control\<close>, and becomes the only control secret of the instance, which
  the config map step hashes next.
\<close>

theorem control_secret_generated:
  assumes "range_law L" "Secret (Control (tor_spec tor)) = []" "SecretRef (Control (tor_spec tor)) = []"
    and "run_state (op_get (l_secrets L) (tor_key tor (tor_SecretName tor))) s = (Inl e, s1)"
    and "l_is_not_found L e"
    and "run_state (generateRandomPassword L) s1 = (password, s2)"
    and "run_state (op_create (l_secrets L) (torSecret L password tor)) s2 =
      (Inr (torSecret L password tor), s3)"
  shows "run_state (reconcileControlSecret L tor) s =
    ((None, add_control_secrets [password] tor), s3)"
  using assms
  by (simp add: reconcileControlSecret_def Let_def names ensure_created_def default_control_secret_def
      torSecret_def range_single)

lemma sample_secret_none: "c_secrets sample_cluster k = None"
  by (simp add: sample_cluster_def empty_cluster_def)

lemma sample_no_secrets:
  "Secret (Control (tor_spec sample_tor)) = []" "SecretRef (Control (tor_spec sample_tor)) = []"
  by (simp_all add: sample_tor_def zero_tor_def)

theorem control_secret_generated_witness:
  "fst (run_state (reconcileControlSecret sim_lib sample_tor) sample_cluster) =
     (None, add_control_secrets [''password''] sample_tor)"
proof -
  have "run_state (op_get (l_secrets sim_lib) (tor_key sample_tor (tor_SecretName sample_tor)))
      sample_cluster = (Inl not_found, sample_cluster)"
    unfolding sim_ops_of by (simp add: sim_ops_def sample_secret_none)
  moreover have "l_is_not_found sim_lib not_found" by (simp add: sim_fields)
  moreover have "run_state (generateRandomPassword sim_lib) sample_cluster = (''password'', sample_cluster)"
    by (simp add: generateRandomPassword_def sim_fields answer_def)
  moreover obtain s3 where
    "run_state (op_create (l_secrets sim_lib) (torSecret sim_lib ''password'' sample_tor)) sample_cluster =
      (Inr (torSecret sim_lib ''password'' sample_tor), s3)"
    unfolding sim_ops_of by (simp add: sim_ops_def sample_secret_none)
  ultimately have "run_state (reconcileControlSecret sim_lib sample_tor) sample_cluster =
      ((None, add_control_secrets [''password''] sample_tor), s3)"
    by (rule control_secret_generated [OF sim_range sample_no_secrets])
  then show ?thesis by (simp only: fst_conv)
qed

lemma control_secret_default:
  assumes "range_law L" "Secret (Control (tor_spec tor)) = []" "SecretRef (Control (tor_spec tor)) = []"
    and "run_state (op_get (l_secrets L) (tor_key tor (tor_SecretName tor))) s = (Inr secret, s1)"
    and "run_state (generateRandomPassword L) s1 = (password, s2)"
  shows "\<exists>tor'. run_state (reconcileControlSecret L tor) s = ((None, tor'), s2) \<and>
    set (Secret (Control (tor_spec tor'))) = ran (fmlookup (sec_data secret))"
proof -
  let ?vals = "map snd (l_range_data L (sec_data secret))"
  have d: "distinct (map fst (l_range_data L (sec_data secret)))"
    and m: "map_of (l_range_data L (sec_data secret)) = fmlookup (sec_data secret)"
    using assms(1) by (simp_all add: range_law_def)
  have "run_state (reconcileControlSecret L tor) s = ((None, add_control_secrets ?vals tor), s2)"
    using assms(2-)
    by (simp add: reconcileControlSecret_def Let_def names ensure_created_def default_control_secret_def)
  moreover have "set ?vals = ran (fmlookup (sec_data secret))"
    using ran_distinct [OF d] m by simp
  ultimately show ?thesis
    using assms(2) by (simp add: add_control_secrets_def)
qed

section \<open>Service monitors and errors\<close>

text \<open>
  Where the monitoring CRD is installed, an instance that does not ask for a service monitor
  ends up without one of its own: a step without error deletes the monitor it controls, keeps a
  monitor of that name that another owner controls, and changes no other.
\<close>

theorem tor_monitor_removed:
  assumes "served L (l_service_monitors L) sm_meta view agree" "wrap_law L"
    and "run_state (monitoringInstalled L) s = (True, s1)" "\<not> ServiceMonitor (tor_spec tor)"
    and "\<And>obj. view s1 (tor_key tor (tor_ServiceMetricsName tor)) = Some obj \<Longrightarrow>
      key_of (sm_meta obj) = tor_key tor (tor_ServiceMetricsName tor)"
    and "run_state (tor_reconcileServiceMonitor L tor) s = (None, s')"
  shows "view s' = (case view s1 (tor_key tor (tor_ServiceMetricsName tor)) of
      None \<Rightarrow> view s1
    | Some y \<Rightarrow> if l_controlled L (sm_meta y) (tor_meta tor)
               then (view s1)(tor_key tor (tor_ServiceMetricsName tor) := None) else view s1)"
proof (rule tor_sm.ensure_monitor_not_requested [OF assms(1) _ assms(5)])
  show "reports (failing L ''failed to create Service %#v'' ''failed to get Service %#v''
      ''failed to update Service %#v'' ''failed to delete Service %#v'')"
    using assms(2) by simp
  show "run_state (ensure_monitor L (l_service_monitors L) sm_meta monitorServiceEqual
      (failing L ''failed to create Service %#v'' ''failed to get Service %#v''
        ''failed to update Service %#v'' ''failed to delete Service %#v'') (tor_meta tor)
      (tor_key tor (tor_ServiceMetricsName tor)) False (torServiceMonitor L tor)) s1 = (None, s')"
    using assms(3,4,6) by (simp add: tor_reconcileServiceMonitor_def Let_def names)
qed

definition monitored_cluster :: cluster where
  "monitored_cluster = sample_cluster\<lparr>c_service_monitors :=
     [tor_key sample_tor (tor_ServiceMetricsName sample_tor) \<mapsto> torServiceMonitor sim_lib sample_tor]\<rparr>"

lemma monitored_run:
  "\<exists>s'. run_state (tor_reconcileServiceMonitor sim_lib sample_tor) monitored_cluster = (None, s')"
proof -
  have m: "c_service_monitors monitored_cluster (tor_key sample_tor (tor_ServiceMetricsName sample_tor)) =
      Some (torServiceMonitor sim_lib sample_tor)"
    by (simp add: monitored_cluster_def)
  have "\<not> ServiceMonitor (tor_spec sample_tor)"
    "tor_ServiceMetricsName sample_tor \<noteq> []"
    by (simp_all add: monitored_cluster_def sample_cluster_def empty_cluster_def sample_tor_def
        zero_tor_def names)
  then show ?thesis
    using m tor_sm.build_controlled [OF sim_ownership, of sample_tor]
    unfolding tor_reconcileServiceMonitor_def monitoringInstalled_def ensure_monitor_def sim_ops_of
      tor_sm.build_key
    by (simp add: sim_ops_def sim_fields(15) answer_def tor_sm.build_key)
qed

theorem tor_monitor_removed_witness:
  "c_service_monitors (snd (run_state (tor_reconcileServiceMonitor sim_lib sample_tor) monitored_cluster))
     (tor_key sample_tor (tor_ServiceMetricsName sample_tor)) = None"
proof -
  let ?key = "tor_key sample_tor (tor_ServiceMetricsName sample_tor)"
  obtain s' where run: "run_state (tor_reconcileServiceMonitor sim_lib sample_tor) monitored_cluster = (None, s')"
    using monitored_run by blast
  have view: "c_service_monitors monitored_cluster ?key = Some (torServiceMonitor sim_lib sample_tor)"
    by (simp add: monitored_cluster_def)
  have srv: "served sim_lib (l_service_monitors sim_lib) sm_meta c_service_monitors (=)"
    unfolding sim_ops_of by (rule sim_served) simp
  have inst: "run_state (monitoringInstalled sim_lib) monitored_cluster = (True, monitored_cluster)"
    by (simp add: monitoringInstalled_def sim_fields answer_def)
  have off: "\<not> ServiceMonitor (tor_spec sample_tor)"
    by (simp add: sample_tor_def zero_tor_def)
  have keyed: "key_of (sm_meta obj) = ?key" if "c_service_monitors monitored_cluster ?key = Some obj" for obj
    using that view tor_sm.build_key [of sim_lib sample_tor] by simp
  have ctrl: "l_controlled sim_lib (sm_meta (torServiceMonitor sim_lib sample_tor)) (tor_meta sample_tor)"
    by (rule tor_sm.build_controlled [OF sim_ownership])
  have "c_service_monitors s' = (case c_service_monitors monitored_cluster ?key of
      None \<Rightarrow> c_service_monitors monitored_cluster
    | Some y \<Rightarrow> if l_controlled sim_lib (sm_meta y) (tor_meta sample_tor)
               then (c_service_monitors monitored_cluster)(?key := None)
               else c_service_monitors monitored_cluster)"
    by (rule tor_monitor_removed [OF srv sim_wrap inst off keyed run])
  with view ctrl run show ?thesis by (simp only: option.case if_True fun_upd_same snd_conv)
qed

text \<open>
  When the \<open>Tor\<close> cannot be read, nothing else is done, and the reconciliation fails exactly
  when the reason is other than that it no longer exists.
\<close>

theorem tor_Reconcile_unreadable:
  assumes "wrap_law L" "ignore_law L" "run_state (l_get_tor L req) s = (Inl e, s')"
  shows "\<exists>err. run_state (tor_Reconcile L cfg req) s = ((zero_result, err), s') \<and>
    (err = None \<longleftrightarrow> l_is_not_found L e)"
proof -
  have "l_ignore_not_found L e = (if l_is_not_found L e then None else Some e)"
    using assms(2) by (simp add: ignore_law_def)
  moreover have "run_state (tor_Reconcile L cfg req) s =
      ((zero_result, l_wrap L (l_ignore_not_found L e) ''unable to fetch Tor''), s')"
    using assms(3) by (simp add: tor_Reconcile_def)
  ultimately show ?thesis using assms(1) by simp
qed

theorem tor_Reconcile_unreadable_witness:
  "\<exists>err. run_state (tor_Reconcile sim_lib sample_project sample_req) empty_cluster =
     ((zero_result, err), empty_cluster) \<and> (err = None \<longleftrightarrow> l_is_not_found sim_lib not_found)"
proof (rule tor_Reconcile_unreadable [OF sim_wrap sim_ignore])
  show "run_state (l_get_tor sim_lib sample_req) empty_cluster = (Inl not_found, empty_cluster)"
    by (simp add: sim_fields look_up_def empty_cluster_def)
qed

end
