(* ===== verification/Onion_Children.thy ===== *)
theory Onion_Children
  imports Cluster_State Config_Types
begin

text \<open>
  The objects an \<open>OnionService\<close> owns and the functions that reconcile each of them:
  \<open>controllers/tor/onionservice_secret.go\<close>, \<open>onionservice_secret_authorizedclients.go\<close>,
  \<open>onionservice_serviceaccount.go\<close>, \<open>onionservice_role.go\<close>, \<open>onionservice_rolebinding.go\<close>,
  \<open>onionservice_service.go\<close>, \<open>onionservice_deployment.go\<close>,
  \<open>onionservice_service_metrics.go\<close> and \<open>onionservice_service_monitor.go\<close>.
\<close>

abbreviation os_owned :: "'s lib \<Rightarrow> OnionService \<Rightarrow> string \<Rightarrow> labels option \<Rightarrow> object_meta" where
  "os_owned L onion name lbls \<equiv> owned_meta L (os_meta onion) name lbls ''OnionService''"

abbreviation os_key :: "OnionService \<Rightarrow> string \<Rightarrow> nsname" where
  "os_key onion name \<equiv> \<lparr>nn_namespace = os_namespace onion, nn_name = name\<rparr>"

section \<open>Onion key secret (onionservice_secret.go)\<close>

text \<open>The data of a key secret; the balanced services write the same five keys.\<close>

definition onion_secret_data :: "OnionV3 \<Rightarrow> (string, bytes) fmap" where
  "onion_secret_data onionv3 = fmap_of_list
     [(''onionAddress'', onionAddress onionv3), (''publicKey'', publicKey onionv3),
      (''privateKey'', privateKey onionv3), (''publicKeyFile'', publicKeyFile onionv3),
      (''privateKeyFile'', privateKeyFile onionv3)]"

definition onion_secret_of :: "'s lib \<Rightarrow> OnionV3 \<Rightarrow> OnionService \<Rightarrow> secret" where
  [built]: "onion_secret_of L onionv3 onion =
     \<lparr>sec_meta = os_owned L onion (os_SecretName onion) None,
      sec_type = ''tor.k8s.torproject.org/onion-v3'', sec_data = onion_secret_data onionv3\<rparr>"

text \<open>\<open>None\<close> is the \<open>nil\<close> the builder returns when no keys could be generated.\<close>

definition torOnionServiceSecret :: "'s lib \<Rightarrow> OnionService \<Rightarrow> ('s, secret option) state" where
  "torOnionServiceSecret L onion = do {
     r \<leftarrow> GenerateOnionV3 (l_gen_key L) (l_wrap L) (l_onion_id L);
     State_Monad.return (case r of
        (Some onionv3, None) \<Rightarrow> Some (onion_secret_of L onionv3 onion)
      | _ \<Rightarrow> None)
   }"

text \<open>
  Creating the secret: with \<open>nil\<close>, the client call fails or, should it return, the dereference of
  \<open>nil\<close> after it panics.
\<close>

definition ensure_key_secret ::
  "'s lib \<Rightarrow> (go_error + secret) \<Rightarrow> secret option \<Rightarrow> ('s, go_error option + secret) state" where
  "ensure_key_secret L r newSecret =
     (case newSecret of
        Some sec \<Rightarrow> ensure_created L (l_secrets L)
          (failing L ''failed to create secret'' ''failed to get secret'' [] []) r sec
      | None \<Rightarrow>
          (case r of
             Inr sec \<Rightarrow> State_Monad.return (Inr sec)
           | Inl err \<Rightarrow>
               if l_is_not_found L err then do {
                 c \<leftarrow> l_create_nil_secret L;
                 State_Monad.return (Inl (case c of
                    Some err \<Rightarrow> wrapped L ''failed to create secret'' err
                  | None \<Rightarrow> Some (Panic ''nil pointer dereference'')))
               } else State_Monad.return (Inl (wrapped L ''failed to get secret'' err))))"

definition os_reconcileSecret :: "'s lib \<Rightarrow> OnionService \<Rightarrow> ('s, go_error option) state" where
  "os_reconcileSecret L onionService =
     (let secretName = os_SecretName onionService in
      if secretName = [] then State_Monad.return None
      else do {
        r \<leftarrow> op_get (l_secrets L) (os_key onionService secretName);
        newSecret \<leftarrow> torOnionServiceSecret L onionService;
        c \<leftarrow> ensure_key_secret L r newSecret;
        (case c of
           Inl err \<Rightarrow> State_Monad.return err
         | Inr secret \<Rightarrow>
             if \<not> l_controlled L (sec_meta secret) (os_meta onionService)
             then State_Monad.return None else State_Monad.return None)
      })"

section \<open>Authorized clients (onionservice_secret_authorizedclients.go)\<close>

definition authTypeDefault :: string where "authTypeDefault = ''descriptor''"
definition keyTypeDefault :: string where "keyTypeDefault = ''x25519''"
definition authKeyLabel :: string where "authKeyLabel = ''authKey''"
definition publicKeyLabel :: string where "publicKeyLabel = ''publicKey''"

text \<open>What one referenced secret contributes, if anything.\<close>

definition client_entry :: "SecretReference \<Rightarrow> (string, bytes) fmap \<Rightarrow> bytes option" where
  "client_entry ref data =
     (if length (sr_key ref) > 0 then fmlookup data (sr_key ref)
      else (case fmlookup data authKeyLabel of
              Some authKey \<Rightarrow> Some authKey
            | None \<Rightarrow>
                (case fmlookup data publicKeyLabel of
                   Some pub \<Rightarrow> Some (authTypeDefault @ '':'' @ keyTypeDefault @ '':'' @ pub)
                 | None \<Rightarrow> None)))"

definition client_file :: "nat \<Rightarrow> string" where
  "client_file idx = ''client-'' @ itoa (int idx) @ ''.auth''"

fun collect_clients ::
  "'s lib \<Rightarrow> string \<Rightarrow> nat \<Rightarrow> SecretReference list \<Rightarrow> (string, bytes) fmap \<Rightarrow>
   ('s, (string, bytes) fmap) state" where
  "collect_clients L namespace idx [] authorizedClients = State_Monad.return authorizedClients"
| "collect_clients L namespace idx (ref # refs) authorizedClients = do {
     r \<leftarrow> op_get (l_secrets L) \<lparr>nn_namespace = namespace, nn_name = sr_name ref\<rparr>;
     collect_clients L namespace (Suc idx) refs
       (case r of
          Inl acErr \<Rightarrow> authorizedClients
        | Inr sec \<Rightarrow>
            (case client_entry ref (sec_data sec) of
               Some authKey \<Rightarrow> fmupd (client_file idx) authKey authorizedClients
             | None \<Rightarrow> authorizedClients))
   }"

definition torOnionServiceSecretAuthorizedClients ::
  "'s lib \<Rightarrow> (string, bytes) fmap \<Rightarrow> OnionService \<Rightarrow> secret" where
  [built]: "torOnionServiceSecretAuthorizedClients L authorizedClients onion =
     \<lparr>sec_meta = os_owned L onion (os_AuthorizedClientsSecretName onion) None,
      sec_type = ''tor.k8s.torproject.org/authorized-clients-v3'', sec_data = authorizedClients\<rparr>"

definition reconcileSecretAuthorizedClients ::
  "'s lib \<Rightarrow> OnionService \<Rightarrow> ('s, go_error option) state" where
  "reconcileSecretAuthorizedClients L onionService =
     (let secretName = os_AuthorizedClientsSecretName onionService;
          namespace = os_namespace onionService in
      if secretName = [] then State_Monad.return None
      else do {
        r \<leftarrow> op_get (l_secrets L) (os_key onionService secretName);
        authorizedClients \<leftarrow>
          collect_clients L namespace 0 (os_AuthorizedClients (os_spec onionService)) fmempty;
        c \<leftarrow> ensure_created L (l_secrets L)
          (failing L ''failed to create secret'' ''failed to get secret'' [] []) r
          (torOnionServiceSecretAuthorizedClients L authorizedClients onionService);
        (case c of
           Inl err \<Rightarrow> State_Monad.return err
         | Inr secret \<Rightarrow>
             if \<not> l_controlled L (sec_meta secret) (os_meta onionService)
             then State_Monad.return None else State_Monad.return None)
      })"

section \<open>Service account, role, role binding\<close>

definition torOnionServiceAccount :: "'s lib \<Rightarrow> OnionService \<Rightarrow> service_account" where
  [built]: "torOnionServiceAccount L onion =
     \<lparr>sa_meta = os_owned L onion (os_ServiceAccountName onion) None,
      sa_secrets = [], sa_image_pull_secrets = [], sa_automount_token = None\<rparr>"

definition os_reconcileServiceAccount :: "'s lib \<Rightarrow> OnionService \<Rightarrow> ('s, go_error option) state" where
  "os_reconcileServiceAccount L onionService =
     (let serviceAccountName = os_ServiceAccountName onionService in
      if serviceAccountName = [] then State_Monad.return None
      else ensure_child L (l_service_accounts L) sa_meta serviceAccountEqual
        (failing L ''failed to create ServiceAccount %#v'' ''failed to get ServiceAccount %s''
           ''failed to update ServiceAccount %#v'' [])
        (os_meta onionService) (os_key onionService serviceAccountName) False
        (torOnionServiceAccount L onionService))"

definition torOnionRole :: "'s lib \<Rightarrow> OnionService \<Rightarrow> role" where
  [built]: "torOnionRole L onion =
     \<lparr>role_meta = os_owned L onion (os_RoleName onion) None,
      role_rules =
        [\<lparr>pr_api_groups = [api_group], pr_verbs = [''get'', ''list'', ''watch''],
          pr_resources = [''onionservices'']\<rparr>,
         \<lparr>pr_api_groups = [api_group], pr_verbs = [''update'', ''patch''],
          pr_resources = [''onionservices/status'']\<rparr>,
         \<lparr>pr_api_groups = [''''], pr_verbs = [''create'', ''update'', ''patch''],
          pr_resources = [''events'']\<rparr>]\<rparr>"

definition os_reconcileRole :: "'s lib \<Rightarrow> OnionService \<Rightarrow> ('s, go_error option) state" where
  "os_reconcileRole L onionService =
     (let roleName = os_RoleName onionService in
      if roleName = [] then State_Monad.return None
      else ensure_child L (l_roles L) role_meta roleEqual
        (failing L ''failed to create Role %#v'' ''failed to get Role %s''
           ''failed to update Role %#v'' [])
        (os_meta onionService) (os_key onionService roleName) False (torOnionRole L onionService))"

definition torOnionRolebinding :: "'s lib \<Rightarrow> OnionService \<Rightarrow> role_binding" where
  [built]: "torOnionRolebinding L onion =
     \<lparr>rb_meta = os_owned L onion (os_RoleName onion) None,
      rb_subjects =
        [\<lparr>sj_kind = ''ServiceAccount'', sj_api_group = [], sj_name = os_ServiceAccountName onion,
          sj_namespace = []\<rparr>],
      rb_role_ref = \<lparr>rr_api_group = [], rr_kind = ''Role'', rr_name = os_RoleName onion\<rparr>\<rparr>"

definition os_reconcileRolebinding :: "'s lib \<Rightarrow> OnionService \<Rightarrow> ('s, go_error option) state" where
  "os_reconcileRolebinding L onionService =
     (let roleName = os_RoleName onionService in
      if roleName = [] then State_Monad.return None
      else ensure_child L (l_role_bindings L) rb_meta rolebindingEqual
        (failing L ''failed to create Rolebinding %s'' ''failed to get Rolebinding %s''
           ''failed to update Rolebinding %s'' [])
        (os_meta onionService) (os_key onionService roleName) False
        (torOnionRolebinding L onionService))"

section \<open>Services and service monitor\<close>

definition rule_service_ports :: "ServiceRule list \<Rightarrow> service_port list" where
  "rule_service_ports rules =
     map (\<lambda>r. \<lparr>sp_name = sbp_name (rule_port r), sp_protocol = [],
            sp_port = sbp_number (rule_port r),
            sp_target_port = FromInt (sint (sbp_number (rule_port r)))\<rparr>) rules"

definition OnionServiceService :: "'s lib \<Rightarrow> OnionService \<Rightarrow> service" where
  [built]: "OnionServiceService L onion =
     \<lparr>svc_meta = os_owned L onion (os_ServiceName onion) None,
      svc_spec = \<lparr>ss_selector = os_ServiceSelector onion,
        ss_ports = rule_service_ports (os_Rules (os_spec onion)),
        ss_cluster_ip = [], ss_other = []\<rparr>,
      svc_status = []\<rparr>"

definition os_reconcileService :: "'s lib \<Rightarrow> OnionService \<Rightarrow> ('s, go_error option) state" where
  "os_reconcileService L onionService =
     (let serviceName = os_ServiceName onionService in
      if serviceName = [] then State_Monad.return None
      else ensure_child L (l_services L) svc_meta serviceEqual
        (failing L ''failed to create Service %#v'' ''failed to get Service %s''
           ''failed to update Service %#v'' [])
        (os_meta onionService) (os_key onionService serviceName) False
        (OnionServiceService L onionService))"

definition osTorMetricsService :: "'s lib \<Rightarrow> OnionService \<Rightarrow> service" where
  [built]: "osTorMetricsService L onion =
     \<lparr>svc_meta = os_owned L onion (os_ServiceMetricsName onion)
        (Some (os_ServiceMetricsSelector onion)),
      svc_spec = \<lparr>ss_selector = os_ServiceSelector onion,
        ss_ports = [\<lparr>sp_name = ''metrics'', sp_protocol = [], sp_port = metrics_port,
          sp_target_port = FromInt (sint metrics_port)\<rparr>],
        ss_cluster_ip = [], ss_other = []\<rparr>,
      svc_status = []\<rparr>"

definition os_reconcileMetricsService :: "'s lib \<Rightarrow> OnionService \<Rightarrow> ('s, go_error option) state" where
  "os_reconcileMetricsService L onionService =
     (let serviceName = os_ServiceMetricsName onionService in
      if serviceName = [] then State_Monad.return None
      else ensure_child L (l_services L) svc_meta serviceEqual
        (failing L ''failed to create Service %#v'' ''failed to get Service %s''
           ''failed to update Service %#v'' [])
        (os_meta onionService) (os_key onionService serviceName) False
        (osTorMetricsService L onionService))"

definition osTorServiceMonitor :: "'s lib \<Rightarrow> OnionService \<Rightarrow> service_monitor" where
  [built]: "osTorServiceMonitor L onion =
     \<lparr>sm_meta = os_owned L onion (os_ServiceMetricsName onion)
        (Some (os_ServiceMetricsSelector onion)),
      sm_spec = \<lparr>sms_match_labels = os_ServiceMetricsSelector onion,
        sms_endpoints = [\<lparr>ep_port = ''metrics'', ep_path = ''/metrics''\<rparr>],
        sms_match_names = [os_namespace onion], sms_other = []\<rparr>\<rparr>"

definition os_reconcileServiceMonitor :: "'s lib \<Rightarrow> OnionService \<Rightarrow> ('s, go_error option) state" where
  "os_reconcileServiceMonitor L onionService = do {
     installed \<leftarrow> monitoringInstalled L;
     if \<not> installed then State_Monad.return None
     else (let serviceName = os_ServiceMetricsName onionService in
       if serviceName = [] then State_Monad.return None
       else ensure_monitor L (l_service_monitors L) sm_meta monitorServiceEqual
         (failing L ''failed to create ServiceMonitor %s'' ''failed to get ServiceMonitor %s''
            ''failed to update ServiceMonitor %s'' ''failed to delete ServiceMonitor %s'')
         (os_meta onionService) (os_key onionService serviceName)
         (os_ServiceMonitor (os_spec onionService)) (osTorServiceMonitor L onionService))
   }"

section \<open>Deployment (onionservice_deployment.go)\<close>

text \<open>The files of the key secret that are mounted: the user's key, or three of the generated values.\<close>

definition key_volume_items :: "OnionService \<Rightarrow> key_to_path list" where
  "key_volume_items onion =
     (let v2 = os_GetVersion (os_spec onion) = 2;
          publicKeyFileName = (if v2 then ''public_key'' else ''hs_ed25519_public_key'');
          privateKeyFileName = (if v2 then ''private_key'' else ''hs_ed25519_secret_key'') in
      if sr_key (os_PrivateKeySecret (os_spec onion)) \<noteq> []
      then [\<lparr>kp_key = sr_key (os_PrivateKeySecret (os_spec onion)), kp_path = privateKeyFileName\<rparr>]
      else [\<lparr>kp_key = ''privateKeyFile'', kp_path = privateKeyFileName\<rparr>,
            \<lparr>kp_key = ''publicKeyFile'', kp_path = publicKeyFileName\<rparr>,
            \<lparr>kp_key = ''onionAddress'', kp_path = ''hostname''\<rparr>])"

definition os_volumes :: "OnionService \<Rightarrow> volume list" where
  "os_volumes onion =
     [\<lparr>vol_name = privateKeyVolume,
       vol_source = SecretVolume (os_SecretName onion) (key_volume_items onion) None\<rparr>,
      \<lparr>vol_name = authorizedClientsVolume,
       vol_source = SecretVolume (os_AuthorizedClientsSecretName onion) [] (Some 256)\<rparr>]"

definition os_mounts :: "volume_mount list" where
  "os_mounts =
     [\<lparr>vm_name = privateKeyVolume, vm_path = ''/run/tor/service/key'', vm_read_only = True\<rparr>,
      \<lparr>vm_name = authorizedClientsVolume, vm_path = ''/run/tor/service/.authorized_clients'',
       vm_read_only = True\<rparr>]"

definition os_container :: "ProjectConfig \<Rightarrow> OnionService \<Rightarrow> container" where
  "os_container projectConfig onion =
     \<lparr>ct_name = ''tor'', ct_image = tdm_Image (TorDaemonManager projectConfig), ct_command = [],
      ct_args = [''-name'', os_name onion, ''-namespace'', os_namespace onion],
      ct_pull_policy = ''Always'', ct_mounts = os_mounts,
      ct_ports = [\<lparr>cp_name = ''metrics'', cp_protocol = ''TCP'', cp_port = metrics_port\<rparr>],
      ct_resources = os_Resources onion, ct_other = []\<rparr>"

text \<open>
  As for \<open>Tor\<close>: the labels are written into the template's own map when it has one, which changes
  the \<open>OnionService\<close>; the model returns it with the deployment.
\<close>

definition torOnionServiceDeployment ::
  "'s lib \<Rightarrow> ProjectConfig \<Rightarrow> OnionService \<Rightarrow> OnionService \<times> deployment" where
  "torOnionServiceDeployment L projectConfig onion =
     (let podTemplate = os_PodTemplate onion;
          lbls = Some (add_labels (om_labels (pt_meta podTemplate)) (os_DeploymentLabels onion));
          tmpl = os_Template (os_spec onion);
          onion' = (if om_labels (pt_meta podTemplate) = None then onion
                    else onion\<lparr>os_spec := (os_spec onion)\<lparr>os_Template :=
                           tmpl\<lparr>spt_meta := (spt_meta tmpl)\<lparr>om_labels := lbls\<rparr>\<rparr>\<rparr>\<rparr>);
          podTemplate' =
            \<lparr>pt_meta = (pt_meta podTemplate)\<lparr>om_labels := lbls\<rparr>,
             pt_spec = (pt_spec podTemplate)
               \<lparr>ps_service_account := os_ServiceAccountName onion,
                ps_volumes := ps_volumes (pt_spec podTemplate) @ os_volumes onion,
                ps_containers := ps_containers (pt_spec podTemplate) @
                  [os_container projectConfig onion]\<rparr>\<rparr>
      in (onion',
          \<lparr>dep_meta = os_owned L onion (os_DeploymentName onion) None,
           dep_spec =
             \<lparr>ds_match_labels = os_DeploymentLabels onion, ds_replicas = None,
              ds_template = podTemplate', ds_other = []\<rparr>,
           dep_status = []\<rparr>))"

text \<open>\<open>errors.Errorf\<close> makes a new error and drops the cause.\<close>

definition new_error :: "string \<Rightarrow> go_error \<Rightarrow> go_error option" where
  "new_error msg e = Some (GoErr msg)"

definition os_reconcileDeployment ::
  "'s lib \<Rightarrow> ProjectConfig \<Rightarrow> OnionService \<Rightarrow> ('s, go_error option \<times> OnionService) state" where
  "os_reconcileDeployment L projectConfig onionService =
     (let deploymentName = os_DeploymentName onionService in
      if deploymentName = [] then State_Monad.return (None, onionService)
      else (case torOnionServiceDeployment L projectConfig onionService of
        (onionService', newDeployment) \<Rightarrow> do {
          err \<leftarrow> ensure_child L (l_deployments L) dep_meta deploymentEqual
            \<lparr>f_create = new_error ''failed to create Deployment %#v'',
             f_get = new_error ''failed to get Deployment %s/%s'',
             f_update = new_error ''filed to update Deployment %#v'',
             f_delete = new_error []\<rparr>
            (os_meta onionService) (os_key onionService deploymentName) False newDeployment;
          State_Monad.return (err, onionService')
        }))"

section \<open>The builders satisfy the contract\<close>

lemma torOnionServiceDeployment_meta [simp]:
  "dep_meta (snd (torOnionServiceDeployment L cfg onion)) = os_owned L onion (os_DeploymentName onion) None"
  "os_meta (fst (torOnionServiceDeployment L cfg onion)) = os_meta onion"
  by (simp_all add: torOnionServiceDeployment_def Let_def)

interpretation os_sa: owned_child sa_meta serviceAccountEqual os_meta
  "\<lambda>onion. os_key onion (os_ServiceAccountName onion)" torOnionServiceAccount
  by unfold_locales (simp_all add: built key_of_def equal_iffs)

interpretation os_role: owned_child role_meta roleEqual os_meta
  "\<lambda>onion. os_key onion (os_RoleName onion)" torOnionRole
  by unfold_locales (simp_all add: built key_of_def equal_iffs)

interpretation os_rb: owned_child rb_meta rolebindingEqual os_meta
  "\<lambda>onion. os_key onion (os_RoleName onion)" torOnionRolebinding
  by unfold_locales (simp_all add: built key_of_def equal_iffs)

interpretation os_svc: owned_child svc_meta serviceEqual os_meta
  "\<lambda>onion. os_key onion (os_ServiceName onion)" OnionServiceService
  by unfold_locales (simp_all add: built key_of_def equal_iffs)

interpretation os_msvc: owned_child svc_meta serviceEqual os_meta
  "\<lambda>onion. os_key onion (os_ServiceMetricsName onion)" osTorMetricsService
  by unfold_locales (simp_all add: built key_of_def equal_iffs)

interpretation os_sm: owned_child sm_meta monitorServiceEqual os_meta
  "\<lambda>onion. os_key onion (os_ServiceMetricsName onion)" osTorServiceMonitor
  by unfold_locales (simp_all add: built key_of_def equal_iffs)

interpretation os_sec: owned_child sec_meta "(=)" os_meta
  "\<lambda>onion. os_key onion (os_SecretName onion)" "\<lambda>L. onion_secret_of L onionv3" for onionv3
  by unfold_locales (simp_all add: built key_of_def equal_iffs)

interpretation os_auth: owned_child sec_meta "(=)" os_meta
  "\<lambda>onion. os_key onion (os_AuthorizedClientsSecretName onion)"
  "\<lambda>L. torOnionServiceSecretAuthorizedClients L clients" for clients
  by unfold_locales (simp_all add: built key_of_def equal_iffs)

interpretation os_dep: owned_child dep_meta deploymentEqual os_meta
  "\<lambda>onion. os_key onion (os_DeploymentName onion)"
  "\<lambda>L onion. snd (torOnionServiceDeployment L cfg onion)" for cfg
  by unfold_locales (simp_all add: key_of_def equal_iffs)

section \<open>Only permitted operations\<close>

lemma os_ensure_keeps:
  assumes "children_permits P L (os_meta onion)"
  shows "holds_after P (os_reconcileServiceAccount L onion)" "holds_after P (os_reconcileRole L onion)"
    "holds_after P (os_reconcileRolebinding L onion)" "holds_after P (os_reconcileService L onion)"
    "holds_after P (os_reconcileMetricsService L onion)"
    "holds_after P (os_reconcileServiceMonitor L onion)"
  unfolding os_reconcileServiceAccount_def os_reconcileRole_def os_reconcileRolebinding_def
    os_reconcileService_def os_reconcileMetricsService_def os_reconcileServiceMonitor_def Let_def
  by (intro keeps os_sa.ensure_child_keeps os_role.ensure_child_keeps os_rb.ensure_child_keeps
      os_svc.ensure_child_keeps os_msvc.ensure_child_keeps os_sm.ensure_monitor_keeps
      monitoringInstalled_keeps [OF assms] children_permitsD [OF assms])+

lemma collect_clients_keeps:
  "children_permits P L owner \<Longrightarrow> holds_after P (collect_clients L ns i refs acc)"
  by (induction refs arbitrary: i acc) (auto intro!: keeps dest: permits_get [OF children_permitsD(2)])

lemma os_auth_keeps:
  assumes "children_permits P L (os_meta onion)"
  shows "holds_after P (reconcileSecretAuthorizedClients L onion)"
  unfolding reconcileSecretAuthorizedClients_def Let_def
  by (intro keeps permits_get [OF children_permitsD(2) [OF assms]] collect_clients_keeps [OF assms]
      os_auth.ensure_created_keeps [OF children_permitsD(2) [OF assms]])

lemma os_deployment_keeps:
  assumes "children_permits P L (os_meta onion)"
  shows "holds_after P (os_reconcileDeployment L cfg onion)"
  using os_dep.ensure_child_keeps [OF children_permitsD(7) [OF assms], where cfg = cfg]
  unfolding os_reconcileDeployment_def Let_def
  by (auto split: prod.splits intro!: keeps)

lemma os_reconcileDeployment_meta:
  "yields (\<lambda>(err, onion'). os_meta onion' = os_meta onion) (os_reconcileDeployment L cfg onion)"
  unfolding os_reconcileDeployment_def Let_def
  using torOnionServiceDeployment_meta(2) [of L cfg onion]
  by (intro yields_cases yields_bind) auto

lemma ensure_key_secret_keeps:
  assumes "children_permits P L owner" "holds_after P (l_create_nil_secret L)"
    and "\<And>sec. new = Some sec \<Longrightarrow> made_for L owner (sec_meta sec)"
  shows "holds_after P (ensure_key_secret L r new)"
  unfolding ensure_key_secret_def ensure_created_def
  by (intro keeps permits_create [OF children_permitsD(2) [OF assms(1)]] assms(2,3))

lemma GenerateOnionV3_keeps:
  "children_permits P L owner \<Longrightarrow> holds_after P (GenerateOnionV3 (l_gen_key L) (l_wrap L) (l_onion_id L))"
  unfolding GenerateOnionV3_def by (intro keeps children_permitsD)

lemma torOnionServiceSecret_yields:
  "yields (\<lambda>new. \<forall>sec. new = Some sec \<longrightarrow> made_for L (os_meta onion) (sec_meta sec))
     (torOnionServiceSecret L onion)"
  unfolding torOnionServiceSecret_def
  by (intro yields_bind) (auto simp: built split: prod.splits option.splits)

lemma os_secret_keeps:
  assumes "children_permits P L (os_meta onion)" "holds_after P (l_create_nil_secret L)"
  shows "holds_after P (os_reconcileSecret L onion)"
proof -
  have new: "holds_after P (torOnionServiceSecret L onion)"
    unfolding torOnionServiceSecret_def by (intro keeps GenerateOnionV3_keeps [OF assms(1)])
  show ?thesis
    unfolding os_reconcileSecret_def Let_def
    by (rule holds_after_if, simp, rule holds_after_bind [OF permits_get [OF children_permitsD(2) [OF assms(1)]]],
        rule holds_after_bind_yields [OF new torOnionServiceSecret_yields],
        intro keeps ensure_key_secret_keeps [OF assms]) auto
qed

end
