(* ===== verification/Onion_Reconcile.thy ===== *)
theory Onion_Reconcile
  imports Onion_Children Sim_Cluster
begin

text \<open>
  \<open>controllers/tor/onionservice_controller.go\<close>: one reconciliation of an \<open>OnionService\<close>, and what
  its objects promise: the target services are checked before anything is written, every
  authorized client gets its own file, the pods mount the keys they need, and no object another
  owner controls is touched.
\<close>

section \<open>Reconcile\<close>

text \<open>
  The loop over the rules: \<open>Some\<close> is an early return of \<open>Reconcile\<close>.  A missing port wraps the
  error of the outer read, which is \<open>nil\<close> there.
\<close>

definition rule_backend_port :: "ServiceRule \<Rightarrow> service_port" where
  "rule_backend_port rule =
     \<lparr>sp_name = sbp_name (sb_port (rule_backend rule)), sp_protocol = ''TCP'',
      sp_port = sbp_number (sb_port (rule_backend rule)), sp_target_port = FromInt 0\<rparr>"

fun check_rules ::
  "'s lib \<Rightarrow> string \<Rightarrow> go_error option \<Rightarrow> ServiceRule list \<Rightarrow>
   ('s, (ctrl_result \<times> go_error option) option) state" where
  "check_rules L namespace outer_err [] = State_Monad.return None"
| "check_rules L namespace outer_err (rule # rules) = do {
     r \<leftarrow> op_get (l_services L)
       \<lparr>nn_namespace = namespace, nn_name = sb_name (rule_backend rule)\<rparr>;
     (case r of
        Inl err \<Rightarrow>
          State_Monad.return (Some (zero_result, wrapped L ''service not found'' err))
      | Inr service \<Rightarrow>
          if \<not> portExists (ss_ports (svc_spec service)) (rule_backend_port rule)
          then State_Monad.return (Some (zero_result,
            l_wrap L outer_err ''port in service rule %#v not found in target service''))
          else check_rules L namespace outer_err rules)
   }"

definition os_status_step ::
  "'s lib \<Rightarrow> string \<Rightarrow> OnionService \<Rightarrow> ('s, ctrl_result \<times> go_error option) state" where
  "os_status_step L namespace onionService =
     (let onionServiceCopy = onionService; serviceName = os_ServiceName onionService;
          update = (\<lambda>clusterIP. do {
            u \<leftarrow> l_status_os L (onionServiceCopy\<lparr>os_status :=
              (os_status onionServiceCopy)\<lparr>oss_TargetClusterIP := clusterIP\<rparr>\<rparr>);
            State_Monad.return (case u of
               Some err \<Rightarrow> (zero_result, wrapped L ''unable to update OnionService status'' err)
             | None \<Rightarrow> (zero_result, None))
          })
      in do {
        r \<leftarrow> op_get (l_services L) \<lparr>nn_namespace = namespace, nn_name = serviceName\<rparr>;
        (case r of
           Inl err \<Rightarrow>
             if l_is_not_found L err then update defaultClusterIP
             else State_Monad.return (zero_result, wrapped L ''unable to get service'' err)
         | Inr service \<Rightarrow> update (ss_cluster_ip (svc_spec service)))
      })"

definition os_steps_after_deployment ::
  "'s lib \<Rightarrow> string \<Rightarrow> OnionService \<Rightarrow> ('s, ctrl_result \<times> go_error option) state" where
  "os_steps_after_deployment L namespace onionService =
     and_then (os_reconcileMetricsService L onionService)
     (and_then (os_reconcileServiceMonitor L onionService)
       (os_status_step L namespace onionService))"

definition os_steps ::
  "'s lib \<Rightarrow> ProjectConfig \<Rightarrow> string \<Rightarrow> OnionService \<Rightarrow>
   ('s, ctrl_result \<times> go_error option) state" where
  "os_steps L cfg namespace onionService =
     and_then (reconcileSecretAuthorizedClients L onionService)
     (and_then (os_reconcileSecret L onionService)
     (and_then (os_reconcileServiceAccount L onionService)
     (and_then (os_reconcileRole L onionService)
     (and_then (os_reconcileRolebinding L onionService)
     (and_then (os_reconcileService L onionService) (do {
        r \<leftarrow> os_reconcileDeployment L cfg onionService;
        (case r of
           (Some err, onionService') \<Rightarrow> State_Monad.return (zero_result, Some err)
         | (None, onionService') \<Rightarrow> os_steps_after_deployment L namespace onionService')
      }))))))"

definition os_Reconcile ::
  "'s lib \<Rightarrow> ProjectConfig \<Rightarrow> nsname \<Rightarrow> ('s, ctrl_result \<times> go_error option) state" where
  "os_Reconcile L cfg req = do {
     r \<leftarrow> op_get (l_onions L) req;
     (case r of
        Inl err \<Rightarrow> State_Monad.return
          (zero_result, l_wrap L (l_ignore_not_found L err) ''unable to fetch OnionService'')
      | Inr onionService \<Rightarrow>
          (let namespace = os_namespace onionService in do {
             early \<leftarrow> check_rules L namespace None (os_Rules (os_spec onionService));
             (case early of
                Some result \<Rightarrow> State_Monad.return result
              | None \<Rightarrow> os_steps L cfg namespace onionService)
           }))
   }"

section \<open>Nothing else is touched\<close>

lemma check_rules_keeps:
  "children_permits P L owner \<Longrightarrow> holds_after P (check_rules L ns e rules)"
  by (induction rules) (auto intro!: keeps dest: permits_get [OF children_permitsD(1)])

lemma os_status_step_keeps:
  assumes "children_permits P L owner" "\<And>t. os_meta t = owner \<Longrightarrow> holds_after P (l_status_os L t)"
    "os_meta onion = owner"
  shows "holds_after P (os_status_step L namespace onion)"
  unfolding os_status_step_def Let_def
  by (intro keeps permits_get [OF children_permitsD(1) [OF assms(1)]] assms(2)) (simp_all add: assms(3))

lemma os_steps_keeps:
  assumes ch: "children_permits P L owner" and nil: "holds_after P (l_create_nil_secret L)"
    and st: "\<And>t. os_meta t = owner \<Longrightarrow> holds_after P (l_status_os L t)"
    and meta: "os_meta onion = owner"
  shows "holds_after P (os_steps L cfg namespace onion)"
proof -
  have after_dep: "holds_after P (os_steps_after_deployment L namespace t)" if "os_meta t = owner" for t
    unfolding os_steps_after_deployment_def using ch that
    by (intro keeps os_ensure_keeps os_status_step_keeps [OF ch st]) simp_all
  show ?thesis
    unfolding os_steps_def using ch meta nil after_dep
    by (intro and_then_keeps os_ensure_keeps os_auth_keeps os_secret_keeps
        holds_after_bind_yields [OF os_deployment_keeps os_reconcileDeployment_meta])
      (auto intro!: keeps split: option.splits)
qed

text \<open>
  C2: a reconciliation of an \<open>OnionService\<close> performs only permitted operations: every predicate
  on the world kept by reads and generators, by creating objects made for this service, by
  updating or deleting objects just read and found under its control, and by updating its own
  status, is kept by \<open>Reconcile\<close>, however it ends.
\<close>

theorem os_Reconcile_permitted:
  assumes "holds_after P (op_get (l_onions L) req)"
    and "\<And>s onion s'. P s \<Longrightarrow> run_state (op_get (l_onions L) req) s = (Inr onion, s') \<Longrightarrow>
      children_permits P L (os_meta onion) \<and> holds_after P (l_create_nil_secret L) \<and>
      (\<forall>t. os_meta t = os_meta onion \<longrightarrow> holds_after P (l_status_os L t))"
    and "P s" "run_state (os_Reconcile L cfg req) s = (res, s')"
  shows "P s'"
proof (cases "run_state (op_get (l_onions L) req) s")
  case (Pair r t)
  with assms(1,3) have "P t" by (blast intro: holds_afterD)
  show ?thesis
  proof (cases r)
    case (Inl e)
    with Pair assms(4) \<open>P t\<close> show ?thesis by (simp add: os_Reconcile_def)
  next
    case (Inr onion)
    let ?m = "do {
      early \<leftarrow> check_rules L (os_namespace onion) None (os_Rules (os_spec onion));
      (case early of Some result \<Rightarrow> State_Monad.return result
       | None \<Rightarrow> os_steps L cfg (os_namespace onion) onion) }"
    have "holds_after P ?m"
      using assms(2) [OF \<open>P s\<close>] Pair Inr
      by (intro keeps check_rules_keeps [where owner = "os_meta onion"]
          os_steps_keeps [where owner = "os_meta onion"]) auto
    moreover have "run_state ?m t = (res, s')"
      using Pair Inr assms(4) by (simp add: os_Reconcile_def Let_def)
    ultimately show ?thesis using \<open>P t\<close> by (blast intro: holds_afterD)
  qed
qed

definition zero_onion :: "string \<Rightarrow> string \<Rightarrow> ServiceRule list \<Rightarrow> OnionService" where
  "zero_onion name namespace rules =
     \<lparr>os_kind = ''OnionService'',
      os_meta = zero_meta\<lparr>om_name := name, om_namespace := namespace, om_uid := ''u2''\<rparr>,
      os_spec = (tr_spec (ob_Template (ob_spec (zero_ob name namespace))))\<lparr>os_Rules := rules\<rparr>,
      os_status = \<lparr>oss_Hostname = [], oss_TargetClusterIP = []\<rparr>\<rparr>"

definition web_service :: service where
  "web_service =
     \<lparr>svc_meta = zero_meta\<lparr>om_name := ''web'', om_namespace := ''default''\<rparr>,
      svc_spec = \<lparr>ss_selector = fmempty,
        ss_ports = [\<lparr>sp_name = ''http'', sp_protocol = ''TCP'', sp_port = 8080,
          sp_target_port = FromInt 8080\<rparr>],
        ss_cluster_ip = ''10.0.0.2'', ss_other = []\<rparr>,
      svc_status = []\<rparr>"

definition web_rule :: "int32 \<Rightarrow> ServiceRule" where
  "web_rule port =
     \<lparr>rule_port = \<lparr>sbp_name = ''http'', sbp_number = 80\<rparr>,
      rule_backend = \<lparr>sb_name = ''web'', sb_port = \<lparr>sbp_name = [], sbp_number = port\<rparr>\<rparr>\<rparr>"

definition onion_req :: nsname where
  "onion_req = \<lparr>nn_namespace = ''default'', nn_name = ''hidden''\<rparr>"

definition onion_cluster :: "OnionService \<Rightarrow> cluster" where
  "onion_cluster onion = empty_cluster
     \<lparr>c_services := [key_of (svc_meta web_service) \<mapsto> web_service],
      c_onions := [key_of (os_meta onion) \<mapsto> onion], c_onion_names := [os_name onion]\<rparr>"

lemma onion_cluster_kept: "others_kept owner (onion_cluster onion) (onion_cluster onion)"
  unfolding others_kept_same by (simp add: onion_cluster_def empty_cluster_def keyed_def onion_metas_def)

lemma sim_nil_keeps: "holds_after P (l_create_nil_secret sim_lib)"
  by (simp add: sim_lib_def answer_def)

definition sample_onion :: OnionService where
  "sample_onion = zero_onion ''hidden'' ''default'' [web_rule 8080]"

lemma sim_get_onion_meta:
  assumes "others_kept (os_meta sample_onion) (onion_cluster sample_onion) s"
    and "run_state (op_get (l_onions sim_lib) onion_req) s = (Inr x, s')"
  shows "os_meta x = os_meta sample_onion"
proof -
  have "onion_metas (onion_cluster sample_onion) onion_req = Some (os_meta sample_onion)"
    by (simp add: onion_cluster_def empty_cluster_def sample_onion_def zero_onion_def onion_metas_def
        onion_req_def key_of_def zero_meta_def)
  moreover have "\<not> sim_controlled (id (os_meta sample_onion)) (os_meta sample_onion)"
    by (simp add: sim_fields sample_onion_def zero_onion_def zero_meta_def)
  ultimately have "onion_metas s onion_req = Some (os_meta sample_onion)"
    using assms(1) unfolding others_kept_def store_kept_def by blast
  moreover have "c_onions s onion_req = Some x"
    using assms(2) by (simp add: sim_fields sim_onions_def sim_ops_def split: option.splits)
  ultimately show ?thesis by (simp add: onion_metas_def)
qed

theorem os_Reconcile_permitted_witness:
  "c_services (snd (run_state (os_Reconcile sim_lib sample_project onion_req)
     (onion_cluster sample_onion))) (key_of (svc_meta web_service)) = Some web_service"
proof -
  let ?P = "others_kept (os_meta sample_onion) (onion_cluster sample_onion)"
  obtain res s' where run:
    "run_state (os_Reconcile sim_lib sample_project onion_req) (onion_cluster sample_onion) = (res, s')"
    by (cases "run_state (os_Reconcile sim_lib sample_project onion_req) (onion_cluster sample_onion)")
  have "?P s'"
  proof (rule os_Reconcile_permitted [where P = ?P, OF _ _ onion_cluster_kept run])
    show "holds_after ?P (op_get (l_onions sim_lib) onion_req)"
      by (rule permits_get [OF children_permitsD(9) [OF sim_children_permits]])
  next
    fix s onion t
    assume "?P s" "run_state (op_get (l_onions sim_lib) onion_req) s = (Inr onion, t)"
    from sim_get_onion_meta [OF this]
    show "children_permits ?P sim_lib (os_meta onion) \<and> holds_after ?P (l_create_nil_secret sim_lib) \<and>
        (\<forall>u. os_meta u = os_meta onion \<longrightarrow> holds_after ?P (l_status_os sim_lib u))"
      using sim_children_permits sim_status_keep(2) sim_nil_keeps by metis
  qed
  moreover have "c_services (onion_cluster sample_onion) (key_of (svc_meta web_service)) = Some web_service"
    "\<not> sim_controlled (svc_meta web_service) (os_meta sample_onion)"
    by (simp_all add: onion_cluster_def web_service_def zero_meta_def sim_fields)
  ultimately show ?thesis by (auto simp: run others_kept_def store_kept_def)
qed

section \<open>Checking the rules\<close>

text \<open>The service a rule leads to, as a read from the world \<open>s\<close> gives it.\<close>

definition rule_service :: "'s lib \<Rightarrow> string \<Rightarrow> 's \<Rightarrow> ServiceRule \<Rightarrow> go_error + service" where
  "rule_service L ns s rule =
     fst (run_state (op_get (l_services L) \<lparr>nn_namespace = ns, nn_name = sb_name (rule_backend rule)\<rparr>) s)"

definition rule_passes :: "'s lib \<Rightarrow> string \<Rightarrow> 's \<Rightarrow> ServiceRule \<Rightarrow> bool" where
  "rule_passes L ns s rule =
     (case rule_service L ns s rule of
        Inl err \<Rightarrow> False
      | Inr service \<Rightarrow> portExists (ss_ports (svc_spec service)) (rule_backend_port rule))"

lemma check_rules_first:
  assumes ro: "\<And>key. snd (run_state (op_get (l_services L) key) s) = s"
    and "list_all (rule_passes L ns s) good" "\<not> rule_passes L ns s rule"
  shows "run_state (check_rules L ns e (good @ rule # others)) s =
    (Some (zero_result, case rule_service L ns s rule of
        Inl err \<Rightarrow> wrapped L ''service not found'' err
      | Inr service \<Rightarrow> l_wrap L e ''port in service rule %#v not found in target service''), s)"
proof -
  have get: "run_state (op_get (l_services L) \<lparr>nn_namespace = ns, nn_name = sb_name (rule_backend r)\<rparr>) s =
      (rule_service L ns s r, s)" for r
    using ro by (metis rule_service_def prod.collapse)
  show ?thesis
    using assms(2,3) by (induction good) (auto simp: get rule_passes_def split: sum.splits)
qed

text \<open>
  C36: the target services are checked before anything is written, and where reads of services leave
  the world as it is, the first rule that does not
  pass ends the reconciliation, whatever the rules after it are, with the world
  unchanged.  When the service of that rule cannot be read, an error is reported; but when it exists and does
  not have the port, none is: \<open>Wrapf\<close> is given the \<open>nil\<close> of the read before the loop, so the failure
  is reported to nobody and the request is not retried.
\<close>

theorem os_missing_port:
  assumes "wrap_law L" and "\<And>key. snd (run_state (op_get (l_services L) key) s1) = s1"
    and "run_state (op_get (l_onions L) req) s = (Inr onion, s1)"
    and "os_Rules (os_spec onion) = good @ rule # others"
    and "list_all (rule_passes L (os_namespace onion) s1) good" "\<not> rule_passes L (os_namespace onion) s1 rule"
  shows "\<exists>err. run_state (os_Reconcile L cfg req) s = ((zero_result, err), s1) \<and>
    (err = None \<longleftrightarrow> (\<exists>service. rule_service L (os_namespace onion) s1 rule = Inr service))"
  using assms(1,3,4) check_rules_first [OF assms(2,5,6), of None others]
  by (auto simp: os_Reconcile_def Let_def wrapped_def split: sum.splits)

theorem os_missing_port_witness:
  "run_state (os_Reconcile sim_lib sample_project onion_req)
     (onion_cluster (zero_onion ''hidden'' ''default'' [web_rule 8080, web_rule 81])) =
   ((zero_result, None), onion_cluster (zero_onion ''hidden'' ''default'' [web_rule 8080, web_rule 81]))"
proof -
  let ?onion = "zero_onion ''hidden'' ''default'' [web_rule 8080, web_rule 81]"
  let ?s = "onion_cluster ?onion"
  have ro: "snd (run_state (op_get (l_services sim_lib) key) ?s) = ?s" for key
    unfolding sim_ops_of by (simp add: sim_ops_def split: option.splits)
  have get: "run_state (op_get (l_onions sim_lib) onion_req) ?s = (Inr ?onion, ?s)"
    by (simp add: sim_fields sim_onions_def sim_ops_def onion_cluster_def zero_onion_def onion_req_def
        key_of_def zero_meta_def)
  have rules: "os_Rules (os_spec ?onion) = [web_rule 8080] @ web_rule 81 # []"
    by (simp add: zero_onion_def)
  have service: "rule_service sim_lib (os_namespace ?onion) ?s (web_rule p) = Inr web_service" for p
    unfolding rule_service_def sim_ops_of
    by (simp add: sim_ops_def onion_cluster_def zero_onion_def web_rule_def web_service_def key_of_def zero_meta_def)
  have "portExists (ss_ports (svc_spec web_service)) (rule_backend_port (web_rule 8080))"
    "\<not> portExists (ss_ports (svc_spec web_service)) (rule_backend_port (web_rule 81))"
    by (simp_all add: web_service_def rule_backend_port_def web_rule_def)
  then have "list_all (rule_passes sim_lib (os_namespace ?onion) ?s) [web_rule 8080]"
    "\<not> rule_passes sim_lib (os_namespace ?onion) ?s (web_rule 81)"
    by (simp_all add: rule_passes_def service)
  from os_missing_port [OF sim_wrap ro get rules this, of sample_project] service show ?thesis by auto
qed

text \<open>
  C15: the check is exactly that every rule's service can be read and has the backend's port over
  TCP, by number or by name: where reads leave the world as it is, the loop passes if and only if
  this holds for all rules, and in no case does it change anything.
\<close>

theorem check_rules_exact:
  assumes "\<And>key. snd (run_state (op_get (l_services L) key) s) = s"
  shows "snd (run_state (check_rules L ns e rules) s) = s \<and>
    (fst (run_state (check_rules L ns e rules) s) = None \<longleftrightarrow>
      list_all (\<lambda>rule.
        (case fst (run_state (op_get (l_services L)
             \<lparr>nn_namespace = ns, nn_name = sb_name (rule_backend rule)\<rparr>) s) of
           Inl err \<Rightarrow> False
         | Inr service \<Rightarrow> list_ex (\<lambda>p. sp_protocol p = ''TCP'' \<and>
             (sp_port p = sbp_number (sb_port (rule_backend rule)) \<or>
              sp_name p \<noteq> [] \<and> sp_name p = sbp_name (sb_port (rule_backend rule))))
             (ss_ports (svc_spec service)))) rules)"
proof (induction rules)
  case (Cons rule rules)
  obtain r where get: "run_state (op_get (l_services L)
      \<lparr>nn_namespace = ns, nn_name = sb_name (rule_backend rule)\<rparr>) s = (r, s)"
    by (metis assms prod.collapse)
  with Cons.IH show ?case
    by (cases r) (auto simp: portExists_iff rule_backend_port_def list_ex_iff)
qed simp

theorem check_rules_exact_witness:
  "fst (run_state (check_rules sim_lib ''default'' None [web_rule 8080]) (onion_cluster sample_onion)) = None"
proof -
  let ?s = "onion_cluster sample_onion"
  have "snd (run_state (op_get (l_services sim_lib) key) ?s) = ?s" for key
    unfolding sim_ops_of by (simp add: sim_ops_def split: option.splits)
  moreover have "fst (run_state (op_get (l_services sim_lib)
      \<lparr>nn_namespace = ''default'', nn_name = sb_name (rule_backend (web_rule 8080))\<rparr>) ?s) = Inr web_service"
    unfolding sim_ops_of
    by (simp add: sim_ops_def onion_cluster_def web_rule_def web_service_def key_of_def zero_meta_def)
  ultimately show ?thesis
    using check_rules_exact [of sim_lib ?s "''default''" None "[web_rule 8080]"]
    by (simp add: web_service_def web_rule_def)
qed

section \<open>Authorized clients\<close>

lemma client_file_inject [simp]: "client_file i = client_file j \<longleftrightarrow> i = j"
  by (simp add: client_file_def)

text \<open>The entry the \<open>i\<close>-th reference contributes in a world \<open>s\<close>.\<close>

definition entry_at ::
  "'s lib \<Rightarrow> string \<Rightarrow> 's \<Rightarrow> SecretReference \<Rightarrow> bytes option" where
  "entry_at L ns s ref =
     (case fst (run_state (op_get (l_secrets L) \<lparr>nn_namespace = ns, nn_name = sr_name ref\<rparr>) s) of
        Inl e \<Rightarrow> None
      | Inr sec \<Rightarrow> client_entry ref (sec_data sec))"

lemma collect_clients_run:
  assumes ro: "\<And>key. snd (run_state (op_get (l_secrets L) key) s) = s"
  shows "\<exists>data. run_state (collect_clients L ns k refs acc) s = (data, s) \<and>
    (\<forall>i < length refs. fmlookup data (client_file (k + i)) =
       (case entry_at L ns s (refs ! i) of
          Some b \<Rightarrow> Some b | None \<Rightarrow> fmlookup acc (client_file (k + i)))) \<and>
    (\<forall>f. (\<forall>i < length refs. f \<noteq> client_file (k + i)) \<longrightarrow> fmlookup data f = fmlookup acc f)"
proof (induction refs arbitrary: k acc)
  case (Cons ref refs)
  obtain r where get: "run_state (op_get (l_secrets L)
      \<lparr>nn_namespace = ns, nn_name = sr_name ref\<rparr>) s = (r, s)"
    by (metis ro prod.collapse)
  define acc' where "acc' = (case entry_at L ns s ref of
      Some b \<Rightarrow> fmupd (client_file k) b acc | None \<Rightarrow> acc)"
  have step: "run_state (collect_clients L ns k (ref # refs) acc) s =
      run_state (collect_clients L ns (Suc k) refs acc') s"
    using get by (simp add: acc'_def entry_at_def split: sum.splits option.splits)
  obtain data where data: "run_state (collect_clients L ns (Suc k) refs acc') s = (data, s)"
    and hit: "\<And>i. i < length refs \<Longrightarrow> fmlookup data (client_file (Suc k + i)) =
       (case entry_at L ns s (refs ! i) of
          Some b \<Rightarrow> Some b | None \<Rightarrow> fmlookup acc' (client_file (Suc k + i)))"
    and miss: "\<And>f. (\<And>i. i < length refs \<Longrightarrow> f \<noteq> client_file (Suc k + i)) \<Longrightarrow>
       fmlookup data f = fmlookup acc' f"
    using Cons.IH [of "Suc k" acc'] by blast
  have other: "fmlookup acc' f = fmlookup acc f" if "f \<noteq> client_file k" for f
    using that by (simp add: acc'_def split: option.splits)
  have "fmlookup data (client_file (k + i)) =
      (case entry_at L ns s ((ref # refs) ! i) of
         Some b \<Rightarrow> Some b | None \<Rightarrow> fmlookup acc (client_file (k + i)))"
    if "i < length (ref # refs)" for i
  proof (cases i)
    case 0
    have "fmlookup data (client_file k) = fmlookup acc' (client_file k)"
      by (rule miss) simp
    with 0 show ?thesis by (simp add: acc'_def split: option.splits)
  next
    case (Suc j)
    with that hit [of j] other [of "client_file (Suc k + j)"] show ?thesis
      by (simp split: option.splits)
  qed
  moreover have "fmlookup data f = fmlookup acc f"
    if f: "\<forall>i < length (ref # refs). f \<noteq> client_file (k + i)" for f
  proof -
    have "f \<noteq> client_file (Suc k + i)" if "i < length refs" for i
      using f [rule_format, of "Suc i"] that by simp
    from miss [OF this] other [of f] f [rule_format, of 0] show ?thesis by simp
  qed
  ultimately show ?case using step data by auto
qed simp

text \<open>
  C28: the secret of the authorized clients, where reads of secrets leave the world as it is.  When it does not exist, it is created with a file of its
  own for every client: \<open>client-i.auth\<close> exactly when the \<open>i\<close>-th reference gives an entry (its key, else
  \<open>authKey\<close>, else a key built from \<open>publicKey\<close>), with that content, and nothing besides; a reference
  that gives none is skipped without shifting the others.  When it exists, it is left as it is,
  whatever the references say by now, and no error is reported; a read or a creation that fails is.
\<close>

theorem authorized_client_files:
  assumes "\<And>key. snd (run_state (op_get (l_secrets L) key) s) = s"
  shows "\<exists>data. (\<forall>i. fmlookup data (client_file i) =
      (if i < length (os_AuthorizedClients (os_spec onion))
       then entry_at L (os_namespace onion) s (os_AuthorizedClients (os_spec onion) ! i) else None)) \<and>
    fmdom' data \<subseteq> range client_file \<and>
    run_state (reconcileSecretAuthorizedClients L onion) s =
      (case fst (run_state (op_get (l_secrets L) (os_key onion (os_AuthorizedClientsSecretName onion))) s) of
         Inr existing \<Rightarrow> (None, s)
       | Inl e \<Rightarrow>
           if l_is_not_found L e
           then (case run_state (op_create (l_secrets L) (torOnionServiceSecretAuthorizedClients L data onion)) s of
                   (Inr created, s') \<Rightarrow> (None, s')
                 | (Inl err, s') \<Rightarrow> (wrapped L ''failed to create secret'' err, s'))
           else (wrapped L ''failed to get secret'' e, s))"
proof -
  let ?refs = "os_AuthorizedClients (os_spec onion)" and ?ns = "os_namespace onion"
  obtain data where run: "run_state (collect_clients L ?ns 0 ?refs fmempty) s = (data, s)"
    and hit0: "\<forall>i < length ?refs. fmlookup data (client_file (0 + i)) =
       (case entry_at L ?ns s (?refs ! i) of
          Some b \<Rightarrow> Some b | None \<Rightarrow> fmlookup fmempty (client_file (0 + i)))"
    and miss0: "\<forall>f. (\<forall>i < length ?refs. f \<noteq> client_file (0 + i)) \<longrightarrow> fmlookup data f = fmlookup fmempty f"
    using collect_clients_run [OF assms, of ?ns 0 ?refs fmempty] by blast
  have "fmlookup data (client_file i) = entry_at L ?ns s (?refs ! i)" if "i < length ?refs" for i
    using hit0 that by (cases "entry_at L ?ns s (?refs ! i)") auto
  moreover have miss: "fmlookup data f = None" if "\<And>i. i < length ?refs \<Longrightarrow> f \<noteq> client_file i" for f
    using miss0 that by simp
  then have "fmlookup data (client_file i) = None" if "\<not> i < length ?refs" for i
    using that by auto
  moreover have "fmdom' data \<subseteq> range client_file"
    using miss by (fastforce simp: fmlookup_dom'_iff)
  moreover obtain r where get: "run_state (op_get (l_secrets L)
      (os_key onion (os_AuthorizedClientsSecretName onion))) s = (r, s)"
    by (metis assms prod.collapse)
  have "os_AuthorizedClientsSecretName onion \<noteq> []" by (simp add: names)
  with get run have "run_state (reconcileSecretAuthorizedClients L onion) s =
      (case r of
         Inr existing \<Rightarrow> (None, s)
       | Inl e \<Rightarrow>
           if l_is_not_found L e
           then (case run_state (op_create (l_secrets L) (torOnionServiceSecretAuthorizedClients L data onion)) s of
                   (Inr created, s') \<Rightarrow> (None, s')
                 | (Inl err, s') \<Rightarrow> (wrapped L ''failed to create secret'' err, s'))
           else (wrapped L ''failed to get secret'' e, s))"
    by (auto simp: reconcileSecretAuthorizedClients_def Let_def ensure_created_def failing_def
        split: sum.splits prod.splits)
  ultimately show ?thesis using get by (intro exI [of _ data]) simp
qed

definition client_secret :: secret where
  "client_secret =
     \<lparr>sec_meta = zero_meta\<lparr>om_name := ''alice'', om_namespace := ''default''\<rparr>, sec_type = [],
      sec_data = fmap_of_list [(''publicKey'', ''KEY'')]\<rparr>"

definition closed_onion :: OnionService where
  "closed_onion = (zero_onion ''hidden'' ''default'' [])\<lparr>os_spec :=
     (os_spec (zero_onion ''hidden'' ''default'' []))\<lparr>os_AuthorizedClients :=
       [\<lparr>sr_name = ''bob'', sr_key = []\<rparr>, \<lparr>sr_name = ''alice'', sr_key = []\<rparr>]\<rparr>\<rparr>"

theorem authorized_client_files_witness:
  "\<exists>data created. c_secrets (snd (run_state (reconcileSecretAuthorizedClients sim_lib closed_onion)
      (empty_cluster\<lparr>c_secrets := [key_of (sec_meta client_secret) \<mapsto> client_secret]\<rparr>)))
      (os_key closed_onion (os_AuthorizedClientsSecretName closed_onion)) = Some created \<and>
    sec_data created = data \<and>
    fmlookup data (client_file 0) = None \<and>
    fmlookup data (client_file 1) = Some ''descriptor:x25519:KEY''"
proof -
  let ?s = "empty_cluster\<lparr>c_secrets := [key_of (sec_meta client_secret) \<mapsto> client_secret]\<rparr>"
  let ?refs = "os_AuthorizedClients (os_spec closed_onion)" and ?o = closed_onion
  have "snd (run_state (op_get (l_secrets sim_lib) key) ?s) = ?s" for key
    unfolding sim_ops_of by (simp add: sim_ops_def split: option.splits)
  from authorized_client_files [OF this, of ?o] obtain data where
    files: "\<And>i. fmlookup data (client_file i) =
      (if i < length ?refs then entry_at sim_lib (os_namespace ?o) ?s (?refs ! i) else None)"
    and run: "run_state (reconcileSecretAuthorizedClients sim_lib ?o) ?s =
      (case fst (run_state (op_get (l_secrets sim_lib) (os_key ?o (os_AuthorizedClientsSecretName ?o))) ?s) of
         Inr existing \<Rightarrow> (None, ?s)
       | Inl e \<Rightarrow>
           if l_is_not_found sim_lib e
           then (case run_state (op_create (l_secrets sim_lib) (torOnionServiceSecretAuthorizedClients sim_lib data ?o)) ?s of
                   (Inr created, s') \<Rightarrow> (None, s')
                 | (Inl err, s') \<Rightarrow> (wrapped sim_lib ''failed to create secret'' err, s'))
           else (wrapped sim_lib ''failed to get secret'' e, ?s))"
    by blast
  have ns: "os_namespace ?o = ''default''" "os_name ?o = ''hidden''" "os_AuthorizedClientsSecretName ?o \<noteq> ''alice''"
    by (simp_all add: closed_onion_def zero_onion_def names)
  have key: "key_of (sec_meta (torOnionServiceSecretAuthorizedClients sim_lib data ?o)) =
      os_key ?o (os_AuthorizedClientsSecretName ?o)"
    by (rule os_auth.build_key)
  have other: "c_secrets ?s (os_key ?o (os_AuthorizedClientsSecretName ?o)) = None"
    using ns by (simp add: empty_cluster_def client_secret_def key_of_def zero_meta_def)
  have "c_secrets (snd (run_state (reconcileSecretAuthorizedClients sim_lib ?o) ?s))
      (os_key ?o (os_AuthorizedClientsSecretName ?o)) = Some (torOnionServiceSecretAuthorizedClients sim_lib data ?o)"
    unfolding run sim_ops_of using other key
    by (simp add: sim_ops_def sim_fields)
  moreover have "entry_at sim_lib ''default'' ?s (?refs ! 0) = None"
    "entry_at sim_lib ''default'' ?s (?refs ! 1) = Some ''descriptor:x25519:KEY''" "length ?refs = 2"
    unfolding entry_at_def sim_ops_of
    by (simp_all add: closed_onion_def sim_ops_def client_secret_def key_of_def zero_meta_def empty_cluster_def
        client_entry_def authKeyLabel_def publicKeyLabel_def authTypeDefault_def keyTypeDefault_def)
  ultimately show ?thesis
    using files [of 0] files [of 1] ns
    by (intro exI [of _ data] exI [of _ "torOnionServiceSecretAuthorizedClients sim_lib data ?o"])
      (simp add: torOnionServiceSecretAuthorizedClients_def)
qed

section \<open>The pods\<close>

lemma torOnionServiceDeployment_parts:
  "ds_template (dep_spec (snd (torOnionServiceDeployment L cfg onion))) =
     \<lparr>pt_meta = (spt_meta (os_Template (os_spec onion)))
        \<lparr>om_labels := Some (add_labels (om_labels (spt_meta (os_Template (os_spec onion))))
           (os_ServiceSelector onion))\<rparr>,
      pt_spec = (spt_spec (os_Template (os_spec onion)))
        \<lparr>ps_service_account := os_ServiceAccountName onion,
         ps_volumes := ps_volumes (spt_spec (os_Template (os_spec onion))) @ os_volumes onion,
         ps_containers := ps_containers (spt_spec (os_Template (os_spec onion))) @
           [os_container cfg onion]\<rparr>\<rparr>"
  by (simp add: torOnionServiceDeployment_def Let_def os_PodTemplate_def os_DeploymentLabels_def)

text \<open>
  C30: the pods of an onion service carry labels that its deployment, its service and its metrics
  service select.  The containers and volumes of the user's template come first and unchanged,
  followed by the tor container and its volumes, which have distinct names and are each mounted once
  in it; the pods run under the service account the role binding names.  The agent in the container
  is told the name and namespace of the onion service, and its metrics port is where the metrics
  service leads.  One of the volumes is the key secret: when the user names no key, the files mounted
  from it are keys of a secret the controller generates; when the user does, that key alone is.
  Another is the secret of the authorized clients.
\<close>

theorem os_objects_fit:
  fixes L :: "'s lib" and cfg :: ProjectConfig and onion :: OnionService
  defines "dep \<equiv> snd (torOnionServiceDeployment L cfg onion)"
  defines "tmpl \<equiv> ds_template (dep_spec dep)"
  shows "(\<exists>lbls. om_labels (pt_meta tmpl) = Some lbls \<and>
      selects (ds_match_labels (dep_spec dep)) lbls \<and>
      selects (ss_selector (svc_spec (OnionServiceService L onion))) lbls \<and>
      selects (ss_selector (svc_spec (osTorMetricsService L onion))) lbls) \<and>
    (\<exists>c vols items.
      ps_containers (pt_spec tmpl) = ps_containers (spt_spec (os_Template (os_spec onion))) @ [c] \<and>
      ps_volumes (pt_spec tmpl) = ps_volumes (spt_spec (os_Template (os_spec onion))) @ vols \<and>
      map vm_name (ct_mounts c) = map vol_name vols \<and> distinct (map vol_name vols) \<and>
      ct_image c = tdm_Image (TorDaemonManager cfg) \<and>
      ct_args c = [''-name'', os_name onion, ''-namespace'', os_namespace onion] \<and>
      map (\<lambda>c. FromInt (sint (cp_port c))) (ct_ports c) =
        map sp_target_port (ss_ports (svc_spec (osTorMetricsService L onion))) \<and>
      map vol_source vols = [SecretVolume (os_SecretName onion) items None,
        SecretVolume (os_AuthorizedClientsSecretName onion) [] (Some 256)] \<and>
      (if sr_key (os_PrivateKeySecret (os_spec onion)) = []
       then items \<noteq> [] \<and> set (map kp_key items) \<subseteq> fmdom' (onion_secret_data keys)
       else map kp_key items = [sr_key (os_PrivateKeySecret (os_spec onion))])) \<and>
    map sj_name (rb_subjects (torOnionRolebinding L onion)) = [ps_service_account (pt_spec tmpl)]"
proof (intro conjI)
  have "ds_match_labels (dep_spec dep) = os_ServiceSelector onion"
    by (simp add: dep_def torOnionServiceDeployment_def Let_def os_DeploymentLabels_def)
  then show "\<exists>lbls. om_labels (pt_meta tmpl) = Some lbls \<and>
      selects (ds_match_labels (dep_spec dep)) lbls \<and>
      selects (ss_selector (svc_spec (OnionServiceService L onion))) lbls \<and>
      selects (ss_selector (svc_spec (osTorMetricsService L onion))) lbls"
    by (simp add: tmpl_def dep_def torOnionServiceDeployment_parts built)
  show "map sj_name (rb_subjects (torOnionRolebinding L onion)) = [ps_service_account (pt_spec tmpl)]"
    by (simp add: tmpl_def dep_def torOnionServiceDeployment_parts built)
  have "ps_containers (pt_spec tmpl) = ps_containers (spt_spec (os_Template (os_spec onion))) @ [os_container cfg onion]"
    "ps_volumes (pt_spec tmpl) = ps_volumes (spt_spec (os_Template (os_spec onion))) @ os_volumes onion"
    by (simp_all add: tmpl_def dep_def torOnionServiceDeployment_parts)
  moreover have "map vm_name (ct_mounts (os_container cfg onion)) = map vol_name (os_volumes onion)"
    "distinct (map vol_name (os_volumes onion))"
    by (simp_all add: os_container_def os_mounts_def os_volumes_def privateKeyVolume_def authorizedClientsVolume_def)
  moreover have "map vol_source (os_volumes onion) = [SecretVolume (os_SecretName onion) (key_volume_items onion) None,
      SecretVolume (os_AuthorizedClientsSecretName onion) [] (Some 256)]"
    by (simp add: os_volumes_def)
  moreover have "if sr_key (os_PrivateKeySecret (os_spec onion)) = []
      then key_volume_items onion \<noteq> [] \<and> set (map kp_key (key_volume_items onion)) \<subseteq> fmdom' (onion_secret_data keys)
      else map kp_key (key_volume_items onion) = [sr_key (os_PrivateKeySecret (os_spec onion))]"
    by (simp add: key_volume_items_def onion_secret_data_def Let_def)
  ultimately show "\<exists>c vols items.
      ps_containers (pt_spec tmpl) = ps_containers (spt_spec (os_Template (os_spec onion))) @ [c] \<and>
      ps_volumes (pt_spec tmpl) = ps_volumes (spt_spec (os_Template (os_spec onion))) @ vols \<and>
      map vm_name (ct_mounts c) = map vol_name vols \<and> distinct (map vol_name vols) \<and>
      ct_image c = tdm_Image (TorDaemonManager cfg) \<and>
      ct_args c = [''-name'', os_name onion, ''-namespace'', os_namespace onion] \<and>
      map (\<lambda>c. FromInt (sint (cp_port c))) (ct_ports c) =
        map sp_target_port (ss_ports (svc_spec (osTorMetricsService L onion))) \<and>
      map vol_source vols = [SecretVolume (os_SecretName onion) items None,
        SecretVolume (os_AuthorizedClientsSecretName onion) [] (Some 256)] \<and>
      (if sr_key (os_PrivateKeySecret (os_spec onion)) = []
       then items \<noteq> [] \<and> set (map kp_key items) \<subseteq> fmdom' (onion_secret_data keys)
       else map kp_key items = [sr_key (os_PrivateKeySecret (os_spec onion))])"
    by (intro exI [of _ "os_container cfg onion"] exI [of _ "os_volumes onion"] exI [of _ "key_volume_items onion"] conjI)
      (simp_all add: os_container_def built)
qed

end
