(* ===== verification/Balanced_Children.thy ===== *)
theory Balanced_Children
  imports Onion_Children
begin

text \<open>
  The objects an \<open>OnionBalancedService\<close> owns and the functions that reconcile each of them:
  \<open>controllers/tor/onionbalancedservice_secret.go\<close>, \<open>onionbalancedservice_serviceaccount.go\<close>,
  \<open>onionbalancedservice_role.go\<close>, \<open>onionbalancedservice_rolebinding.go\<close>,
  \<open>onionbalancedservice_service.go\<close>, \<open>onionbalancedservice_configmap.go\<close>,
  \<open>onionbalancedservice_deployment.go\<close>, \<open>onionbalancedservice_backends.go\<close>,
  \<open>onionbalancedservice_service_metrics.go\<close> and \<open>onionbalancedservice_service_monitor.go\<close>.
\<close>

abbreviation ob_owned ::
  "'s lib \<Rightarrow> OnionBalancedService \<Rightarrow> string \<Rightarrow> labels option \<Rightarrow> object_meta" where
  "ob_owned L onion name lbls \<equiv> owned_meta L (ob_meta onion) name lbls ''OnionBalancedService''"

abbreviation ob_key :: "OnionBalancedService \<Rightarrow> string \<Rightarrow> nsname" where
  "ob_key onion name \<equiv> \<lparr>nn_namespace = ob_namespace onion, nn_name = name\<rparr>"

section \<open>Master key secret (onionbalancedservice_secret.go)\<close>

definition balance_secret_of :: "'s lib \<Rightarrow> OnionV3 \<Rightarrow> OnionBalancedService \<Rightarrow> secret" where
  [built]: "balance_secret_of L onionv3 onion =
     \<lparr>sec_meta = ob_owned L onion (ob_SecretName onion) None,
      sec_type = ''tor.k8s.torproject.org/onion-v3'', sec_data = onion_secret_data onionv3\<rparr>"

definition onionbalanceSecret :: "'s lib \<Rightarrow> OnionBalancedService \<Rightarrow> ('s, secret option) state" where
  "onionbalanceSecret L onion = do {
     r \<leftarrow> GenerateOnionV3 (l_gen_key L) (l_wrap L) (l_onion_id L);
     State_Monad.return (case r of
        (Some onionv3, None) \<Rightarrow> Some (balance_secret_of L onionv3 onion)
      | _ \<Rightarrow> None)
   }"

text \<open>The hostname in the status is set from the secret; the model returns the changed service.\<close>

definition set_hostname :: "secret \<Rightarrow> OnionBalancedService \<Rightarrow> OnionBalancedService" where
  "set_hostname sec onion =
     onion\<lparr>ob_status := (ob_status onion)\<lparr>obs_Hostname :=
       (case fmlookup (sec_data sec) ''onionAddress'' of Some a \<Rightarrow> a | None \<Rightarrow> [])\<rparr>\<rparr>"

definition ob_reconcileSecret ::
  "'s lib \<Rightarrow> OnionBalancedService \<Rightarrow> ('s, go_error option \<times> OnionBalancedService) state" where
  "ob_reconcileSecret L onionBalancedService =
     (let secretName = ob_SecretName onionBalancedService in
      if secretName = [] then State_Monad.return (None, onionBalancedService)
      else do {
        r \<leftarrow> op_get (l_secrets L) (ob_key onionBalancedService secretName);
        newSecret \<leftarrow> onionbalanceSecret L onionBalancedService;
        c \<leftarrow> ensure_key_secret L r newSecret;
        (case c of
           Inl err \<Rightarrow> State_Monad.return (err, onionBalancedService)
         | Inr secret \<Rightarrow>
             (let onion' = set_hostname secret onionBalancedService in
              if \<not> l_controlled L (sec_meta secret) (ob_meta onion')
              then State_Monad.return (None, onion') else State_Monad.return (None, onion')))
      })"

section \<open>Service account, role, role binding\<close>

definition onionbalanceServiceAccount :: "'s lib \<Rightarrow> OnionBalancedService \<Rightarrow> service_account" where
  [built]: "onionbalanceServiceAccount L onion =
     \<lparr>sa_meta = ob_owned L onion (ob_ServiceAccountName onion) None,
      sa_secrets = [], sa_image_pull_secrets = [], sa_automount_token = None\<rparr>"

definition ob_reconcileServiceAccount :: "'s lib \<Rightarrow> OnionBalancedService \<Rightarrow> ('s, go_error option) state" where
  "ob_reconcileServiceAccount L onionBalancedService =
     (let serviceAccountName = ob_ServiceAccountName onionBalancedService in
      if serviceAccountName = [] then State_Monad.return None
      else ensure_child L (l_service_accounts L) sa_meta serviceAccountEqual
        (failing L ''failed to create ServiceAccount %#v'' ''failed to get ServiceAccount %s''
           ''failed to update ServiceAccount %#v'' [])
        (ob_meta onionBalancedService) (ob_key onionBalancedService serviceAccountName) False
        (onionbalanceServiceAccount L onionBalancedService))"

definition onionbalanceRole :: "'s lib \<Rightarrow> OnionBalancedService \<Rightarrow> role" where
  [built]: "onionbalanceRole L onion =
     \<lparr>role_meta = owned_meta L (ob_meta onion) (ob_RoleName onion) None (ob_kind onion),
      role_rules =
        [\<lparr>pr_api_groups = [api_group], pr_verbs = [''get'', ''list'', ''watch''],
          pr_resources = [''onionbalancedservices'']\<rparr>,
         \<lparr>pr_api_groups = [api_group], pr_verbs = [''update'', ''patch''],
          pr_resources = [''onionbalancedservices/status'']\<rparr>,
         \<lparr>pr_api_groups = [''''], pr_verbs = [''create'', ''update'', ''patch''],
          pr_resources = [''events'']\<rparr>]\<rparr>"

definition ob_reconcileRole :: "'s lib \<Rightarrow> OnionBalancedService \<Rightarrow> ('s, go_error option) state" where
  "ob_reconcileRole L onionBalancedService =
     (let roleName = ob_RoleName onionBalancedService in
      if roleName = [] then State_Monad.return None
      else ensure_child L (l_roles L) role_meta roleEqual
        (failing L ''failed to create Role %#v'' ''failed to get Role %s''
           ''failed to update Role %#v'' [])
        (ob_meta onionBalancedService) (ob_key onionBalancedService roleName) False
        (onionbalanceRole L onionBalancedService))"

definition onionbalanceRolebinding :: "'s lib \<Rightarrow> OnionBalancedService \<Rightarrow> role_binding" where
  [built]: "onionbalanceRolebinding L onion =
     \<lparr>rb_meta = owned_meta L (ob_meta onion) (ob_RoleName onion) None (to_lower (ob_kind onion)),
      rb_subjects =
        [\<lparr>sj_kind = ''ServiceAccount'', sj_api_group = [], sj_name = ob_ServiceAccountName onion,
          sj_namespace = []\<rparr>],
      rb_role_ref = \<lparr>rr_api_group = [], rr_kind = ''Role'', rr_name = ob_RoleName onion\<rparr>\<rparr>"

definition ob_reconcileRolebinding :: "'s lib \<Rightarrow> OnionBalancedService \<Rightarrow> ('s, go_error option) state" where
  "ob_reconcileRolebinding L onionBalancedService =
     (let roleName = ob_RoleName onionBalancedService in
      if roleName = [] then State_Monad.return None
      else ensure_child L (l_role_bindings L) rb_meta rolebindingEqual
        (failing L ''failed to create Rolebinding'' ''failed to get Rolebinding''
           ''filed to update Rolebinding %#v'' [])
        (ob_meta onionBalancedService) (ob_key onionBalancedService roleName) False
        (onionbalanceRolebinding L onionBalancedService))"

section \<open>Services and service monitor\<close>

definition onionbalanceService :: "'s lib \<Rightarrow> OnionBalancedService \<Rightarrow> service" where
  [built]: "onionbalanceService L onion =
     \<lparr>svc_meta = ob_owned L onion (ob_ServiceName onion) None,
      svc_spec = \<lparr>ss_selector = ob_ServiceSelector onion,
        ss_ports = rule_service_ports (os_Rules (tr_spec (ob_Template (ob_spec onion)))),
        ss_cluster_ip = [], ss_other = []\<rparr>,
      svc_status = []\<rparr>"

definition ob_reconcileService :: "'s lib \<Rightarrow> OnionBalancedService \<Rightarrow> ('s, go_error option) state" where
  "ob_reconcileService L onionBalancedService =
     (let serviceName = ob_ServiceName onionBalancedService in
      if serviceName = [] then State_Monad.return None
      else ensure_child L (l_services L) svc_meta serviceEqual
        (failing L ''failed to create Service %s'' ''failed to get Service %s''
           ''failed to update Service %s'' [])
        (ob_meta onionBalancedService) (ob_key onionBalancedService serviceName) False
        (onionbalanceService L onionBalancedService))"

definition obsTorMetricsService :: "'s lib \<Rightarrow> OnionBalancedService \<Rightarrow> service" where
  [built]: "obsTorMetricsService L onion =
     \<lparr>svc_meta = ob_owned L onion (ob_ServiceMetricsName onion)
        (Some (ob_ServiceMetricsSelector onion)),
      svc_spec = \<lparr>ss_selector = ob_ServiceSelector onion,
        ss_ports = [\<lparr>sp_name = ''metrics'', sp_protocol = [], sp_port = metrics_port,
          sp_target_port = FromInt (sint metrics_port)\<rparr>],
        ss_cluster_ip = [], ss_other = []\<rparr>,
      svc_status = []\<rparr>"

definition ob_reconcileMetricsService :: "'s lib \<Rightarrow> OnionBalancedService \<Rightarrow> ('s, go_error option) state" where
  "ob_reconcileMetricsService L onionBalancedService =
     (let serviceName = ob_ServiceMetricsName onionBalancedService in
      if serviceName = [] then State_Monad.return None
      else ensure_child L (l_services L) svc_meta serviceEqual
        (failing L ''failed to create Service'' ''failed to get Service''
           ''failed to update Service %s'' [])
        (ob_meta onionBalancedService) (ob_key onionBalancedService serviceName) False
        (obsTorMetricsService L onionBalancedService))"

definition obsTorServiceMonitor :: "'s lib \<Rightarrow> OnionBalancedService \<Rightarrow> service_monitor" where
  [built]: "obsTorServiceMonitor L onion =
     \<lparr>sm_meta = ob_owned L onion (ob_ServiceMetricsName onion)
        (Some (ob_ServiceMetricsSelector onion)),
      sm_spec = \<lparr>sms_match_labels = ob_ServiceMetricsSelector onion,
        sms_endpoints = [\<lparr>ep_port = ''metrics'', ep_path = ''/metrics''\<rparr>],
        sms_match_names = [ob_namespace onion], sms_other = []\<rparr>\<rparr>"

definition ob_reconcileServiceMonitor :: "'s lib \<Rightarrow> OnionBalancedService \<Rightarrow> ('s, go_error option) state" where
  "ob_reconcileServiceMonitor L onionBalancedService = do {
     installed \<leftarrow> monitoringInstalled L;
     if \<not> installed then State_Monad.return None
     else (let serviceName = ob_ServiceMetricsName onionBalancedService in
       if serviceName = [] then State_Monad.return None
       else ensure_monitor L (l_service_monitors L) sm_meta monitorServiceEqual
         (failing L ''failed to create ServiceMonitor %s'' ''failed to get ServiceMonitor %s''
            ''failed to update ServiceMonitor %s'' ''failed to delete ServiceMonitor %s'')
         (ob_meta onionBalancedService) (ob_key onionBalancedService serviceName)
         (ob_ServiceMonitor (ob_spec onionBalancedService))
         (obsTorServiceMonitor L onionBalancedService))
   }"

section \<open>Config map (onionbalancedservice_configmap.go)\<close>

text \<open>
  The template is executed with constants, which hold no character its escaping would change.
\<close>

definition ob_socksPort :: string where "ob_socksPort = ''0''"
definition controlAddress :: string where "controlAddress = ''127.0.0.1:9051''"
definition metricsAddress :: string where "metricsAddress = ''0.0.0.0:9035''"
definition MetricsPortPolicy :: string where "MetricsPortPolicy = ''accept 0.0.0.0/0''"

definition onionbalanceTorConfig :: "OnionBalancedService \<Rightarrow> string" where
  "onionbalanceTorConfig onion =
     ''# Config automatically generated'' @ newline @
     ''SocksPort '' @ ob_socksPort @ newline @
     ''ControlPort '' @ controlAddress @ newline @
     ''MetricsPort '' @ metricsAddress @ newline @
     ''MetricsPortPolicy '' @ MetricsPortPolicy @ newline"

definition onionbalanceTorConfigMap :: "'s lib \<Rightarrow> OnionBalancedService \<Rightarrow> config_map" where
  [built]: "onionbalanceTorConfigMap L onion =
     \<lparr>cm_meta = owned_meta L (ob_meta onion) (ob_ConfigMapName onion) None ''onionbalancedservice'',
      cm_data = fmap_of_list [(''torfile'', onionbalanceTorConfig onion)]\<rparr>"

definition ob_reconcileConfigMap ::
  "'s lib \<Rightarrow> OnionBalancedService \<Rightarrow> ('s, go_error option) state" where
  "ob_reconcileConfigMap L onionBalancedService =
     (let configMapName = ob_ConfigMapName onionBalancedService in
      if configMapName = [] then State_Monad.return None
      else do {
        r \<leftarrow> op_get (l_config_maps L) (ob_key onionBalancedService configMapName);
        c \<leftarrow> ensure_created L (l_config_maps L)
          (failing L ''failed to create configmap %s'' ''failed to get configmap %s'' [] [])
          r (onionbalanceTorConfigMap L onionBalancedService);
        (case c of
           Inl err \<Rightarrow> State_Monad.return err
         | Inr configmap \<Rightarrow>
             if \<not> l_controlled L (cm_meta configmap) (ob_meta onionBalancedService)
             then State_Monad.return None else State_Monad.return None)
      })"

section \<open>Deployment (onionbalancedservice_deployment.go)\<close>

definition onionBalanceConfigMountPath :: string where
  "onionBalanceConfigMountPath = ''/run/onionbalance/''"
definition onionBalanceSecretMountPath :: string where
  "onionBalanceSecretMountPath = onionBalanceConfigMountPath @ ''key''"
definition torConfigMountDir :: string where "torConfigMountDir = ''/run/tor''"
definition privateKeyMounPath :: string where "privateKeyMounPath = torConfigMountDir @ ''key''"
definition torFile :: string where "torFile = ''/run/tor/torfile''"
definition torBinary :: string where "torBinary = ''/usr/local/bin/tor''"

lemmas mount_paths =
  onionBalanceConfigMountPath_def onionBalanceSecretMountPath_def torConfigMountDir_def
  privateKeyMounPath_def torFile_def torBinary_def

definition ob_volumes :: "OnionBalancedService \<Rightarrow> volume list" where
  "ob_volumes onion =
     [\<lparr>vol_name = onionBalanceConfigVolume, vol_source = EmptyDir\<rparr>,
      \<lparr>vol_name = torConfigVolume, vol_source = ConfigMapVolume (ob_ConfigMapName onion)
         [\<lparr>kp_key = ''torfile'', kp_path = ''torfile''\<rparr>]\<rparr>,
      \<lparr>vol_name = onionBalanceSecretVolume, vol_source = SecretVolume (ob_SecretName onion) [] None\<rparr>,
      \<lparr>vol_name = privateKeyVolume, vol_source = SecretVolume (ob_SecretName onion)
         [\<lparr>kp_key = ''privateKeyFile'', kp_path = ''private_key''\<rparr>,
          \<lparr>kp_key = ''onionAddress'', kp_path = ''hostname''\<rparr>] None\<rparr>]"

definition ob_mount :: "string \<Rightarrow> string \<Rightarrow> volume_mount" where
  "ob_mount name path = \<lparr>vm_name = name, vm_path = path, vm_read_only = False\<rparr>"

definition balancer_container :: "ProjectConfig \<Rightarrow> OnionBalancedService \<Rightarrow> container" where
  "balancer_container projectConfig onion =
     \<lparr>ct_name = ''onionbalance'', ct_image = tom_Image (TorOnionbalanceManager projectConfig),
      ct_command = [],
      ct_args = [''-name'', ob_name onion, ''-namespace'', ob_namespace onion],
      ct_pull_policy = ''Always'',
      ct_mounts = [ob_mount onionBalanceConfigVolume onionBalanceConfigMountPath,
        ob_mount onionBalanceSecretVolume onionBalanceSecretMountPath],
      ct_ports = [], ct_resources = ob_BalancerResources onion, ct_other = []\<rparr>"

definition balanced_tor_container :: "ProjectConfig \<Rightarrow> OnionBalancedService \<Rightarrow> container" where
  "balanced_tor_container projectConfig onion =
     \<lparr>ct_name = ''tor'', ct_image = tdm_Image (TorDaemonManager projectConfig),
      ct_command = [torBinary], ct_args = [''-f'', torFile],
      ct_pull_policy = ''Always'',
      ct_mounts = [ob_mount torConfigVolume torConfigMountDir,
        ob_mount privateKeyVolume privateKeyMounPath],
      ct_ports = [\<lparr>cp_name = ''metrics'', cp_protocol = ''TCP'', cp_port = metrics_port\<rparr>],
      ct_resources = ob_TorResources onion, ct_other = []\<rparr>"

definition onionbalanceDeployment ::
  "'s lib \<Rightarrow> ProjectConfig \<Rightarrow> OnionBalancedService \<Rightarrow> OnionBalancedService \<times> deployment" where
  "onionbalanceDeployment L projectConfig onion =
     (let podTemplate = ob_PodTemplate onion;
          lbls = Some (add_labels (om_labels (pt_meta podTemplate)) (ob_DeploymentLabels onion));
          tmpl = ob_BalancerTemplate (ob_spec onion);
          onion' = (if om_labels (pt_meta podTemplate) = None then onion
                    else onion\<lparr>ob_spec := (ob_spec onion)\<lparr>ob_BalancerTemplate :=
                           tmpl\<lparr>bt_meta := (bt_meta tmpl)\<lparr>om_labels := lbls\<rparr>\<rparr>\<rparr>\<rparr>);
          podTemplate' =
            \<lparr>pt_meta = (pt_meta podTemplate)\<lparr>om_labels := lbls\<rparr>,
             pt_spec = (pt_spec podTemplate)
               \<lparr>ps_service_account := ob_ServiceAccountName onion,
                ps_volumes := ps_volumes (pt_spec podTemplate) @ ob_volumes onion,
                ps_containers := ps_containers (pt_spec podTemplate) @
                  [balancer_container projectConfig onion,
                   balanced_tor_container projectConfig onion]\<rparr>\<rparr>
      in (onion',
          \<lparr>dep_meta = ob_owned L onion (ob_DeploymentName onion) None,
           dep_spec =
             \<lparr>ds_match_labels = ob_DeploymentLabels onion, ds_replicas = None,
              ds_template = podTemplate', ds_other = []\<rparr>,
           dep_status = []\<rparr>))"

definition ob_reconcileDeployment ::
  "'s lib \<Rightarrow> ProjectConfig \<Rightarrow> OnionBalancedService \<Rightarrow>
   ('s, go_error option \<times> OnionBalancedService) state" where
  "ob_reconcileDeployment L projectConfig onionBalancedService =
     (let deploymentName = ob_DeploymentName onionBalancedService in
      if deploymentName = [] then State_Monad.return (None, onionBalancedService)
      else (case onionbalanceDeployment L projectConfig onionBalancedService of
        (onion', newDeployment) \<Rightarrow> do {
          err \<leftarrow> ensure_child L (l_deployments L) dep_meta deploymentEqual
            (failing L ''failed to create Deployment %#v'' ''failed to get Deployment %s''
               ''failed to update Deployment %#v'' [])
            (ob_meta onionBalancedService) (ob_key onionBalancedService deploymentName) False
            newDeployment;
          State_Monad.return (err, onion')
        }))"

section \<open>Backends (onionbalancedservice_backends.go)\<close>

definition onionBalancedServiceBackend ::
  "'s lib \<Rightarrow> ProjectConfig \<Rightarrow> int32 \<Rightarrow> OnionBalancedService \<Rightarrow> OnionService" where
  [built]: "onionBalancedServiceBackend L projectConfig idx onion =
     (let onionServiceSpec = (tr_spec (ob_Template (ob_spec onion)))
            \<lparr>os_Version := ob_Version (ob_spec onion),
             os_MasterOnionAddress := obs_Hostname (ob_status onion)\<rparr> in
      \<lparr>os_kind = [], os_meta = ob_owned L onion (OnionServiceBackendName onion idx) None,
       os_spec = onionServiceSpec,
       os_status = \<lparr>oss_Hostname = [], oss_TargetClusterIP = []\<rparr>\<rparr>)"

definition reconcileBackend ::
  "'s lib \<Rightarrow> ProjectConfig \<Rightarrow> OnionBalancedService \<Rightarrow> int32 \<Rightarrow>
   ('s, OnionService option \<times> go_error option) state" where
  "reconcileBackend L projectConfig onionBalancedService idx =
     (let onionServiceName = OnionServiceBackendName onionBalancedService idx in
      if onionServiceName = [] then State_Monad.return (None, None)
      else do {
        r \<leftarrow> op_get (l_onions L) (ob_key onionBalancedService onionServiceName);
        if obs_Hostname (ob_status onionBalancedService) = []
        then State_Monad.return (None, Some (GoErr ''OnionBalancedService Hostname is not set''))
        else do {
          c \<leftarrow> ensure_created L (l_onions L)
            (failing L ''unable to create onionServiceBackend'' ''unable to get onionServiceBackend''
               [] [])
            r (onionBalancedServiceBackend L projectConfig idx onionBalancedService);
          State_Monad.return (case c of
             Inl err \<Rightarrow> (None, err)
           | Inr onionServiceBackend \<Rightarrow> (Some onionServiceBackend, None))
        }
      })"

text \<open>
  The loop from 1 to \<open>Spec.Backends\<close>; an error is logged and the loop goes on.  \<open>Backend_Bounds\<close>
  compares it with the loop over an \<open>int32\<close> counter: they agree below the largest \<open>int32\<close>, and the
  CRD bounds the number of backends by 8.
\<close>

definition backend_indexes :: "OnionBalancedService \<Rightarrow> int32 list" where
  "backend_indexes onion = map word_of_int [1..sint (ob_Backends (ob_spec onion))]"

fun backend_loop ::
  "'s lib \<Rightarrow> ProjectConfig \<Rightarrow> OnionBalancedService \<Rightarrow> int32 list \<Rightarrow> ('s, go_error option) state" where
  "backend_loop L projectConfig onion [] = State_Monad.return None"
| "backend_loop L projectConfig onion (idx # idxs) = do {
     r \<leftarrow> reconcileBackend L projectConfig onion idx;
     backend_loop L projectConfig onion idxs
   }"

definition reconcileBackends ::
  "'s lib \<Rightarrow> ProjectConfig \<Rightarrow> OnionBalancedService \<Rightarrow> ('s, go_error option) state" where
  "reconcileBackends L projectConfig onionBalancedService =
     backend_loop L projectConfig onionBalancedService (backend_indexes onionBalancedService)"

section \<open>The builders satisfy the contract\<close>

lemma onionbalanceDeployment_meta [simp]:
  "dep_meta (snd (onionbalanceDeployment L cfg onion)) = ob_owned L onion (ob_DeploymentName onion) None"
  "ob_meta (fst (onionbalanceDeployment L cfg onion)) = ob_meta onion"
  by (simp_all add: onionbalanceDeployment_def Let_def)

interpretation ob_sa: owned_child sa_meta serviceAccountEqual ob_meta
  "\<lambda>onion. ob_key onion (ob_ServiceAccountName onion)" onionbalanceServiceAccount
  by unfold_locales (simp_all add: built key_of_def equal_iffs)

interpretation ob_role: owned_child role_meta roleEqual ob_meta
  "\<lambda>onion. ob_key onion (ob_RoleName onion)" onionbalanceRole
  by unfold_locales (simp_all add: built key_of_def equal_iffs)

interpretation ob_rb: owned_child rb_meta rolebindingEqual ob_meta
  "\<lambda>onion. ob_key onion (ob_RoleName onion)" onionbalanceRolebinding
  by unfold_locales (simp_all add: built key_of_def equal_iffs)

interpretation ob_svc: owned_child svc_meta serviceEqual ob_meta
  "\<lambda>onion. ob_key onion (ob_ServiceName onion)" onionbalanceService
  by unfold_locales (simp_all add: built key_of_def equal_iffs)

interpretation ob_msvc: owned_child svc_meta serviceEqual ob_meta
  "\<lambda>onion. ob_key onion (ob_ServiceMetricsName onion)" obsTorMetricsService
  by unfold_locales (simp_all add: built key_of_def equal_iffs)

interpretation ob_sm: owned_child sm_meta monitorServiceEqual ob_meta
  "\<lambda>onion. ob_key onion (ob_ServiceMetricsName onion)" obsTorServiceMonitor
  by unfold_locales (simp_all add: built key_of_def equal_iffs)

interpretation ob_sec: owned_child sec_meta "(=)" ob_meta
  "\<lambda>onion. ob_key onion (ob_SecretName onion)" "\<lambda>L. balance_secret_of L onionv3" for onionv3
  by unfold_locales (simp_all add: built key_of_def equal_iffs)

interpretation ob_cm: owned_child cm_meta "(=)" ob_meta
  "\<lambda>onion. ob_key onion (ob_ConfigMapName onion)" onionbalanceTorConfigMap
  by unfold_locales (simp_all add: built key_of_def equal_iffs)

interpretation ob_dep: owned_child dep_meta deploymentEqual ob_meta
  "\<lambda>onion. ob_key onion (ob_DeploymentName onion)"
  "\<lambda>L onion. snd (onionbalanceDeployment L cfg onion)" for cfg
  by unfold_locales (simp_all add: key_of_def equal_iffs)

interpretation ob_back: owned_child os_meta "(=)" ob_meta
  "\<lambda>onion. ob_key onion (OnionServiceBackendName onion idx)"
  "\<lambda>L. onionBalancedServiceBackend L cfg idx" for cfg idx
  by unfold_locales (simp_all add: built key_of_def equal_iffs Let_def)

section \<open>Only permitted operations\<close>

lemma ob_ensure_keeps:
  assumes "children_permits P L (ob_meta onion)"
  shows "holds_after P (ob_reconcileServiceAccount L onion)" "holds_after P (ob_reconcileRole L onion)"
    "holds_after P (ob_reconcileRolebinding L onion)" "holds_after P (ob_reconcileService L onion)"
    "holds_after P (ob_reconcileMetricsService L onion)"
    "holds_after P (ob_reconcileServiceMonitor L onion)"
  unfolding ob_reconcileServiceAccount_def ob_reconcileRole_def ob_reconcileRolebinding_def
    ob_reconcileService_def ob_reconcileMetricsService_def ob_reconcileServiceMonitor_def Let_def
  by (intro keeps ob_sa.ensure_child_keeps ob_role.ensure_child_keeps ob_rb.ensure_child_keeps
      ob_svc.ensure_child_keeps ob_msvc.ensure_child_keeps ob_sm.ensure_monitor_keeps
      monitoringInstalled_keeps [OF assms] children_permitsD [OF assms])+

lemma ob_configMap_keeps:
  assumes "children_permits P L (ob_meta onion)"
  shows "holds_after P (ob_reconcileConfigMap L onion)"
  unfolding ob_reconcileConfigMap_def Let_def
  by (intro keeps permits_get [OF children_permitsD(3) [OF assms]]
      ob_cm.ensure_created_keeps [OF children_permitsD(3) [OF assms]])

lemma ob_deployment_keeps:
  assumes "children_permits P L (ob_meta onion)"
  shows "holds_after P (ob_reconcileDeployment L cfg onion)"
  using ob_dep.ensure_child_keeps [OF children_permitsD(7) [OF assms], where cfg = cfg]
  unfolding ob_reconcileDeployment_def Let_def
  by (auto split: prod.splits intro!: keeps)

lemma ob_reconcileDeployment_meta:
  "yields (\<lambda>(err, onion'). ob_meta onion' = ob_meta onion) (ob_reconcileDeployment L cfg onion)"
  unfolding ob_reconcileDeployment_def Let_def
  using onionbalanceDeployment_meta(2) [of L cfg onion]
  by (intro yields_cases yields_bind) auto

lemma set_hostname_meta [simp]: "ob_meta (set_hostname sec onion) = ob_meta onion"
  by (simp add: set_hostname_def)

lemma onionbalanceSecret_yields:
  "yields (\<lambda>new. \<forall>sec. new = Some sec \<longrightarrow> made_for L (ob_meta onion) (sec_meta sec))
     (onionbalanceSecret L onion)"
  unfolding onionbalanceSecret_def
  by (intro yields_bind) (auto simp: built split: prod.splits option.splits)

lemma ob_secret_keeps:
  assumes "children_permits P L (ob_meta onion)" "holds_after P (l_create_nil_secret L)"
  shows "holds_after P (ob_reconcileSecret L onion)"
proof -
  have new: "holds_after P (onionbalanceSecret L onion)"
    unfolding onionbalanceSecret_def by (intro keeps GenerateOnionV3_keeps [OF assms(1)])
  show ?thesis
    unfolding ob_reconcileSecret_def Let_def
    by (rule holds_after_if, simp, rule holds_after_bind [OF permits_get [OF children_permitsD(2) [OF assms(1)]]],
        rule holds_after_bind_yields [OF new onionbalanceSecret_yields],
        intro keeps ensure_key_secret_keeps [OF assms]) auto
qed

lemma ob_secret_meta:
  "yields (\<lambda>(err, onion'). ob_meta onion' = ob_meta onion) (ob_reconcileSecret L onion)"
  unfolding ob_reconcileSecret_def Let_def
  by (intro yields_cases yields_bind) auto

lemma reconcileBackend_keeps:
  assumes "children_permits P L (ob_meta onion)"
  shows "holds_after P (reconcileBackend L cfg onion idx)"
  unfolding reconcileBackend_def Let_def
  by (intro keeps permits_get [OF children_permitsD(9) [OF assms]]
      ob_back.ensure_created_keeps [OF children_permitsD(9) [OF assms]])

lemma reconcileBackends_keeps:
  assumes "children_permits P L (ob_meta onion)"
  shows "holds_after P (reconcileBackends L cfg onion)"
proof -
  have "holds_after P (backend_loop L cfg onion idxs)" for idxs
    by (induction idxs) (auto intro!: keeps reconcileBackend_keeps [OF assms])
  then show ?thesis by (simp add: reconcileBackends_def)
qed

end
