(* ===== verification/Balanced_Reconcile.thy ===== *)
theory Balanced_Reconcile
  imports Balanced_Children Sim_Cluster "HOL-Library.Multiset"
begin

text \<open>
  \<open>controllers/tor/onionbalancedservice_controller.go\<close>: one reconciliation of an
  \<open>OnionBalancedService\<close>, and what it promises: the backends get distinct names and the master
  address, nothing is created before that address is known, the request is repeated until every
  backend reports a hostname, and no object another owner controls is touched.
\<close>

section \<open>Reconcile\<close>

definition backend_statuses :: "OnionService list \<Rightarrow> (string, OnionServiceStatus) fmap" where
  "backend_statuses items =
     fold (\<lambda>item backends. fmupd (os_name item) (os_status item) backends) items fmempty"

definition ob_observed ::
  "string \<Rightarrow> OnionService list \<Rightarrow> OnionBalancedService \<Rightarrow> OnionBalancedService" where
  "ob_observed clusterIP items onion =
     onion\<lparr>ob_status := (ob_status onion)
       \<lparr>obs_TargetClusterIP := clusterIP, obs_Backends := backend_statuses items\<rparr>\<rparr>"

text \<open>A failed listing is logged and the list is empty.\<close>

definition ob_update_status ::
  "'s lib \<Rightarrow> string \<Rightarrow> string \<Rightarrow> OnionBalancedService \<Rightarrow>
   ('s, ctrl_result \<times> go_error option) state" where
  "ob_update_status L req_namespace clusterIP onion = do {
     r \<leftarrow> l_list_onions L req_namespace;
     (let items = (case r of Inl err \<Rightarrow> [] | Inr items \<Rightarrow> items);
          copy = ob_observed clusterIP items onion in do {
        u \<leftarrow> l_status_ob L copy;
        State_Monad.return (case u of
           Some err \<Rightarrow> (zero_result, wrapped L ''unable to update OnionBalancedService status'' err)
         | None \<Rightarrow>
             if \<not> IsSynced copy then (\<lparr>requeue_after = 3\<rparr>, None) else (zero_result, None))
      })
   }"

definition ob_status_step ::
  "'s lib \<Rightarrow> string \<Rightarrow> string \<Rightarrow> OnionBalancedService \<Rightarrow>
   ('s, ctrl_result \<times> go_error option) state" where
  "ob_status_step L req_namespace namespace onion = do {
     r \<leftarrow> op_get (l_services L) \<lparr>nn_namespace = namespace, nn_name = ob_ServiceName onion\<rparr>;
     (case r of
        Inl err \<Rightarrow>
          if l_is_not_found L err then ob_update_status L req_namespace defaultClusterIP onion
          else State_Monad.return (zero_result, wrapped L ''unable to get service'' err)
      | Inr service \<Rightarrow>
          ob_update_status L req_namespace (ss_cluster_ip (svc_spec service)) onion)
   }"

definition ob_steps_after_deployment ::
  "'s lib \<Rightarrow> ProjectConfig \<Rightarrow> string \<Rightarrow> string \<Rightarrow> OnionBalancedService \<Rightarrow>
   ('s, ctrl_result \<times> go_error option) state" where
  "ob_steps_after_deployment L cfg req_namespace namespace onion =
     and_then (reconcileBackends L cfg onion)
     (and_then (ob_reconcileMetricsService L onion)
     (and_then (ob_reconcileServiceMonitor L onion)
       (ob_status_step L req_namespace namespace onion)))"

definition ob_steps_after_secret ::
  "'s lib \<Rightarrow> ProjectConfig \<Rightarrow> string \<Rightarrow> string \<Rightarrow> OnionBalancedService \<Rightarrow>
   ('s, ctrl_result \<times> go_error option) state" where
  "ob_steps_after_secret L cfg req_namespace namespace onion =
     and_then (ob_reconcileServiceAccount L onion)
     (and_then (ob_reconcileRole L onion)
     (and_then (ob_reconcileRolebinding L onion)
     (and_then (ob_reconcileService L onion)
     (and_then (ob_reconcileConfigMap L onion) (do {
        r \<leftarrow> ob_reconcileDeployment L cfg onion;
        (case r of
           (Some err, onion') \<Rightarrow> State_Monad.return (zero_result, Some err)
         | (None, onion') \<Rightarrow> ob_steps_after_deployment L cfg req_namespace namespace onion')
      })))))"

definition ob_steps ::
  "'s lib \<Rightarrow> ProjectConfig \<Rightarrow> string \<Rightarrow> string \<Rightarrow> OnionBalancedService \<Rightarrow>
   ('s, ctrl_result \<times> go_error option) state" where
  "ob_steps L cfg req_namespace namespace onion = do {
     r \<leftarrow> ob_reconcileSecret L onion;
     (case r of
        (Some err, onion') \<Rightarrow> State_Monad.return (zero_result, Some err)
      | (None, onion') \<Rightarrow> ob_steps_after_secret L cfg req_namespace namespace onion')
   }"

definition ob_Reconcile ::
  "'s lib \<Rightarrow> ProjectConfig \<Rightarrow> nsname \<Rightarrow> ('s, ctrl_result \<times> go_error option) state" where
  "ob_Reconcile L cfg req = do {
     r \<leftarrow> l_get_ob L req;
     (case r of
        Inl err \<Rightarrow> State_Monad.return
          (zero_result, l_wrap L (l_ignore_not_found L err) ''unable to fetch OnionBalancedService'')
      | Inr onion \<Rightarrow> ob_steps L cfg (nn_namespace req) (ob_namespace onion) onion)
   }"

section \<open>Nothing else is touched\<close>

lemma ob_status_step_keeps:
  assumes "children_permits P L owner" "\<And>t. ob_meta t = owner \<Longrightarrow> holds_after P (l_status_ob L t)"
    "ob_meta onion = owner"
  shows "holds_after P (ob_status_step L rns namespace onion)"
  unfolding ob_status_step_def ob_update_status_def Let_def
  by (intro keeps permits_get [OF children_permitsD(1) [OF assms(1)]] assms(2) children_permitsD [OF assms(1)])
    (simp_all add: ob_observed_def assms(3))

lemma ob_steps_keeps:
  assumes ch: "children_permits P L owner" and nil: "holds_after P (l_create_nil_secret L)"
    and st: "\<And>t. ob_meta t = owner \<Longrightarrow> holds_after P (l_status_ob L t)"
    and meta: "ob_meta onion = owner"
  shows "holds_after P (ob_steps L cfg rns namespace onion)"
proof -
  have after_dep: "holds_after P (ob_steps_after_deployment L cfg rns namespace t)" if "ob_meta t = owner" for t
    unfolding ob_steps_after_deployment_def using ch that
    by (intro keeps ob_ensure_keeps reconcileBackends_keeps ob_status_step_keeps [OF ch st]) simp_all
  have after_sec: "holds_after P (ob_steps_after_secret L cfg rns namespace t)" if t: "ob_meta t = owner" for t
    unfolding ob_steps_after_secret_def using ch t after_dep
    by (intro and_then_keeps ob_ensure_keeps ob_configMap_keeps
        holds_after_bind_yields [OF ob_deployment_keeps ob_reconcileDeployment_meta])
      (auto intro!: keeps split: option.splits)
  show ?thesis
    unfolding ob_steps_def using ch meta nil after_sec
    by (intro holds_after_bind_yields [OF ob_secret_keeps ob_secret_meta])
      (auto intro!: keeps split: option.splits)
qed

text \<open>
  C3: a reconciliation of an \<open>OnionBalancedService\<close> performs only permitted operations, on every
  kind of object including the backends' \<open>OnionService\<close>s: every predicate on the world kept by
  reads and generators, by creating objects made for this service, by updating or deleting objects
  just read and found under its control, and by updating its own status, is kept by \<open>Reconcile\<close>.
\<close>

theorem ob_Reconcile_permitted:
  assumes "holds_after P (l_get_ob L req)"
    and "\<And>s onion s'. P s \<Longrightarrow> run_state (l_get_ob L req) s = (Inr onion, s') \<Longrightarrow>
      children_permits P L (ob_meta onion) \<and> holds_after P (l_create_nil_secret L) \<and>
      (\<forall>t. ob_meta t = ob_meta onion \<longrightarrow> holds_after P (l_status_ob L t))"
    and "P s" "run_state (ob_Reconcile L cfg req) s = (res, s')"
  shows "P s'"
proof (cases "run_state (l_get_ob L req) s")
  case (Pair r t)
  with assms(1,3) have "P t" by (blast intro: holds_afterD)
  show ?thesis
  proof (cases r)
    case (Inl e)
    with Pair assms(4) \<open>P t\<close> show ?thesis by (simp add: ob_Reconcile_def)
  next
    case (Inr onion)
    have "holds_after P (ob_steps L cfg (nn_namespace req) (ob_namespace onion) onion)"
      using assms(2) [OF \<open>P s\<close>] Pair Inr by (intro ob_steps_keeps [where owner = "ob_meta onion"]) auto
    moreover have "run_state (ob_steps L cfg (nn_namespace req) (ob_namespace onion) onion) t = (res, s')"
      using Pair Inr assms(4) by (simp add: ob_Reconcile_def)
    ultimately show ?thesis using \<open>P t\<close> by (blast intro: holds_afterD)
  qed
qed

definition sample_ob :: OnionBalancedService where
  "sample_ob = (zero_ob ''web'' ''default'')\<lparr>ob_meta := zero_meta
     \<lparr>om_name := ''web'', om_namespace := ''default'', om_uid := ''u3''\<rparr>\<rparr>"

definition ob_req :: nsname where
  "ob_req = \<lparr>nn_namespace = ''default'', nn_name = ''web''\<rparr>"

definition other_deployment :: deployment where
  "other_deployment =
     \<lparr>dep_meta = zero_meta\<lparr>om_name := ''web-tor-daemon'', om_namespace := ''default''\<rparr>,
      dep_spec = \<lparr>ds_match_labels = fmempty, ds_replicas = None,
        ds_template = \<lparr>pt_meta = zero_meta, pt_spec = zero_pod_spec\<rparr>, ds_other = []\<rparr>,
      dep_status = []\<rparr>"

definition ob_cluster :: cluster where
  "ob_cluster = empty_cluster
     \<lparr>c_deployments := [key_of (dep_meta other_deployment) \<mapsto> other_deployment], c_obs := [sample_ob]\<rparr>"

lemma ob_cluster_kept: "others_kept owner ob_cluster ob_cluster"
  unfolding others_kept_same by (simp add: ob_cluster_def empty_cluster_def keyed_def onion_metas_def)

lemma sim_nil_secret_keeps: "holds_after P (l_create_nil_secret sim_lib)"
  by (simp add: sim_lib_def answer_def)

theorem ob_Reconcile_permitted_witness:
  "c_deployments (snd (run_state (ob_Reconcile sim_lib sample_project ob_req) ob_cluster))
     (key_of (dep_meta other_deployment)) = Some other_deployment"
proof -
  let ?P = "others_kept (ob_meta sample_ob) ob_cluster"
  obtain res s' where run:
    "run_state (ob_Reconcile sim_lib sample_project ob_req) ob_cluster = (res, s')"
    by (cases "run_state (ob_Reconcile sim_lib sample_project ob_req) ob_cluster")
  have "?P s'"
  proof (rule ob_Reconcile_permitted [where P = ?P, OF _ _ ob_cluster_kept run])
    show "holds_after ?P (l_get_ob sim_lib ob_req)"
      by (rule children_permitsD(12) [OF sim_children_permits])
  next
    fix s onion t
    assume "?P s" "run_state (l_get_ob sim_lib ob_req) s = (Inr onion, t)"
    from sim_get_ob_meta [OF this] have "ob_meta onion = ob_meta sample_ob"
      by (simp add: ob_cluster_def)
    then show "children_permits ?P sim_lib (ob_meta onion) \<and> holds_after ?P (l_create_nil_secret sim_lib) \<and>
        (\<forall>u. ob_meta u = ob_meta onion \<longrightarrow> holds_after ?P (l_status_ob sim_lib u))"
      using sim_children_permits sim_status_keep(3) sim_nil_secret_keeps by metis
  qed
  moreover have "c_deployments ob_cluster (key_of (dep_meta other_deployment)) = Some other_deployment"
    "\<not> sim_controlled (dep_meta other_deployment) (ob_meta sample_ob)"
    by (simp_all add: ob_cluster_def other_deployment_def zero_meta_def sim_fields)
  ultimately show ?thesis by (auto simp: run others_kept_def store_kept_def)
qed

section \<open>Repeating until the backends report\<close>

lemma backend_statuses_lookup:
  "fmlookup (backend_statuses items) = map_of (rev (map (\<lambda>i. (os_name i, os_status i)) items))"
proof -
  have "fmlookup (fold (\<lambda>item b. fmupd (os_name item) (os_status item) b) items acc) =
      fmlookup acc ++ map_of (rev (map (\<lambda>i. (os_name i, os_status i)) items))" for acc
    by (induction items arbitrary: acc) (auto simp: map_add_def fun_eq_iff split: option.splits)
  from this [of fmempty] show ?thesis by (simp add: backend_statuses_def map_add_def fun_eq_iff split: option.splits)
qed

lemma backend_statuses_dom: "fset (fmdom (backend_statuses items)) = os_name ` set items"
  by (simp add: fmdom.rep_eq backend_statuses_lookup dom_map_of_conv_image_fst image_image)

lemma backend_statuses_Some:
  "distinct (map os_name items) \<Longrightarrow> fmlookup (backend_statuses items) n = Some b \<longleftrightarrow>
   (\<exists>item \<in> set items. n = os_name item \<and> b = os_status item)"
  by (subst backend_statuses_lookup, subst map_of_eq_Some_iff) (auto simp: rev_map [symmetric] o_def)

lemma map_of_rev_distinct:
  assumes "distinct (map fst xs)"
  shows "map_of (rev xs) = map_of xs"
proof
  fix x
  have "map_of (rev xs) x = Some y \<longleftrightarrow> map_of xs x = Some y" for y
    using assms by (simp add: map_of_eq_Some_iff rev_map [symmetric])
  then show "map_of (rev xs) x = map_of xs x"
    by (metis option.exhaust)
qed

lemma IsSynced_observed:
  assumes "distinct (map os_name items)"
  shows "IsSynced (ob_observed ip items onion) \<longleftrightarrow>
    int (length items) = sint (ob_Backends (ob_spec onion)) \<and>
    (\<forall>item \<in> set items. oss_Hostname (os_status item) \<noteq> [])"
proof -
  have "fcard (fmdom (backend_statuses items)) = card (set (map os_name items))"
    by (simp add: fcard.rep_eq backend_statuses_dom)
  also have "\<dots> = length items"
    using distinct_card [OF assms] by simp
  finally show ?thesis
    by (auto simp: IsSynced_iff ob_observed_def backend_statuses_Some [OF assms])
qed

text \<open>
  C16: the end of a reconciliation.  Every \<open>OnionService\<close> of the namespace is listed in the status, a
  listing that fails counting as an empty one.  When the status cannot be written, the error is
  returned; when it can, the request is repeated after three seconds exactly when the number of
  onion services listed is not the number of backends, or one of them has no hostname yet.  The
  listing is not restricted to the service's own backends, so unrelated onion services count.
\<close>

theorem ob_requeue_exact:
  fixes L :: "'s lib" and r :: "go_error + OnionService list"
  defines "items \<equiv> (case r of Inl err \<Rightarrow> [] | Inr items \<Rightarrow> items)"
  assumes "run_state (l_list_onions L ns) s = (r, s1)" "distinct (map os_name items)"
    and "run_state (l_status_ob L (ob_observed ip items onion)) s1 = (u, s2)"
  shows "run_state (ob_update_status L ns ip onion) s =
    ((case u of
        Some err \<Rightarrow> (zero_result, wrapped L ''unable to update OnionBalancedService status'' err)
      | None \<Rightarrow> (\<lparr>requeue_after =
          (if int (length items) = sint (ob_Backends (ob_spec onion)) \<and>
              list_all (\<lambda>item. oss_Hostname (os_status item) \<noteq> []) items then 0 else 3)\<rparr>, None)), s2) \<and>
    (\<forall>n. fmlookup (obs_Backends (ob_status (ob_observed ip items onion))) n =
      map_of (map (\<lambda>item. (os_name item, os_status item)) items) n)"
proof (rule conjI)
  show "run_state (ob_update_status L ns ip onion) s =
    ((case u of
        Some err \<Rightarrow> (zero_result, wrapped L ''unable to update OnionBalancedService status'' err)
      | None \<Rightarrow> (\<lparr>requeue_after =
          (if int (length items) = sint (ob_Backends (ob_spec onion)) \<and>
              list_all (\<lambda>item. oss_Hostname (os_status item) \<noteq> []) items then 0 else 3)\<rparr>, None)), s2)"
    using assms(2,4) IsSynced_observed [OF assms(3), of ip onion]
    by (auto simp: ob_update_status_def Let_def zero_result_def list_all_iff items_def
        split: option.splits)
  have "distinct (map fst (map (\<lambda>item. (os_name item, os_status item)) items))"
    using assms(3) by (simp add: o_def)
  then show "\<forall>n. fmlookup (obs_Backends (ob_status (ob_observed ip items onion))) n =
      map_of (map (\<lambda>item. (os_name item, os_status item)) items) n"
    by (simp add: ob_observed_def backend_statuses_lookup rev_map [symmetric] map_of_rev_distinct del: rev_map)
qed

definition ready_backend :: "string \<Rightarrow> OnionService" where
  "ready_backend name =
     \<lparr>os_kind = [], os_meta = zero_meta\<lparr>om_name := name, om_namespace := ''default''\<rparr>,
      os_spec = tr_spec (ob_Template (ob_spec sample_ob)),
      os_status = \<lparr>oss_Hostname = name @ ''.onion'', oss_TargetClusterIP = []\<rparr>\<rparr>"

definition crowded_cluster :: cluster where
  "crowded_cluster = ob_cluster\<lparr>
     c_onions := [\<lparr>nn_namespace = ''default'', nn_name = ''web-tor-obb-1''\<rparr> \<mapsto> ready_backend ''web-tor-obb-1'',
       \<lparr>nn_namespace = ''default'', nn_name = ''unrelated''\<rparr> \<mapsto> ready_backend ''unrelated''],
     c_onion_names := [''web-tor-obb-1'', ''unrelated'']\<rparr>"

theorem ob_requeue_exact_witness:
  "fst (run_state (ob_update_status sim_lib ''default'' ''10.0.0.3'' sample_ob) crowded_cluster) =
     (\<lparr>requeue_after = 3\<rparr>, None)"
proof -
  let ?items = "[ready_backend ''web-tor-obb-1'', ready_backend ''unrelated'']"
  have l: "run_state (l_list_onions sim_lib ''default'') crowded_cluster = (Inr ?items, crowded_cluster)"
    by (simp add: sim_fields list_onions_def crowded_cluster_def List.map_filter_def)
  have d: "distinct (map os_name ?items)"
    by (simp add: ready_backend_def)
  obtain s2 where u: "run_state (l_status_ob sim_lib (ob_observed ''10.0.0.3'' ?items sample_ob)) crowded_cluster =
      (None, s2)"
    by (simp add: sim_lib_def)
  have "ob_Backends (ob_spec sample_ob) = 1"
    by (simp add: sample_ob_def zero_ob_def)
  with ob_requeue_exact [OF l, of "''10.0.0.3''" sample_ob] d u show ?thesis by simp
qed

section \<open>Backends\<close>

text \<open>
  The loop names \<open>Spec.Backends\<close> backends, counted from 1, and no two of them alike.
\<close>

theorem backend_names_distinct:
  "distinct (map (OnionServiceBackendName onion) (backend_indexes onion)) \<and>
   length (backend_indexes onion) = nat (sint (ob_Backends (ob_spec onion)))"
proof -
  let ?b = "sint (ob_Backends (ob_spec onion))"
  have lt: "?b < 2 ^ 31"
    using sint_lt [of "ob_Backends (ob_spec onion)"] by simp
  have idx_value: "sint (word_of_int i :: int32) = i" if "i \<in> {1..?b}" for i
    using that lt by (simp add: sint_sbintrunc' signed_take_bit_int_eq_self)
  have "inj_on (\<lambda>i. OnionServiceBackendName onion (word_of_int i)) {1..?b}"
    by (rule inj_onI) (simp add: OnionServiceBackendName_def idx_value)
  then have "distinct (map (\<lambda>i. OnionServiceBackendName onion (word_of_int i)) [1..?b])"
    by (simp add: distinct_map)
  then show ?thesis
    by (simp add: backend_indexes_def o_def)
qed

text \<open>
  A backend is the template's onion service with the version of the balanced service and its
  hostname as master address, whatever the template says; it is created only once the hostname is
  known; and a backend that exists is never updated, so later changes of the template do not reach
  it.
\<close>

theorem reconcileBackend_cases:
  fixes L :: "'s lib" and cfg :: ProjectConfig and idx :: int32 and onion :: OnionBalancedService
    and s s1 :: 's
  defines "want \<equiv> onionBalancedServiceBackend L cfg idx onion"
  assumes "run_state (op_get (l_onions L) (ob_key onion (OnionServiceBackendName onion idx))) s = (r, s1)"
  shows "run_state (reconcileBackend L cfg onion idx) s =
      (if obs_Hostname (ob_status onion) = []
       then ((None, Some (GoErr ''OnionBalancedService Hostname is not set'')), s1)
       else (case r of
           Inr existing \<Rightarrow> ((Some existing, None), s1)
         | Inl e \<Rightarrow>
             if l_is_not_found L e
             then (case run_state (op_create (l_onions L) want) s1 of
                 (Inr created, s2) \<Rightarrow> ((Some created, None), s2)
               | (Inl e', s2) \<Rightarrow> ((None, wrapped L ''unable to create onionServiceBackend'' e'), s2))
             else ((None, wrapped L ''unable to get onionServiceBackend'' e), s1))) \<and>
    os_spec want = (tr_spec (ob_Template (ob_spec onion)))
      \<lparr>os_Version := ob_Version (ob_spec onion),
       os_MasterOnionAddress := obs_Hostname (ob_status onion)\<rparr>"
  using assms(2)
  by (auto simp: reconcileBackend_def want_def Let_def OnionServiceBackendName_def ensure_created_def
      failing_def onionBalancedServiceBackend_def split: sum.splits prod.splits)

theorem reconcileBackend_cases_witness:
  "fst (run_state (reconcileBackend sim_lib sample_project
       (set_hostname \<lparr>sec_meta = zero_meta, sec_type = [],
          sec_data = fmap_of_list [(''onionAddress'', ''master.onion'')]\<rparr> sample_ob) 1) crowded_cluster) =
     (Some (ready_backend ''web-tor-obb-1''), None)"
proof -
  let ?ob = "set_hostname \<lparr>sec_meta = zero_meta, sec_type = [],
      sec_data = fmap_of_list [(''onionAddress'', ''master.onion'')]\<rparr> sample_ob"
  have "OnionServiceBackendName ?ob 1 = ''web-tor-obb-1''"
    by (simp add: OnionServiceBackendName_def set_hostname_def sample_ob_def itoa_def nat_digits.simps
        digit_char_def char_of_def bit_simps)
  then have "run_state (op_get (l_onions sim_lib) (ob_key ?ob (OnionServiceBackendName ?ob 1))) crowded_cluster =
      (Inr (ready_backend ''web-tor-obb-1''), crowded_cluster)"
    by (simp add: sim_fields sim_onions_def sim_ops_def crowded_cluster_def set_hostname_def sample_ob_def)
  from reconcileBackend_cases [OF this, of sample_project] show ?thesis
    by (simp add: set_hostname_def)
qed

section \<open>The master address\<close>

text \<open>
  When the key secret does not exist yet, it is created with fresh keys, and the address of
  those keys becomes the hostname in the status and the master address of every backend built
  after it in the same reconciliation.
\<close>

theorem ob_master_address:
  fixes L :: "'s lib" and pub priv :: bytes and onion :: OnionBalancedService
  defines "sec \<equiv> balance_secret_of L (GenerateOnionV3FromKeys (l_onion_id L) pub priv) onion"
  assumes "ob_SecretName onion \<noteq> []"
    and "run_state (op_get (l_secrets L) (ob_key onion (ob_SecretName onion))) s = (Inl e, s1)"
    and "l_is_not_found L e"
    and "run_state (l_gen_key L) s1 = (Inr (pub, priv), s2)"
    and "run_state (op_create (l_secrets L) sec) s2 = (Inr sec, s3)"
  shows "\<exists>onion'. run_state (ob_reconcileSecret L onion) s = ((None, onion'), s3) \<and>
    obs_Hostname (ob_status onion') = l_onion_id L pub @ ''.onion'' \<and>
    os_MasterOnionAddress (os_spec (onionBalancedServiceBackend L cfg idx onion')) =
      l_onion_id L pub @ ''.onion''"
proof -
  have addr: "fmlookup (sec_data sec) ''onionAddress'' = Some (l_onion_id L pub @ ''.onion'')"
    by (simp add: sec_def balance_secret_of_def onion_secret_data_def GenerateOnionV3FromKeys_def
        fmlookup_of_list)
  have "run_state (onionbalanceSecret L onion) s1 = (Some sec, s2)"
    using assms(5) by (simp add: onionbalanceSecret_def GenerateOnionV3_def sec_def)
  then have "run_state (ob_reconcileSecret L onion) s = ((None, set_hostname sec onion), s3)"
    using assms(2-4,6) by (simp add: ob_reconcileSecret_def Let_def ensure_key_secret_def ensure_created_def)
  moreover have "obs_Hostname (ob_status (set_hostname sec onion)) = l_onion_id L pub @ ''.onion''"
    by (simp add: set_hostname_def addr)
  ultimately show ?thesis
    by (simp add: onionBalancedServiceBackend_def Let_def)
qed

theorem ob_master_address_witness:
  "\<exists>onion'. fst (run_state (ob_reconcileSecret sim_lib sample_ob) ob_cluster) = (None, onion') \<and>
    obs_Hostname (ob_status onion') = ''onion.onion''"
proof -
  let ?sec = "balance_secret_of sim_lib
    (GenerateOnionV3FromKeys (l_onion_id sim_lib) ''public'' ''private'') sample_ob"
  have none: "c_secrets ob_cluster k = None" for k
    by (simp add: ob_cluster_def empty_cluster_def)
  have name: "ob_SecretName sample_ob \<noteq> []"
    by (simp add: ob_SecretName_def sample_ob_def zero_ob_def)
  have get: "run_state (op_get (l_secrets sim_lib) (ob_key sample_ob (ob_SecretName sample_ob))) ob_cluster =
      (Inl not_found, ob_cluster)"
    unfolding sim_ops_of by (simp add: sim_ops_def none)
  have nf: "l_is_not_found sim_lib not_found" by (simp add: sim_fields)
  have gen: "run_state (l_gen_key sim_lib) ob_cluster = (Inr (''public'', ''private''), ob_cluster)"
    by (simp add: sim_fields answer_def)
  obtain s3 where create: "run_state (op_create (l_secrets sim_lib) ?sec) ob_cluster = (Inr ?sec, s3)"
    unfolding sim_ops_of by (simp add: sim_ops_def none)
  from ob_master_address [OF name get nf gen create, of sample_project 1]
  obtain onion' where run: "run_state (ob_reconcileSecret sim_lib sample_ob) ob_cluster = ((None, onion'), s3)"
    and host: "obs_Hostname (ob_status onion') = l_onion_id sim_lib ''public'' @ ''.onion''"
    by (elim exE conjE)
  have "l_onion_id sim_lib ''public'' @ ''.onion'' = ''onion.onion''" by (simp add: sim_fields)
  with run host show ?thesis by (intro exI [of _ onion']) (simp only: fst_conv simp_thms)
qed

section \<open>The pods\<close>

lemma onionbalanceDeployment_parts:
  "ds_template (dep_spec (snd (onionbalanceDeployment L cfg onion))) =
     \<lparr>pt_meta = (bt_meta (ob_BalancerTemplate (ob_spec onion)))
        \<lparr>om_labels := Some (add_labels (om_labels (bt_meta (ob_BalancerTemplate (ob_spec onion))))
           (ob_ServiceSelector onion))\<rparr>,
      pt_spec = (bt_spec (ob_BalancerTemplate (ob_spec onion)))
        \<lparr>ps_service_account := ob_ServiceAccountName onion,
         ps_volumes := ps_volumes (bt_spec (ob_BalancerTemplate (ob_spec onion))) @ ob_volumes onion,
         ps_containers := ps_containers (bt_spec (ob_BalancerTemplate (ob_spec onion))) @
           [balancer_container cfg onion, balanced_tor_container cfg onion]\<rparr>\<rparr>"
  by (simp add: onionbalanceDeployment_def Let_def ob_PodTemplate_def ob_DeploymentLabels_def)

text \<open>
  C31: the pods of a balanced service.  They carry labels that the deployment, the service and the
  metrics service select; the containers and volumes of the user's template come first and
  unchanged, followed by the balancer, the tor daemon and their volumes, which have distinct names
  and are each mounted once in one of the two; the pods run under the service account the role
  binding names.  The agent is told the name and namespace of the balanced service; the key volumes
  are the key secret, whole for the balancer, and values that a generated one holds for
  tor; and tor's volume is not mounted below \<open>/run/tor\<close> but beside it.
\<close>

theorem ob_objects_fit:
  fixes L :: "'s lib" and cfg :: ProjectConfig and onion :: OnionBalancedService
  defines "dep \<equiv> snd (onionbalanceDeployment L cfg onion)"
  defines "tmpl \<equiv> ds_template (dep_spec dep)"
  shows "(\<exists>lbls. om_labels (pt_meta tmpl) = Some lbls \<and>
      selects (ds_match_labels (dep_spec dep)) lbls \<and>
      selects (ss_selector (svc_spec (onionbalanceService L onion))) lbls \<and>
      selects (ss_selector (svc_spec (obsTorMetricsService L onion))) lbls) \<and>
    (\<exists>balancer daemon vols.
      ps_containers (pt_spec tmpl) =
        ps_containers (bt_spec (ob_BalancerTemplate (ob_spec onion))) @ [balancer, daemon] \<and>
      ps_volumes (pt_spec tmpl) = ps_volumes (bt_spec (ob_BalancerTemplate (ob_spec onion))) @ vols \<and>
      mset (map vm_name (ct_mounts balancer @ ct_mounts daemon)) = mset (map vol_name vols) \<and>
      distinct (map vol_name vols) \<and>
      ct_args balancer = [''-name'', ob_name onion, ''-namespace'', ob_namespace onion] \<and>
      ct_image balancer = tom_Image (TorOnionbalanceManager cfg) \<and>
      ct_image daemon = tdm_Image (TorDaemonManager cfg) \<and>
      (\<exists>v \<in> set vols. \<exists>m \<in> set (ct_mounts balancer). vol_name v = vm_name m \<and>
        vol_source v = SecretVolume (ob_SecretName onion) [] None \<and>
        prefix ''/run/onionbalance/'' (vm_path m)) \<and>
      (\<exists>v \<in> set vols. \<exists>m \<in> set (ct_mounts daemon). \<exists>items. vol_name v = vm_name m \<and>
        vol_source v = SecretVolume (ob_SecretName onion) items None \<and> items \<noteq> [] \<and>
        set (map kp_key items) \<subseteq> fmdom' (onion_secret_data keys) \<and>
        prefix ''/run/tor'' (vm_path m) \<and> \<not> prefix ''/run/tor/'' (vm_path m))) \<and>
    map sj_name (rb_subjects (onionbalanceRolebinding L onion)) = [ps_service_account (pt_spec tmpl)]"
proof (intro conjI)
  have labels: "ds_match_labels (dep_spec dep) = ob_ServiceSelector onion"
    by (simp add: dep_def onionbalanceDeployment_def Let_def ob_DeploymentLabels_def)
  show "\<exists>lbls. om_labels (pt_meta tmpl) = Some lbls \<and>
      selects (ds_match_labels (dep_spec dep)) lbls \<and>
      selects (ss_selector (svc_spec (onionbalanceService L onion))) lbls \<and>
      selects (ss_selector (svc_spec (obsTorMetricsService L onion))) lbls"
    using labels by (simp add: tmpl_def dep_def onionbalanceDeployment_parts built)
  show "map sj_name (rb_subjects (onionbalanceRolebinding L onion)) = [ps_service_account (pt_spec tmpl)]"
    by (simp add: tmpl_def dep_def onionbalanceDeployment_parts built)
  show "\<exists>balancer daemon vols.
      ps_containers (pt_spec tmpl) =
        ps_containers (bt_spec (ob_BalancerTemplate (ob_spec onion))) @ [balancer, daemon] \<and>
      ps_volumes (pt_spec tmpl) = ps_volumes (bt_spec (ob_BalancerTemplate (ob_spec onion))) @ vols \<and>
      mset (map vm_name (ct_mounts balancer @ ct_mounts daemon)) = mset (map vol_name vols) \<and>
      distinct (map vol_name vols) \<and>
      ct_args balancer = [''-name'', ob_name onion, ''-namespace'', ob_namespace onion] \<and>
      ct_image balancer = tom_Image (TorOnionbalanceManager cfg) \<and>
      ct_image daemon = tdm_Image (TorDaemonManager cfg) \<and>
      (\<exists>v \<in> set vols. \<exists>m \<in> set (ct_mounts balancer). vol_name v = vm_name m \<and>
        vol_source v = SecretVolume (ob_SecretName onion) [] None \<and>
        prefix ''/run/onionbalance/'' (vm_path m)) \<and>
      (\<exists>v \<in> set vols. \<exists>m \<in> set (ct_mounts daemon). \<exists>items. vol_name v = vm_name m \<and>
        vol_source v = SecretVolume (ob_SecretName onion) items None \<and> items \<noteq> [] \<and>
        set (map kp_key items) \<subseteq> fmdom' (onion_secret_data keys) \<and>
        prefix ''/run/tor'' (vm_path m) \<and> \<not> prefix ''/run/tor/'' (vm_path m))"
  proof (intro exI conjI)
    show "ps_containers (pt_spec tmpl) = ps_containers (bt_spec (ob_BalancerTemplate (ob_spec onion))) @
        [balancer_container cfg onion, balanced_tor_container cfg onion]"
      "ps_volumes (pt_spec tmpl) = ps_volumes (bt_spec (ob_BalancerTemplate (ob_spec onion))) @ ob_volumes onion"
      by (simp_all add: tmpl_def dep_def onionbalanceDeployment_parts)
  qed (auto simp: balancer_container_def balanced_tor_container_def ob_mount_def ob_volumes_def
      volume_names mount_paths onion_secret_data_def fmlookup_dom'_iff fmlookup_of_list)
qed

end
