(* ===== verification/Agent_Config.thy ===== *)
theory Agent_Config
  imports Onion_Types
begin

text \<open>
  The configuration files the agents write: \<open>agents/tor/config/config.go\<close> (the torfile of an
  \<open>OnionService\<close> and the \<open>ob_config\<close> of a backend) and \<open>agents/onionbalance/config/config.go\<close>.
  The templates of these files trim nothing, so the newlines around their actions stay; the
  abstract view is the list of the lines that are not empty.
\<close>

section \<open>Tor agent (agents/tor/config/config.go)\<close>

record portTuple =
  ServicePort :: int32
  PublicPort :: int32
  ServiceClusterIP :: string

record TorConfig =
  cf_SocksPort :: string
  cf_ControlPort :: string
  cf_MetricsPort :: string
  cf_MetricsPortPolicy :: string
  cf_ServiceName :: string
  cf_ServiceNamespace :: string
  cf_ServiceDir :: string
  cf_Version :: int
  cf_Ports :: "portTuple list"
  cf_MasterOnionAddress :: string
  cf_HiddenServiceOnionbalanceInstance :: bool
  cf_ExtraConfig :: string

definition OnionServiceInputData :: "OnionService \<Rightarrow> TorConfig" where
  "OnionServiceInputData onion =
     (let ports = map (\<lambda>rule.
            \<lparr>ServicePort = sbp_number (sb_port (rule_backend rule)),
             PublicPort = sbp_number (rule_port rule),
             ServiceClusterIP = sb_name (rule_backend rule)\<rparr>) (os_Rules (os_spec onion))
      in \<lparr>cf_SocksPort = ''0'', cf_ControlPort = ''0'', cf_MetricsPort = ''0.0.0.0:9035'',
          cf_MetricsPortPolicy = ''accept 0.0.0.0/0'', cf_ServiceName = os_ServiceName onion,
          cf_ServiceNamespace = os_namespace onion, cf_ServiceDir = ''/run/tor/service'',
          cf_Version = os_GetVersion (os_spec onion), cf_Ports = ports,
          cf_MasterOnionAddress = os_MasterOnionAddress (os_spec onion),
          cf_HiddenServiceOnionbalanceInstance = (os_MasterOnionAddress (os_spec onion) \<noteq> []),
          cf_ExtraConfig = os_ExtraConfig (os_spec onion)\<rparr>)"

definition port_directive :: "portTuple \<Rightarrow> string" where
  "port_directive p =
     ''HiddenServicePort '' @ itoa (sint (PublicPort p)) @ '' '' @ ServiceClusterIP p @ '':'' @
     itoa (sint (ServicePort p))"

definition configFormat :: "TorConfig \<Rightarrow> string" where
  "configFormat c =
     newline @ ''SocksPort '' @ cf_SocksPort c @
     newline @ ''ControlPort '' @ cf_ControlPort c @
     newline @ ''MetricsPort '' @ cf_MetricsPort c @
     newline @ ''MetricsPortPolicy '' @ cf_MetricsPortPolicy c @
     newline @ ''HiddenServiceDir '' @ cf_ServiceDir c @ newline @
     (if cf_HiddenServiceOnionbalanceInstance c
      then newline @ ''HiddenServiceOnionbalanceInstance 1'' @ newline else []) @
     newline @ ''HiddenServiceVersion '' @ itoa (cf_Version c) @ newline @
     concat (map (\<lambda>p. newline @ port_directive p @ newline) (cf_Ports c)) @
     newline @ newline @
     (if cf_ExtraConfig c \<noteq> []
      then newline @ ''# ExtraConfig [START]'' @ newline @ cf_ExtraConfig c @
           newline @ ''# ExtraConfig [END]'' @ newline else []) @
     newline"

definition oBconfigFormat :: "TorConfig \<Rightarrow> string" where
  "oBconfigFormat c =
     newline @
     (if cf_HiddenServiceOnionbalanceInstance c
      then newline @ ''MasterOnionAddress '' @ cf_MasterOnionAddress c @ newline else []) @
     newline"

text \<open>The templates are constants and their fields exist, so executing them does not fail.\<close>

definition TorConfigForService :: "OnionService \<Rightarrow> go_error + string" where
  "TorConfigForService onion = (let s = OnionServiceInputData onion in Inr (configFormat s))"

definition ObConfigForService :: "OnionService \<Rightarrow> go_error + string" where
  "ObConfigForService onion = (let s = OnionServiceInputData onion in Inr (oBconfigFormat s))"

section \<open>Onionbalance agent (agents/onionbalance/config/config.go)\<close>

record Instance =
  in_Name :: string
  in_Address :: string

record BalancedEntry =
  be_Instances :: "Instance list"
  be_Key :: string

record BalanceConfig =
  bc_Services :: "BalancedEntry list"

text \<open>
  The backends are visited in the order of the map's \<open>range\<close>, the parameter \<open>visit\<close>; the
  YAML library is the parameter \<open>marshal\<close>, the error library \<open>wrap\<close>.
\<close>

definition balance_config :: "(string \<times> OnionServiceStatus) list \<Rightarrow> BalanceConfig" where
  "balance_config entries =
     \<lparr>bc_Services =
       [\<lparr>be_Instances = map (\<lambda>(name, b). \<lparr>in_Name = name, in_Address = oss_Hostname b\<rparr>)
           (filter (\<lambda>(name, b). oss_Hostname b \<noteq> []) entries),
         be_Key = ''key/privateKeyFile''\<rparr>]\<rparr>"

definition OnionBalanceConfigForService ::
  "((string, OnionServiceStatus) fmap \<Rightarrow> (string \<times> OnionServiceStatus) list) \<Rightarrow>
   (BalanceConfig \<Rightarrow> go_error + bytes) \<Rightarrow> (go_error option \<Rightarrow> string \<Rightarrow> go_error option) \<Rightarrow>
   OnionBalancedService \<Rightarrow> string \<times> go_error option" where
  "OnionBalanceConfigForService visit marshal wrap onion =
     (case marshal (balance_config (visit (obs_Backends (ob_status onion)))) of
        Inl err \<Rightarrow> ([], wrap (Some err) ''Error while Marshaling. %v'')
      | Inr yamlData \<Rightarrow> (yamlData, None))"

section \<open>The lines of the files\<close>

definition text_lines :: "string \<Rightarrow> string list" where
  "text_lines s = filter (\<lambda>l. l \<noteq> []) (split_lines s)"

lemma text_lines_newline [simp]: "text_lines (CHR 10 # s) = text_lines s"
  by (simp add: text_lines_def)

lemma text_lines_Nil [simp]: "text_lines [] = []"
  by (simp add: text_lines_def)

lemma text_lines_append: "text_lines (s @ CHR 10 # t) = text_lines s @ text_lines t"
  by (simp add: text_lines_def split_lines_append_newline)

lemma text_lines_single: "single_line l \<Longrightarrow> text_lines l = (if l = [] then [] else [l])"
  by (simp add: text_lines_def split_lines_single)

lemma text_lines_cons:
  "single_line l \<Longrightarrow> l \<noteq> [] \<Longrightarrow> text_lines (l @ CHR 10 # t) = l # text_lines t"
  by (simp add: text_lines_append text_lines_single)

lemma text_lines_ports:
  "list_all (\<lambda>p. single_line (port_directive p)) ps \<Longrightarrow>
   text_lines (concat (map (\<lambda>p. newline @ port_directive p @ newline) ps) @ t) =
     map port_directive ps @ text_lines t"
proof (induction ps)
  case (Cons p ps)
  have "port_directive p \<noteq> []" by (simp add: port_directive_def)
  with Cons show ?case by (simp add: text_lines_cons)
qed simp

lemma port_directive_single: "single_line (ServiceClusterIP p) \<Longrightarrow> single_line (port_directive p)"
  by (simp add: port_directive_def)

lemma text_lines_extra:
  "text_lines (CHR 10 # ''# ExtraConfig [START]'' @ CHR 10 # x @ CHR 10 #
       ''# ExtraConfig [END]'' @ CHR 10 # t) =
     ''# ExtraConfig [START]'' # text_lines x @ ''# ExtraConfig [END]'' # text_lines t"
  using text_lines_cons [of "''# ExtraConfig [START]''" "x @ CHR 10 # ''# ExtraConfig [END]'' @ CHR 10 # t"]
    text_lines_append [of x "''# ExtraConfig [END]'' @ CHR 10 # t"]
    text_lines_cons [of "''# ExtraConfig [END]''" t]
  by simp

lemma text_lines_directive:
  assumes "single_line d" "single_line v" "d \<noteq> []"
  shows "text_lines (newline @ d @ v @ newline @ t) = (d @ v) # text_lines (newline @ t)"
  using assms text_lines_cons [of "d @ v" t] by simp

lemma text_lines_optional:
  assumes "single_line x" "x \<noteq> []"
  shows "text_lines ((if b then newline @ x @ newline else []) @ t) =
    (if b then x # text_lines t else text_lines t)"
  using assms text_lines_cons [of x t] by simp

lemma text_lines_extra_optional:
  "text_lines ((if x \<noteq> [] then newline @ ''# ExtraConfig [START]'' @ newline @ x @
       newline @ ''# ExtraConfig [END]'' @ newline else []) @ newline) =
   (if x = [] then [] else ''# ExtraConfig [START]'' # text_lines x @ [''# ExtraConfig [END]''])"
  using text_lines_extra [of x "[]"] text_lines_extra [of x newline] by simp

lemma configFormat_lines:
  assumes "single_line (cf_SocksPort c)" "single_line (cf_ControlPort c)" "single_line (cf_MetricsPort c)"
    "single_line (cf_MetricsPortPolicy c)" "single_line (cf_ServiceDir c)"
    "list_all (\<lambda>p. single_line (ServiceClusterIP p)) (cf_Ports c)"
  shows "text_lines (configFormat c) =
    [''SocksPort '' @ cf_SocksPort c, ''ControlPort '' @ cf_ControlPort c,
     ''MetricsPort '' @ cf_MetricsPort c, ''MetricsPortPolicy '' @ cf_MetricsPortPolicy c,
     ''HiddenServiceDir '' @ cf_ServiceDir c] @
    (if cf_HiddenServiceOnionbalanceInstance c then [''HiddenServiceOnionbalanceInstance 1''] else []) @
    [''HiddenServiceVersion '' @ itoa (cf_Version c)] @
    map port_directive (cf_Ports c) @
    (if cf_ExtraConfig c = [] then []
     else ''# ExtraConfig [START]'' # text_lines (cf_ExtraConfig c) @ [''# ExtraConfig [END]''])"
proof -
  define t4 where "t4 = (if cf_ExtraConfig c \<noteq> []
      then newline @ ''# ExtraConfig [START]'' @ newline @ cf_ExtraConfig c @
           newline @ ''# ExtraConfig [END]'' @ newline else []) @ newline"
  define t3 where "t3 = concat (map (\<lambda>p. newline @ port_directive p @ newline) (cf_Ports c)) @
      newline @ newline @ t4"
  define t2 where "t2 = newline @ ''HiddenServiceVersion '' @ itoa (cf_Version c) @ newline @ t3"
  define t1 where "t1 = (if cf_HiddenServiceOnionbalanceInstance c
      then newline @ ''HiddenServiceOnionbalanceInstance 1'' @ newline else []) @ t2"
  have "list_all (\<lambda>p. single_line (port_directive p)) (cf_Ports c)"
    using assms(6) by (simp add: list_all_iff port_directive_single)
  then have 3: "text_lines t3 = map port_directive (cf_Ports c) @ text_lines t4"
    unfolding t3_def by (simp add: text_lines_ports [unfolded append.simps])
  have 2: "text_lines t2 = (''HiddenServiceVersion '' @ itoa (cf_Version c)) # text_lines t3"
    unfolding t2_def by (subst text_lines_directive) simp_all
  have 1: "text_lines t1 = (if cf_HiddenServiceOnionbalanceInstance c
      then [''HiddenServiceOnionbalanceInstance 1''] else []) @ text_lines t2"
    unfolding t1_def by (subst text_lines_optional) simp_all
  have "text_lines (newline @ ''SocksPort '' @ cf_SocksPort c @
      newline @ ''ControlPort '' @ cf_ControlPort c @ newline @ ''MetricsPort '' @ cf_MetricsPort c @
      newline @ ''MetricsPortPolicy '' @ cf_MetricsPortPolicy c @
      newline @ ''HiddenServiceDir '' @ cf_ServiceDir c @ newline @ t1) =
    [''SocksPort '' @ cf_SocksPort c, ''ControlPort '' @ cf_ControlPort c,
     ''MetricsPort '' @ cf_MetricsPort c, ''MetricsPortPolicy '' @ cf_MetricsPortPolicy c,
     ''HiddenServiceDir '' @ cf_ServiceDir c] @ text_lines t1"
    using assms(1-5)
    by (subst text_lines_directive, simp, simp, simp)+ simp
  moreover have "configFormat c = newline @ ''SocksPort '' @ cf_SocksPort c @
      newline @ ''ControlPort '' @ cf_ControlPort c @ newline @ ''MetricsPort '' @ cf_MetricsPort c @
      newline @ ''MetricsPortPolicy '' @ cf_MetricsPortPolicy c @
      newline @ ''HiddenServiceDir '' @ cf_ServiceDir c @ newline @ t1"
    unfolding configFormat_def t1_def t2_def t3_def t4_def by simp
  ultimately show ?thesis
    unfolding 1 2 3 t4_def text_lines_extra_optional by simp
qed

lemma version_digit: "itoa (os_GetVersion spec) = (if os_Version spec = 2 then ''2'' else ''3'')"
  by (simp add: os_GetVersion_def itoa_def nat_digits.simps digit_char_def char_of_def bit_simps Let_def)

lemma input_data_single_line:
  assumes "list_all (\<lambda>r. single_line (sb_name (rule_backend r))) (os_Rules (os_spec onion))"
  shows "single_line (cf_SocksPort (OnionServiceInputData onion))"
    "single_line (cf_ControlPort (OnionServiceInputData onion))"
    "single_line (cf_MetricsPort (OnionServiceInputData onion))"
    "single_line (cf_MetricsPortPolicy (OnionServiceInputData onion))"
    "single_line (cf_ServiceDir (OnionServiceInputData onion))"
    "list_all (\<lambda>p. single_line (ServiceClusterIP p)) (cf_Ports (OnionServiceInputData onion))"
  using assms by (simp_all add: OnionServiceInputData_def Let_def list_all_iff)

text \<open>
  C32: the torfile of an onion service, without its empty lines, is: no SOCKS and no control port,
  the metrics port, the service directory, the onionbalance switch exactly for backends of a
  balanced service, the version, one \<open>HiddenServicePort\<close> per rule in the order of the rules
  (public port, target service and port), and the user's extra lines last.
\<close>

theorem onion_torfile_lines:
  fixes onion :: OnionService
  defines "spec \<equiv> os_spec onion"
  assumes "list_all (\<lambda>r. single_line (sb_name (rule_backend r))) (os_Rules (os_spec onion))"
  shows "\<exists>text. TorConfigForService onion = Inr text \<and> text_lines text =
    [''SocksPort 0'', ''ControlPort 0'', ''MetricsPort 0.0.0.0:9035'',
     ''MetricsPortPolicy accept 0.0.0.0/0'', ''HiddenServiceDir /run/tor/service''] @
    (if os_MasterOnionAddress spec = [] then [] else [''HiddenServiceOnionbalanceInstance 1'']) @
    [''HiddenServiceVersion '' @ (if os_Version spec = 2 then ''2'' else ''3'')] @
    map (\<lambda>r. ''HiddenServicePort '' @ itoa (sint (sbp_number (rule_port r))) @ '' '' @
        sb_name (rule_backend r) @ '':'' @ itoa (sint (sbp_number (sb_port (rule_backend r)))))
      (os_Rules spec) @
    (if os_ExtraConfig spec = [] then []
     else ''# ExtraConfig [START]'' # text_lines (os_ExtraConfig spec) @ [''# ExtraConfig [END]''])"
proof -
  note lines = configFormat_lines [OF input_data_single_line [OF assms(2)]]
  show ?thesis
    using lines
    by (simp add: TorConfigForService_def OnionServiceInputData_def Let_def version_digit spec_def
        port_directive_def o_def)
qed

definition web_onion :: OnionService where
  "web_onion =
     \<lparr>os_kind = ''OnionService'', os_meta = zero_meta\<lparr>om_name := ''hidden''\<rparr>,
      os_spec = (tr_spec (ob_Template (ob_spec (zero_ob [] []))))
        \<lparr>os_Rules := [\<lparr>rule_port = \<lparr>sbp_name = [], sbp_number = 80\<rparr>,
            rule_backend = \<lparr>sb_name = ''web'', sb_port = \<lparr>sbp_name = [], sbp_number = 8080\<rparr>\<rparr>\<rparr>]\<rparr>,
      os_status = \<lparr>oss_Hostname = [], oss_TargetClusterIP = []\<rparr>\<rparr>"

theorem onion_torfile_lines_witness:
  "\<exists>text. TorConfigForService web_onion = Inr text \<and>
     ''HiddenServicePort 80 web:8080'' \<in> set (text_lines text)"
proof -
  have "list_all (\<lambda>r. single_line (sb_name (rule_backend r))) (os_Rules (os_spec web_onion))"
    by (simp add: web_onion_def)
  from onion_torfile_lines [OF this] show ?thesis
    by (auto simp: web_onion_def zero_ob_def itoa_def nat_digits.simps digit_char_def char_of_def
        bit_simps)
qed

text \<open>
  The \<open>ob_config\<close> of a backend names its master, and nothing else; without a master address it
  says nothing, as the torfile then does not switch onionbalance on.
\<close>

theorem ob_config_lines:
  assumes "single_line (os_MasterOnionAddress (os_spec onion))"
  shows "\<exists>text. ObConfigForService onion = Inr text \<and>
    text_lines text =
      (if os_MasterOnionAddress (os_spec onion) = [] then []
       else [''MasterOnionAddress '' @ os_MasterOnionAddress (os_spec onion)])"
proof -
  have "text_lines (oBconfigFormat (OnionServiceInputData onion)) =
      (if os_MasterOnionAddress (os_spec onion) = [] then []
       else [''MasterOnionAddress '' @ os_MasterOnionAddress (os_spec onion)])"
    using text_lines_directive [OF _ assms, of "''MasterOnionAddress ''" newline]
    by (simp add: oBconfigFormat_def OnionServiceInputData_def Let_def)
  then show ?thesis by (simp add: ObConfigForService_def Let_def)
qed

definition backend_onion :: OnionService where
  "backend_onion = web_onion\<lparr>os_spec := (os_spec web_onion)\<lparr>os_MasterOnionAddress := ''m.onion''\<rparr>\<rparr>"

theorem ob_config_lines_witness:
  "\<exists>text. ObConfigForService backend_onion = Inr text \<and> text_lines text = [''MasterOnionAddress m.onion'']"
proof -
  have a: "os_MasterOnionAddress (os_spec backend_onion) = ''m.onion''"
    by (simp add: backend_onion_def)
  then have "single_line (os_MasterOnionAddress (os_spec backend_onion))" by simp
  from ob_config_lines [OF this] show ?thesis by (simp add: a)
qed

lemma balance_config_services:
  "\<exists>be. bc_Services (balance_config entries) = [be] \<and> be_Key be = ''key/privateKeyFile'' \<and>
     be_Instances be = map (\<lambda>(n, b). \<lparr>in_Name = n, in_Address = oss_Hostname b\<rparr>)
       (filter (\<lambda>(n, b). oss_Hostname b \<noteq> []) entries)"
  by (simp add: balance_config_def)

lemma balance_config_cong:
  "balance_config entries = balance_config entries' \<longleftrightarrow>
     map (\<lambda>(n, b). (n, oss_Hostname b)) (filter (\<lambda>(n, b). oss_Hostname b \<noteq> []) entries) =
     map (\<lambda>(n, b). (n, oss_Hostname b)) (filter (\<lambda>(n, b). oss_Hostname b \<noteq> []) entries')"
proof -
  have "inj (\<lambda>(n, a). \<lparr>in_Name = n, in_Address = a\<rparr>)" by (auto simp: inj_def)
  moreover have "map (\<lambda>(n, b). \<lparr>in_Name = n, in_Address = oss_Hostname b\<rparr>) xs =
      map (\<lambda>(n, a). \<lparr>in_Name = n, in_Address = a\<rparr>) (map (\<lambda>(n, b). (n, oss_Hostname b)) xs)"
    for xs :: "(string \<times> OnionServiceStatus) list" by (simp add: case_prod_beta)
  ultimately show ?thesis by (simp add: balance_config_def inj_map_eq_map del: map_map)
qed

text \<open>
  C33: the balancer is configured with one service, with the key file \<open>key/privateKeyFile\<close>, and its
  instances are exactly the backends that have a hostname, each once under its name, whatever the
  order in which the map is visited.  The order of the instances is that of the visit, though: two
  visits of the same map give the same configuration only when they agree on the order of these
  backends.
\<close>

theorem balance_config_instances:
  assumes "distinct (map fst entries)" "map_of entries = fmlookup m"
    and "distinct (map fst entries')" "map_of entries' = fmlookup m"
  shows "(\<exists>be. bc_Services (balance_config entries) = [be] \<and> be_Key be = ''key/privateKeyFile'' \<and>
      distinct (map in_Name (be_Instances be)) \<and>
      {(in_Name i, in_Address i) | i. i \<in> set (be_Instances be)} =
        {(n, oss_Hostname b) | n b. fmlookup m n = Some b \<and> oss_Hostname b \<noteq> []}) \<and>
    (balance_config entries = balance_config entries' \<longleftrightarrow>
      map fst (filter (\<lambda>(n, b). oss_Hostname b \<noteq> []) entries) =
      map fst (filter (\<lambda>(n, b). oss_Hostname b \<noteq> []) entries'))"
proof (rule conjI)
  obtain be where be: "bc_Services (balance_config entries) = [be]" "be_Key be = ''key/privateKeyFile''"
    and inst: "be_Instances be = map (\<lambda>(n, b). \<lparr>in_Name = n, in_Address = oss_Hostname b\<rparr>)
      (filter (\<lambda>(n, b). oss_Hostname b \<noteq> []) entries)"
    using balance_config_services by blast
  have names: "map in_Name (be_Instances be) = map fst (filter (\<lambda>(n, b). oss_Hostname b \<noteq> []) entries)"
    by (simp add: inst o_def case_prod_beta)
  have look: "fmlookup m n = Some b \<longleftrightarrow> (n, b) \<in> set entries" for n b
    using map_of_eq_Some_iff [OF assms(1)] assms(2) by auto
  have "{(in_Name i, in_Address i) | i. i \<in> set (be_Instances be)} =
      {(n, oss_Hostname b) | n b. fmlookup m n = Some b \<and> oss_Hostname b \<noteq> []}"
    unfolding look inst by (auto simp: image_iff) force
  with be show "\<exists>be. bc_Services (balance_config entries) = [be] \<and> be_Key be = ''key/privateKeyFile'' \<and>
      distinct (map in_Name (be_Instances be)) \<and>
      {(in_Name i, in_Address i) | i. i \<in> set (be_Instances be)} =
        {(n, oss_Hostname b) | n b. fmlookup m n = Some b \<and> oss_Hostname b \<noteq> []}"
    using assms(1) by (intro exI [of _ be]) (simp add: names distinct_map_filter)
next
  have host: "map (\<lambda>(n, b). (n, oss_Hostname b)) (filter (\<lambda>(n, b). oss_Hostname b \<noteq> []) es) =
      map (\<lambda>n. (n, oss_Hostname (the (fmlookup m n)))) (map fst (filter (\<lambda>(n, b). oss_Hostname b \<noteq> []) es))"
    if "distinct (map fst es)" "map_of es = fmlookup m" for es
    using that by (auto simp flip: that(2))
  have "inj (\<lambda>n. (n, oss_Hostname (the (fmlookup m n))))" by (rule injI) simp
  then show "balance_config entries = balance_config entries' \<longleftrightarrow>
      map fst (filter (\<lambda>(n, b). oss_Hostname b \<noteq> []) entries) =
      map fst (filter (\<lambda>(n, b). oss_Hostname b \<noteq> []) entries')"
    unfolding balance_config_cong host [OF assms(1,2)] host [OF assms(3,4)] by (rule inj_map_eq_map)
qed

theorem balance_config_instances_witness:
  "balance_config [(''b'', \<lparr>oss_Hostname = ''b.onion'', oss_TargetClusterIP = []\<rparr>),
      (''a'', \<lparr>oss_Hostname = ''a.onion'', oss_TargetClusterIP = []\<rparr>)] \<noteq>
   balance_config [(''a'', \<lparr>oss_Hostname = ''a.onion'', oss_TargetClusterIP = []\<rparr>),
      (''b'', \<lparr>oss_Hostname = ''b.onion'', oss_TargetClusterIP = []\<rparr>)]"
proof -
  let ?b = "(''b'', \<lparr>oss_Hostname = ''b.onion'', oss_TargetClusterIP = []\<rparr>)"
  let ?a = "(''a'', \<lparr>oss_Hostname = ''a.onion'', oss_TargetClusterIP = []\<rparr>)"
  have 1: "distinct (map fst [?b, ?a])" and 3: "distinct (map fst [?a, ?b])" by simp_all
  have 2: "map_of [?b, ?a] = fmlookup (fmap_of_list [?b, ?a])"
    and 4: "map_of [?a, ?b] = fmlookup (fmap_of_list [?b, ?a])" by (auto simp: fun_eq_iff)
  from balance_config_instances [OF 1 2 3 4] show ?thesis by simp
qed

end
