(* ===== verification/Tor_Agent.thy ===== *)
theory Tor_Agent
  imports Agent_Config
begin

text \<open>
  The tor agent, \<open>agents/tor/local/controller.go\<close> (and \<open>parseOnionService\<close> of \<open>client.go\<close>): it
  brings the files of the pod in line with the \<open>OnionService\<close>, reloads the daemon when a
  configuration file changed, and reports the hostname.  The operating system, the informer's
  store, the client and the daemon are the record \<open>agent\<close>; \<open>files_law\<close> states what the file
  operations do to the files.  The lemmas show that a copy never overwrites, that a configuration
  file ends up with the rendered contents, and when the daemon is reloaded.
\<close>

section \<open>The surroundings\<close>

text \<open>
  A file mode is a number; an opened file is its path; a directory entry is a name and whether it
  is a directory.  \<open>a_unstructured\<close> is the type assertion on a stored object, \<open>a_convert\<close> the
  converter of the API machinery.
\<close>

record 's agent =
  o_read :: "string \<Rightarrow> ('s, go_error + bytes) state"
  o_write :: "string \<Rightarrow> bytes \<Rightarrow> nat \<Rightarrow> ('s, go_error option) state"
  o_stat :: "string \<Rightarrow> ('s, go_error + nat) state"
  o_open :: "string \<Rightarrow> ('s, go_error option) state"
  o_create :: "string \<Rightarrow> ('s, go_error option) state"
  o_copy :: "string \<Rightarrow> string \<Rightarrow> ('s, go_error option) state"
  o_chmod :: "string \<Rightarrow> nat \<Rightarrow> ('s, go_error option) state"
  o_readdir :: "string \<Rightarrow> ('s, go_error + (string \<times> bool) list) state"
  o_mkdir :: "string \<Rightarrow> nat \<Rightarrow> ('s, go_error option) state"
  o_not_exist :: "go_error \<Rightarrow> bool"
  a_wrap :: "go_error option \<Rightarrow> string \<Rightarrow> go_error option"
  a_get_by_key :: "string \<Rightarrow> ('s, go_error + opaque option) state"
  a_unstructured :: "opaque \<Rightarrow> opaque option"
  a_convert :: "opaque \<Rightarrow> go_error + OnionService"
  a_status_update :: "OnionService \<Rightarrow> ('s, go_error option) state"
  a_reload :: "('s, unit) state"

definition authorizedClientsDir :: string where
  "authorizedClientsDir = ''/run/tor/service/authorized_clients''"
definition torFilePath :: string where "torFilePath = ''/run/tor/torfile''"
definition torServiceDir :: string where "torServiceDir = ''/run/tor/service/''"
definition defaultUnixPermission :: nat where "defaultUnixPermission = 384"

text \<open>\<open>if err != nil { return errors.Wrap(err, msg) }\<close> and what follows it.\<close>

definition guarded ::
  "'s agent \<Rightarrow> ('s, go_error option) state \<Rightarrow> string \<Rightarrow> ('s, go_error option) state \<Rightarrow>
   ('s, go_error option) state" where
  "guarded A m msg k = do {
     err \<leftarrow> m;
     (case err of Some e \<Rightarrow> State_Monad.return (a_wrap A (Some e) msg) | None \<Rightarrow> k)
   }"

section \<open>Files (copyIfNotExist, serviceReload)\<close>

definition copyIfNotExist :: "'s agent \<Rightarrow> string \<Rightarrow> string \<Rightarrow> ('s, go_error option) state" where
  "copyIfNotExist A src dst = do {
     r \<leftarrow> o_stat A dst;
     (case r of
        Inr mode \<Rightarrow> State_Monad.return (a_wrap A None ''checking if file exists'')
      | Inl err \<Rightarrow>
          if \<not> o_not_exist A err
          then State_Monad.return (a_wrap A (Some err) ''checking if file exists'')
          else guarded A (o_open A src) ''opening source file''
            (guarded A (o_create A dst) ''creating destination file''
            (guarded A (o_copy A dst src) ''copying file'' (do {
               i \<leftarrow> o_stat A src;
               (case i of
                  Inl err \<Rightarrow> State_Monad.return (a_wrap A (Some err) ''getting source file info'')
                | Inr mode \<Rightarrow> guarded A (o_chmod A dst mode) ''setting destination file mode''
                    (State_Monad.return None))
             }))))
   }"

definition serviceReload :: "'s agent \<Rightarrow> OnionService \<Rightarrow> bytes \<Rightarrow> ('s, go_error option) state" where
  "serviceReload A onionService configData =
     guarded A (o_write A torFilePath configData defaultUnixPermission) ''writing config''
       (State_Monad.return None)"

text \<open>
  Bringing one configuration file up to date, as \<open>sync\<close> does it twice: it is written when it does
  not exist or differs (or when \<open>forced\<close> by the other file); \<open>Inr\<close> tells whether it was.
\<close>

definition needs_write ::
  "'s agent \<Rightarrow> string \<Rightarrow> bytes \<Rightarrow> bool \<Rightarrow> string \<Rightarrow> ('s, go_error option + bool) state" where
  "needs_write A path contents forced msg = do {
     r \<leftarrow> o_read A path;
     State_Monad.return (case r of
        Inl err \<Rightarrow>
          if o_not_exist A err then Inr True else Inl (a_wrap A (Some err) msg)
      | Inr old \<Rightarrow> if old \<noteq> contents then Inr True else Inr forced)
   }"

definition torfile_step ::
  "'s agent \<Rightarrow> OnionService \<Rightarrow> string \<Rightarrow> ('s, go_error option + bool) state" where
  "torfile_step A onionService torConfig = do {
     r \<leftarrow> needs_write A torFilePath torConfig False ''reading torfile'';
     (case r of
        Inl err \<Rightarrow> State_Monad.return (Inl err)
      | Inr reload \<Rightarrow>
          if reload then do {
            err \<leftarrow> serviceReload A onionService torConfig;
            State_Monad.return (case err of
               Some e \<Rightarrow> Inl (a_wrap A (Some e) ''reloading service'') | None \<Rightarrow> Inr True)
          } else State_Monad.return (Inr False))
   }"

definition ob_config_step ::
  "'s agent \<Rightarrow> OnionService \<Rightarrow> bool \<Rightarrow> ('s, go_error option + bool) state" where
  "ob_config_step A onionService reload =
     (if length (os_MasterOnionAddress (os_spec onionService)) > 0 then
        (case ObConfigForService onionService of
           Inl err \<Rightarrow> State_Monad.return (Inl (a_wrap A (Some err) ''generating ob_config''))
         | Inr obConfig \<Rightarrow> do {
             r \<leftarrow> needs_write A ''/run/tor/service/ob_config'' obConfig reload ''reading ob_config'';
             (case r of
                Inl err \<Rightarrow> State_Monad.return (Inl err)
              | Inr reload' \<Rightarrow>
                  if reload' then do {
                    err \<leftarrow> o_write A ''/run/tor/service/ob_config'' obConfig defaultUnixPermission;
                    State_Monad.return (case err of
                       Some e \<Rightarrow> Inl (a_wrap A (Some e) ''writing ob_config'') | None \<Rightarrow> Inr True)
                  } else State_Monad.return (Inr False))
           })
      else State_Monad.return (Inr reload))"

section \<open>Keys and authorized clients\<close>

text \<open>The errors of the copies are logged only.\<close>

definition copy_logged :: "'s agent \<Rightarrow> string \<Rightarrow> string \<Rightarrow> ('s, unit) state" where
  "copy_logged A src dst = do { err \<leftarrow> copyIfNotExist A src dst; State_Monad.return () }"

definition key_file_names :: "OnionService \<Rightarrow> string \<times> string" where
  "key_file_names onionService =
     (if os_GetVersion (os_spec onionService) = 2 then (''public_key'', ''private_key'')
      else (''hs_ed25519_public_key'', ''hs_ed25519_secret_key''))"

definition copy_keys :: "'s agent \<Rightarrow> OnionService \<Rightarrow> ('s, unit) state" where
  "copy_keys A onionService =
     (case key_file_names onionService of (publicKeyFileName, privateKeyFileName) \<Rightarrow> do {
        copy_logged A ''/run/tor/service/key/hostname'' ''/run/tor/service/hostname'';
        copy_logged A (torServiceDir @ ''key/'' @ publicKeyFileName) (torServiceDir @ publicKeyFileName);
        copy_logged A (torServiceDir @ ''key/'' @ privateKeyFileName) (torServiceDir @ privateKeyFileName)
      })"

fun copy_auth_files :: "'s agent \<Rightarrow> (string \<times> bool) list \<Rightarrow> ('s, unit) state" where
  "copy_auth_files A [] = State_Monad.return ()"
| "copy_auth_files A ((name, is_dir) # files) = do {
     (if \<not> is_dir \<and> has_suffix name ''.auth''
      then copy_logged A (''/run/tor/service/.authorized_clients/'' @ name)
             (''/run/tor/service/authorized_clients/'' @ name)
      else State_Monad.return ());
     copy_auth_files A files
   }"

text \<open>
  A directory that cannot be made ends the process (\<open>log.Fatalf\<close>), which is a \<open>Panic\<close> here.
\<close>

definition copy_clients :: "'s agent \<Rightarrow> ('s, go_error option) state" where
  "copy_clients A = do {
     r \<leftarrow> o_readdir A ''/run/tor/service/.authorized_clients/'';
     (case r of
        Inl err \<Rightarrow> State_Monad.return None
      | Inr files \<Rightarrow> do {
          st \<leftarrow> o_stat A authorizedClientsDir;
          fatal \<leftarrow> (case st of
             Inl err \<Rightarrow>
               if o_not_exist A err then o_mkdir A authorizedClientsDir 448
               else State_Monad.return None
           | Inr mode \<Rightarrow> State_Monad.return None);
          (case fatal of
             Some err \<Rightarrow> State_Monad.return (Some (Panic ''Creating directory failed''))
           | None \<Rightarrow> do { copy_auth_files A files; State_Monad.return None })
        })
   }"

section \<open>Status\<close>

definition updateOnionServiceStatus :: "'s agent \<Rightarrow> OnionService \<Rightarrow> ('s, go_error option) state" where
  "updateOnionServiceStatus A onionService = do {
     r \<leftarrow> o_read A ''/run/tor/service/hostname'';
     (case r of
        Inl err \<Rightarrow> State_Monad.return (a_wrap A (Some err) ''reading hostname'')
      | Inr hostname \<Rightarrow>
          (let newHostname = trim_space hostname in
           if newHostname \<noteq> oss_Hostname (os_status onionService)
           then guarded A
             (a_status_update A (onionService\<lparr>os_status :=
                (os_status onionService)\<lparr>oss_Hostname := newHostname\<rparr>\<rparr>))
             ''updating onionService'' (State_Monad.return None)
           else State_Monad.return None))
   }"

section \<open>sync\<close>

definition parseOnionService :: "'s agent \<Rightarrow> opaque \<Rightarrow> go_error option + OnionService" where
  "parseOnionService A obj =
     (case a_unstructured A obj of
        None \<Rightarrow> Inl (Some (GoErr ''could not convert obj to OnionService''))
      | Some content \<Rightarrow>
          (case a_convert A content of
             Inl err \<Rightarrow> Inl (a_wrap A (Some err) ''could not convert obj to OnionService'')
           | Inr service \<Rightarrow> Inr service))"

definition sync_service :: "'s agent \<Rightarrow> OnionService \<Rightarrow> ('s, go_error option) state" where
  "sync_service A onionService =
     (case TorConfigForService onionService of
        Inl err \<Rightarrow> State_Monad.return (a_wrap A (Some err) ''generating config'')
      | Inr torConfig \<Rightarrow> do {
          r \<leftarrow> torfile_step A onionService torConfig;
          (case r of
             Inl err \<Rightarrow> State_Monad.return err
           | Inr reload \<Rightarrow> do {
               copy_keys A onionService;
               fatal \<leftarrow> copy_clients A;
               (case fatal of
                  Some e \<Rightarrow> State_Monad.return (Some e)
                | None \<Rightarrow> do {
                    r' \<leftarrow> ob_config_step A onionService reload;
                    (case r' of
                       Inl err \<Rightarrow> State_Monad.return err
                     | Inr reload' \<Rightarrow> do {
                         (if reload' then a_reload A else State_Monad.return ());
                         guarded A (updateOnionServiceStatus A onionService) ''updating status''
                           (State_Monad.return None)
                       })
                  })
             })
        })"

definition sync :: "'s agent \<Rightarrow> string \<Rightarrow> ('s, go_error option) state" where
  "sync A key = do {
     r \<leftarrow> a_get_by_key A key;
     (case r of
        Inl err \<Rightarrow> State_Monad.return (a_wrap A (Some err) ''fetching object from store'')
      | Inr None \<Rightarrow> State_Monad.return None
      | Inr (Some obj) \<Rightarrow>
          (case parseOnionService A obj of
             Inl err \<Rightarrow> State_Monad.return (a_wrap A err ''parsing onion service'')
           | Inr onionService \<Rightarrow> sync_service A onionService))
   }"

section \<open>What the file operations do\<close>

text \<open>
  \<open>files_law A files\<close>: \<open>files\<close> gives the contents of the files that exist.  Reading, opening and
  asking for the state of a file change nothing, and find what exists; creating a file empties it;
  writing and copying into a file change that file alone, also when they fail half-way; the other
  operations change no contents.
\<close>

definition only_changes :: "('s \<Rightarrow> string \<Rightarrow> bytes option) \<Rightarrow> string \<Rightarrow> 's \<Rightarrow> 's \<Rightarrow> bool" where
  "only_changes files p s s' \<longleftrightarrow> (\<forall>q. q \<noteq> p \<longrightarrow> files s' q = files s q)"

definition files_law :: "'s agent \<Rightarrow> ('s \<Rightarrow> string \<Rightarrow> bytes option) \<Rightarrow> bool" where
  "files_law A files \<longleftrightarrow>
     (\<forall>p s. files (snd (run_state (o_stat A p) s)) = files s) \<and>
     (\<forall>p s e s'. run_state (o_stat A p) s = (Inl e, s') \<longrightarrow> o_not_exist A e \<longrightarrow> files s p = None) \<and>
     (\<forall>p s. files (snd (run_state (o_read A p) s)) = files s) \<and>
     (\<forall>p s c s'. run_state (o_read A p) s = (Inr c, s') \<longrightarrow> files s p = Some c) \<and>
     (\<forall>p s e s'. run_state (o_read A p) s = (Inl e, s') \<longrightarrow> o_not_exist A e \<longrightarrow> files s p = None) \<and>
     (\<forall>p s. files (snd (run_state (o_readdir A p) s)) = files s) \<and>
     (\<forall>p m s. files (snd (run_state (o_mkdir A p m) s)) = files s) \<and>
     (\<forall>p s. files (snd (run_state (o_open A p) s)) = files s) \<and>
     (\<forall>p m s. files (snd (run_state (o_chmod A p m) s)) = files s) \<and>
     (\<forall>p s. only_changes files p s (snd (run_state (o_create A p) s))) \<and>
     (\<forall>d p s. only_changes files d s (snd (run_state (o_copy A d p) s))) \<and>
     (\<forall>p c m s. only_changes files p s (snd (run_state (o_write A p c m) s))) \<and>
     (\<forall>p c m s s'. run_state (o_write A p c m) s = (None, s') \<longrightarrow> files s' p = Some c)"

definition errors_law :: "'s agent \<Rightarrow> bool" where
  "errors_law A \<longleftrightarrow> (\<forall>m. a_wrap A None m = None) \<and> (\<forall>e m. a_wrap A (Some e) m \<noteq> None)"

lemma files_lawD:
  assumes "files_law A files"
  shows "run_state (o_stat A p) s = (r, s') \<Longrightarrow> files s' = files s"
    "run_state (o_stat A p) s = (Inl e, s') \<Longrightarrow> o_not_exist A e \<Longrightarrow> files s p = None"
    "run_state (o_read A p) s = (r2, s') \<Longrightarrow> files s' = files s"
    "run_state (o_read A p) s = (Inr c, s') \<Longrightarrow> files s p = Some c"
    "run_state (o_open A p) s = (r3, s') \<Longrightarrow> files s' = files s"
    "run_state (o_chmod A p m) s = (r4, s') \<Longrightarrow> files s' = files s"
    "run_state (o_create A p) s = (r5, s') \<Longrightarrow> only_changes files p s s'"
    "run_state (o_copy A d p) s = (r6, s') \<Longrightarrow> only_changes files d s s'"
    "run_state (o_write A p c m) s = (r7, s') \<Longrightarrow> only_changes files p s s'"
    "run_state (o_write A p c m) s = (None, s') \<Longrightarrow> files s' p = Some c"
    "run_state (o_read A p) s = (Inl e, s') \<Longrightarrow> o_not_exist A e \<Longrightarrow> files s p = None"
    "run_state (o_readdir A p) s = (r8, s') \<Longrightarrow> files s' = files s"
    "run_state (o_mkdir A p m) s = (r9, s') \<Longrightarrow> files s' = files s"
  using assms unfolding files_law_def by (metis snd_conv)+

text \<open>A predicate on the files, kept by monadic code.\<close>

lemma only_changes_refl [simp]: "only_changes files p s s"
  by (simp add: only_changes_def)

definition confined :: "('s \<Rightarrow> string \<Rightarrow> bytes option) \<Rightarrow> string \<Rightarrow> ('s, 'a) state \<Rightarrow> bool" where
  "confined files p m \<longleftrightarrow> (\<forall>s. only_changes files p s (snd (run_state m s)))"

lemma confined_return [simp]: "confined files p (State_Monad.return x)"
  by (simp add: confined_def)

lemma confined_bind:
  "confined files p m \<Longrightarrow> (\<And>x. confined files p (f x)) \<Longrightarrow> confined files p (State_Monad.bind m f)"
  unfolding confined_def only_changes_def
  by (auto split: prod.splits) (metis snd_conv)

lemma confined_sum:
  "(\<And>e. confined files p (f e)) \<Longrightarrow> (\<And>a. confined files p (g a)) \<Longrightarrow>
   confined files p (case x of Inl e \<Rightarrow> f e | Inr a \<Rightarrow> g a)"
  "confined files p m \<Longrightarrow> (\<And>a. confined files p (h a)) \<Longrightarrow>
   confined files p (case y of None \<Rightarrow> m | Some a \<Rightarrow> h a)"
  by (auto split: sum.splits option.splits)

lemma guarded_confined:
  "confined files p m \<Longrightarrow> confined files p k \<Longrightarrow> confined files p (guarded A m msg k)"
  unfolding guarded_def by (intro confined_bind confined_sum) auto

lemma ops_confined:
  assumes "files_law A files"
  shows "confined files d (o_stat A p)" "confined files d (o_read A p)" "confined files d (o_open A p)"
    "confined files d (o_chmod A p m)" "confined files p (o_create A p)" "confined files d (o_copy A d p)"
    "confined files p (o_write A p c m)"
  using assms unfolding confined_def files_law_def only_changes_def by auto

section \<open>Copies never overwrite\<close>

lemma copyIfNotExist_confined:
  assumes "files_law A files"
  shows "confined files dst (copyIfNotExist A src dst)"
  unfolding copyIfNotExist_def
  by (intro confined_bind confined_sum guarded_confined ops_confined [OF assms] confined_return)
    (auto intro!: guarded_confined confined_bind confined_sum ops_confined [OF assms])

lemma copyIfNotExist_keeps:
  assumes law: "files_law A files" and run: "run_state (copyIfNotExist A src dst) s = (r, s')"
    and old: "files s q = Some c"
  shows "files s' q = Some c"
proof (cases "q = dst")
  case False
  have "only_changes files dst s s'"
    using copyIfNotExist_confined [OF law, of dst src] run unfolding confined_def by (metis snd_conv)
  with False old show ?thesis by (simp add: only_changes_def)
next
  case True
  obtain st s1 where st: "run_state (o_stat A dst) s = (st, s1)"
    by (cases "run_state (o_stat A dst) s")
  have "\<not> (\<exists>e. st = Inl e \<and> o_not_exist A e)"
    using files_lawD(2) [OF law] st old True by auto
  with st run have "s' = s1"
    by (auto simp: copyIfNotExist_def split: sum.splits)
  with files_lawD(1) [OF law st] old show ?thesis by simp
qed

lemma copy_logged_keeps:
  "files_law A files \<Longrightarrow> holds_after (\<lambda>s. files s q = Some c) (copy_logged A src dst)"
  unfolding copy_logged_def
  by (intro keeps holds_afterI) (auto dest: copyIfNotExist_keeps)

lemma copy_keys_keeps:
  "files_law A files \<Longrightarrow> holds_after (\<lambda>s. files s q = Some c) (copy_keys A onion)"
  unfolding copy_keys_def by (intro keeps copy_logged_keeps)

lemma copy_auth_files_keeps:
  "files_law A files \<Longrightarrow> holds_after (\<lambda>s. files s q = Some c) (copy_auth_files A fs)"
proof (induction fs)
  case (Cons f fs)
  then show ?case by (cases f) (auto intro!: keeps copy_logged_keeps)
qed simp

lemma copy_clients_keeps:
  assumes "files_law A files"
  shows "holds_after (\<lambda>s. files s q = Some c) (copy_clients A)"
proof -
  have "holds_after (\<lambda>s. files s q = Some c) (o_readdir A p)"
    "holds_after (\<lambda>s. files s q = Some c) (o_mkdir A p m)"
    "holds_after (\<lambda>s. files s q = Some c) (o_stat A p)" for p m
    using assms unfolding files_law_def holds_after_def by auto
  then show ?thesis
    unfolding copy_clients_def by (intro keeps copy_auth_files_keeps [OF assms])
qed

section \<open>When the daemon is reloaded\<close>

lemma needs_write_result:
  assumes "files_law A files" "errors_law A"
    and "run_state (needs_write A p contents forced msg) s = (Inr b, s')"
  shows "files s' = files s \<and> (b \<longleftrightarrow> files s p \<noteq> Some contents \<or> forced)"
proof -
  obtain r t where read: "run_state (o_read A p) s = (r, t)"
    by (cases "run_state (o_read A p) s")
  with files_lawD(3) [OF assms(1)] have same: "files t = files s" by blast
  show ?thesis
  proof (cases r)
    case (Inl e)
    with read assms(3) files_lawD(11) [OF assms(1), of p s e t] same show ?thesis
      by (auto simp: needs_write_def split: if_splits)
  next
    case (Inr old)
    with read assms(3) files_lawD(4) [OF assms(1), of p s old t] same show ?thesis
      by (auto simp: needs_write_def split: if_splits)
  qed
qed

text \<open>
  A torfile step that succeeds leaves exactly the rendered configuration in the torfile, asks for a
  reload exactly when it was not there before, and changes no other file.
\<close>

lemma torfile_step_result:
  assumes "files_law A files" "errors_law A"
    and "run_state (torfile_step A onion contents) s = (Inr reload, s')"
  shows "files s' torFilePath = Some contents \<and>
    (reload \<longleftrightarrow> files s torFilePath \<noteq> Some contents) \<and> only_changes files torFilePath s s'"
proof -
  obtain r t where nw: "run_state (needs_write A torFilePath contents False ''reading torfile'') s = (r, t)"
    by (cases "run_state (needs_write A torFilePath contents False ''reading torfile'') s")
  with assms(3) obtain b where r: "r = Inr b"
    by (cases r) (auto simp: torfile_step_def)
  note res = needs_write_result [OF assms(1,2) nw [unfolded r]]
  show ?thesis
  proof (cases b)
    case True
    obtain w u where wr: "run_state (o_write A torFilePath contents defaultUnixPermission) t = (w, u)"
      by (cases "run_state (o_write A torFilePath contents defaultUnixPermission) t")
    have wrapped: "a_wrap A (Some e) m \<noteq> None" for e m
      using assms(2) by (auto simp: errors_law_def)
    have "w = None \<and> reload \<and> s' = u"
      using assms(3) nw r True wr
      by (cases w)
        (auto simp: torfile_step_def serviceReload_def guarded_def wrapped split: option.splits)
    with wr files_lawD(9,10) [OF assms(1)] res True show ?thesis
      by (simp add: only_changes_def)
  next
    case False
    with assms(3) nw r res show ?thesis
      by (simp add: torfile_step_def only_changes_def)
  qed
qed

end
