(* ===== verification/Agent_Sync.thy ===== *)
theory Agent_Sync
  imports Tor_Agent
begin

text \<open>
  What a sync of the tor agent achieves: after a sync without an error the files hold what is
  rendered; a sync that finds them so does not touch the daemon; and a reload is lost when a later
  step of the same sync fails.  The hypotheses are met by a simulated pod, on which the witnesses
  run.
\<close>

section \<open>The calls that leave the files alone\<close>

definition outside_law :: "'s agent \<Rightarrow> ('s \<Rightarrow> string \<Rightarrow> bytes option) \<Rightarrow> bool" where
  "outside_law A files \<longleftrightarrow>
     (\<forall>s. files (snd (run_state (a_reload A) s)) = files s) \<and>
     (\<forall>onion s. files (snd (run_state (a_status_update A onion) s)) = files s)"

definition ob_config_path :: string where
  "ob_config_path = ''/run/tor/service/ob_config''"

text \<open>The configuration files are as rendered for \<open>onion\<close>.\<close>

definition configured :: "('s \<Rightarrow> string \<Rightarrow> bytes option) \<Rightarrow> OnionService \<Rightarrow> 's \<Rightarrow> bool" where
  "configured files onion s \<longleftrightarrow>
     (\<exists>text. TorConfigForService onion = Inr text \<and> files s torFilePath = Some text) \<and>
     (os_MasterOnionAddress (os_spec onion) = [] \<or>
       (\<exists>text. ObConfigForService onion = Inr text \<and> files s ob_config_path = Some text))"

lemma wrapped_not_None: "errors_law A \<Longrightarrow> a_wrap A (Some e) m \<noteq> None"
  by (auto simp: errors_law_def)

lemma copies_keep:
  assumes "files_law A files" "files s q = Some c"
  shows "run_state (copy_keys A onion) s = (u, s') \<Longrightarrow> files s' q = Some c"
    "run_state (copy_clients A) s = (r, s') \<Longrightarrow> files s' q = Some c"
  using holds_afterD [OF copy_keys_keeps [OF assms(1)]] holds_afterD [OF copy_clients_keeps [OF assms(1)]]
    assms(2) by blast+

lemma ob_config_step_confined:
  assumes "files_law A files"
  shows "confined files ob_config_path (ob_config_step A onion reload)"
proof -
  have "confined files ob_config_path (needs_write A ob_config_path c f m)" for c f m
    unfolding needs_write_def by (intro confined_bind ops_confined [OF assms] confined_return)
  then show ?thesis
    unfolding ob_config_step_def ob_config_path_def [symmetric]
    by (auto intro!: confined_bind confined_sum ops_confined [OF assms] confined_return split: sum.splits)
qed

lemma ob_config_step_keeps:
  assumes "files_law A files" "run_state (ob_config_step A onion reload) s = (r, s')"
  shows "files s' torFilePath = files s torFilePath"
proof -
  have "only_changes files ob_config_path s s'"
    using ob_config_step_confined [OF assms(1)] assms(2) unfolding confined_def by (metis snd_conv)
  then show ?thesis by (simp add: only_changes_def ob_config_path_def torFilePath_def)
qed

lemma ob_config_step_result:
  assumes "files_law A files" "errors_law A"
    and "run_state (ob_config_step A onion reload) s = (Inr reload', s')"
    and "os_MasterOnionAddress (os_spec onion) \<noteq> []"
  shows "\<exists>conf. ObConfigForService onion = Inr conf \<and> files s' ob_config_path = Some conf \<and>
    (reload' \<longleftrightarrow> files s ob_config_path \<noteq> Some conf \<or> reload)"
proof -
  from assms(3,4) obtain conf where conf: "ObConfigForService onion = Inr conf"
    by (cases "ObConfigForService onion") (auto simp: ob_config_step_def)
  obtain r t where nw: "run_state (needs_write A ob_config_path conf reload ''reading ob_config'') s = (r, t)"
    by (cases "run_state (needs_write A ob_config_path conf reload ''reading ob_config'') s")
  note step = assms(3) [unfolded ob_config_step_def ob_config_path_def [symmetric]]
  from step assms(4) conf nw obtain b where r: "r = Inr b"
    by (cases r) auto
  note res = needs_write_result [OF assms(1,2) nw [unfolded r]]
  show ?thesis
  proof (cases b)
    case True
    obtain w u where wr: "run_state (o_write A ob_config_path conf defaultUnixPermission) t = (w, u)"
      by (cases "run_state (o_write A ob_config_path conf defaultUnixPermission) t")
    with step assms(4) conf nw r True have "w = None" "reload'" "s' = u"
      by (auto split: option.splits)
    with wr files_lawD(10) [OF assms(1)] conf res True show ?thesis by auto
  next
    case False
    with step assms(4) conf nw r res show ?thesis by simp
  qed
qed


section \<open>After a sync\<close>

text \<open>The stages of a sync that reports no error.\<close>

lemma sync_service_stages:
  assumes "errors_law A" "TorConfigForService onion = Inr contents"
    and "run_state (sync_service A onion) s = (None, s')"
  obtains reload s1 s2 s3 reload' s4 s5 where
    "run_state (torfile_step A onion contents) s = (Inr reload, s1)"
    "run_state (copy_keys A onion) s1 = ((), s2)"
    "run_state (copy_clients A) s2 = (None, s3)"
    "run_state (ob_config_step A onion reload) s3 = (Inr reload', s4)"
    "run_state (if reload' then a_reload A else State_Monad.return ()) s4 = ((), s5)"
    "run_state (updateOnionServiceStatus A onion) s5 = (None, s')"
proof -
  have tf_err: "run_state (torfile_step A onion contents) t \<noteq> (Inl None, t')" for t t'
    by (auto simp: torfile_step_def needs_write_def wrapped_not_None [OF assms(1)]
        split: sum.splits option.splits prod.splits if_splits)
  have ob_err: "run_state (ob_config_step A onion r) t \<noteq> (Inl None, t')" for r t t'
    by (auto simp: ob_config_step_def needs_write_def wrapped_not_None [OF assms(1)]
        split: sum.splits option.splits prod.splits if_splits)
  note run = assms(3) [unfolded sync_service_def assms(2) sum.case]
  obtain x1 s1 where 1: "run_state (torfile_step A onion contents) s = (x1, s1)"
    by (cases "run_state (torfile_step A onion contents) s")
  with run tf_err obtain reload where x1: "x1 = Inr reload"
    by (cases x1) auto
  obtain s2 where 2: "run_state (copy_keys A onion) s1 = ((), s2)"
    by (cases "run_state (copy_keys A onion) s1") simp
  obtain x3 s3 where 3: "run_state (copy_clients A) s2 = (x3, s3)"
    by (cases "run_state (copy_clients A) s2")
  with run 1 x1 2 have x3: "x3 = None" by (cases x3) auto
  obtain x4 s4 where 4: "run_state (ob_config_step A onion reload) s3 = (x4, s4)"
    by (cases "run_state (ob_config_step A onion reload) s3")
  with run 1 x1 2 3 x3 ob_err obtain reload' where x4: "x4 = Inr reload'"
    by (cases x4) auto
  obtain s5 where 5: "run_state (if reload' then a_reload A else State_Monad.return ()) s4 = ((), s5)"
    by (cases "run_state (if reload' then a_reload A else State_Monad.return ()) s4") simp
  obtain x6 s6 where 6: "run_state (updateOnionServiceStatus A onion) s5 = (x6, s6)"
    by (cases "run_state (updateOnionServiceStatus A onion) s5")
  have "x6 = None \<and> s6 = s'"
    using run 1 x1 2 3 x3 4 x4 5 6
    by (cases x6) (auto simp: guarded_def wrapped_not_None [OF assms(1)])
  with 1 2 3 4 5 6 x1 x3 x4 that show thesis by blast
qed

lemma status_keeps_files:
  assumes "files_law A files" "outside_law A files"
    and "run_state (updateOnionServiceStatus A onion) s = (r, s')"
  shows "files s' = files s"
proof -
  obtain x t where read: "run_state (o_read A ''/run/tor/service/hostname'') s = (x, t)"
    by (cases "run_state (o_read A ''/run/tor/service/hostname'') s")
  have status: "run_state (a_status_update A onion) u = (e, u') \<Longrightarrow> files u' = files u" for onion u e u'
    using assms(2) unfolding outside_law_def by (metis snd_conv)
  from assms(3) read files_lawD(3) [OF assms(1) read] show ?thesis
    by (auto simp: updateOnionServiceStatus_def guarded_def Let_def
        split: sum.splits option.splits prod.splits if_splits dest: status)
qed

text \<open>
  C10: after a sync that reports no error, the torfile is the configuration rendered for the onion
  service, and if the service has a master its \<open>ob_config\<close> is the rendered one.
\<close>

theorem sync_configures:
  assumes "files_law A files" "errors_law A" "outside_law A files"
    and "run_state (sync_service A onion) s = (None, s')"
  shows "configured files onion s'"
proof -
  obtain contents where conf: "TorConfigForService onion = Inr contents"
    by (simp add: TorConfigForService_def Let_def)
  obtain reload s1 s2 s3 reload' s4 s5 where stages:
    "run_state (torfile_step A onion contents) s = (Inr reload, s1)"
    "run_state (copy_keys A onion) s1 = ((), s2)"
    "run_state (copy_clients A) s2 = (None, s3)"
    "run_state (ob_config_step A onion reload) s3 = (Inr reload', s4)"
    "run_state (if reload' then a_reload A else State_Monad.return ()) s4 = ((), s5)"
    "run_state (updateOnionServiceStatus A onion) s5 = (None, s')"
    by (rule sync_service_stages [OF assms(2) conf assms(4)])
  have "files s1 torFilePath = Some contents"
    using torfile_step_result [OF assms(1,2) stages(1)] by simp
  from copies_keep(2) [OF assms(1) copies_keep(1) [OF assms(1) this stages(2)] stages(3)]
  have tor: "files s4 torFilePath = Some contents"
    using ob_config_step_keeps [OF assms(1) stages(4)] by simp
  have "files s5 = files s4"
    using stages(5) assms(3) unfolding outside_law_def by (metis run_state_return snd_conv)
  with status_keeps_files [OF assms(1,3) stages(6)] have "files s' = files s4" by simp
  with tor conf ob_config_step_result [OF assms(1,2) stages(4)] show ?thesis
    by (auto simp: configured_def)
qed

section \<open>The daemon is left alone, or forgotten\<close>

text \<open>Only the end of a sync reaches the daemon.\<close>

lemma guarded_reload [simp]: "guarded (A\<lparr>a_reload := X\<rparr>) m msg k = guarded A m msg k"
  by (simp add: guarded_def cong: option.case_cong)

lemma copyIfNotExist_reload [simp]: "copyIfNotExist (A\<lparr>a_reload := X\<rparr>) src dst = copyIfNotExist A src dst"
  by (simp add: copyIfNotExist_def cong: sum.case_cong if_cong)

lemma copy_logged_reload [simp]: "copy_logged (A\<lparr>a_reload := X\<rparr>) src dst = copy_logged A src dst"
  by (simp add: copy_logged_def)

lemma copy_keys_reload [simp]: "copy_keys (A\<lparr>a_reload := X\<rparr>) onion = copy_keys A onion"
  by (simp add: copy_keys_def)

lemma copy_auth_files_reload [simp]: "copy_auth_files (A\<lparr>a_reload := X\<rparr>) fs = copy_auth_files A fs"
  by (induction A fs rule: copy_auth_files.induct) simp_all

lemma stages_reload [simp]:
  "torfile_step (A\<lparr>a_reload := X\<rparr>) onion c = torfile_step A onion c"
  "copy_clients (A\<lparr>a_reload := X\<rparr>) = copy_clients A"
  "ob_config_step (A\<lparr>a_reload := X\<rparr>) onion b = ob_config_step A onion b"
  "updateOnionServiceStatus (A\<lparr>a_reload := X\<rparr>) onion = updateOnionServiceStatus A onion"
  by (simp_all add: torfile_step_def needs_write_def serviceReload_def copy_clients_def
      ob_config_step_def updateOnionServiceStatus_def Let_def
      cong: sum.case_cong option.case_cong if_cong)

text \<open>
  A sync that finds the configuration files as rendered never touches the daemon: its outcome
  is the same whatever a reload would do.
\<close>

theorem sync_quiet:
  assumes "files_law A files" "errors_law A" "configured files onion s"
  shows "run_state (sync_service (A\<lparr>a_reload := X\<rparr>) onion) s = run_state (sync_service A onion) s"
proof -
  from assms(3) obtain contents where conf: "TorConfigForService onion = Inr contents"
    and tor: "files s torFilePath = Some contents" by (auto simp: configured_def)
  obtain x1 s1 where 1: "run_state (torfile_step A onion contents) s = (x1, s1)"
    by (cases "run_state (torfile_step A onion contents) s")
  obtain s2 where 2: "run_state (copy_keys A onion) s1 = ((), s2)"
    by (cases "run_state (copy_keys A onion) s1") simp
  obtain x3 s3 where 3: "run_state (copy_clients A) s2 = (x3, s3)"
    by (cases "run_state (copy_clients A) s2")
  obtain x4 s4 where 4: "run_state (ob_config_step A onion False) s3 = (x4, s4)"
    by (cases "run_state (ob_config_step A onion False) s3")
  have first: "x1 = Inr b \<Longrightarrow> \<not> b \<and> only_changes files torFilePath s s1" for b
    using torfile_step_result [OF assms(1,2)] 1 tor by blast
  have second: "\<not> c" if "x1 = Inr b" "x4 = Inr c" for b c
  proof (cases "os_MasterOnionAddress (os_spec onion) = []")
    case True
    with 4 that show ?thesis by (simp add: ob_config_step_def)
  next
    case False
    with assms(3) obtain d where d: "ObConfigForService onion = Inr d" "files s ob_config_path = Some d"
      by (auto simp: configured_def)
    with first [OF that(1)] have "files s1 ob_config_path = Some d"
      by (simp add: only_changes_def ob_config_path_def torFilePath_def)
    from copies_keep(2) [OF assms(1) copies_keep(1) [OF assms(1) this 2] 3]
    show ?thesis
      using ob_config_step_result [OF assms(1,2) 4 [unfolded that(2)] False] d by auto
  qed
  show ?thesis
    using 1 2 3 4 first second
    by (cases x1; cases x3; cases x4) (auto simp: sync_service_def conf)
qed

text \<open>
  When a later step of a sync fails after the torfile was rewritten, the reload is lost: the
  sync returns the error without touching the daemon, and the torfile is already the new one, so
  the torfile step of the next sync does not ask for a reload either.
\<close>

theorem reload_lost:
  assumes "files_law A files" "errors_law A" "TorConfigForService onion = Inr contents"
    and "run_state (torfile_step A onion contents) s = (Inr True, s1)"
    and "run_state (copy_keys A onion) s1 = ((), s2)"
    and "run_state (copy_clients A) s2 = (None, s3)"
    and "run_state (ob_config_step A onion True) s3 = (Inl err, s4)"
  shows "run_state (sync_service (A\<lparr>a_reload := X\<rparr>) onion) s = (err, s4) \<and>
    (\<forall>s5. run_state (torfile_step A onion contents) s4 \<noteq> (Inr True, s5))"
proof -
  have "files s1 torFilePath = Some contents"
    using torfile_step_result [OF assms(1,2,4)] by simp
  from copies_keep(2) [OF assms(1) copies_keep(1) [OF assms(1) this assms(5)] assms(6)]
  have "files s4 torFilePath = Some contents"
    using ob_config_step_keeps [OF assms(1,7)] by simp
  then have "run_state (torfile_step A onion contents) s4 \<noteq> (Inr True, s5)" for s5
    using torfile_step_result [OF assms(1,2)] by blast
  moreover have "run_state (sync_service (A\<lparr>a_reload := X\<rparr>) onion) s = (err, s4)"
    using assms(3-7) by (simp add: sync_service_def)
  ultimately show ?thesis by blast
qed

section \<open>A simulated pod\<close>

text \<open>
  A pod whose file system is a map, with one path (\<open>sp_broken\<close>) that cannot be written, and which
  counts the reloads and remembers the reported hostnames.
\<close>

record sim_pod =
  sp_files :: "(string \<times> bytes) list"
  sp_broken :: string
  sp_reloads :: nat
  sp_hostnames :: "string list"

definition no_file :: go_error where "no_file = GoErr ''file does not exist''"

definition sp_look :: "'a sim_pod_scheme \<Rightarrow> string \<Rightarrow> bytes option" where
  "sp_look s = map_of (sp_files s)"

definition sp_ask :: "('b sim_pod_scheme \<Rightarrow> 'a) \<Rightarrow> ('b sim_pod_scheme, 'a) state" where
  "sp_ask f = State (\<lambda>s. (f s, s))"

definition sp_put :: "string \<Rightarrow> bytes \<Rightarrow> ('a sim_pod_scheme, go_error option) state" where
  "sp_put p c = State (\<lambda>s.
     if p = sp_broken s then (Some (GoErr ''permission denied''), s)
     else (None, s\<lparr>sp_files := (p, c) # sp_files s\<rparr>))"

definition sim_agent :: "(string \<times> bool) list \<Rightarrow> 'a sim_pod_scheme agent" where
  "sim_agent clients =
     \<lparr>o_read = (\<lambda>p. sp_ask (\<lambda>s. case sp_look s p of None \<Rightarrow> Inl no_file | Some c \<Rightarrow> Inr c)),
      o_write = (\<lambda>p c m. sp_put p c),
      o_stat = (\<lambda>p. sp_ask (\<lambda>s. case sp_look s p of None \<Rightarrow> Inl no_file | Some c \<Rightarrow> Inr 384)),
      o_open = (\<lambda>p. sp_ask (\<lambda>s. case sp_look s p of None \<Rightarrow> Some no_file | Some c \<Rightarrow> None)),
      o_create = (\<lambda>p. sp_put p []),
      o_copy = (\<lambda>d p. State (\<lambda>s. case sp_look s p of
         None \<Rightarrow> (Some no_file, s) | Some c \<Rightarrow> run_state (sp_put d c) s)),
      o_chmod = (\<lambda>p m. State_Monad.return None),
      o_readdir = (\<lambda>p. State_Monad.return (Inr clients)),
      o_mkdir = (\<lambda>p m. State_Monad.return None),
      o_not_exist = (\<lambda>e. e = no_file),
      a_wrap = (\<lambda>e m. e),
      a_get_by_key = (\<lambda>k. State_Monad.return (Inr None)),
      a_unstructured = (\<lambda>obj. None),
      a_convert = (\<lambda>obj. Inl no_file),
      a_status_update = (\<lambda>onion. State (\<lambda>s.
         (None, s\<lparr>sp_hostnames := oss_Hostname (os_status onion) # sp_hostnames s\<rparr>))),
      a_reload = State (\<lambda>s. ((), s\<lparr>sp_reloads := Suc (sp_reloads s)\<rparr>))\<rparr>"

lemma sim_files_law [simp]: "files_law (sim_agent clients) sp_look"
  by (auto simp: files_law_def sim_agent_def sp_ask_def sp_put_def sp_look_def only_changes_def
      split: option.splits if_splits)

lemma sim_errors_law [simp]: "errors_law (sim_agent clients)"
  by (simp add: errors_law_def sim_agent_def)

lemma sim_outside_law [simp]: "outside_law (sim_agent clients) sp_look"
  by (simp add: outside_law_def sim_agent_def sp_look_def)

definition key_pod :: sim_pod where
  "key_pod =
     \<lparr>sp_files = [(''/run/tor/service/key/hostname'', ''a.onion''),
        (''/run/tor/service/hs_ed25519_secret_key'', ''old key''),
        (''/run/tor/service/key/hs_ed25519_secret_key'', ''new key'')],
      sp_broken = [], sp_reloads = 0, sp_hostnames = []\<rparr>"

section \<open>Copies never overwrite\<close>

text \<open>
  Copying the keys and the authorized clients into Tor's directory never changes a file that
  is already there: after a rotation of the mounted secrets the daemon keeps the old keys and the
  old client files.
\<close>

theorem copies_never_overwrite:
  assumes "files_law A files" "files s q = Some c"
  shows "files (snd (run_state (copy_keys A onion) s)) q = Some c \<and>
    files (snd (run_state (copy_clients A) s)) q = Some c"
  using copy_keys_keeps [OF assms(1)] copy_clients_keeps [OF assms(1)] assms(2)
  unfolding holds_after_def by blast

theorem copies_never_overwrite_witness:
  "sp_look (snd (run_state (copy_keys (sim_agent []) web_onion) key_pod))
     ''/run/tor/service/hs_ed25519_secret_key'' = Some ''old key''"
proof -
  have "sp_look key_pod ''/run/tor/service/hs_ed25519_secret_key'' = Some ''old key''"
    by (simp add: sp_look_def key_pod_def)
  from copies_never_overwrite [OF sim_files_law, OF this] show ?thesis by (rule conjunct1)
qed

section \<open>The syncs on the simulated pod\<close>

text \<open>A pod that has its keys and no configuration yet.\<close>

definition fresh_pod :: sim_pod where
  "fresh_pod = \<lparr>sp_files = [(''/run/tor/service/hostname'', ''a.onion'')],
     sp_broken = [], sp_reloads = 0, sp_hostnames = []\<rparr>"

text \<open>The stages of a sync there, one at a time, on any such pod.\<close>

lemma sim_torfile_missing:
  assumes "sp_look s torFilePath = None" "sp_broken s \<noteq> torFilePath"
  shows "run_state (torfile_step (sim_agent clients) onion c) s =
    (Inr True, s\<lparr>sp_files := (torFilePath, c) # sp_files s\<rparr>)"
  using assms by (simp add: torfile_step_def needs_write_def serviceReload_def guarded_def
      sim_agent_def sp_ask_def sp_put_def)

lemma sim_torfile_same:
  assumes "sp_look s torFilePath = Some c"
  shows "run_state (torfile_step (sim_agent clients) onion c) s = (Inr False, s)"
  using assms by (simp add: torfile_step_def needs_write_def sim_agent_def sp_ask_def)

lemma sim_copy_absent:
  assumes "sp_look s src = None"
  shows "run_state (copy_logged (sim_agent clients) src dst) s = ((), s)"
  using assms by (simp add: copy_logged_def copyIfNotExist_def guarded_def sim_agent_def sp_ask_def
      split: option.split)

lemma sim_copies_absent:
  assumes "sp_look s (torServiceDir @ ''key/hostname'') = None"
    "sp_look s (torServiceDir @ ''key/hs_ed25519_public_key'') = None"
    "sp_look s (torServiceDir @ ''key/hs_ed25519_secret_key'') = None"
    "os_Version (os_spec onion) \<noteq> 2"
  shows "run_state (copy_keys (sim_agent clients) onion) s = ((), s)"
  using assms
  by (simp add: copy_keys_def key_file_names_def os_GetVersion_def torServiceDir_def sim_copy_absent)

lemma sim_no_clients: "run_state (copy_clients (sim_agent [])) s = (None, s)"
  by (simp add: copy_clients_def sim_agent_def sp_ask_def split: option.split)

lemma sim_ob_broken:
  assumes "sp_look s ob_config_path = None" "sp_broken s = ob_config_path"
    "os_MasterOnionAddress (os_spec onion) \<noteq> []"
  shows "run_state (ob_config_step (sim_agent clients) onion b) s =
    (Inl (Some (GoErr ''permission denied'')), s)"
  using assms
  by (simp add: ob_config_step_def ob_config_path_def needs_write_def sim_agent_def sp_ask_def sp_put_def
      ObConfigForService_def Let_def)

lemma sim_status:
  assumes "sp_look s ''/run/tor/service/hostname'' = Some h"
  shows "fst (run_state (updateOnionServiceStatus (sim_agent clients) onion) s) = None"
  using assms
  by (simp add: updateOnionServiceStatus_def guarded_def sim_agent_def sp_ask_def Let_def)

lemma fresh_sync:
  "\<exists>s'. run_state (sync_service (sim_agent []) web_onion) fresh_pod = (None, s')"
proof -
  let ?A = "sim_agent []" and ?c = "configFormat (OnionServiceInputData web_onion)"
  define s1 where "s1 = fresh_pod\<lparr>sp_files := (torFilePath, ?c) # sp_files fresh_pod\<rparr>"
  define s2 where "s2 = s1\<lparr>sp_reloads := 1\<rparr>"
  have 1: "run_state (torfile_step ?A web_onion ?c) fresh_pod = (Inr True, s1)"
    unfolding s1_def by (rule sim_torfile_missing) (simp_all add: fresh_pod_def sp_look_def torFilePath_def)
  have 2: "run_state (copy_keys ?A web_onion) s1 = ((), s1)"
    by (rule sim_copies_absent)
      (simp_all add: s1_def fresh_pod_def sp_look_def torFilePath_def torServiceDir_def web_onion_def zero_ob_def)
  have "os_MasterOnionAddress (os_spec web_onion) = []" by (simp add: web_onion_def zero_ob_def)
  then have 3: "run_state (ob_config_step ?A web_onion True) s1 = (Inr True, s1)"
    by (simp add: ob_config_step_def)
  have 4: "run_state (a_reload ?A) s1 = ((), s2)"
    by (simp add: sim_agent_def s2_def s1_def fresh_pod_def)
  have "fst (run_state (updateOnionServiceStatus ?A web_onion) s2) = None"
    by (rule sim_status [where h = "''a.onion''"])
      (simp add: s2_def s1_def fresh_pod_def sp_look_def torFilePath_def)
  then obtain s3 where 5: "run_state (updateOnionServiceStatus ?A web_onion) s2 = (None, s3)"
    by (cases "run_state (updateOnionServiceStatus ?A web_onion) s2") simp
  show ?thesis
    by (simp add: sync_service_def TorConfigForService_def Let_def 1 2 3 4 5 sim_no_clients guarded_def)
qed

theorem sync_configures_witness:
  "\<exists>s'. run_state (sync_service (sim_agent []) web_onion) fresh_pod = (None, s') \<and>
     configured sp_look web_onion s'"
proof -
  from fresh_sync obtain s' where
    run: "run_state (sync_service (sim_agent []) web_onion) fresh_pod = (None, s')" by blast
  from sync_configures [OF sim_files_law sim_errors_law sim_outside_law run] run show ?thesis by blast
qed

definition written_pod :: sim_pod where
  "written_pod = fresh_pod\<lparr>sp_files :=
     [(torFilePath, configFormat (OnionServiceInputData web_onion))]\<rparr>"

theorem sync_quiet_witness:
  "run_state (sync_service (sim_agent []\<lparr>a_reload := State (\<lambda>s. ((), s\<lparr>sp_files := []\<rparr>))\<rparr>) web_onion)
     written_pod = run_state (sync_service (sim_agent []) web_onion) written_pod"
proof -
  have "configured sp_look web_onion written_pod"
    by (simp add: configured_def written_pod_def sp_look_def TorConfigForService_def Let_def
        web_onion_def zero_ob_def)
  from sync_quiet [OF sim_files_law sim_errors_law, OF this] show ?thesis .
qed

text \<open>A backend in a pod whose \<open>ob_config\<close> cannot be written.\<close>

definition broken_pod :: sim_pod where
  "broken_pod = \<lparr>sp_files = [], sp_broken = ob_config_path, sp_reloads = 0, sp_hostnames = []\<rparr>"

theorem reload_lost_witness:
  "\<exists>s. run_state (sync_service (sim_agent []\<lparr>a_reload := State_Monad.return ()\<rparr>) backend_onion) broken_pod =
      (Some (GoErr ''permission denied''), s) \<and>
    (\<forall>s5. run_state (torfile_step (sim_agent []) backend_onion
      (configFormat (OnionServiceInputData backend_onion))) s \<noteq> (Inr True, s5))"
proof -
  let ?A = "sim_agent []" and ?c = "configFormat (OnionServiceInputData backend_onion)"
  define s1 where "s1 = broken_pod\<lparr>sp_files := (torFilePath, ?c) # sp_files broken_pod\<rparr>"
  have 0: "TorConfigForService backend_onion = Inr ?c"
    by (simp add: TorConfigForService_def Let_def)
  have 1: "run_state (torfile_step ?A backend_onion ?c) broken_pod = (Inr True, s1)"
    unfolding s1_def
    by (rule sim_torfile_missing) (simp_all add: broken_pod_def sp_look_def torFilePath_def ob_config_path_def)
  have 2: "run_state (copy_keys ?A backend_onion) s1 = ((), s1)"
    by (rule sim_copies_absent)
      (simp_all add: s1_def broken_pod_def sp_look_def torFilePath_def torServiceDir_def backend_onion_def
        web_onion_def zero_ob_def)
  have 4: "run_state (ob_config_step ?A backend_onion True) s1 =
      (Inl (Some (GoErr ''permission denied'')), s1)"
    by (rule sim_ob_broken)
      (simp_all add: s1_def broken_pod_def sp_look_def torFilePath_def ob_config_path_def backend_onion_def)
  from reload_lost [OF sim_files_law sim_errors_law 0 1 2 sim_no_clients 4]
  show ?thesis by blast
qed

end
