(* ===== verification/Daemons.thy ===== *)
theory Daemons
  imports Go_Prelude
begin

text \<open>
  The supervisors of the two daemons, \<open>agents/tor/tordaemon/daemon.go\<close> and
  \<open>agents/onionbalance/onionbalancedaemon/daemon.go\<close>.  \<open>Start\<close> spawns a goroutine that runs the
  daemon for ever, one process after another; \<open>Reload\<close> and \<open>EnsureRunning\<close> are called by the
  agent's worker.  The goroutines share the field \<open>cmd\<close> without a lock, so the model is a step
  relation that interleaves their statements, the ends of the processes and the calls.

  A command is the value behind an \<open>exec.Cmd\<close>: not started (its \<open>Process\<close> is \<open>nil\<close>), running,
  ended (by itself, \<open>True\<close>, or by a signal), or waited for, which sets its \<open>ProcessState\<close>.
\<close>

section \<open>The state\<close>

datatype process = NotStarted | Running | Ended bool | Reaped bool

text \<open>Where a goroutine of \<open>Start\<close> is; \<open>Blocked c\<close> is inside \<open>Wait\<close> of command \<open>c\<close>.\<close>

datatype location = Creating | Starting | Calling_Wait | Blocked nat | Sleeping

record supervisor =
  sv_cmds :: "process list"
  sv_cmd :: "nat option"
  sv_loops :: "location list"
  sv_hups :: "nat list"

definition no_daemon :: supervisor where
  "no_daemon = \<lparr>sv_cmds = [], sv_cmd = None, sv_loops = [], sv_hups = []\<rparr>"

section \<open>Start\<close>

definition Start :: "supervisor \<Rightarrow> supervisor" where
  "Start sv = sv\<lparr>sv_loops := sv_loops sv @ [Creating]\<rparr>"

text \<open>
  One statement of a goroutine: \<open>ok\<close> tells whether starting the process succeeds, \<open>None\<close> that the
  goroutine is blocked.  \<open>Start\<close> and \<open>Wait\<close> act on the command the shared field holds then;
  starting a command twice and waiting for one that was not started, or was waited for, are errors
  that are only logged.
\<close>

definition set_cmd :: "nat \<Rightarrow> process \<Rightarrow> supervisor \<Rightarrow> supervisor" where
  "set_cmd c p sv = sv\<lparr>sv_cmds := (sv_cmds sv)[c := p]\<rparr>"

fun loop_stmt :: "bool \<Rightarrow> supervisor \<Rightarrow> location \<Rightarrow> (supervisor \<times> location) option" where
  "loop_stmt ok sv Creating =
     Some (sv\<lparr>sv_cmds := sv_cmds sv @ [NotStarted], sv_cmd := Some (length (sv_cmds sv))\<rparr>, Starting)"
| "loop_stmt ok sv Starting =
     (case sv_cmd sv of
        None \<Rightarrow> None
      | Some c \<Rightarrow>
          Some (if ok \<and> sv_cmds sv ! c = NotStarted then set_cmd c Running sv else sv, Calling_Wait))"
| "loop_stmt ok sv Calling_Wait =
     (case sv_cmd sv of
        None \<Rightarrow> None
      | Some c \<Rightarrow>
          (case sv_cmds sv ! c of
             NotStarted \<Rightarrow> Some (sv, Sleeping)
           | Reaped b \<Rightarrow> Some (sv, Sleeping)
           | _ \<Rightarrow> Some (sv, Blocked c)))"
| "loop_stmt ok sv (Blocked c) =
     (case sv_cmds sv ! c of
        Ended b \<Rightarrow> Some (set_cmd c (Reaped b) sv, Sleeping)
      | Reaped b \<Rightarrow> Some (sv, Sleeping)
      | _ \<Rightarrow> None)"
| "loop_stmt ok sv Sleeping = Some (sv, Creating)"

text \<open>A step of a goroutine, or the end of a running process.\<close>

inductive sup_step :: "supervisor \<Rightarrow> supervisor \<Rightarrow> bool" where
  statement: "i < length (sv_loops sv) \<Longrightarrow> loop_stmt ok sv (sv_loops sv ! i) = Some (sv', l) \<Longrightarrow>
    sup_step sv (sv'\<lparr>sv_loops := (sv_loops sv)[i := l]\<rparr>)"
| ends: "c < length (sv_cmds sv) \<Longrightarrow> sv_cmds sv ! c = Running \<Longrightarrow> sup_step sv (set_cmd c (Ended b) sv)"

inductive_cases sup_stepE: "sup_step sv sv'"

section \<open>Reload (tordaemon)\<close>

text \<open>
  \<open>Signal\<close> on the \<open>nil\<close> process of a command that was not started panics; on a process that has
  ended it is an error, which is logged.
\<close>

definition hang_up :: "supervisor \<Rightarrow> nat \<Rightarrow> go_error + supervisor" where
  "hang_up sv c =
     (case sv_cmds sv ! c of
        NotStarted \<Rightarrow> Inl (Panic ''nil pointer dereference'')
      | Running \<Rightarrow> Inr (sv\<lparr>sv_hups := sv_hups sv @ [c]\<rparr>)
      | _ \<Rightarrow> Inr sv)"

definition tor_Reload :: "supervisor \<Rightarrow> go_error + supervisor" where
  "tor_Reload sv =
     (case sv_cmd sv of
        None \<Rightarrow> Inr (Start sv)
      | Some c \<Rightarrow> if sv_cmds sv ! c = Reaped True then Inr (Start sv) else hang_up sv c)"

section \<open>Start, IsRunning, EnsureRunning, Reload (onionbalancedaemon)\<close>

text \<open>\<open>Start\<close> is the code of the tor supervisor with another command line.\<close>

definition ob_Start :: "supervisor \<Rightarrow> supervisor" where
  "ob_Start = Start"

definition IsRunning :: "supervisor \<Rightarrow> bool" where
  "IsRunning sv =
     (case sv_cmd sv of None \<Rightarrow> False | Some c \<Rightarrow> sv_cmds sv ! c \<noteq> Reaped True)"

definition EnsureRunning :: "supervisor \<Rightarrow> supervisor" where
  "EnsureRunning sv = (if \<not> IsRunning sv then ob_Start sv else sv)"

text \<open>
  \<open>Reload\<close> waits for the process it sent a hang-up to, so it comes in two parts: \<open>ob_Reload_begin\<close>
  up to the wait, whose result is the command waited for (\<open>None\<close>: no wait), and \<open>ob_Reload_end\<close>
  from the return of the wait, \<open>None\<close> while it blocks.
\<close>

definition ob_Reload_begin :: "supervisor \<Rightarrow> go_error + supervisor \<times> nat option" where
  "ob_Reload_begin sv =
     (if IsRunning sv then
        (case sv_cmd sv of
           None \<Rightarrow> Inr (sv, None)
         | Some c \<Rightarrow> (case hang_up sv c of Inl e \<Rightarrow> Inl e | Inr sv' \<Rightarrow> Inr (sv', Some c)))
      else Inr (sv, None))"

definition ob_Reload_end :: "nat option \<Rightarrow> supervisor \<Rightarrow> supervisor option" where
  "ob_Reload_end waiting sv =
     (case waiting of
        None \<Rightarrow> Some (ob_Start sv)
      | Some c \<Rightarrow>
          (case sv_cmds sv ! c of
             Ended b \<Rightarrow> Some (ob_Start (set_cmd c (Reaped b) sv))
           | Reaped b \<Rightarrow> Some (ob_Start sv)
           | _ \<Rightarrow> None))"

section \<open>Reachable states\<close>

text \<open>The tor agent: the goroutines' steps and calls of \<open>Reload\<close>.\<close>

inductive tor_reachable :: "supervisor \<Rightarrow> bool" where
  tor_initial: "tor_reachable no_daemon"
| tor_moves: "tor_reachable sv \<Longrightarrow> sup_step sv sv' \<Longrightarrow> tor_reachable sv'"
| tor_reloads: "tor_reachable sv \<Longrightarrow> tor_Reload sv = Inr sv' \<Longrightarrow> tor_reachable sv'"

text \<open>
  The onionbalance agent, with the wait its worker is in and the number of reloads that have
  returned.
\<close>

inductive ob_reachable :: "supervisor \<Rightarrow> nat option option \<Rightarrow> nat \<Rightarrow> bool" where
  ob_initial: "ob_reachable no_daemon None 0"
| ob_moves: "ob_reachable sv w n \<Longrightarrow> sup_step sv sv' \<Longrightarrow> ob_reachable sv' w n"
| ob_ensures: "ob_reachable sv None n \<Longrightarrow> ob_reachable (EnsureRunning sv) None n"
| ob_begins: "ob_reachable sv None n \<Longrightarrow> ob_Reload_begin sv = Inr (sv', w) \<Longrightarrow> ob_reachable sv' (Some w) n"
| ob_returns: "ob_reachable sv (Some w) n \<Longrightarrow> ob_Reload_end w sv = Some sv' \<Longrightarrow>
    ob_reachable sv' None (Suc n)"

section \<open>Supervisors never end\<close>

lemma loop_stmt_loops: "loop_stmt ok sv l = Some (sv', l') \<Longrightarrow> sv_loops sv' = sv_loops sv"
  by (cases l) (auto simp: set_cmd_def split: option.splits process.splits if_splits)

lemma sup_step_loops: "sup_step sv sv' \<Longrightarrow> length (sv_loops sv') = length (sv_loops sv)"
  by (elim sup_stepE) (auto simp: set_cmd_def)

lemma Start_loops [simp]: "length (sv_loops (Start sv)) = Suc (length (sv_loops sv))"
  by (simp add: Start_def)

lemma hang_up_loops: "hang_up sv c = Inr sv' \<Longrightarrow> sv_loops sv' = sv_loops sv \<and> sv_cmds sv' = sv_cmds sv"
  by (auto simp: hang_up_def split: process.splits)

lemma tor_Reload_loops: "tor_Reload sv = Inr sv' \<Longrightarrow> length (sv_loops sv) \<le> length (sv_loops sv')"
  by (auto simp: tor_Reload_def dest: hang_up_loops split: option.splits if_splits)

text \<open>
  No supervisor ever ends, and every \<open>Reload\<close> of onionbalance that returns has added one: after
  \<open>n\<close> reloads at least \<open>n\<close> goroutines restart the daemon, each for ever, although one daemon is
  wanted.
\<close>

theorem ob_reloads_accumulate:
  assumes "ob_reachable sv w n"
  shows "n \<le> length (sv_loops sv)"
  using assms
proof induction
  case (ob_begins sv n sv' w)
  then show ?case
    by (auto simp: ob_Reload_begin_def dest: hang_up_loops split: option.splits sum.splits if_splits)
next
  case (ob_returns sv w n sv')
  then show ?case
    by (auto simp: ob_Reload_end_def ob_Start_def set_cmd_def split: option.splits process.splits)
qed (auto simp: no_daemon_def EnsureRunning_def ob_Start_def dest: sup_step_loops)

theorem ob_reloads_accumulate_witness:
  "\<exists>sv. ob_reachable sv None 2 \<and> 2 \<le> length (sv_loops sv)"
proof -
  have step: "ob_reachable (Start sv) None (Suc n)"
    if "ob_reachable sv None n" "sv_cmd sv = None" for sv n
  proof -
    have "ob_Reload_begin sv = Inr (sv, None)"
      using that(2) by (simp add: ob_Reload_begin_def IsRunning_def)
    from ob_begins [OF that(1) this] show ?thesis
      by (rule ob_returns) (simp add: ob_Reload_end_def ob_Start_def)
  qed
  have "ob_reachable (Start (Start no_daemon)) None 2"
    using step [OF step [OF ob_initial]] by (simp add: no_daemon_def Start_def numeral_2_eq_2)
  from this ob_reloads_accumulate [OF this] show ?thesis by blast
qed

section \<open>One supervisor, one daemon\<close>

definition at_rest :: "process \<Rightarrow> bool" where
  "at_rest p \<longleftrightarrow> p = NotStarted \<or> (\<exists>b. p = Reaped b)"

lemma at_rest_simps [simp]:
  "at_rest NotStarted" "at_rest (Reaped b)" "\<not> at_rest Running" "\<not> at_rest (Ended b)"
  by (simp_all add: at_rest_def)

text \<open>What the single goroutine's location says of the last command.\<close>

fun fits :: "process list \<Rightarrow> location \<Rightarrow> bool" where
  "fits cmds Creating \<longleftrightarrow> (cmds \<noteq> [] \<longrightarrow> at_rest (last cmds))"
| "fits cmds Starting \<longleftrightarrow> cmds \<noteq> [] \<and> last cmds = NotStarted"
| "fits cmds Calling_Wait \<longleftrightarrow> cmds \<noteq> []"
| "fits cmds (Blocked c) \<longleftrightarrow> Suc c = length cmds"
| "fits cmds Sleeping \<longleftrightarrow> (cmds \<noteq> [] \<longrightarrow> at_rest (last cmds))"

definition single_ok :: "supervisor \<Rightarrow> bool" where
  "single_ok sv \<longleftrightarrow>
     (sv_loops sv = [] \<longrightarrow> sv_cmds sv = []) \<and>
     (\<forall>l. sv_loops sv = [l] \<longrightarrow> fits (sv_cmds sv) l) \<and>
     (length (sv_loops sv) \<le> 1 \<longrightarrow>
       (\<forall>c. Suc c < length (sv_cmds sv) \<longrightarrow> at_rest (sv_cmds sv ! c)) \<and>
       sv_cmd sv = (if sv_cmds sv = [] then None else Some (length (sv_cmds sv) - 1)))"

lemma last_index: "Suc c = length xs \<Longrightarrow> last xs = xs ! c"
  by (cases xs rule: rev_cases) auto

lemma last_cmd: "xs \<noteq> [] \<Longrightarrow> xs ! (length xs - Suc 0) = last xs"
  by (simp add: last_conv_nth)

text \<open>The goroutine's next statement keeps the invariant, from every location.\<close>

lemma single_ok_statement:
  assumes ok: "single_ok sv" and loops: "sv_loops sv = [l]"
    and stmt: "loop_stmt ok sv l = Some (sv', l')"
  shows "single_ok (sv'\<lparr>sv_loops := [l']\<rparr>)"
proof -
  note inv = ok [unfolded single_ok_def loops]
  show ?thesis
  proof (cases l)
    case Creating
    with stmt inv show ?thesis
      by (auto simp: single_ok_def nth_append less_Suc_eq)
        (metis Suc_lessI last_index)
  next
    case Starting
    with stmt inv show ?thesis
      by (auto simp: single_ok_def set_cmd_def nth_list_update split: if_splits)
  next
    case Calling_Wait
    with stmt inv show ?thesis
      by (auto simp: single_ok_def last_cmd split: process.splits)
  next
    case (Blocked c)
    with stmt inv show ?thesis
      by (auto simp: single_ok_def set_cmd_def nth_list_update last_index split: process.splits)
  next
    case Sleeping
    with stmt inv show ?thesis by (auto simp: single_ok_def)
  qed
qed

lemma single_ok_ends:
  assumes ok: "single_ok sv" and one: "length (sv_loops sv) \<le> 1"
    and c: "c < length (sv_cmds sv)" "sv_cmds sv ! c = Running"
  shows "single_ok (set_cmd c (Ended b) sv)"
proof -
  have last_c: "Suc c = length (sv_cmds sv)"
    using ok one c unfolding single_ok_def by (metis Suc_lessI at_rest_simps(3))
  with c(2) have "last (sv_cmds sv) = Running" by (simp add: last_index)
  moreover from c(1) have "sv_cmds sv \<noteq> []" by auto
  ultimately have "fits ((sv_cmds sv)[c := Ended b]) l" if "fits (sv_cmds sv) l" for l
    using that by (cases l) auto
  with ok one last_c show ?thesis
    by (auto simp: single_ok_def set_cmd_def nth_list_update)
qed

lemma hang_up_single_ok: "single_ok sv \<Longrightarrow> hang_up sv c = Inr sv' \<Longrightarrow> single_ok sv'"
  by (auto simp: single_ok_def hang_up_def split: process.splits)

lemma tor_reachable_single_ok: "tor_reachable sv \<Longrightarrow> length (sv_loops sv) \<le> 1 \<Longrightarrow> single_ok sv"
proof (induction rule: tor_reachable.induct)
  case tor_initial
  show ?case by (simp add: single_ok_def no_daemon_def)
next
  case (tor_moves sv sv')
  then have one: "length (sv_loops sv) \<le> 1" and ok: "single_ok sv"
    using sup_step_loops by auto
  from tor_moves.hyps(2) show ?case
  proof cases
    case (statement i ok' s' l)
    with one have "sv_loops sv = [sv_loops sv ! 0]" "i = 0"
      by (auto simp: length_Suc_conv le_Suc_eq)
    with single_ok_statement [OF ok, of "sv_loops sv ! 0" ok' s' l] statement show ?thesis
      by (metis list_update_code(2))
  next
    case (ends c b)
    with single_ok_ends [OF ok one] show ?thesis by simp
  qed
next
  case (tor_reloads sv sv')
  then have one: "length (sv_loops sv) \<le> 1" and ok: "single_ok sv"
    using tor_Reload_loops le_trans by blast+
  show ?case
  proof (cases "sv_loops sv = []")
    case True
    with ok tor_reloads.hyps(2) show ?thesis
      by (auto simp: tor_Reload_def single_ok_def Start_def split: option.splits)
  next
    case False
    with tor_reloads.hyps(2) tor_reloads.prems ok show ?thesis
      by (auto simp: tor_Reload_def dest: hang_up_single_ok split: option.splits if_splits)
  qed
qed

text \<open>
  C27: as long as \<open>Reload\<close> has started only one supervisor, at most one tor process runs at any
  time, and it is the one \<open>cmd\<close> refers to, so a hang-up reaches it.
\<close>

theorem tor_single_daemon:
  assumes "tor_reachable sv" "length (sv_loops sv) \<le> 1"
    and "c < length (sv_cmds sv)" "sv_cmds sv ! c = Running"
  shows "sv_cmd sv = Some c \<and> tor_Reload sv = Inr (sv\<lparr>sv_hups := sv_hups sv @ [c]\<rparr>)"
proof -
  have ok: "single_ok sv" by (rule tor_reachable_single_ok [OF assms(1,2)])
  then have "Suc c = length (sv_cmds sv)"
    using assms(2-4) unfolding single_ok_def by (metis Suc_lessI at_rest_simps(3))
  with ok assms(2) have "sv_cmd sv = Some c"
    by (auto simp: single_ok_def)
  with assms(4) show ?thesis by (simp add: tor_Reload_def hang_up_def)
qed

text \<open>A supervisor that has created its first command, or also started it.\<close>

definition created :: supervisor where
  "created = \<lparr>sv_cmds = [NotStarted], sv_cmd = Some 0, sv_loops = [Starting], sv_hups = []\<rparr>"

definition started :: supervisor where
  "started = \<lparr>sv_cmds = [Running], sv_cmd = Some 0, sv_loops = [Calling_Wait], sv_hups = []\<rparr>"

lemma created_reachable: "tor_reachable created"
proof -
  have "tor_reachable (Start no_daemon)"
    by (rule tor_reloads [OF tor_initial]) (simp add: tor_Reload_def no_daemon_def)
  moreover have "sup_step (Start no_daemon) created"
    using statement [of 0 "Start no_daemon" True "created\<lparr>sv_loops := [Creating]\<rparr>" Starting]
    by (simp add: Start_def no_daemon_def created_def)
  ultimately show ?thesis by (rule tor_moves)
qed

lemma started_reachable: "tor_reachable started"
proof (rule tor_moves [OF created_reachable])
  show "sup_step created started"
    using statement [of 0 created True "started\<lparr>sv_loops := [Starting]\<rparr>" Calling_Wait]
    by (simp add: created_def started_def set_cmd_def)
qed

theorem tor_single_daemon_witness:
  "sv_cmd started = Some 0 \<and> tor_Reload started = Inr (started\<lparr>sv_hups := [0]\<rparr>)"
  using tor_single_daemon [OF started_reachable, of 0] by (simp add: started_def)

section \<open>Two supervisors\<close>

text \<open>Running the goroutines by a schedule, every process start succeeding.\<close>

fun scheduled :: "nat list \<Rightarrow> supervisor \<Rightarrow> supervisor option" where
  "scheduled [] sv = Some sv"
| "scheduled (i # is) sv =
     (if i < length (sv_loops sv) then
        (case loop_stmt True sv (sv_loops sv ! i) of
           None \<Rightarrow> None
         | Some (sv', l) \<Rightarrow> scheduled is (sv'\<lparr>sv_loops := (sv_loops sv)[i := l]\<rparr>))
      else None)"

lemma scheduled_reachable: "scheduled is sv = Some sv' \<Longrightarrow> tor_reachable sv \<Longrightarrow> tor_reachable sv'"
proof (induction "is" sv rule: scheduled.induct)
  case (2 i "is" sv)
  from "2.prems"(1) obtain s l where i: "i < length (sv_loops sv)"
    and stmt: "loop_stmt True sv (sv_loops sv ! i) = Some (s, l)"
    and rest: "scheduled is (s\<lparr>sv_loops := (sv_loops sv)[i := l]\<rparr>) = Some sv'"
    by (auto split: if_splits option.splits)
  from "2.IH" [OF i stmt refl rest] tor_moves [OF "2.prems"(2) statement [OF i stmt]]
  show ?case by simp
qed simp

text \<open>Tor has ended, by itself or by a signal, and its supervisor is in the three seconds of sleep.\<close>

definition asleep :: "bool \<Rightarrow> supervisor" where
  "asleep b = \<lparr>sv_cmds = [Reaped b], sv_cmd = Some 0, sv_loops = [Sleeping], sv_hups = []\<rparr>"

lemma asleep_reachable: "tor_reachable (asleep b)"
proof -
  let ?blocked = "started\<lparr>sv_loops := [Blocked 0]\<rparr>"
  have "tor_reachable ?blocked"
    by (rule scheduled_reachable [OF _ started_reachable, of "[0]"]) (simp add: started_def)
  moreover have "sup_step ?blocked (set_cmd 0 (Ended b) ?blocked)"
    by (rule ends) (simp_all add: started_def)
  ultimately have "tor_reachable (set_cmd 0 (Ended b) ?blocked)" by (rule tor_moves)
  then show ?thesis
    by (rule scheduled_reachable [of "[0]", rotated]) (simp add: started_def set_cmd_def asleep_def)
qed

lemma scheduled_steps: "scheduled is sv = Some sv' \<Longrightarrow> sup_step\<^sup>*\<^sup>* sv sv'"
proof (induction "is" sv rule: scheduled.induct)
  case (2 i "is" sv)
  from "2.prems"(1) obtain s l where i: "i < length (sv_loops sv)"
    and stmt: "loop_stmt True sv (sv_loops sv ! i) = Some (s, l)"
    and rest: "scheduled is (s\<lparr>sv_loops := (sv_loops sv)[i := l]\<rparr>) = Some sv'"
    by (auto split: if_splits option.splits)
  from "2.IH" [OF i stmt refl rest] statement [OF i stmt] show ?case
    by (rule converse_rtranclp_into_rtranclp [rotated])
qed simp

text \<open>The start of the first process fails, and the supervisor goes on to its sleep.\<close>

definition failed_start :: supervisor where
  "failed_start = \<lparr>sv_cmds = [NotStarted], sv_cmd = Some 0, sv_loops = [Sleeping], sv_hups = []\<rparr>"

lemma failed_start_reachable: "tor_reachable failed_start"
proof -
  have "sup_step created (created\<lparr>sv_loops := [Calling_Wait]\<rparr>)"
    using statement [of 0 created False created Calling_Wait] by (simp add: created_def)
  with created_reachable have "tor_reachable (created\<lparr>sv_loops := [Calling_Wait]\<rparr>)" by (rule tor_moves)
  then show ?thesis
    by (rule scheduled_reachable [of "[0]", rotated]) (simp add: created_def failed_start_def)
qed

text \<open>
  C39: a \<open>Reload\<close> while the only supervisor sleeps never reloads anything.  After a failed start it
  panics; after a process that ended by itself it starts a second supervisor, which the first
  does not know of; after a process that a signal ended it does nothing.  All three can happen, a
  \<open>Reload\<close> between the creation and the start of a command panics as well, and from the second case
  the two supervisors can get to two tor processes at once, of which hang-ups reach only the later.
\<close>

theorem tor_supervisor_hazards:
  "(\<forall>sv c. tor_reachable sv \<and> sv_loops sv = [Sleeping] \<and> sv_cmd sv = Some c \<longrightarrow>
      tor_Reload sv =
        (case sv_cmds sv ! c of
           NotStarted \<Rightarrow> Inl (Panic ''nil pointer dereference'')
         | Reaped True \<Rightarrow> Inr (sv\<lparr>sv_loops := [Sleeping, Creating]\<rparr>)
         | _ \<Rightarrow> Inr sv) \<and>
      sv_cmds sv ! c \<in> {NotStarted, Reaped True, Reaped False}) \<and>
   (\<forall>p \<in> {NotStarted, Reaped True, Reaped False}.
      \<exists>sv. tor_reachable sv \<and> sv_loops sv = [Sleeping] \<and> sv_cmd sv = Some 0 \<and> sv_cmds sv = [p]) \<and>
   (\<exists>sv. tor_reachable sv \<and> sv_loops sv = [Starting] \<and>
      tor_Reload sv = Inl (Panic ''nil pointer dereference'')) \<and>
   (\<exists>sv sv' two. tor_reachable sv \<and> sv_loops sv = [Sleeping] \<and> tor_Reload sv = Inr sv' \<and>
      sup_step\<^sup>*\<^sup>* sv' two \<and> sv_cmds two = [Reaped True, Running, Running] \<and>
      tor_Reload two = Inr (two\<lparr>sv_hups := sv_hups two @ [2]\<rparr>))"
proof (intro conjI allI impI)
  fix sv c
  assume sv: "tor_reachable sv \<and> sv_loops sv = [Sleeping] \<and> sv_cmd sv = Some c"
  then have "single_ok sv" using tor_reachable_single_ok [of sv] by simp
  with sv have "sv_cmds sv \<noteq> []" "c = length (sv_cmds sv) - 1" "at_rest (last (sv_cmds sv))"
    by (auto simp: single_ok_def split: if_splits)
  then have rest: "at_rest (sv_cmds sv ! c)" by (simp add: last_conv_nth)
  then show "sv_cmds sv ! c \<in> {NotStarted, Reaped True, Reaped False}"
    unfolding at_rest_def by (metis (full_types) insert_iff)
  with sv show "tor_Reload sv =
      (case sv_cmds sv ! c of
         NotStarted \<Rightarrow> Inl (Panic ''nil pointer dereference'')
       | Reaped True \<Rightarrow> Inr (sv\<lparr>sv_loops := [Sleeping, Creating]\<rparr>)
       | _ \<Rightarrow> Inr sv)"
    by (auto simp: tor_Reload_def hang_up_def Start_def)
next
  show "\<forall>p \<in> {NotStarted, Reaped True, Reaped False}.
      \<exists>sv. tor_reachable sv \<and> sv_loops sv = [Sleeping] \<and> sv_cmd sv = Some 0 \<and> sv_cmds sv = [p]"
    using failed_start_reachable asleep_reachable [of True] asleep_reachable [of False]
    by (auto simp: asleep_def failed_start_def)
next
  show "\<exists>sv. tor_reachable sv \<and> sv_loops sv = [Starting] \<and>
      tor_Reload sv = Inl (Panic ''nil pointer dereference'')"
    using created_reachable by (intro exI [of _ created]) (simp add: tor_Reload_def hang_up_def created_def)
next
  let ?two = "\<lparr>sv_cmds = [Reaped True, Running, Running], sv_cmd = Some 2,
      sv_loops = [Calling_Wait, Blocked 1], sv_hups = []\<rparr>"
  have "sup_step\<^sup>*\<^sup>* (Start (asleep True)) ?two"
    by (rule scheduled_steps [of "[1, 1, 1, 0, 0, 0]"]) (simp add: asleep_def Start_def set_cmd_def)
  moreover have "tor_Reload (asleep True) = Inr (Start (asleep True))" by (simp add: tor_Reload_def asleep_def)
  moreover have "tor_Reload ?two = Inr (?two\<lparr>sv_hups := sv_hups ?two @ [2]\<rparr>)"
    by (simp add: tor_Reload_def hang_up_def)
  ultimately show "\<exists>sv sv' two. tor_reachable sv \<and> sv_loops sv = [Sleeping] \<and> tor_Reload sv = Inr sv' \<and>
      sup_step\<^sup>*\<^sup>* sv' two \<and> sv_cmds two = [Reaped True, Running, Running] \<and>
      tor_Reload two = Inr (two\<lparr>sv_hups := sv_hups two @ [2]\<rparr>)"
    using asleep_reachable [of True] by (intro exI [of _ "asleep True"] exI [of _ "Start (asleep True)"] exI [of _ ?two])
      (simp add: asleep_def)
qed

theorem tor_supervisor_hazards_witness:
  "tor_Reload failed_start = Inl (Panic ''nil pointer dereference'')"
  using tor_supervisor_hazards failed_start_reachable by (auto simp: failed_start_def)

end
