(* ===== verification/Agent_Daemon.thy ===== *)
theory Agent_Daemon
  imports Agent_Sync Daemons
begin

text \<open>
  The tor agent together with its supervisor: the world of the agent contains the supervisor's
  state, which only \<open>a_reload\<close> changes, and as \<open>tor_Reload\<close> does.  The lemmas show that a sync
  reloads exactly when it had to rewrite a configuration file.
\<close>

section \<open>The agent on top of the supervisor\<close>

text \<open>
  \<open>daemon s\<close> is the supervisor in the world \<open>s\<close>, or the panic that ended the process.
\<close>

definition call_reload :: "go_error + supervisor \<Rightarrow> go_error + supervisor" where
  "call_reload d = (case d of Inl e \<Rightarrow> Inl e | Inr sv \<Rightarrow> tor_Reload sv)"

definition daemon_law :: "'s agent \<Rightarrow> ('s \<Rightarrow> go_error + supervisor) \<Rightarrow> bool" where
  "daemon_law A daemon \<longleftrightarrow>
     (\<forall>s. daemon (snd (run_state (a_reload A) s)) = call_reload (daemon s)) \<and>
     (\<forall>p s. daemon (snd (run_state (o_read A p) s)) = daemon s) \<and>
     (\<forall>p c m s. daemon (snd (run_state (o_write A p c m) s)) = daemon s) \<and>
     (\<forall>p s. daemon (snd (run_state (o_stat A p) s)) = daemon s) \<and>
     (\<forall>p s. daemon (snd (run_state (o_open A p) s)) = daemon s) \<and>
     (\<forall>p s. daemon (snd (run_state (o_create A p) s)) = daemon s) \<and>
     (\<forall>d p s. daemon (snd (run_state (o_copy A d p) s)) = daemon s) \<and>
     (\<forall>p m s. daemon (snd (run_state (o_chmod A p m) s)) = daemon s) \<and>
     (\<forall>p s. daemon (snd (run_state (o_readdir A p) s)) = daemon s) \<and>
     (\<forall>p m s. daemon (snd (run_state (o_mkdir A p m) s)) = daemon s) \<and>
     (\<forall>onion s. daemon (snd (run_state (a_status_update A onion) s)) = daemon s)"

lemma daemon_ops_keep:
  assumes "daemon_law A daemon"
  shows "holds_after (\<lambda>s. daemon s = d) (o_read A p)" "holds_after (\<lambda>s. daemon s = d) (o_write A p c m)"
    "holds_after (\<lambda>s. daemon s = d) (o_stat A p)" "holds_after (\<lambda>s. daemon s = d) (o_open A p)"
    "holds_after (\<lambda>s. daemon s = d) (o_create A p)" "holds_after (\<lambda>s. daemon s = d) (o_copy A q p)"
    "holds_after (\<lambda>s. daemon s = d) (o_chmod A p m)" "holds_after (\<lambda>s. daemon s = d) (o_readdir A p)"
    "holds_after (\<lambda>s. daemon s = d) (o_mkdir A p m)"
    "holds_after (\<lambda>s. daemon s = d) (a_status_update A onion)"
  using assms unfolding daemon_law_def holds_after_def by auto

lemma guarded_keeps [keeps]:
  "holds_after P m \<Longrightarrow> holds_after P k \<Longrightarrow> holds_after P (guarded A m msg k)"
  unfolding guarded_def by (intro keeps)

lemma daemon_stages_keep:
  assumes law: "daemon_law A daemon"
  shows "holds_after (\<lambda>s. daemon s = d) (torfile_step A onion c)"
    "holds_after (\<lambda>s. daemon s = d) (copy_keys A onion)"
    "holds_after (\<lambda>s. daemon s = d) (copy_clients A)"
    "holds_after (\<lambda>s. daemon s = d) (ob_config_step A onion b)"
    "holds_after (\<lambda>s. daemon s = d) (updateOnionServiceStatus A onion)"
proof -
  note ops = daemon_ops_keep [OF law]
  show "holds_after (\<lambda>s. daemon s = d) (torfile_step A onion c)"
    unfolding torfile_step_def needs_write_def serviceReload_def by (intro keeps ops)
  have copy: "holds_after (\<lambda>s. daemon s = d) (copy_logged A src dst)" for src dst
    unfolding copy_logged_def copyIfNotExist_def by (intro keeps ops)
  then show "holds_after (\<lambda>s. daemon s = d) (copy_keys A onion)"
    unfolding copy_keys_def by (intro keeps)
  have "holds_after (\<lambda>s. daemon s = d) (copy_auth_files A fs)" for fs
  proof (induction fs)
    case (Cons f fs)
    with copy show ?case by (cases f) (auto intro!: keeps)
  qed simp
  then show "holds_after (\<lambda>s. daemon s = d) (copy_clients A)"
    unfolding copy_clients_def by (intro keeps ops)
  show "holds_after (\<lambda>s. daemon s = d) (ob_config_step A onion b)"
    unfolding ob_config_step_def needs_write_def by (intro keeps ops)
  show "holds_after (\<lambda>s. daemon s = d) (updateOnionServiceStatus A onion)"
    unfolding updateOnionServiceStatus_def Let_def by (intro keeps ops)
qed

section \<open>The copies leave the balancing configuration alone\<close>

lemma copy_logged_elsewhere:
  assumes "files_law A files" "q \<noteq> dst"
  shows "holds_after (\<lambda>s. files s q = v) (copy_logged A src dst)"
proof -
  have "holds_after (\<lambda>s. files s q = v) (copyIfNotExist A src dst)"
    using copyIfNotExist_confined [OF assms(1), of dst src] assms(2)
    unfolding holds_after_def confined_def only_changes_def by simp
  then show ?thesis unfolding copy_logged_def by (intro keeps)
qed

lemma copies_elsewhere:
  assumes law: "files_law A files"
  shows "holds_after (\<lambda>s. files s ob_config_path = v) (copy_keys A onion)"
    "holds_after (\<lambda>s. files s ob_config_path = v) (copy_clients A)"
proof -
  show "holds_after (\<lambda>s. files s ob_config_path = v) (copy_keys A onion)"
    unfolding copy_keys_def key_file_names_def
    by (intro keeps copy_logged_elsewhere [OF law])
      (auto simp: ob_config_path_def torServiceDir_def split: if_splits)
  have files: "holds_after (\<lambda>s. files s ob_config_path = v) (copy_auth_files A fs)" for fs
  proof (induction fs)
    case (Cons f fs)
    then show ?case
      by (cases f) (auto intro!: keeps copy_logged_elsewhere [OF law] simp: ob_config_path_def)
  qed simp
  have "holds_after (\<lambda>s. files s ob_config_path = v) (o_readdir A p)"
    "holds_after (\<lambda>s. files s ob_config_path = v) (o_mkdir A p m)"
    "holds_after (\<lambda>s. files s ob_config_path = v) (o_stat A p)" for p m
    using law unfolding files_law_def holds_after_def by auto
  with files show "holds_after (\<lambda>s. files s ob_config_path = v) (copy_clients A)"
    unfolding copy_clients_def by (intro keeps)
qed

section \<open>Reloads\<close>

text \<open>
  C11: a sync that reports no error reloads the daemon exactly when it did not find the configuration
  files as rendered for the service, and then once: the supervisor's state afterwards is the one
  before, or what \<open>Reload\<close> makes of it.
\<close>

theorem sync_reloads_once:
  assumes "files_law A files" "errors_law A" "outside_law A files" "daemon_law A daemon"
    and "run_state (sync_service A onion) s = (None, s')"
  shows "daemon s' = (if configured files onion s then daemon s else call_reload (daemon s))"
proof -
  obtain contents where conf: "TorConfigForService onion = Inr contents"
    by (simp add: TorConfigForService_def Let_def)
  obtain reload s1 s2 s3 reload' s4 s5 where stages:
    "run_state (torfile_step A onion contents) s = (Inr reload, s1)"
    "run_state (copy_keys A onion) s1 = ((), s2)"
    "run_state (copy_clients A) s2 = (None, s3)"
    "run_state (ob_config_step A onion reload) s3 = (Inr reload', s4)"
    "run_state (if reload' then a_reload A else State_Monad.return ()) s4 = ((), s5)"
    "run_state (updateOnionServiceStatus A onion) s5 = (None, s')"
    by (rule sync_service_stages [OF assms(2) conf assms(5)])
  note kept = daemon_stages_keep [OF assms(4), THEN holds_afterD]
  have "daemon s4 = daemon s"
    using kept(1) [OF refl stages(1)] kept(2) [OF refl stages(2)] kept(3) [OF refl stages(3)]
      kept(4) [OF refl stages(4)] by simp
  moreover have "daemon s' = daemon s5" by (rule kept(5) [OF refl stages(6)])
  moreover have "daemon s5 = (if reload' then call_reload (daemon s4) else daemon s4)"
    using stages(5) assms(4) unfolding daemon_law_def by (metis run_state_return snd_conv)
  moreover have "reload' \<longleftrightarrow> \<not> configured files onion s"
  proof -
    have first: "reload \<longleftrightarrow> files s torFilePath \<noteq> Some contents" "only_changes files torFilePath s s1"
      using torfile_step_result [OF assms(1,2) stages(1)] by simp_all
    have "files s3 ob_config_path = files s1 ob_config_path"
      using holds_afterD [OF copies_elsewhere(1) [OF assms(1)] refl stages(2)]
        holds_afterD [OF copies_elsewhere(2) [OF assms(1)] refl stages(3)] by simp
    with first(2) have ob: "files s3 ob_config_path = files s ob_config_path"
      by (simp add: only_changes_def ob_config_path_def torFilePath_def)
    show ?thesis
    proof (cases "os_MasterOnionAddress (os_spec onion) = []")
      case True
      with stages(4) conf first(1) show ?thesis
        by (auto simp: ob_config_step_def configured_def)
    next
      case False
      with ob_config_step_result [OF assms(1,2) stages(4)] ob conf first(1) show ?thesis
        by (auto simp: configured_def)
    qed
  qed
  ultimately show ?thesis by simp
qed

section \<open>A simulated pod with its supervisor\<close>

record daemon_pod = sim_pod +
  dp_daemon :: "go_error + supervisor"

definition daemon_agent :: "daemon_pod agent" where
  "daemon_agent = sim_agent []
     \<lparr>a_reload := State (\<lambda>s. ((), s\<lparr>dp_daemon := call_reload (dp_daemon s)\<rparr>))\<rparr>"

lemma daemon_agent_laws:
  "files_law daemon_agent sp_look" "errors_law daemon_agent" "outside_law daemon_agent sp_look"
  "daemon_law daemon_agent dp_daemon"
  by (auto simp: files_law_def errors_law_def outside_law_def daemon_law_def daemon_agent_def
      sim_agent_def sp_ask_def sp_put_def sp_look_def only_changes_def split: option.splits if_splits)

definition fresh_daemon_pod :: daemon_pod where
  "fresh_daemon_pod = \<lparr>sp_files = [(''/run/tor/service/hostname'', ''a.onion'')],
     sp_broken = [], sp_reloads = 0, sp_hostnames = [], dp_daemon = Inr no_daemon\<rparr>"

lemma fresh_daemon_sync: "\<exists>s'. run_state (sync_service daemon_agent web_onion) fresh_daemon_pod = (None, s')"
proof -
  let ?c = "configFormat (OnionServiceInputData web_onion)"
  define s1 where "s1 = fresh_daemon_pod\<lparr>sp_files := (torFilePath, ?c) # sp_files fresh_daemon_pod\<rparr>"
  define s2 where "s2 = s1\<lparr>dp_daemon := call_reload (dp_daemon s1)\<rparr>"
  have 1: "run_state (torfile_step (sim_agent []) web_onion ?c) fresh_daemon_pod = (Inr True, s1)"
    unfolding s1_def
    by (rule sim_torfile_missing) (simp_all add: fresh_daemon_pod_def sp_look_def torFilePath_def)
  have 2: "run_state (copy_keys (sim_agent []) web_onion) s1 = ((), s1)"
    by (rule sim_copies_absent)
      (simp_all add: s1_def fresh_daemon_pod_def sp_look_def torFilePath_def torServiceDir_def
        web_onion_def zero_ob_def)
  have "os_MasterOnionAddress (os_spec web_onion) = []" by (simp add: web_onion_def zero_ob_def)
  then have 3: "run_state (ob_config_step (sim_agent []) web_onion True) s1 = (Inr True, s1)"
    by (simp add: ob_config_step_def)
  have "fst (run_state (updateOnionServiceStatus (sim_agent []) web_onion) s2) = None"
    by (rule sim_status [where h = "''a.onion''"])
      (simp add: s2_def s1_def fresh_daemon_pod_def sp_look_def torFilePath_def)
  then obtain s3 where 5: "run_state (updateOnionServiceStatus (sim_agent []) web_onion) s2 = (None, s3)"
    by (cases "run_state (updateOnionServiceStatus (sim_agent []) web_onion) s2") simp
  have "run_state (a_reload daemon_agent) s1 = ((), s2)"
    by (simp add: daemon_agent_def s2_def)
  then show ?thesis
    using 1 2 3 5 sim_no_clients [of s1]
    by (simp add: sync_service_def TorConfigForService_def Let_def guarded_def daemon_agent_def)
qed

theorem sync_reloads_once_witness:
  "\<exists>s'. run_state (sync_service daemon_agent web_onion) fresh_daemon_pod = (None, s') \<and>
     dp_daemon s' = Inr (Start no_daemon)"
proof -
  from fresh_daemon_sync obtain s' where
    run: "run_state (sync_service daemon_agent web_onion) fresh_daemon_pod = (None, s')" by blast
  have "\<not> configured sp_look web_onion fresh_daemon_pod"
    by (simp add: configured_def fresh_daemon_pod_def sp_look_def torFilePath_def)
  moreover have "call_reload (dp_daemon fresh_daemon_pod) = Inr (Start no_daemon)"
    by (simp add: call_reload_def fresh_daemon_pod_def tor_Reload_def no_daemon_def)
  ultimately have "dp_daemon s' = Inr (Start no_daemon)"
    using sync_reloads_once [OF daemon_agent_laws run] by simp
  with run show ?thesis by blast
qed

end
