(* ===== verification/Agent_Queue.thy ===== *)
theory Agent_Queue
  imports Go_Prelude
begin

text \<open>
  The work loop the two agents share (\<open>processNextItem\<close>, \<open>handleErr\<close> and \<open>runWorker\<close> of
  \<open>agents/*/local/controller.go\<close>, which are the same in both).  The rate limited work queue of
  client-go is the record \<open>queue\<close>; the lemmas show what becomes of an item whose sync fails, and
  that the worker ends once the queue is shut down.
\<close>

section \<open>The queue\<close>

text \<open>An item of the queue is a string, or (\<open>None\<close>) a value of another type.\<close>

type_synonym item = "string option"

record 's queue =
  q_get :: "('s, item \<times> bool) state"
  q_done :: "item \<Rightarrow> ('s, unit) state"
  q_forget :: "item \<Rightarrow> ('s, unit) state"
  q_num_requeues :: "item \<Rightarrow> ('s, nat) state"
  q_add_after :: "item \<Rightarrow> nat \<Rightarrow> ('s, unit) state"

section \<open>handleErr, processNextItem, runWorker\<close>

definition handleErr :: "'s queue \<Rightarrow> go_error option \<Rightarrow> item \<Rightarrow> ('s, unit) state" where
  "handleErr Q err key =
     (if err = None then q_forget Q key
      else do {
        n \<leftarrow> q_num_requeues Q key;
        (if n < 5 then q_add_after Q key 3 else q_forget Q key)
      })"

text \<open>The item is marked done by a deferred call, on every return.\<close>

definition processNextItem ::
  "'s queue \<Rightarrow> (string \<Rightarrow> ('s, go_error option) state) \<Rightarrow> ('s, bool) state" where
  "processNextItem Q sync_key = do {
     got \<leftarrow> q_get Q;
     (case got of (key, quit) \<Rightarrow>
        if quit then State_Monad.return False
        else (case key of
           None \<Rightarrow> do { q_done Q key; State_Monad.return False }
         | Some keyString \<Rightarrow> do {
             err \<leftarrow> sync_key keyString;
             handleErr Q err key;
             q_done Q key;
             State_Monad.return True
           }))
   }"

text \<open>A loop that need not end: \<open>None\<close> is a worker that runs for ever.\<close>

partial_function (option) worker_loop :: "('s \<Rightarrow> bool \<times> 's) \<Rightarrow> 's \<Rightarrow> 's option" where
  "worker_loop next_item s =
     (case next_item s of (again, s') \<Rightarrow> if again then worker_loop next_item s' else Some s')"

definition runWorker :: "'s queue \<Rightarrow> (string \<Rightarrow> ('s, go_error option) state) \<Rightarrow> 's \<Rightarrow> 's option" where
  "runWorker Q sync_key = worker_loop (run_state (processNextItem Q sync_key))"

section \<open>Failed items come back for ever\<close>

text \<open>
  What client-go documents of \<open>NumRequeues\<close>: it counts the rate limited additions of an item since
  it was last forgotten, so that \<open>AddAfter\<close> leaves the count alone.
\<close>

definition requeue_law :: "'s queue \<Rightarrow> ('s \<Rightarrow> item \<Rightarrow> nat) \<Rightarrow> bool" where
  "requeue_law Q count \<longleftrightarrow>
     (\<forall>k s. run_state (q_num_requeues Q k) s = (count s k, s)) \<and>
     (\<forall>k d s. count (snd (run_state (q_add_after Q k d) s)) = count s) \<and>
     (\<forall>k s. count (snd (run_state (q_forget Q k) s)) = (count s)(k := 0))"

text \<open>
  C40: an item whose sync keeps failing is queued again every three seconds, for ever: the counter
  \<open>handleErr\<close> compares with 5 is that of the rate limited additions, which it does not make, so it
  stays 0 and the item is never dropped, unlike what the comment above it says.
\<close>

theorem failing_items_return:
  assumes "requeue_law Q count" "count s key = 0"
  shows "((\<lambda>s. snd (run_state (handleErr Q (Some (errs s)) key) s)) ^^ n) s =
      ((\<lambda>s. snd (run_state (q_add_after Q key 3) s)) ^^ n) s"
proof -
  have "((\<lambda>s. snd (run_state (handleErr Q (Some (errs s)) key) s)) ^^ n) s =
        ((\<lambda>s. snd (run_state (q_add_after Q key 3) s)) ^^ n) s \<and>
      count (((\<lambda>s. snd (run_state (q_add_after Q key 3) s)) ^^ n) s) key = 0"
    using assms by (induction n) (auto simp: handleErr_def requeue_law_def)
  then show ?thesis ..
qed

section \<open>A worker ends after the queue is shut down\<close>

text \<open>
  A queue that is shut down hands out what is still in it (\<open>pending\<close>) and then tells its callers to
  quit; it takes no new items.
\<close>

definition closing_law ::
  "'s queue \<Rightarrow> (string \<Rightarrow> ('s, go_error option) state) \<Rightarrow> ('s \<Rightarrow> item list) \<Rightarrow> bool" where
  "closing_law Q sync_key pending \<longleftrightarrow>
     (\<forall>s. pending s = [] \<longrightarrow> (\<exists>k s'. run_state (q_get Q) s = ((k, True), s'))) \<and>
     (\<forall>s k ks. pending s = k # ks \<longrightarrow>
       (\<exists>s'. run_state (q_get Q) s = ((k, False), s') \<and> pending s' = ks)) \<and>
     (\<forall>k s. pending (snd (run_state (q_done Q k) s)) = pending s) \<and>
     (\<forall>k s. pending (snd (run_state (q_forget Q k) s)) = pending s) \<and>
     (\<forall>k s. pending (snd (run_state (q_num_requeues Q k) s)) = pending s) \<and>
     (\<forall>k d s. pending (snd (run_state (q_add_after Q k d) s)) = pending s) \<and>
     (\<forall>k s. pending (snd (run_state (sync_key k) s)) = pending s)"

lemma handleErr_pending:
  assumes "closing_law Q sync_key pending"
  shows "pending (snd (run_state (handleErr Q err key) s)) = pending s"
  using assms by (auto simp: handleErr_def closing_law_def split: prod.splits) (metis snd_conv)+

lemma next_item_pending:
  assumes law: "closing_law Q sync_key pending" and s: "pending s = k # ks"
  shows "\<exists>again s'. run_state (processNextItem Q sync_key) s = (again, s') \<and> pending s' = ks"
proof -
  from law s obtain s1 where get: "run_state (q_get Q) s = ((k, False), s1)" and ks: "pending s1 = ks"
    unfolding closing_law_def by blast
  have finish: "pending (snd (run_state (q_done Q key) t)) = pending t" for key t
    using law unfolding closing_law_def by blast
  have sync_keeps: "pending (snd (run_state (sync_key key) t)) = pending t" for key t
    using law unfolding closing_law_def by blast
  show ?thesis
  proof (cases k)
    case None
    with get ks finish show ?thesis by (simp add: processNextItem_def split: prod.splits) (metis snd_conv)
  next
    case (Some key)
    obtain err s2 where run: "run_state (sync_key key) s1 = (err, s2)"
      by (cases "run_state (sync_key key) s1")
    obtain s3 where h: "run_state (handleErr Q err k) s2 = ((), s3)"
      by (cases "run_state (handleErr Q err k) s2") simp
    obtain s4 where d: "run_state (q_done Q k) s3 = ((), s4)"
      by (cases "run_state (q_done Q k) s3") simp
    have "pending s4 = ks"
      using sync_keeps [of key s1] handleErr_pending [OF law, of err k s2] finish [of k s3] run h d ks
      by simp
    with get Some run h d show ?thesis by (auto simp: processNextItem_def)
  qed
qed

text \<open>
  After the queue is shut down the worker ends, whatever the syncs of the remaining items
  return.
\<close>

theorem worker_ends:
  assumes "closing_law Q sync_key pending"
  shows "\<exists>s'. runWorker Q sync_key s = Some s'"
proof (induction "pending s" arbitrary: s)
  case Nil
  then obtain k s' where "run_state (q_get Q) s = ((k, True), s')"
    using assms unfolding closing_law_def by metis
  then show ?case
    unfolding runWorker_def by (subst worker_loop.simps) (simp add: processNextItem_def)
next
  case (Cons k ks)
  obtain again s' where run: "run_state (processNextItem Q sync_key) s = (again, s')" "pending s' = ks"
    using next_item_pending [OF assms Cons.hyps(2) [symmetric]] by blast
  with Cons.hyps(1) [of s'] show ?case
    unfolding runWorker_def by (subst worker_loop.simps) auto
qed

section \<open>A simulated queue\<close>

text \<open>A queue that is shut down, with the items that remain and those that were added for later.\<close>

record sim_queue =
  sq_items :: "item list"
  sq_later :: "(item \<times> nat) list"
  sq_count :: "item \<Rightarrow> nat"

definition list_queue :: "sim_queue queue" where
  "list_queue =
     \<lparr>q_get = State (\<lambda>s. case sq_items s of
         [] \<Rightarrow> ((None, True), s) | k # ks \<Rightarrow> ((k, False), s\<lparr>sq_items := ks\<rparr>)),
      q_done = (\<lambda>k. State_Monad.return ()),
      q_forget = (\<lambda>k. State (\<lambda>s. ((), s\<lparr>sq_count := (sq_count s)(k := 0)\<rparr>))),
      q_num_requeues = (\<lambda>k. State (\<lambda>s. (sq_count s k, s))),
      q_add_after = (\<lambda>k d. State (\<lambda>s. ((), s\<lparr>sq_later := (k, d) # sq_later s\<rparr>)))\<rparr>"

lemma list_queue_requeues: "requeue_law list_queue sq_count"
  by (simp add: requeue_law_def list_queue_def)

lemma list_queue_closing:
  "(\<And>k. sync_key k = State_Monad.return (e k)) \<Longrightarrow> closing_law list_queue sync_key sq_items"
  by (simp add: closing_law_def list_queue_def)

definition two_items :: sim_queue where
  "two_items = \<lparr>sq_items = [Some ''ns/a'', Some ''ns/b''], sq_later = [], sq_count = (\<lambda>k. 0)\<rparr>"

theorem failing_items_return_witness:
  "((\<lambda>s. snd (run_state (handleErr list_queue (Some (GoErr ''down'')) (Some ''ns/a'')) s)) ^^ 20) two_items =
   ((\<lambda>s. snd (run_state (q_add_after list_queue (Some ''ns/a'') 3) s)) ^^ 20) two_items"
proof -
  have "sq_count two_items (Some ''ns/a'') = 0" by (simp add: two_items_def)
  from failing_items_return [OF list_queue_requeues, OF this, where errs = "\<lambda>s. GoErr ''down''"]
  show ?thesis .
qed

theorem worker_ends_witness:
  "\<exists>s'. runWorker list_queue (\<lambda>k. State_Monad.return (Some (GoErr k))) two_items = Some s'"
  by (rule worker_ends) (rule list_queue_closing, rule refl)

end
