(* ===== verification/Balance_Agent.thy ===== *)
theory Balance_Agent
  imports Agent_Config Agent_Queue
begin

text \<open>
  The onionbalance agent, \<open>agents/onionbalance/local/controller.go\<close> (and
  \<open>parseOnionBalancedService\<close> of \<open>client.go\<close>): it writes the balancer's configuration and tells the
  supervisor to reload the balancer or to make sure that it runs.  The surroundings are the record
  \<open>balancer\<close>; its work loop is the code of the tor agent's, modelled in \<open>Agent_Queue\<close>.  The lemmas show what the file holds after a
  sync and which of the two calls the supervisor gets.
\<close>

section \<open>The surroundings\<close>

record 's balancer =
  b_get_by_key :: "string \<Rightarrow> ('s, go_error + opaque option) state"
  b_unstructured :: "opaque \<Rightarrow> opaque option"
  b_convert :: "opaque \<Rightarrow> go_error + OnionBalancedService"
  b_visit :: "(string, OnionServiceStatus) fmap \<Rightarrow> (string \<times> OnionServiceStatus) list"
  b_marshal :: "BalanceConfig \<Rightarrow> go_error + bytes"
  b_wrap :: "go_error option \<Rightarrow> string \<Rightarrow> go_error option"
  b_read :: "string \<Rightarrow> ('s, bytes \<times> go_error option) state"
  b_write :: "string \<Rightarrow> bytes \<Rightarrow> nat \<Rightarrow> ('s, go_error option) state"
  b_not_exist :: "go_error \<Rightarrow> bool"
  b_reload :: "('s, unit) state"
  b_ensure :: "('s, unit) state"

section \<open>sync\<close>

definition parseOnionBalancedService ::
  "'s balancer \<Rightarrow> opaque \<Rightarrow> go_error option + OnionBalancedService" where
  "parseOnionBalancedService B obj =
     (case b_unstructured B obj of
        None \<Rightarrow> Inl (Some (GoErr ''could not convert obj to unstructured''))
      | Some content \<Rightarrow>
          (case b_convert B content of
             Inl err \<Rightarrow> Inl (b_wrap B (Some err) ''could not convert obj to onionBalancedService'')
           | Inr service \<Rightarrow> Inr service))"

text \<open>The file, and what \<open>sync\<close> does once the configuration is generated.\<close>

definition balance_file :: string where
  "balance_file = ''/run/onionbalance/config.yaml''"

definition write_and_reload :: "'s balancer \<Rightarrow> bytes \<Rightarrow> ('s, go_error option) state" where
  "write_and_reload B torConfig = do {
     err \<leftarrow> b_write B balance_file torConfig 384;
     (case err of
        Some e \<Rightarrow> State_Monad.return (b_wrap B (Some e) ''writing config failed'')
      | None \<Rightarrow> do { b_reload B; State_Monad.return None })
   }"

definition install_config :: "'s balancer \<Rightarrow> bytes \<Rightarrow> ('s, go_error option) state" where
  "install_config B torConfig = do {
     r \<leftarrow> b_read B balance_file;
     (case r of (torfile, err) \<Rightarrow>
        (case err of
           Some e \<Rightarrow>
             if \<not> b_not_exist B e
             then State_Monad.return (b_wrap B (Some e) ''failed to read config file'')
             else if torfile \<noteq> torConfig then write_and_reload B torConfig
             else do { b_ensure B; State_Monad.return None }
         | None \<Rightarrow>
             if torfile \<noteq> torConfig then write_and_reload B torConfig
             else do { b_ensure B; State_Monad.return None }))
   }"

definition balance_sync :: "'s balancer \<Rightarrow> string \<Rightarrow> ('s, go_error option) state" where
  "balance_sync B key = do {
     r \<leftarrow> b_get_by_key B key;
     (case r of
        Inl err \<Rightarrow> State_Monad.return
          (b_wrap B (Some err) ''fetching object with key %s from store failed'')
      | Inr None \<Rightarrow> State_Monad.return None
      | Inr (Some obj) \<Rightarrow>
          (case parseOnionBalancedService B obj of
             Inl err \<Rightarrow> State_Monad.return (b_wrap B err ''error in parseonionBalancedService'')
           | Inr onionBalancedService \<Rightarrow>
               (case OnionBalanceConfigForService (b_visit B) (b_marshal B) (b_wrap B)
                       onionBalancedService of
                  (torConfig, Some err) \<Rightarrow>
                    State_Monad.return (b_wrap B (Some err) ''generating config failed'')
                | (torConfig, None) \<Rightarrow> install_config B torConfig)))
   }"

text \<open>\<open>processNextItem\<close>, \<open>handleErr\<close> and \<open>runWorker\<close> of this agent.\<close>

definition balance_handleErr :: "'s queue \<Rightarrow> go_error option \<Rightarrow> item \<Rightarrow> ('s, unit) state" where
  "balance_handleErr = handleErr"

definition balance_processNextItem :: "'s balancer \<Rightarrow> 's queue \<Rightarrow> ('s, bool) state" where
  "balance_processNextItem B Q = processNextItem Q (balance_sync B)"

definition balance_runWorker :: "'s balancer \<Rightarrow> 's queue \<Rightarrow> 's \<Rightarrow> 's option" where
  "balance_runWorker B Q = runWorker Q (balance_sync B)"

section \<open>What the file operations do\<close>

text \<open>
  \<open>balance_law B files\<close>: reading changes no file, returns the contents of a file that exists, and
  nothing for one that does not; a write that succeeds sets the contents; the supervisor's calls
  change no file; and wrapping keeps errors errors.
\<close>

definition balance_law :: "'s balancer \<Rightarrow> ('s \<Rightarrow> string \<Rightarrow> bytes option) \<Rightarrow> bool" where
  "balance_law B files \<longleftrightarrow>
     (\<forall>p s. files (snd (run_state (b_read B p) s)) = files s) \<and>
     (\<forall>p s c s'. run_state (b_read B p) s = ((c, None), s') \<longrightarrow> files s p = Some c) \<and>
     (\<forall>p s c e s'. run_state (b_read B p) s = ((c, Some e), s') \<longrightarrow> b_not_exist B e \<longrightarrow>
        files s p = None \<and> c = []) \<and>
     (\<forall>p c m s s'. run_state (b_write B p c m) s = (None, s') \<longrightarrow> files s' p = Some c) \<and>
     (\<forall>s. files (snd (run_state (b_reload B) s)) = files s) \<and>
     (\<forall>s. files (snd (run_state (b_ensure B) s)) = files s) \<and>
     (\<forall>e m. b_wrap B (Some e) m \<noteq> None)"

lemma balance_lawD:
  assumes "balance_law B files"
  shows "run_state (b_read B p) s = (r, s') \<Longrightarrow> files s' = files s"
    "run_state (b_read B p) s = ((c, None), s') \<Longrightarrow> files s p = Some c"
    "run_state (b_read B p) s = ((c, Some e), s') \<Longrightarrow> b_not_exist B e \<Longrightarrow> files s p = None \<and> c = []"
    "run_state (b_write B p d m) s = (None, s') \<Longrightarrow> files s' p = Some d"
    "run_state (b_reload B) s = (u, s') \<Longrightarrow> files s' = files s"
    "run_state (b_ensure B) s = (u, s') \<Longrightarrow> files s' = files s"
    "b_wrap B (Some x) msg \<noteq> None"
  using assms unfolding balance_law_def by (metis snd_conv)+

text \<open>
  What \<open>install_config\<close> calls when it reports no error.  An absent file reads as the empty text, so
  for the empty configuration it is not told from one that is up to date.
\<close>

lemma install_config_effect:
  assumes law: "balance_law B files" and conf: "conf \<noteq> []"
    and run: "run_state (install_config B conf) s = (None, s')"
  shows "\<exists>r t. run_state (b_read B balance_file) s = (r, t) \<and>
    (if files s balance_file = Some conf then run_state (b_ensure B) t = ((), s')
     else \<exists>u. run_state (b_write B balance_file conf 384) t = (None, u) \<and>
       run_state (b_reload B) u = ((), s'))"
proof -
  obtain c e t where read: "run_state (b_read B balance_file) s = ((c, e), t)"
    by (cases "run_state (b_read B balance_file) s") (metis surj_pair)
  note wrapped = balance_lawD(7) [OF law]
  have content: "c = conf \<longleftrightarrow> files s balance_file = Some conf"
    using balance_lawD(2,3) [OF law] read run conf
    by (cases e) (auto simp: install_config_def wrapped split: if_splits)
  show ?thesis
  proof (cases "c = conf")
    case True
    with read run have "run_state (b_ensure B) t = ((), s')"
      by (auto simp: install_config_def wrapped split: option.splits if_splits prod.splits)
    with True content read show ?thesis by auto
  next
    case False
    with read run have "run_state (write_and_reload B conf) t = (None, s')"
      by (auto simp: install_config_def wrapped split: option.splits if_splits)
    then obtain u where "run_state (b_write B balance_file conf 384) t = (None, u)"
      and "run_state (b_reload B) u = ((), s')"
      by (auto simp: write_and_reload_def wrapped split: option.splits prod.splits)
    with False content read show ?thesis by auto
  qed
qed

text \<open>
  C14: when a sync of the onionbalance agent handles an object without an error, and the rendered
  configuration is not empty, it calls nothing beyond the following.  It reads the configuration
  file; when that holds the rendered configuration, it asks the supervisor to make sure that the
  balancer runs, and is done; otherwise it writes the rendered configuration, the write succeeds,
  and it asks the supervisor to reload, and is done.  Either way the file holds the rendered
  configuration in the end.
\<close>

theorem balance_sync_exact:
  assumes law: "balance_law B files"
    and get: "run_state (b_get_by_key B key) s = (Inr (Some obj), t)"
    and parse: "parseOnionBalancedService B obj = Inr onion"
    and conf: "OnionBalanceConfigForService (b_visit B) (b_marshal B) (b_wrap B) onion = (conf, None)"
      "conf \<noteq> []"
    and run: "run_state (balance_sync B key) s = (None, s')"
  shows "\<exists>r u. run_state (b_read B balance_file) t = (r, u) \<and>
    (if files t balance_file = Some conf then run_state (b_ensure B) u = ((), s')
     else \<exists>v. run_state (b_write B balance_file conf 384) u = (None, v) \<and>
       run_state (b_reload B) v = ((), s')) \<and>
    files s' balance_file = Some conf"
proof -
  have inst: "run_state (install_config B conf) t = (None, s')"
    using run get parse conf by (simp add: balance_sync_def)
  from install_config_effect [OF law conf(2) this] balance_lawD(1,4-6) [OF law]
  show ?thesis by (cases "files t balance_file = Some conf") (simp, metis)+
qed

section \<open>A simulated balancer\<close>

text \<open>
  A pod with a file system, a printer that lists the addresses, and counters for the supervisor's
  calls.  The one key of its store is that of a balanced service without backends.
\<close>

record sim_balance =
  sb_files :: "(string \<times> bytes) list"
  sb_reloads :: nat
  sb_ensures :: nat

definition sb_look :: "sim_balance \<Rightarrow> string \<Rightarrow> bytes option" where
  "sb_look s = map_of (sb_files s)"

definition print_config :: "BalanceConfig \<Rightarrow> go_error + bytes" where
  "print_config c =
     Inr (''services:'' @ concat (map (\<lambda>e. concat (map in_Address (be_Instances e))) (bc_Services c)))"

definition sim_balancer :: "sim_balance balancer" where
  "sim_balancer =
     \<lparr>b_get_by_key = (\<lambda>k. State_Monad.return (Inr (Some k))),
      b_unstructured = Some,
      b_convert = (\<lambda>obj. Inr (zero_ob obj ''default'')),
      b_visit = (\<lambda>m. case fmlookup m ''backend'' of None \<Rightarrow> [] | Some b \<Rightarrow> [(''backend'', b)]),
      b_marshal = print_config,
      b_wrap = (\<lambda>e m. e),
      b_read = (\<lambda>p. State (\<lambda>s. (case sb_look s p of
         None \<Rightarrow> ([], Some (GoErr ''file does not exist'')) | Some c \<Rightarrow> (c, None), s))),
      b_write = (\<lambda>p c m. State (\<lambda>s. (None, s\<lparr>sb_files := (p, c) # sb_files s\<rparr>))),
      b_not_exist = (\<lambda>e. e = GoErr ''file does not exist''),
      b_reload = State (\<lambda>s. ((), s\<lparr>sb_reloads := Suc (sb_reloads s)\<rparr>)),
      b_ensure = State (\<lambda>s. ((), s\<lparr>sb_ensures := Suc (sb_ensures s)\<rparr>))\<rparr>"

lemma sim_balance_law: "balance_law sim_balancer sb_look"
  by (auto simp: balance_law_def sim_balancer_def sb_look_def split: option.splits)

definition empty_pod :: sim_balance where
  "empty_pod = \<lparr>sb_files = [], sb_reloads = 0, sb_ensures = 0\<rparr>"

definition configured_pod :: sim_balance where
  "configured_pod = \<lparr>sb_files = [(balance_file, ''services:'')], sb_reloads = 1, sb_ensures = 0\<rparr>"

theorem balance_sync_exact_witness:
  "\<exists>v. sb_reloads v = 0 \<and> sb_look v balance_file = Some ''services:'' \<and>
     run_state (b_reload sim_balancer) v = ((), configured_pod)"
proof -
  let ?onion = "zero_ob ''web'' ''default''"
  have get: "run_state (b_get_by_key sim_balancer ''web'') empty_pod = (Inr (Some ''web''), empty_pod)"
    by (simp add: sim_balancer_def)
  have parse: "parseOnionBalancedService sim_balancer ''web'' = Inr ?onion"
    by (simp add: parseOnionBalancedService_def sim_balancer_def)
  have conf: "OnionBalanceConfigForService (b_visit sim_balancer) (b_marshal sim_balancer)
      (b_wrap sim_balancer) ?onion = (''services:'', None)"
    by (simp add: OnionBalanceConfigForService_def sim_balancer_def print_config_def balance_config_def
        zero_ob_def)
  have run: "run_state (balance_sync sim_balancer ''web'') empty_pod = (None, configured_pod)"
    using get parse conf
    by (simp add: balance_sync_def)
      (simp add: install_config_def write_and_reload_def sim_balancer_def sb_look_def empty_pod_def
        configured_pod_def)
  have "sb_look empty_pod balance_file \<noteq> Some ''services:''"
    by (simp add: sb_look_def empty_pod_def)
  with balance_sync_exact [OF sim_balance_law get parse conf, OF _ run] obtain r u v where
    "run_state (b_read sim_balancer balance_file) empty_pod = (r, u)"
    "run_state (b_write sim_balancer balance_file ''services:'' 384) u = (None, v)"
    "run_state (b_reload sim_balancer) v = ((), configured_pod)"
    by auto
  then show ?thesis
    by (intro exI [of _ v]) (auto simp: sim_balancer_def empty_pod_def sb_look_def split: option.splits)
qed

end
