(* ===== verification/Agent_Manager.thy ===== *)
theory Agent_Manager
  imports Agent_Queue
begin

text \<open>
  The managers of the two agents, \<open>agents/*/local/client.go\<close>, which are the same up to the type of
  the watched resource: the flags, the goroutine that handles signals, the main goroutine that
  watches, and the event handlers that fill the work queue.  The lemmas show that the main goroutine
  never returns and which signals have an effect.
\<close>

section \<open>Flags\<close>

text \<open>\<open>Run\<close> collects the missing flags before it starts anything; \<open>aggregate\<close> is \<open>NewAggregate\<close>.\<close>

definition flag_errors :: "string \<Rightarrow> string \<Rightarrow> go_error list" where
  "flag_errors name namespace =
     (if name = [] then [GoErr ''-name flag cannot be empty''] else []) @
     (if namespace = [] then [GoErr ''-namespace flag cannot be empty''] else [])"

section \<open>Event handlers\<close>

text \<open>
  \<open>parse\<close> turns the stored object into the resource, \<open>key_of_object\<close> is \<open>MetaNamespaceKeyFunc\<close>.  Only
  \<open>AddFunc\<close> queues the key it got together with an error.
\<close>

definition add_event ::
  "'s queue \<Rightarrow> ('o \<Rightarrow> go_error option + 'r) \<Rightarrow> ('r \<Rightarrow> string \<times> go_error option) \<Rightarrow> 'o \<Rightarrow>
   ('s, unit) state" where
  "add_event Q parse key_of_object obj =
     (case parse obj of
        Inl err \<Rightarrow> State_Monad.return ()
      | Inr resource \<Rightarrow>
          (case key_of_object resource of (key, err) \<Rightarrow> q_add_after Q (Some key) 2))"

definition change_event ::
  "'s queue \<Rightarrow> ('o \<Rightarrow> go_error option + 'r) \<Rightarrow> ('r \<Rightarrow> string \<times> go_error option) \<Rightarrow> 'o \<Rightarrow>
   ('s, unit) state" where
  "change_event Q parse key_of_object obj =
     (case parse obj of
        Inl err \<Rightarrow> State_Monad.return ()
      | Inr resource \<Rightarrow>
          (case key_of_object resource of (key, err) \<Rightarrow>
             if err = None then q_add_after Q (Some key) 2 else State_Monad.return ()))"

lemma events_queue_alike:
  "snd (key_of_object resource) = None \<Longrightarrow> parse obj = Inr resource \<Longrightarrow>
   add_event Q parse key_of_object obj = change_event Q parse key_of_object obj"
  by (cases "key_of_object resource") (simp add: add_event_def change_event_def)

text \<open>
  The handlers the two informers get.  The queue waits two seconds before it hands out a key; a key
  is the one \<open>parse\<close> and \<open>key_of_object\<close> find, so an object of another form, such as the tombstone
  of a deletion that was missed, is dropped.
\<close>

record ('s, 'o) handlers =
  on_add :: "'o \<Rightarrow> ('s, unit) state"
  on_update :: "'o \<Rightarrow> 'o \<Rightarrow> ('s, unit) state"
  on_delete :: "'o \<Rightarrow> ('s, unit) state"

definition onion_handlers ::
  "'s queue \<Rightarrow> ('o \<Rightarrow> go_error option + 'r) \<Rightarrow> ('r \<Rightarrow> string \<times> go_error option) \<Rightarrow> ('s, 'o) handlers" where
  "onion_handlers Q parse key_of_object =
     \<lparr>on_add = add_event Q parse key_of_object,
      on_update = (\<lambda>oldObj newObj. change_event Q parse key_of_object newObj),
      on_delete = change_event Q parse key_of_object\<rparr>"

definition balanced_handlers ::
  "'s queue \<Rightarrow> ('o \<Rightarrow> go_error option + 'r) \<Rightarrow> ('r \<Rightarrow> string \<times> go_error option) \<Rightarrow> ('s, 'o) handlers" where
  "balanced_handlers Q parse key_of_object =
     \<lparr>on_add = add_event Q parse key_of_object,
      on_update = (\<lambda>oldObj newObj. change_event Q parse key_of_object newObj),
      on_delete = change_event Q parse key_of_object\<rparr>"

lemma handlers_queue_key:
  assumes "parse obj = Inr resource" "key_of_object resource = (key, None)"
  shows "on_add (onion_handlers Q parse key_of_object) obj = q_add_after Q (Some key) 2"
    "on_update (onion_handlers Q parse key_of_object) old obj = q_add_after Q (Some key) 2"
    "on_delete (onion_handlers Q parse key_of_object) obj = q_add_after Q (Some key) 2"
  using assms by (simp_all add: onion_handlers_def add_event_def change_event_def)

lemma handlers_drop_others:
  assumes "parse obj = Inl err"
  shows "on_add (onion_handlers Q parse key_of_object) obj = State_Monad.return ()"
    "on_update (onion_handlers Q parse key_of_object) old obj = State_Monad.return ()"
    "on_delete (onion_handlers Q parse key_of_object) obj = State_Monad.return ()"
  using assms by (simp_all add: onion_handlers_def add_event_def change_event_def)

section \<open>Run of the controller\<close>

text \<open>
  \<open>Run\<close> of \<open>controller.go\<close> waits for the cache (\<open>synced\<close>; \<open>WaitForCacheSync\<close> gives up when the stop
  channel is closed), starts the workers, and waits for the stop channel; on both returns the
  deferred \<open>ShutDown\<close> closes the queue.
\<close>

datatype run_location = Syncing | Serving | Finished

record controller =
  ct_at :: run_location
  ct_workers :: nat
  ct_queue_shut :: bool

definition new_controller :: controller where
  "new_controller = \<lparr>ct_at = Syncing, ct_workers = 0, ct_queue_shut = False\<rparr>"

definition controller_stmt :: "nat \<Rightarrow> bool \<Rightarrow> bool \<Rightarrow> controller \<Rightarrow> controller option" where
  "controller_stmt threadiness synced stopped c =
     (case ct_at c of
        Syncing \<Rightarrow>
          if synced then Some (c\<lparr>ct_at := Serving, ct_workers := threadiness\<rparr>)
          else if stopped then Some (c\<lparr>ct_at := Finished, ct_queue_shut := True\<rparr>) else None
      | Serving \<Rightarrow> if stopped then Some (c\<lparr>ct_at := Finished, ct_queue_shut := True\<rparr>) else None
      | Finished \<Rightarrow> None)"

text \<open>\<open>Run\<close> of the onionbalance agent's controller is the same.\<close>

definition balance_controller_stmt :: "nat \<Rightarrow> bool \<Rightarrow> bool \<Rightarrow> controller \<Rightarrow> controller option" where
  "balance_controller_stmt = controller_stmt"

section \<open>The goroutines of Run\<close>

text \<open>
  The main goroutine is inside the watcher, at its receive from the channel \<open>stopper\<close>; behind it, at
  the receive from \<open>stopCh\<close>; or it has returned.  \<open>mg_handled\<close> records the signals the handler took.
\<close>

datatype signal = SIGHUP | SIGINT | SIGTERM

datatype main_location = Watching | Waiting | Returned

record manager =
  mg_main :: main_location
  mg_stopper_closed :: bool
  mg_stop_closed :: bool
  mg_handler :: bool
  mg_channel :: "signal option"
  mg_handled :: "signal list"
  mg_controller :: controller

definition running :: manager where
  "running = \<lparr>mg_main = Watching, mg_stopper_closed = False, mg_stop_closed = False,
     mg_handler = True, mg_channel = None, mg_handled = [], mg_controller = new_controller\<rparr>"

text \<open>
  \<open>Run\<close>: the missing flags end it at once, otherwise the goroutines run.  \<open>aggregate\<close> is
  \<open>NewAggregate\<close>; only the tor agent wraps its error.
\<close>

definition tor_manager_Run ::
  "(go_error list \<Rightarrow> go_error option) \<Rightarrow> (go_error option \<Rightarrow> string \<Rightarrow> go_error option) \<Rightarrow>
   string \<Rightarrow> string \<Rightarrow> go_error option + manager" where
  "tor_manager_Run aggregate wrap onionServiceName namespace =
     (case aggregate (flag_errors onionServiceName namespace) of
        Some err \<Rightarrow> Inl (wrap (Some err) ''error parsing flags'')
      | None \<Rightarrow> Inr running)"

definition balance_manager_Run ::
  "(go_error list \<Rightarrow> go_error option) \<Rightarrow> string \<Rightarrow> string \<Rightarrow> go_error option + manager" where
  "balance_manager_Run aggregate onionBalancedServiceName namespace =
     (case aggregate (flag_errors onionBalancedServiceName namespace) of
        Some err \<Rightarrow> Inl (Some err)
      | None \<Rightarrow> Inr running)"

lemma manager_Run_flags:
  assumes "\<And>es. aggregate es = None \<longleftrightarrow> es = []"
  shows "balance_manager_Run aggregate name namespace = Inr running \<longleftrightarrow> name \<noteq> [] \<and> namespace \<noteq> []"
    "tor_manager_Run aggregate wrap name namespace = Inr running \<longleftrightarrow> name \<noteq> [] \<and> namespace \<noteq> []"
proof -
  have "aggregate (flag_errors name namespace) = None \<longleftrightarrow> name \<noteq> [] \<and> namespace \<noteq> []"
    by (auto simp: assms flag_errors_def)
  then show "balance_manager_Run aggregate name namespace = Inr running \<longleftrightarrow> name \<noteq> [] \<and> namespace \<noteq> []"
    "tor_manager_Run aggregate wrap name namespace = Inr running \<longleftrightarrow> name \<noteq> [] \<and> namespace \<noteq> []"
    by (auto simp: balance_manager_Run_def tor_manager_Run_def split: option.splits)
qed

text \<open>\<open>signal.Notify\<close> registers two signals; one that finds the channel full is dropped.\<close>

definition registered :: "signal list" where
  "registered = [SIGTERM, SIGHUP]"

definition notify :: "signal \<Rightarrow> manager \<Rightarrow> manager" where
  "notify sig m =
     (if sig \<in> set registered \<and> mg_channel m = None then m\<lparr>mg_channel := Some sig\<rparr> else m)"

text \<open>The \<open>select\<close> of \<open>signalHandler\<close> runs once: after either case the goroutine ends.\<close>

definition handle_stop :: "manager \<Rightarrow> manager option" where
  "handle_stop m =
     (if mg_handler m \<and> mg_stop_closed m then Some (m\<lparr>mg_handler := False\<rparr>) else None)"

definition handle_signal :: "manager \<Rightarrow> manager option" where
  "handle_signal m =
     (case mg_channel m of
        None \<Rightarrow> None
      | Some sig \<Rightarrow>
          if \<not> mg_handler m then None
          else (let m' = m\<lparr>mg_handler := False, mg_channel := None, mg_handled := mg_handled m @ [sig]\<rparr> in
            (case sig of
               SIGHUP \<Rightarrow> Some m'
             | SIGINT \<Rightarrow> Some (m'\<lparr>mg_stop_closed := True\<rparr>)
             | SIGTERM \<Rightarrow> Some (m'\<lparr>mg_stop_closed := True\<rparr>))))"

text \<open>The signal handler of the onionbalance agent, the same.\<close>

definition balance_notify :: "signal \<Rightarrow> manager \<Rightarrow> manager" where
  "balance_notify = notify"

definition balance_signalHandler :: "manager \<Rightarrow> manager option \<times> manager option" where
  "balance_signalHandler m = (handle_stop m, handle_signal m)"

text \<open>
  The watcher waits for \<open>stopper\<close>, which only its own deferred call closes; then \<open>Run\<close> waits for
  \<open>stopCh\<close>.
\<close>

definition main_stmt :: "manager \<Rightarrow> manager option" where
  "main_stmt m =
     (case mg_main m of
        Watching \<Rightarrow>
          if mg_stopper_closed m then Some (m\<lparr>mg_main := Waiting, mg_stopper_closed := True\<rparr>) else None
      | Waiting \<Rightarrow> if mg_stop_closed m then Some (m\<lparr>mg_main := Returned\<rparr>) else None
      | Returned \<Rightarrow> None)"

inductive manager_step :: "manager \<Rightarrow> manager \<Rightarrow> bool" where
  arrives: "manager_step m (notify sig m)"
| stops: "handle_stop m = Some m' \<Longrightarrow> manager_step m m'"
| handles: "handle_signal m = Some m' \<Longrightarrow> manager_step m m'"
| main: "main_stmt m = Some m' \<Longrightarrow> manager_step m m'"
| controls: "controller_stmt 1 synced (mg_stop_closed m) (mg_controller m) = Some c \<Longrightarrow>
    manager_step m (m\<lparr>mg_controller := c\<rparr>)"

inductive manager_reachable :: "manager \<Rightarrow> bool" where
  runs: "manager_reachable running"
| steps: "manager_reachable m \<Longrightarrow> manager_step m m' \<Longrightarrow> manager_reachable m'"

inductive_cases manager_stepE: "manager_step m m'"

section \<open>What signals achieve\<close>

text \<open>
  The invariant: nobody closes \<open>stopper\<close>; the channel only holds registered signals; the handler
  has taken at most one, which has ended it; and that one alone decides whether \<open>stopCh\<close> is closed.
\<close>

definition manager_ok :: "manager \<Rightarrow> bool" where
  "manager_ok m \<longleftrightarrow>
     mg_main m = Watching \<and> \<not> mg_stopper_closed m \<and> mg_channel m \<noteq> Some SIGINT \<and>
     (mg_handler m \<longrightarrow> mg_handled m = []) \<and> length (mg_handled m) \<le> 1 \<and>
     SIGINT \<notin> set (mg_handled m) \<and> (mg_stop_closed m \<longleftrightarrow> mg_handled m = [SIGTERM]) \<and>
     (ct_queue_shut (mg_controller m) \<longleftrightarrow> ct_at (mg_controller m) = Finished) \<and>
     (ct_at (mg_controller m) = Finished \<longrightarrow> mg_stop_closed m)"

lemma manager_ok_step:
  assumes "manager_ok m" "manager_step m m'"
  shows "manager_ok m'"
  using assms(2)
proof cases
  case (arrives sig)
  with assms(1) show ?thesis by (cases sig) (auto simp: manager_ok_def notify_def registered_def)
next
  case stops
  with assms(1) show ?thesis by (auto simp: manager_ok_def handle_stop_def split: if_splits)
next
  case handles
  with assms(1) show ?thesis
    by (auto simp: manager_ok_def handle_signal_def Let_def split: option.splits signal.splits if_splits)
next
  case main
  with assms(1) show ?thesis by (simp add: manager_ok_def main_stmt_def)
next
  case controls
  with assms(1) show ?thesis
    by (auto simp: manager_ok_def controller_stmt_def split: run_location.splits if_splits)
qed

lemma manager_reachable_ok: "manager_reachable m \<Longrightarrow> manager_ok m"
  by (induction rule: manager_reachable.induct)
    (simp add: manager_ok_def running_def new_controller_def, rule manager_ok_step)

text \<open>
  C38: whatever signals arrive, \<open>Run\<close> never returns: the main goroutine stays at its receive from a
  channel that only its own return would close.  The handler takes a single signal, so a hang-up
  disables every later one; the stop channel is closed exactly when that signal is a \<open>SIGTERM\<close>,
  since \<open>SIGINT\<close> is handled but not registered; and the queue is shut down exactly when the
  controller has returned, which it does only then.
\<close>

theorem agent_never_returns:
  assumes "manager_reachable m"
  shows "mg_main m = Watching \<and> main_stmt m = None \<and> length (mg_handled m) \<le> 1 \<and>
    (mg_stop_closed m \<longleftrightarrow> mg_handled m = [SIGTERM]) \<and>
    (ct_queue_shut (mg_controller m) \<longleftrightarrow> ct_at (mg_controller m) = Finished) \<and>
    (ct_queue_shut (mg_controller m) \<longrightarrow> mg_handled m = [SIGTERM])"
  using manager_reachable_ok [OF assms] by (auto simp: manager_ok_def main_stmt_def)

text \<open>A manager that took a hang-up.\<close>

definition hung_up :: manager where
  "hung_up = running\<lparr>mg_handler := False, mg_handled := [SIGHUP]\<rparr>"

lemma hung_up_reachable: "manager_reachable hung_up"
proof -
  have "manager_reachable (notify SIGHUP running)"
    by (rule steps [OF runs arrives])
  then show ?thesis
    by (rule steps [OF _ handles])
      (simp add: handle_signal_def notify_def running_def registered_def hung_up_def)
qed

theorem agent_never_returns_witness:
  "manager_reachable (notify SIGTERM hung_up) \<and> \<not> mg_stop_closed (notify SIGTERM hung_up)"
proof -
  have reach: "manager_reachable (notify SIGTERM hung_up)"
    by (rule steps [OF hung_up_reachable arrives])
  from agent_never_returns [OF reach] have
    "mg_stop_closed (notify SIGTERM hung_up) \<longleftrightarrow> mg_handled (notify SIGTERM hung_up) = [SIGTERM]" by blast
  then have "\<not> mg_stop_closed (notify SIGTERM hung_up)"
    by (simp add: notify_def hung_up_def running_def registered_def)
  with reach show ?thesis by blast
qed

end
