(* ===== verification/Operator_Main.thy ===== *)
theory Operator_Main
  imports Config_Types
begin

text \<open>
  The entry point of the operator, \<open>main.go\<close>: the options of the controller manager, and the order
  in which the manager is made, given its three controllers and its two checks, and started.
  controller-runtime is the record \<open>platform\<close>; \<open>os.Exit(1)\<close> is the exit code 1, and a manager
  that stops without an error ends the process with 0.  The schemes are those of
  \<open>Scheme_Registry\<close>; setting up the logger is left out.
\<close>

section \<open>Options\<close>

record options =
  op_LeaderElection :: bool
  op_Namespace :: string
  op_rest :: opaque

definition default_options :: options where
  "default_options = \<lparr>op_LeaderElection = False, op_Namespace = [], op_rest = []\<rparr>"

definition zero_config :: ProjectConfig where
  "zero_config = \<lparr>TorDaemon = \<lparr>td_Image = []\<rparr>, TorDaemonManager = \<lparr>tdm_Image = []\<rparr>,
     TorOnionbalanceManager = \<lparr>tom_Image = []\<rparr>, pc_Namespace = []\<rparr>"

text \<open>
  \<open>p_load\<close> reads a configuration file into the options and the project configuration;
  the other operations act on the outside world.
\<close>

record 's platform =
  p_load :: "string \<Rightarrow> options \<Rightarrow> go_error + options \<times> ProjectConfig"
  p_new_manager :: "options \<Rightarrow> ('s, go_error option) state"
  p_setup_onion :: "ProjectConfig \<Rightarrow> ('s, go_error option) state"
  p_setup_balanced :: "ProjectConfig \<Rightarrow> ('s, go_error option) state"
  p_setup_tor :: "ProjectConfig \<Rightarrow> ('s, go_error option) state"
  p_healthz :: "('s, go_error option) state"
  p_readyz :: "('s, go_error option) state"
  p_start :: "('s, go_error option) state"

definition override_options :: "bool \<Rightarrow> ProjectConfig \<Rightarrow> options \<Rightarrow> options" where
  "override_options disableLeaderElection cfg o0 =
     (let o1 = (if disableLeaderElection \<and> op_LeaderElection o0
                then o0\<lparr>op_LeaderElection := False\<rparr> else o0)
      in if pc_Namespace cfg \<noteq> [] then o1\<lparr>op_Namespace := pc_Namespace cfg\<rparr> else o1)"

definition load_options ::
  "'s platform \<Rightarrow> string \<Rightarrow> bool \<Rightarrow> go_error + options \<times> ProjectConfig" where
  "load_options P configFile disableLeaderElection =
     (if configFile \<noteq> [] then
        (case p_load P configFile default_options of
           Inl err \<Rightarrow> Inl err
         | Inr (loaded, cfg) \<Rightarrow> Inr (override_options disableLeaderElection cfg loaded, cfg))
      else Inr (override_options disableLeaderElection zero_config default_options, zero_config))"

section \<open>main\<close>

text \<open>Steps of which the first that fails ends the process.\<close>

fun exit_steps :: "('s, go_error option) state list \<Rightarrow> ('s, nat) state" where
  "exit_steps [] = State_Monad.return 0"
| "exit_steps (m # ms) = do {
     err \<leftarrow> m;
     (case err of Some e \<Rightarrow> State_Monad.return 1 | None \<Rightarrow> exit_steps ms)
   }"

definition operator_steps ::
  "'s platform \<Rightarrow> options \<Rightarrow> ProjectConfig \<Rightarrow> ('s, go_error option) state list" where
  "operator_steps P opts cfg =
     [p_new_manager P opts, p_setup_onion P cfg, p_setup_balanced P cfg, p_setup_tor P cfg,
      p_healthz P, p_readyz P, p_start P]"

definition operator_main :: "'s platform \<Rightarrow> string \<Rightarrow> bool \<Rightarrow> ('s, nat) state" where
  "operator_main P configFile disableLeaderElection =
     (case load_options P configFile disableLeaderElection of
        Inl err \<Rightarrow> State_Monad.return 1
      | Inr (opts, cfg) \<Rightarrow> exit_steps (operator_steps P opts cfg))"

section \<open>The order of the steps\<close>

text \<open>\<open>through ms s s'\<close>: the steps \<open>ms\<close> lead from \<open>s\<close> to \<open>s'\<close>, each without an error.\<close>

fun through :: "('s, go_error option) state list \<Rightarrow> 's \<Rightarrow> 's \<Rightarrow> bool" where
  "through [] s s' \<longleftrightarrow> s' = s"
| "through (m # ms) s s' \<longleftrightarrow> (\<exists>t. run_state m s = (None, t) \<and> through ms t s')"

lemma exit_steps_zero: "run_state (exit_steps ms) s = (0, s') \<longleftrightarrow> through ms s s'"
  by (induction ms arbitrary: s) (auto split: option.splits prod.splits)

lemma through_append: "through (ms @ ns) s s' \<longleftrightarrow> (\<exists>t. through ms s t \<and> through ns t s')"
  by (induction ms arbitrary: s) auto

lemma exit_steps_append:
  "fst (run_state (exit_steps ms) s) \<noteq> 0 \<Longrightarrow>
   run_state (exit_steps (ms @ ns)) s = run_state (exit_steps ms) s"
  by (induction ms arbitrary: s) (auto split: option.splits prod.splits)

lemma exit_steps_code: "fst (run_state (exit_steps ms) s) \<le> 1"
  by (induction ms arbitrary: s) (auto split: option.splits prod.splits)

text \<open>
  The options: leader election is on exactly when the file asks for it and the flag does not forbid
  it, and a namespace in the project configuration overrides that of the file.
\<close>

lemma load_options_fields:
  assumes "load_options P file disable = Inr (opts, cfg)" "file \<noteq> []"
  obtains loaded where "p_load P file default_options = Inr (loaded, cfg)"
    "op_LeaderElection opts \<longleftrightarrow> op_LeaderElection loaded \<and> \<not> disable"
    "op_Namespace opts = (if pc_Namespace cfg = [] then op_Namespace loaded else pc_Namespace cfg)"
    "op_rest opts = op_rest loaded"
  using assms
  by (cases "p_load P file default_options")
    (auto simp: load_options_def override_options_def Let_def split: if_splits)

text \<open>
  The process ends with 0 exactly when the configuration could be loaded and every step of the
  start-up, in the code's order and with the one project configuration for all three controllers,
  returned without an error; in every other case it ends with 1, and if a step before the last one
  failed the manager was not started (the outcome does not depend on what starting does).
\<close>

theorem operator_main_exact:
  assumes "load_options P file disable = Inr (opts, cfg)"
  shows "(run_state (operator_main P file disable) s = (0, s') \<longleftrightarrow>
      (\<exists>t. through [p_new_manager P opts, p_setup_onion P cfg, p_setup_balanced P cfg,
          p_setup_tor P cfg, p_healthz P, p_readyz P] s t \<and> run_state (p_start P) t = (None, s'))) \<and>
    fst (run_state (operator_main P file disable) s) \<le> 1 \<and>
    ((\<nexists>t. through [p_new_manager P opts, p_setup_onion P cfg, p_setup_balanced P cfg,
          p_setup_tor P cfg, p_healthz P, p_readyz P] s t) \<longrightarrow>
      run_state (operator_main (P\<lparr>p_start := X\<rparr>) file disable) s =
      run_state (operator_main P file disable) s)"
proof -
  let ?before = "[p_new_manager P opts, p_setup_onion P cfg, p_setup_balanced P cfg,
      p_setup_tor P cfg, p_healthz P, p_readyz P]"
  have parts: "operator_steps P opts cfg = ?before @ [p_start P]"
    "operator_steps (P\<lparr>p_start := X\<rparr>) opts cfg = ?before @ [X]"
    by (simp_all add: operator_steps_def)
  have "load_options (P\<lparr>p_start := X\<rparr>) file disable = Inr (opts, cfg)"
    using assms by (auto simp: load_options_def)
  then have main: "operator_main P file disable = exit_steps (?before @ [p_start P])"
    "operator_main (P\<lparr>p_start := X\<rparr>) file disable = exit_steps (?before @ [X])"
    using assms by (simp_all add: operator_main_def parts del: append.simps exit_steps.simps)
  have "run_state (exit_steps (?before @ [X])) s = run_state (exit_steps (?before @ [p_start P])) s"
    if "\<nexists>t. through ?before s t"
  proof -
    have "fst (run_state (exit_steps ?before) s) \<noteq> 0"
      using that exit_steps_zero [of ?before s] by (metis prod.collapse)
    from exit_steps_append [OF this] show ?thesis by metis
  qed
  then show ?thesis
    unfolding main exit_steps_zero through_append
    using exit_steps_code by (auto simp del: append.simps exit_steps.simps simp: main)
qed

text \<open>A platform whose world is the list of the steps performed, with one that fails.\<close>

definition log_step :: "string \<Rightarrow> string \<Rightarrow> (string list, go_error option) state" where
  "log_step broken name =
     State (\<lambda>l. (if name = broken then Some (GoErr name) else None, name # l))"

definition log_platform :: "string \<Rightarrow> string list platform" where
  "log_platform broken =
     \<lparr>p_load = (\<lambda>f opts. Inr (opts\<lparr>op_LeaderElection := True\<rparr>, zero_config)),
      p_new_manager = (\<lambda>opts. log_step broken ''manager''),
      p_setup_onion = (\<lambda>cfg. log_step broken ''onion''),
      p_setup_balanced = (\<lambda>cfg. log_step broken ''balanced''),
      p_setup_tor = (\<lambda>cfg. log_step broken ''tor''),
      p_healthz = log_step broken ''healthz'', p_readyz = log_step broken ''readyz'',
      p_start = log_step broken ''start''\<rparr>"

theorem operator_main_exact_witness:
  "run_state (operator_main (log_platform []) ''config.yaml'' True) [] =
     (0, [''start'', ''readyz'', ''healthz'', ''tor'', ''balanced'', ''onion'', ''manager''])"
proof -
  have "load_options (log_platform []) ''config.yaml'' True = Inr (default_options, zero_config)"
    by (simp add: load_options_def log_platform_def override_options_def default_options_def
        zero_config_def)
  from operator_main_exact [OF this] show ?thesis
    by (simp add: log_platform_def log_step_def)
qed

end
