(* ===== verification/Legacy_Types.thy ===== *)
theory Legacy_Types
  imports Onion_Types
begin

text \<open>
  The first version of the \<open>OnionService\<close> resource, \<open>apis/tor/v1alpha1/onionservice_types.go\<close> and
  \<open>util.go\<close>, and how the names it gives its objects relate to those of \<open>v1alpha2\<close>.
\<close>

section \<open>Types\<close>

record LegacyServicePort =
  lp_name :: string
  PublicPort_v1 :: int32
  TargetPort_v1 :: int32

record LegacyOnionServiceSpec =
  ls_Ports :: "LegacyServicePort list"
  ls_Selector :: labels
  ls_PrivateKeySecret :: SecretReference
  ls_Version :: int32
  ls_ExtraConfig :: string

record LegacyOnionServiceStatus =
  lst_Hostname :: string
  lst_TargetClusterIP :: string

record LegacyOnionService =
  lo_meta :: object_meta
  lo_spec :: LegacyOnionServiceSpec
  lo_status :: LegacyOnionServiceStatus

section \<open>Methods\<close>

definition legacy_GetVersion :: "LegacyOnionServiceSpec \<Rightarrow> int" where
  "legacy_GetVersion s = (let v = 3 in if ls_Version s = 2 then 2 else v)"

definition legacy_DeploymentName :: "LegacyOnionService \<Rightarrow> string" where
  "legacy_DeploymentName s = om_name (lo_meta s) @ ''-tor-daemon''"

definition legacy_ServiceName :: "LegacyOnionService \<Rightarrow> string" where
  "legacy_ServiceName s = om_name (lo_meta s) @ ''-tor-svc''"

definition legacy_RoleName :: "LegacyOnionService \<Rightarrow> string" where
  "legacy_RoleName s = om_name (lo_meta s) @ ''-tor-role''"

definition legacy_ServiceAccountName :: "LegacyOnionService \<Rightarrow> string" where
  "legacy_ServiceAccountName s = om_name (lo_meta s) @ ''-tor-serviceaccount''"

definition legacy_names :: "LegacyOnionService \<Rightarrow> string list" where
  "legacy_names s =
     [legacy_DeploymentName s, legacy_ServiceName s, legacy_RoleName s, legacy_ServiceAccountName s]"

interpretation legacy_nm: derived_children "\<lambda>s. om_name (lo_meta s)" legacy_names
  "[''-tor-daemon'', ''-tor-svc'', ''-tor-role'', ''-tor-serviceaccount'']"
  by unfold_locales
    (simp_all add: legacy_names_def legacy_DeploymentName_def legacy_ServiceName_def
      legacy_RoleName_def legacy_ServiceAccountName_def suffix_free_def suffix_eval)

section \<open>Moving to v1alpha2\<close>

text \<open>
  the two versions of a service agree on its version number and name its deployment, service and
  role alike, but never its service account, so after the move the controller creates a second one.
\<close>

theorem legacy_names_agree:
  assumes "om_name (lo_meta old) = os_name new"
    and "ls_Version (lo_spec old) = os_Version (os_spec new)"
  shows "legacy_GetVersion (lo_spec old) = os_GetVersion (os_spec new) \<and>
    legacy_DeploymentName old = os_DeploymentName new \<and>
    legacy_ServiceName old = os_ServiceName new \<and>
    legacy_RoleName old = os_RoleName new \<and>
    legacy_ServiceAccountName old \<noteq> os_ServiceAccountName new \<and>
    distinct (legacy_names old)"
  using assms legacy_nm.distinct_children [of old]
  by (simp add: legacy_GetVersion_def os_GetVersion_def legacy_DeploymentName_def legacy_ServiceName_def
      legacy_RoleName_def legacy_ServiceAccountName_def names)

definition old_onion :: LegacyOnionService where
  "old_onion =
     \<lparr>lo_meta = zero_meta\<lparr>om_name := ''web''\<rparr>,
      lo_spec = \<lparr>ls_Ports = [], ls_Selector = fmempty, ls_PrivateKeySecret = \<lparr>sr_name = [], sr_key = []\<rparr>,
        ls_Version = 0, ls_ExtraConfig = []\<rparr>,
      lo_status = \<lparr>lst_Hostname = [], lst_TargetClusterIP = []\<rparr>\<rparr>"

definition new_onion :: OnionService where
  "new_onion =
     \<lparr>os_kind = ''OnionService'', os_meta = zero_meta\<lparr>om_name := ''web''\<rparr>,
      os_spec = (tr_spec (ob_Template (ob_spec (zero_ob [] []))))\<lparr>os_Version := 0\<rparr>,
      os_status = \<lparr>oss_Hostname = [], oss_TargetClusterIP = []\<rparr>\<rparr>"

theorem legacy_names_agree_witness:
  "legacy_DeploymentName old_onion = os_DeploymentName new_onion \<and>
   legacy_ServiceAccountName old_onion \<noteq> os_ServiceAccountName new_onion"
proof -
  have 1: "om_name (lo_meta old_onion) = os_name new_onion"
    by (simp add: old_onion_def new_onion_def)
  have 2: "ls_Version (lo_spec old_onion) = os_Version (os_spec new_onion)"
    by (simp add: old_onion_def new_onion_def)
  from legacy_names_agree [OF 1 2] show ?thesis by blast
qed

end
