(* ===== verification/Go_Memory.thy ===== *)
theory Go_Memory
  imports Go_Prelude "HOL-Library.AList"
begin

text \<open>
  The memory of a Go program, as far as a deep copy can tell it from a value: slices, maps and
  pointers refer to cells that several values may share.  A cell is found by its index in the heap,
  and an allocation appends a cell.  The other theories treat objects as values; this one and
  \<open>Deep_Copy\<close> justify it for the places where the controllers copy an object before they change it.

  \<open>denotes h A v t\<close> reads the value \<open>v\<close> in the heap \<open>h\<close> as the tree \<open>t\<close>, visiting no cells but those
  in \<open>A\<close>; \<open>layout\<close> is a Go type, and \<open>deep_copier\<close> the contract of a deep copy function, which the
  lemmas carry from the fields of a struct and the elements of a slice to the whole.
\<close>

section \<open>Values and cells\<close>

datatype basic = Int_value int | Bool_value bool | String_value string

text \<open>
  A slice is \<open>nil\<close> or has an array, an offset and a length.  \<open>Zero\<close> is the zero value that \<open>new\<close> and
  \<open>make\<close> leave in fresh memory, whatever its type; generated code overwrites it before any read.
\<close>

datatype go_value =
    Basic basic
  | Struct "(string, go_value) fmap"
  | Slice "(nat \<times> nat \<times> nat) option"
  | Map_ref "nat option"
  | Pointer "nat option"
  | Zero

text \<open>
  The entries of a map stand in the order in which \<open>range\<close> happens to visit them.
\<close>

datatype cell = Array "go_value list" | Table "(string \<times> go_value) list"

type_synonym heap = "cell list"

definition heap_array :: "heap \<Rightarrow> nat \<Rightarrow> go_value list" where
  "heap_array h a = (if a < length h then (case h ! a of Array xs \<Rightarrow> xs | Table es \<Rightarrow> []) else [])"

definition heap_table :: "heap \<Rightarrow> nat \<Rightarrow> (string \<times> go_value) list" where
  "heap_table h a = (if a < length h then (case h ! a of Array xs \<Rightarrow> [] | Table es \<Rightarrow> es) else [])"

definition allocate :: "cell \<Rightarrow> (heap, nat) state" where
  "allocate c = State (\<lambda>h. (length h, h @ [c]))"

definition load_element :: "nat \<Rightarrow> nat \<Rightarrow> (heap, go_value) state" where
  "load_element a i = State (\<lambda>h.
     (if i < length (heap_array h a) then heap_array h a ! i else Zero, h))"

definition store_element :: "nat \<Rightarrow> nat \<Rightarrow> go_value \<Rightarrow> (heap, unit) state" where
  "store_element a i v = State (\<lambda>h. ((), h[a := Array ((heap_array h a)[i := v])]))"

definition store_entry :: "nat \<Rightarrow> string \<Rightarrow> go_value \<Rightarrow> (heap, unit) state" where
  "store_entry a k v = State (\<lambda>h. ((), h[a := Table (AList.update k v (heap_table h a))]))"

definition range_map :: "nat \<Rightarrow> (heap, (string \<times> go_value) list) state" where
  "range_map a = State (\<lambda>h. (heap_table h a, h))"

section \<open>Trees: what memory says\<close>

datatype tree =
    Leaf basic
  | Fields "(string, tree) fmap"
  | Absent
  | Items "tree list"
  | Entries "(string, tree) fmap"
  | Target tree

inductive denotes :: "heap \<Rightarrow> nat set \<Rightarrow> go_value \<Rightarrow> tree \<Rightarrow> bool" where
  basic: "denotes h A (Basic b) (Leaf b)"
| struct: "fmdom fs = fmdom ts \<Longrightarrow>
    (\<And>n v t. fmlookup fs n = Some v \<Longrightarrow> fmlookup ts n = Some t \<Longrightarrow> denotes h A v t) \<Longrightarrow>
    denotes h A (Struct fs) (Fields ts)"
| nil_slice: "denotes h A (Slice None) Absent"
| slice: "a \<in> A \<Longrightarrow> a < length h \<Longrightarrow> h ! a = Array xs \<Longrightarrow> off + len \<le> length xs \<Longrightarrow>
    list_all2 (denotes h A) (take len (drop off xs)) ts \<Longrightarrow>
    denotes h A (Slice (Some (a, off, len))) (Items ts)"
| nil_map: "denotes h A (Map_ref None) Absent"
| map_ref: "a \<in> A \<Longrightarrow> a < length h \<Longrightarrow> h ! a = Table es \<Longrightarrow> distinct (map fst es) \<Longrightarrow>
    fst ` set es = fset (fmdom ts) \<Longrightarrow>
    (\<And>k v t. (k, v) \<in> set es \<Longrightarrow> fmlookup ts k = Some t \<Longrightarrow> denotes h A v t) \<Longrightarrow>
    denotes h A (Map_ref (Some a)) (Entries ts)"
| nil_pointer: "denotes h A (Pointer None) Absent"
| pointer: "a \<in> A \<Longrightarrow> a < length h \<Longrightarrow> h ! a = Array [v] \<Longrightarrow> denotes h A v t \<Longrightarrow>
    denotes h A (Pointer (Some a)) (Target t)"

inductive_simps denotes_basic [simp]: "denotes h A (Basic b) t" "denotes h A v (Leaf b)"
inductive_simps denotes_struct: "denotes h A (Struct fs) t"
inductive_simps denotes_fields: "denotes h A v (Fields ts)"
inductive_simps denotes_absent: "denotes h A v Absent"
inductive_simps denotes_items: "denotes h A v (Items ts)"
inductive_simps denotes_entries: "denotes h A v (Entries ts)"
inductive_simps denotes_target: "denotes h A v (Target t)"
inductive_simps denotes_pointer: "denotes h A (Pointer p) t"
inductive_simps denotes_slice: "denotes h A (Slice p) t"

text \<open>Reading depends on the visited cells only.\<close>

lemma denotes_frame:
  assumes "denotes h A v t"
    and "\<And>a. a \<in> A \<Longrightarrow> a < length h \<Longrightarrow> a \<in> B \<and> a < length h' \<and> h' ! a = h ! a"
  shows "denotes h' B v t"
  using assms
proof induction
  case (slice a A h xs off len ts)
  then have "list_all2 (denotes h' B) (take len (drop off xs)) ts"
    by (auto elim!: list_all2_mono)
  with slice show ?case by (auto intro!: denotes.slice)
next
  case (map_ref a A h es ts)
  then show ?case by (intro denotes.map_ref [of _ _ _ es]) auto
next
  case (pointer a A h v t)
  then show ?case by (intro denotes.pointer [of _ _ _ v]) auto
qed (auto intro: denotes.intros)

section \<open>Growing heaps\<close>

definition grows :: "heap \<Rightarrow> heap \<Rightarrow> bool" where
  "grows h h' \<longleftrightarrow> length h \<le> length h' \<and> (\<forall>a < length h. h' ! a = h ! a)"

definition fresh_in :: "heap \<Rightarrow> heap \<Rightarrow> nat set" where
  "fresh_in h h' = {length h ..< length h'}"

lemma grows_refl [simp]: "grows h h"
  by (simp add: grows_def)

lemma grows_trans: "grows h h1 \<Longrightarrow> grows h1 h2 \<Longrightarrow> grows h h2"
  by (simp add: grows_def)

lemma grows_append [simp]: "grows h (h @ cs)"
  by (simp add: grows_def nth_append)

lemma grows_update: "grows h h' \<Longrightarrow> length h \<le> a \<Longrightarrow> grows h (h'[a := c])"
  by (simp add: grows_def)

lemma denotes_grows: "denotes h A v t \<Longrightarrow> grows h h' \<Longrightarrow> denotes h' A v t"
  by (erule denotes_frame) (simp add: grows_def)

lemma denotes_widen: "denotes h A v t \<Longrightarrow> A \<subseteq> B \<Longrightarrow> denotes h B v t"
  by (erule denotes_frame) auto

lemma denotes_fresh_grows_from:
  assumes "grows h0 h1" "denotes h1 (fresh_in h0 h1) v t" "grows h1 h2"
  shows "denotes h2 (fresh_in h0 h2) v t"
  using assms(2) by (rule denotes_frame) (use assms(1,3) in \<open>auto simp: fresh_in_def grows_def\<close>)

section \<open>Types\<close>

datatype basic_kind = Int_kind | Bool_kind | String_kind

fun kind_of :: "basic \<Rightarrow> basic_kind" where
  "kind_of (Int_value i) = Int_kind"
| "kind_of (Bool_value b) = Bool_kind"
| "kind_of (String_value s) = String_kind"

text \<open>\<open>L_library n\<close> is the library type \<open>n\<close>, whose fields are not those of the program.\<close>

datatype layout =
    L_basic basic_kind
  | L_struct "(string \<times> layout) list"
  | L_slice layout
  | L_map layout
  | L_pointer layout
  | L_library string

text \<open>
  Whether a tree is a value of a type.  \<open>E\<close> says which trees are values of the library's types.
\<close>

fun has_layout :: "(string \<Rightarrow> tree \<Rightarrow> bool) \<Rightarrow> layout \<Rightarrow> tree \<Rightarrow> bool" where
  "has_layout E (L_basic k) t = (case t of Leaf b \<Rightarrow> kind_of b = k | _ \<Rightarrow> False)"
| "has_layout E (L_struct Ls) t =
     (case t of
        Fields ts \<Rightarrow> fset (fmdom ts) = fst ` set Ls \<and>
          (\<forall>p \<in> set Ls. case fmlookup ts (fst p) of None \<Rightarrow> False | Some s \<Rightarrow> has_layout E (snd p) s)
      | _ \<Rightarrow> False)"
| "has_layout E (L_slice L) t =
     (case t of Absent \<Rightarrow> True | Items ts \<Rightarrow> (\<forall>s \<in> set ts. has_layout E L s) | _ \<Rightarrow> False)"
| "has_layout E (L_map L) t =
     (case t of Absent \<Rightarrow> True | Entries ts \<Rightarrow> (\<forall>s \<in> fmran' ts. has_layout E L s) | _ \<Rightarrow> False)"
| "has_layout E (L_pointer L) t =
     (case t of Absent \<Rightarrow> True | Target s \<Rightarrow> has_layout E L s | _ \<Rightarrow> False)"
| "has_layout E (L_library n) t = E n t"

text \<open>A flat type has no references: its values are copied by an assignment.\<close>

fun flat_layout :: "layout \<Rightarrow> bool" where
  "flat_layout (L_basic k) = True"
| "flat_layout (L_struct Ls) = (\<forall>p \<in> set Ls. flat_layout (snd p))"
| "flat_layout _ = False"

lemma layout_field:
  assumes "fmlookup ts n = Some s" "fset (fmdom ts) = fst ` set Ls"
  obtains L where "(n, L) \<in> set Ls"
  using assms by (metis fmdomI imageE prod.collapse)

lemma denotes_flat:
  "flat_layout L \<Longrightarrow> has_layout E L t \<Longrightarrow> denotes h A v t \<Longrightarrow> denotes h' B v t"
proof (induction L arbitrary: v t)
  case (L_struct Ls)
  from L_struct.prems(2) obtain ts where t: "t = Fields ts" "fset (fmdom ts) = fst ` set Ls"
    and fields: "\<And>p. p \<in> set Ls \<Longrightarrow> (case fmlookup ts (fst p) of None \<Rightarrow> False | Some s \<Rightarrow> has_layout E (snd p) s)"
    by (auto split: tree.splits)
  with L_struct.prems(3) obtain fs where v: "v = Struct fs" "fmdom fs = fmdom ts"
    and old: "\<And>n w s. fmlookup fs n = Some w \<Longrightarrow> fmlookup ts n = Some s \<Longrightarrow> denotes h A w s"
    by (auto simp: denotes_fields)
  have "denotes h' B w s" if look: "fmlookup fs n = Some w" "fmlookup ts n = Some s" for n w s
  proof -
    from look(2) t(2) obtain L where p: "(n, L) \<in> set Ls"
      by (rule layout_field)
    with fields look(2) have "has_layout E L s" by force
    moreover from L_struct.prems(1) p have "flat_layout L" by auto
    ultimately show ?thesis
      using L_struct.IH [OF p, of L] old [OF look] by (simp add: snds.simps)
  qed
  with t v show ?case by (auto intro: denotes.struct)
qed (auto split: tree.splits)


section \<open>Deep copies and their contract\<close>

text \<open>
  A copy function takes the value of \<open>*in\<close> and gives the value it leaves in \<open>*out\<close>; the fields of a
  struct lie in the struct itself, so \<open>in.X.DeepCopyInto(&out.X)\<close> copies a part of the value.  The
  contract: the heap only grows, and the copy reads as the same tree from fresh cells alone.
\<close>

type_synonym copier = "go_value \<Rightarrow> (heap, go_value) state"

definition deep_copier :: "(tree \<Rightarrow> bool) \<Rightarrow> copier \<Rightarrow> bool" where
  "deep_copier P f \<longleftrightarrow>
     (\<forall>h A v t. denotes h A v t \<longrightarrow> P t \<longrightarrow>
        (case run_state (f v) h of (w, h') \<Rightarrow> grows h h' \<and> denotes h' (fresh_in h h') w t))"

lemma deep_copierI:
  assumes "\<And>h A v t. denotes h A v t \<Longrightarrow> P t \<Longrightarrow>
    \<exists>w h'. run_state (f v) h = (w, h') \<and> grows h h' \<and> denotes h' (fresh_in h h') w t"
  shows "deep_copier P f"
  using assms by (fastforce simp: deep_copier_def)

lemma deep_copierE:
  assumes "deep_copier P f" "denotes h A v t" "P t"
  obtains w h' where "run_state (f v) h = (w, h')" "grows h h'" "denotes h' (fresh_in h h') w t"
  using assms by (cases "run_state (f v) h") (fastforce simp: deep_copier_def)

lemma deep_copier_weaken: "deep_copier P f \<Longrightarrow> (\<And>t. Q t \<Longrightarrow> P t) \<Longrightarrow> deep_copier Q f"
  by (simp add: deep_copier_def)

named_theorems copying \<open>copy functions keep the contract\<close>

section \<open>Assignments\<close>

definition assign :: copier where
  "assign v = State_Monad.return v"

lemma assign_copies [copying]: "flat_layout L \<Longrightarrow> deep_copier (has_layout E L) assign"
  by (rule deep_copierI) (auto simp: assign_def dest: denotes_flat)

section \<open>Structs\<close>

definition field_of :: "string \<Rightarrow> go_value \<Rightarrow> go_value" where
  "field_of n v =
     (case v of Struct fs \<Rightarrow> (case fmlookup fs n of None \<Rightarrow> Zero | Some w \<Rightarrow> w) | _ \<Rightarrow> Zero)"

definition set_field :: "string \<Rightarrow> go_value \<Rightarrow> go_value \<Rightarrow> go_value" where
  "set_field n w v = (case v of Struct fs \<Rightarrow> Struct (fmupd n w fs) | _ \<Rightarrow> v)"

text \<open>
  The statements of a \<open>DeepCopyInto\<close>: \<open>*out = *in\<close>, and then, in their order, one per listed field.
\<close>

primrec copy_fields :: "(string \<times> copier) list \<Rightarrow> go_value \<Rightarrow> copier" where
  "copy_fields [] inp out = State_Monad.return out"
| "copy_fields (s # ss) inp out = do {
     w \<leftarrow> snd s (field_of (fst s) inp);
     copy_fields ss inp (set_field (fst s) w out)
   }"

definition struct_copy :: "(string \<times> copier) list \<Rightarrow> copier" where
  "struct_copy ss inp = copy_fields ss inp inp"

text \<open>
  Every field is either copied deeply by one of the statements or flat.
\<close>

definition field_covered ::
  "(string \<Rightarrow> tree \<Rightarrow> bool) \<Rightarrow> (string \<times> copier) list \<Rightarrow> string \<times> layout \<Rightarrow> bool" where
  "field_covered E ss p \<longleftrightarrow>
     (case map_of ss (fst p) of
        None \<Rightarrow> flat_layout (snd p)
      | Some f \<Rightarrow> deep_copier (has_layout E (snd p)) f)"

lemma copy_fields_copies:
  assumes "distinct (map fst ss)" and "grows h0 h"
    and "\<And>n w t. fmlookup os n = Some w \<Longrightarrow> fmlookup ts n = Some t \<Longrightarrow> n \<notin> fst ` set ss \<Longrightarrow>
      denotes h (fresh_in h0 h) w t"
    and "\<And>n f. (n, f) \<in> set ss \<Longrightarrow> \<exists>v t L. fmlookup is n = Some v \<and> fmlookup ts n = Some t \<and>
      denotes h0 A v t \<and> has_layout E L t \<and> deep_copier (has_layout E L) f"
    and "fmdom os = fmdom ts"
  shows "\<exists>rs h'. run_state (copy_fields ss (Struct is) (Struct os)) h = (Struct rs, h') \<and> grows h0 h' \<and>
    denotes h' (fresh_in h0 h') (Struct rs) (Fields ts)"
  using assms
proof (induction ss arbitrary: h os)
  case Nil
  then show ?case by (auto intro!: denotes.struct)
next
  case (Cons s ss)
  obtain n f where s: "s = (n, f)" by (cases s)
  then have "(n, f) \<in> set (s # ss)" by simp
  from Cons.prems(4) [OF this] obtain v t L where look: "fmlookup is n = Some v" "fmlookup ts n = Some t"
    and v: "denotes h0 A v t" "has_layout E L t" "deep_copier (has_layout E L) f" by blast
  from deep_copierE [OF v(3) denotes_grows [OF v(1) Cons.prems(2)] v(2)]
  obtain w h1 where run: "run_state (f v) h = (w, h1)" "grows h h1" "denotes h1 (fresh_in h h1) w t" .
  from Cons.prems(2) run(2) have grown: "grows h0 h1" by (rule grows_trans)
  have w: "denotes h1 (fresh_in h0 h1) w t"
    using run(3) by (rule denotes_widen) (use Cons.prems(2) in \<open>auto simp: fresh_in_def grows_def\<close>)
  have "\<exists>rs h'. run_state (copy_fields ss (Struct is) (Struct (fmupd n w os))) h1 = (Struct rs, h') \<and>
    grows h0 h' \<and> denotes h' (fresh_in h0 h') (Struct rs) (Fields ts)"
  proof (rule Cons.IH)
    show "denotes h1 (fresh_in h0 h1) u t'"
      if "fmlookup (fmupd n w os) m = Some u" "fmlookup ts m = Some t'" "m \<notin> fst ` set ss" for m u t'
    proof (cases "m = n")
      case True
      with that look w show ?thesis by simp
    next
      case False
      with that s Cons.prems(3) have "denotes h (fresh_in h0 h) u t'" by auto
      from this run(2) show ?thesis by (rule denotes_fresh_grows_from [OF Cons.prems(2)])
    qed
    show "fmdom (fmupd n w os) = fmdom ts"
      using Cons.prems(5) look(2) by (auto intro: fmdomI)
  qed (use Cons.prems(1,4) grown s in auto)
  with run(1) s look(1) show ?case by (simp add: field_of_def set_field_def)
qed

lemma struct_copies [copying]:
  assumes "distinct (map fst ss)" and "fst ` set ss \<subseteq> fst ` set Ls" and "distinct (map fst Ls)"
    and "\<forall>p \<in> set Ls. field_covered E ss p"
  shows "deep_copier (has_layout E (L_struct Ls)) (struct_copy ss)"
proof (rule deep_copierI)
  fix h A v t
  assume v: "denotes h A v t" and "has_layout E (L_struct Ls) t"
  then obtain ts where t: "t = Fields ts" "fset (fmdom ts) = fst ` set Ls"
    and typed: "\<And>n L. (n, L) \<in> set Ls \<Longrightarrow> \<exists>s. fmlookup ts n = Some s \<and> has_layout E L s"
    by (fastforce split: tree.splits option.splits)
  with v obtain fs where fs: "v = Struct fs" "fmdom fs = fmdom ts"
    and old: "\<And>n w s. fmlookup fs n = Some w \<Longrightarrow> fmlookup ts n = Some s \<Longrightarrow> denotes h A w s"
    by (auto simp: denotes_fields)
  have "\<exists>rs h'. run_state (copy_fields ss (Struct fs) (Struct fs)) h = (Struct rs, h') \<and> grows h h' \<and>
    denotes h' (fresh_in h h') (Struct rs) (Fields ts)"
  proof (rule copy_fields_copies [OF assms(1) grows_refl])
    show "denotes h (fresh_in h h) w s"
      if look: "fmlookup fs n = Some w" "fmlookup ts n = Some s" and n: "n \<notin> fst ` set ss" for n w s
    proof -
      from look(2) t(2) obtain L where p: "(n, L) \<in> set Ls" by (rule layout_field)
      from n have "map_of ss n = None" by (simp add: map_of_eq_None_iff)
      with assms(4) p have "flat_layout L" by (force simp: field_covered_def)
      moreover from typed [OF p] look(2) have "has_layout E L s" by simp
      ultimately show ?thesis using old [OF look] by (rule denotes_flat)
    qed
    show "\<exists>v t L. fmlookup fs n = Some v \<and> fmlookup ts n = Some t \<and> denotes h A v t \<and>
      has_layout E L t \<and> deep_copier (has_layout E L) f" if nf: "(n, f) \<in> set ss" for n f
    proof -
      from nf assms(2) obtain L where p: "(n, L) \<in> set Ls" by (force simp: image_iff)
      from nf assms(1) have "map_of ss n = Some f" by simp
      with assms(4) p have "deep_copier (has_layout E L) f" by (force simp: field_covered_def)
      moreover from typed [OF p] obtain s where s: "fmlookup ts n = Some s" "has_layout E L s" by blast
      moreover from s(1) fs(2) obtain w where "fmlookup fs n = Some w" by (metis fmdomE fmdomI)
      ultimately show ?thesis using old by blast
    qed
    show "fmdom fs = fmdom ts" by (rule fs(2))
  qed
  with fs(1) t(1) show "\<exists>w h'. run_state (struct_copy ss v) h = (w, h') \<and> grows h h' \<and>
    denotes h' (fresh_in h h') w t" by (auto simp: struct_copy_def)
qed

section \<open>Slices\<close>

text \<open>
  \<open>*out = make([]T, len(*in))\<close>, and then the loop over the indices.  The builtin \<open>copy\<close>, which moves
  the elements, is the loop with an assignment.
\<close>

primrec copy_elements :: "copier \<Rightarrow> nat \<Rightarrow> nat \<Rightarrow> nat \<Rightarrow> nat \<Rightarrow> nat \<Rightarrow> (heap, unit) state" where
  "copy_elements f a off b i 0 = State_Monad.return ()"
| "copy_elements f a off b i (Suc k) = do {
     v \<leftarrow> load_element a (off + i);
     w \<leftarrow> f v;
     store_element b i w;
     copy_elements f a off b (Suc i) k
   }"

definition slice_copy :: "copier \<Rightarrow> copier" where
  "slice_copy f v =
     (case v of
        Slice (Some (a, off, len)) \<Rightarrow> do {
          b \<leftarrow> allocate (Array (replicate len Zero));
          copy_elements f a off b 0 len;
          State_Monad.return (Slice (Some (b, 0, len)))
        }
      | _ \<Rightarrow> State_Monad.return v)"

definition fresh_above :: "heap \<Rightarrow> heap \<Rightarrow> nat set" where
  "fresh_above h h' = {Suc (length h) ..< length h'}"

lemma heap_array_Array: "a < length h \<Longrightarrow> h ! a = Array xs \<Longrightarrow> heap_array h a = xs"
  by (simp add: heap_array_def)

lemma copy_elements_copies:
  assumes f: "deep_copier P f"
    and src: "a < length h0" "h0 ! a = Array xs" "off + (length ws + length ts) \<le> length xs"
    and todo: "list_all2 (denotes h0 A) (take (length ts) (drop (off + length ws) xs)) ts"
      "\<forall>t \<in> set ts. P t"
    and h: "grows h0 h" "length h0 < length h"
      "h ! length h0 = Array (ws @ replicate (length ts) Zero)"
    and copied: "list_all2 (denotes h (fresh_above h0 h)) ws ss"
  shows "\<exists>h' ws'. run_state (copy_elements f a off (length h0) (length ws) (length ts)) h = ((), h') \<and>
    grows h0 h' \<and> length h0 < length h' \<and> h' ! length h0 = Array ws' \<and>
    list_all2 (denotes h' (fresh_above h0 h')) ws' (ss @ ts)"
  using src todo h copied
proof (induction ts arbitrary: ws ss h)
  case Nil
  then show ?case by auto
next
  case (Cons t ts)
  let ?b = "length h0"
  let ?v = "xs ! (off + length ws)"
  have "take (Suc (length ts)) (drop (off + length ws) xs) =
      ?v # take (length ts) (drop (off + Suc (length ws)) xs)"
    using Cons.prems(3) by (simp add: Cons_nth_drop_Suc [symmetric])
  with Cons.prems(4) have v: "denotes h0 A ?v t"
    and rest: "list_all2 (denotes h0 A) (take (length ts) (drop (off + Suc (length ws)) xs)) ts"
    by simp_all
  have load: "run_state (load_element a (off + length ws)) h = (?v, h)"
    using Cons.prems(1-3,6) by (simp add: load_element_def heap_array_def grows_def)
  from deep_copierE [OF f denotes_grows [OF v Cons.prems(6)]] Cons.prems(5)
  obtain w h1 where run: "run_state (f ?v) h = (w, h1)" "grows h h1" "denotes h1 (fresh_in h h1) w t"
    by auto
  define h2 where "h2 = h1[?b := Array ((ws @ [w]) @ replicate (length ts) Zero)]"
  from Cons.prems(7) run(2) have b: "?b < length h1" by (simp add: grows_def)
  have "h1 ! ?b = Array (ws @ replicate (length (t # ts)) Zero)"
    using Cons.prems(7,8) run(2) by (simp add: grows_def)
  with b have store: "run_state (store_element ?b (length ws) w) h1 = ((), h2)"
    by (simp add: store_element_def h2_def heap_array_def list_update_append)
  have grown: "grows h0 h2"
    unfolding h2_def by (rule grows_update [OF grows_trans [OF Cons.prems(6) run(2)]]) simp
  have kept: "denotes h2 (fresh_above h0 h2) u s"
    if "denotes h (fresh_above h0 h) u s" for u s
    using that by (rule denotes_frame)
      (use run(2) in \<open>auto simp: fresh_above_def grows_def h2_def\<close>)
  have "denotes h2 (fresh_above h0 h2) w t"
    using run(3) by (rule denotes_frame)
      (use Cons.prems(7) in \<open>auto simp: fresh_above_def fresh_in_def h2_def\<close>)
  with Cons.prems(9) kept have done2: "list_all2 (denotes h2 (fresh_above h0 h2)) (ws @ [w]) (ss @ [t])"
    by (auto intro!: list_all2_appendI elim!: list_all2_mono)
  from b have "h2 ! ?b = Array ((ws @ [w]) @ replicate (length ts) Zero)" "?b < length h2"
    by (simp_all add: h2_def)
  from Cons.IH [OF Cons.prems(1,2) _ _ _ grown this(2,1) done2] rest Cons.prems(3,5)
  obtain h' ws' where "run_state (copy_elements f a off ?b (Suc (length ws)) (length ts)) h2 = ((), h')"
    "grows h0 h'" "?b < length h'" "h' ! ?b = Array ws'"
    "list_all2 (denotes h' (fresh_above h0 h')) ws' (ss @ t # ts)" by auto
  with load run(1) store show ?case by auto
qed

lemma slice_copies [copying]:
  assumes "deep_copier (has_layout E L) f"
  shows "deep_copier (has_layout E (L_slice L)) (slice_copy f)"
proof (rule deep_copierI)
  fix h A v t
  assume v: "denotes h A v t" and t: "has_layout E (L_slice L) t"
  show "\<exists>w h'. run_state (slice_copy f v) h = (w, h') \<and> grows h h' \<and> denotes h' (fresh_in h h') w t"
    using v t
  proof cases
    case (slice a xs off len ts)
    then have len: "len = length ts" by (auto dest!: list_all2_lengthD)
    let ?h = "h @ [Array (replicate len Zero)]"
    have "\<exists>h' ws'. run_state (copy_elements f a off (length h) (length ([] :: go_value list)) (length ts)) ?h = ((), h') \<and>
      grows h h' \<and> length h < length h' \<and> h' ! length h = Array ws' \<and>
      list_all2 (denotes h' (fresh_above h h')) ws' ([] @ ts)"
      by (rule copy_elements_copies [OF assms slice(4,5), where A = A])
        (use slice t len in auto)
    then obtain h' ws' where run: "run_state (copy_elements f a off (length h) 0 len) ?h = ((), h')"
      and h': "grows h h'" "length h < length h'" "h' ! length h = Array ws'"
      and ws: "list_all2 (denotes h' (fresh_above h h')) ws' ts"
      by (auto simp: len)
    have "list_all2 (denotes h' (fresh_in h h')) ws' ts"
      using ws by (rule list_all2_mono) (auto elim!: denotes_widen simp: fresh_above_def fresh_in_def)
    moreover from ws have "length ws' = len" by (simp add: len list_all2_lengthD)
    ultimately have "denotes h' (fresh_in h h') (Slice (Some (length h, 0, len))) (Items ts)"
      using h' by (intro denotes.slice [of _ _ _ ws']) (auto simp: fresh_in_def)
    with run h'(1) slice(1,2) show ?thesis by (simp add: slice_copy_def allocate_def)
  qed (auto simp: slice_copy_def intro: denotes.intros)
qed

section \<open>Maps\<close>

text \<open>
  \<open>*out = make(map[string]T, len(*in))\<close>, and then \<open>(*out)[key] = val\<close> for the entries of \<open>*in\<close>.
\<close>

fun copy_entries :: "nat \<Rightarrow> (string \<times> go_value) list \<Rightarrow> (heap, unit) state" where
  "copy_entries b [] = State_Monad.return ()"
| "copy_entries b ((key, val) # es) = do { store_entry b key val; copy_entries b es }"

definition map_copy :: copier where
  "map_copy v =
     (case v of
        Map_ref (Some a) \<Rightarrow> do {
          b \<leftarrow> allocate (Table []);
          es \<leftarrow> range_map a;
          copy_entries b es;
          State_Monad.return (Map_ref (Some b))
        }
      | _ \<Rightarrow> State_Monad.return v)"

lemma copy_entries_run:
  assumes "b < length h" "h ! b = Table ds" "distinct (map fst ds)" "distinct (map fst es)"
  shows "\<exists>ds'. run_state (copy_entries b es) h = ((), h[b := Table ds']) \<and> distinct (map fst ds') \<and>
    map_of ds' = map_of ds ++ map_of es"
  using assms
proof (induction b es arbitrary: h ds rule: copy_entries.induct)
  case (1 b)
  then have "h[b := Table ds] = h" by (metis list_update_id)
  with 1 show ?case by (intro exI [of _ ds]) simp
next
  case (2 b key val es)
  let ?ds = "AList.update key val ds"
  have "run_state (store_entry b key val) h = ((), h[b := Table ?ds])"
    using "2.prems" by (simp add: store_entry_def heap_table_def)
  moreover have "\<exists>ds'. run_state (copy_entries b es) (h[b := Table ?ds]) =
      ((), (h[b := Table ?ds])[b := Table ds']) \<and> distinct (map fst ds') \<and>
      map_of ds' = map_of ?ds ++ map_of es"
    by (rule "2.IH") (use "2.prems" in \<open>auto simp: distinct_update\<close>)
  then obtain ds' where rest: "run_state (copy_entries b es) (h[b := Table ?ds]) = ((), h[b := Table ds'])"
    and ds': "distinct (map fst ds')" "map_of ds' = map_of ?ds ++ map_of es" by auto
  moreover have "map_of ds' = map_of ds ++ map_of ((key, val) # es)"
    using "2.prems"(4) unfolding ds'(2)
    by (simp add: update_conv' map_add_upd_left dom_map_of_conv_image_fst)
  moreover from calculation(1) rest have
    "run_state (copy_entries b ((key, val) # es)) h = ((), h[b := Table ds'])" by simp
  ultimately show ?case using ds'(1) by blast
qed

lemma map_copies [copying]:
  assumes "flat_layout L"
  shows "deep_copier (has_layout E (L_map L)) map_copy"
proof (rule deep_copierI)
  fix h A v t
  assume v: "denotes h A v t" and t: "has_layout E (L_map L) t"
  show "\<exists>w h'. run_state (map_copy v) h = (w, h') \<and> grows h h' \<and> denotes h' (fresh_in h h') w t"
    using v t
  proof cases
    case (map_ref a es ts)
    let ?h = "h @ [Table []]"
    have "\<exists>ds. run_state (copy_entries (length h) es) ?h = ((), ?h[length h := Table ds]) \<and>
        distinct (map fst ds) \<and> map_of ds = map_of [] ++ map_of es"
      by (rule copy_entries_run) (simp_all add: map_ref)
    then obtain ds where run: "run_state (copy_entries (length h) es) ?h = ((), ?h[length h := Table ds])"
      and ds: "distinct (map fst ds)" "map_of ds = map_of es" by auto
    have "denotes (h @ [Table ds]) {length h} (Map_ref (Some (length h))) (Entries ts)"
    proof (rule denotes.map_ref [where es = ds])
      show "fst ` set ds = fset (fmdom ts)"
        using ds(2) map_ref(7) by (metis dom_map_of_conv_image_fst)
      show "denotes (h @ [Table ds]) {length h} u s" if "(k, u) \<in> set ds" "fmlookup ts k = Some s" for k u s
      proof -
        from that(1) ds have "map_of es k = Some u" by (metis map_of_is_SomeI)
        then have "(k, u) \<in> set es" by (rule map_of_SomeD)
        with map_ref(8) that(2) have "denotes h A u s" by blast
        moreover from t map_ref(2) that(2) have "has_layout E L s" by (auto intro: fmran'I)
        ultimately show ?thesis using assms by (metis denotes_flat)
      qed
    qed (simp_all add: ds)
    with run map_ref show ?thesis
      by (simp add: map_copy_def allocate_def range_map_def heap_table_def fresh_in_def nth_append)
  qed (auto simp: map_copy_def intro: denotes.intros)
qed

section \<open>Copies behind pointers\<close>

text \<open>
  \<open>DeepCopy\<close>: \<open>nil\<close> for \<open>nil\<close>, otherwise \<open>out := new(T)\<close> and \<open>in.DeepCopyInto(out)\<close>.
\<close>

definition deep_copy :: "copier \<Rightarrow> nat option \<Rightarrow> (heap, nat option) state" where
  "deep_copy copy_into inp =
     (case inp of
        None \<Rightarrow> State_Monad.return None
      | Some a \<Rightarrow> do {
          out \<leftarrow> allocate (Array [Zero]);
          v \<leftarrow> load_element a 0;
          w \<leftarrow> copy_into v;
          store_element out 0 w;
          State_Monad.return (Some out)
        })"

text \<open>
  A \<open>runtime.Object\<close> is \<open>nil\<close> or a pointer with its type; \<open>Object T None\<close> would be an interface that
  is not \<open>nil\<close> although its pointer is.
\<close>

datatype object = Nil_object | Object string "nat option"

definition deep_copy_object ::
  "string \<Rightarrow> (nat option \<Rightarrow> (heap, nat option) state) \<Rightarrow> nat option \<Rightarrow> (heap, object) state" where
  "deep_copy_object T dc inp = do {
     c \<leftarrow> dc inp;
     (if c \<noteq> None then State_Monad.return (Object T c) else State_Monad.return Nil_object)
   }"

lemma deep_copy_run:
  assumes f: "deep_copier P f" and a: "a < length h" "h ! a = Array [v]" and v: "denotes h A v t" "P t"
  shows "\<exists>w h'. run_state (deep_copy f (Some a)) h = (Some (length h), h') \<and> grows h h' \<and>
    length h < length h' \<and> h' ! length h = Array [w] \<and> denotes h' (fresh_above h h') w t"
proof -
  let ?h = "h @ [Array [Zero]]"
  let ?b = "length h"
  have "denotes ?h A v t" by (rule denotes_grows [OF v(1)]) simp
  with f v(2) obtain w h1 where run: "run_state (f v) ?h = (w, h1)" "grows ?h h1"
    "denotes h1 (fresh_in ?h h1) w t" by (elim deep_copierE) auto
  define h' where "h' = h1[?b := Array [w]]"
  from run(2) have b: "?b < length h1" "h1 ! ?b = Array [Zero]" by (simp_all add: grows_def)
  have "grows h h1" by (rule grows_trans [OF _ run(2)]) simp
  then have "grows h h'" unfolding h'_def by (rule grows_update) simp
  moreover have "denotes h' (fresh_above h h') w t"
    using run(3) by (rule denotes_frame) (auto simp: h'_def fresh_in_def fresh_above_def)
  moreover have "run_state (deep_copy f (Some a)) h = (Some ?b, h')"
    using run(1) a b by (simp add: deep_copy_def allocate_def load_element_def store_element_def
        heap_array_def h'_def nth_append)
  ultimately show ?thesis using b by (auto simp: h'_def)
qed

lemma deep_copy_copies:
  assumes f: "deep_copier (has_layout E L) f" and p: "denotes h A (Pointer p) t"
    and t: "has_layout E (L_pointer L) t"
  shows "\<exists>q h'. run_state (deep_copy f p) h = (q, h') \<and> (q = None \<longleftrightarrow> p = None) \<and> grows h h' \<and>
    denotes h' (fresh_in h h') (Pointer q) t"
  using p
proof cases
  case nil_pointer
  then show ?thesis by (auto simp: deep_copy_def intro: denotes.intros)
next
  case (pointer a v s)
  with f t obtain w h' where run: "run_state (deep_copy f p) h = (Some (length h), h')" "grows h h'"
    and b: "length h < length h'" "h' ! length h = Array [w]" "denotes h' (fresh_above h h') w s"
    by (fastforce dest!: deep_copy_run)
  from b(3) have "denotes h' (fresh_in h h') w s"
    by (rule denotes_widen) (auto simp: fresh_above_def fresh_in_def)
  with b(1,2) have "denotes h' (fresh_in h h') (Pointer (Some (length h))) (Target s)"
    by (intro denotes.pointer) (auto simp: fresh_in_def)
  with run pointer(1,2) show ?thesis by auto
qed

text \<open>The same for a field of a pointer type.\<close>

definition pointer_copy :: "copier \<Rightarrow> copier" where
  "pointer_copy f v =
     (case v of
        Pointer p \<Rightarrow> do { q \<leftarrow> deep_copy f p; State_Monad.return (Pointer q) }
      | _ \<Rightarrow> State_Monad.return v)"

lemma pointer_copies [copying]:
  assumes "deep_copier (has_layout E L) f"
  shows "deep_copier (has_layout E (L_pointer L)) (pointer_copy f)"
proof (rule deep_copierI)
  fix h A v t
  assume v: "denotes h A v t" and t: "has_layout E (L_pointer L) t"
  show "\<exists>w h'. run_state (pointer_copy f v) h = (w, h') \<and> grows h h' \<and> denotes h' (fresh_in h h') w t"
  proof (cases v)
    case (Pointer p)
    with deep_copy_copies [OF assms _ t, of h A p] v show ?thesis by (auto simp: pointer_copy_def)
  next
    case (Slice s)
    with v t have "t = Absent" "s = None" by (auto simp: denotes_slice)
    with Slice show ?thesis by (auto simp: pointer_copy_def intro: denotes.intros)
  next
    case (Map_ref m)
    with v t have "t = Absent" "m = None" by (auto elim: denotes.cases)
    with Map_ref show ?thesis by (auto simp: pointer_copy_def intro: denotes.intros)
  qed (use v t in \<open>auto elim: denotes.cases\<close>)
qed

section \<open>The original and its copy\<close>

text \<open>
  \<open>separate h A p h' q t\<close>: the original keeps reading as \<open>t\<close> whatever is written to the fresh cells,
  and so does the copy whatever is written to the old ones.
\<close>

definition separate :: "heap \<Rightarrow> nat set \<Rightarrow> nat option \<Rightarrow> heap \<Rightarrow> nat option \<Rightarrow> tree \<Rightarrow> bool" where
  "separate h A p h' q t \<longleftrightarrow>
     (\<forall>h2. length h' \<le> length h2 \<longrightarrow>
       ((\<forall>a < length h. h2 ! a = h' ! a) \<longrightarrow> denotes h2 A (Pointer p) t) \<and>
       ((\<forall>a \<in> fresh_in h h'. h2 ! a = h' ! a) \<longrightarrow> denotes h2 (fresh_in h h') (Pointer q) t))"

lemma deep_copy_separate:
  assumes "deep_copier (has_layout E L) f" "denotes h A (Pointer p) t" "has_layout E (L_pointer L) t"
  shows "\<exists>q h'. run_state (deep_copy f p) h = (q, h') \<and> (q = None \<longleftrightarrow> p = None) \<and>
    separate h A p h' q t"
proof -
  from deep_copy_copies [OF assms] obtain q h' where
    run: "run_state (deep_copy f p) h = (q, h')" "q = None \<longleftrightarrow> p = None" and
    h': "grows h h'" "denotes h' (fresh_in h h') (Pointer q) t" by blast
  have "separate h A p h' q t"
    unfolding separate_def
  proof (intro allI impI conjI)
    fix h2 :: heap
    assume len: "length h' \<le> length h2"
    show "denotes h2 A (Pointer p) t" if "\<forall>a < length h. h2 ! a = h' ! a"
      using assms(2) by (rule denotes_frame) (use that len h'(1) in \<open>auto simp: grows_def\<close>)
    show "denotes h2 (fresh_in h h') (Pointer q) t" if "\<forall>a \<in> fresh_in h h'. h2 ! a = h' ! a"
      using h'(2) by (rule denotes_frame) (use that len in \<open>auto simp: fresh_in_def\<close>)
  qed
  with run show ?thesis by blast
qed

end
