(* ===== verification/Api_Layouts.thy ===== *)
theory Api_Layouts
  imports Go_Memory
begin

text \<open>
  The types of \<open>apis/\<close> as memory layouts, field by field in the order of the declarations: which
  fields are numbers, strings and booleans, which refer to other memory, and which are library
  types.  The records of \<open>Tor_Types\<close> and \<open>Onion_Types\<close> are the values behind them.
  The two library types the generated code assigns are written out; the others are left to the
  parameter \<open>E\<close> of \<open>has_layout\<close>.
\<close>

section \<open>Library types without references\<close>

definition TypeMeta_layout :: layout where
  "TypeMeta_layout = L_struct [
     (''Kind'', L_basic String_kind), (''APIVersion'', L_basic String_kind)]"

definition ServiceBackendPort_layout :: layout where
  "ServiceBackendPort_layout = L_struct [
     (''Name'', L_basic String_kind), (''Number'', L_basic Int_kind)]"

lemma library_flat_layouts [simp]: "flat_layout TypeMeta_layout" "flat_layout ServiceBackendPort_layout"
  by (simp_all add: TypeMeta_layout_def ServiceBackendPort_layout_def)

section \<open>v1alpha2\<close>

definition ServicePodTemplate_layout :: layout where
  "ServicePodTemplate_layout = L_struct [
     (''ObjectMeta'', L_library ''ObjectMeta''), (''Spec'', L_library ''PodSpec''),
     (''Resources'', L_library ''ResourceRequirements'')]"

definition ServiceRule_layout :: layout where
  "ServiceRule_layout = L_struct [
     (''Port'', ServiceBackendPort_layout), (''Backend'', L_library ''IngressBackend'')]"

definition SecretReference_layout :: layout where
  "SecretReference_layout = L_struct [
     (''Name'', L_basic String_kind), (''Key'', L_basic String_kind)]"

definition OnionServiceSpec_layout :: layout where
  "OnionServiceSpec_layout = L_struct [
     (''Rules'', L_slice ServiceRule_layout), (''Template'', ServicePodTemplate_layout),
     (''PrivateKeySecret'', SecretReference_layout),
     (''AuthorizedClients'', L_slice SecretReference_layout), (''Version'', L_basic Int_kind),
     (''MasterOnionAddress'', L_basic String_kind), (''ServiceMonitor'', L_basic Bool_kind),
     (''ExtraConfig'', L_basic String_kind)]"

definition ServicePort_layout :: layout where
  "ServicePort_layout = L_struct [
     (''Name'', L_basic String_kind), (''PublicPort'', L_basic Int_kind),
     (''TargetPort'', L_basic Int_kind)]"

definition OnionServiceStatus_layout :: layout where
  "OnionServiceStatus_layout = L_struct [
     (''Hostname'', L_basic String_kind), (''TargetClusterIP'', L_basic String_kind)]"

definition OnionService_layout :: layout where
  "OnionService_layout = L_struct [
     (''TypeMeta'', TypeMeta_layout), (''ObjectMeta'', L_library ''ObjectMeta''),
     (''Spec'', OnionServiceSpec_layout), (''Status'', OnionServiceStatus_layout)]"

definition OnionServiceList_layout :: layout where
  "OnionServiceList_layout = L_struct [
     (''TypeMeta'', TypeMeta_layout), (''ListMeta'', L_library ''ListMeta''),
     (''Items'', L_slice OnionService_layout)]"

definition TorPodTemplate_layout :: layout where
  "TorPodTemplate_layout = L_struct [
     (''ObjectMeta'', L_library ''ObjectMeta''), (''Spec'', L_library ''PodSpec''),
     (''Resources'', L_library ''ResourceRequirements'')]"

definition TorGenericPortSpec_layout :: layout where
  "TorGenericPortSpec_layout = L_struct [
     (''Enable'', L_basic Bool_kind), (''Port'', L_basic Int_kind),
     (''Address'', L_slice (L_basic String_kind))]"

definition TorGenericPortWithFlagSpec_layout :: layout where
  "TorGenericPortWithFlagSpec_layout = L_struct [
     (''TorGenericPortSpec'', TorGenericPortSpec_layout),
     (''Flags'', L_slice (L_basic String_kind)), (''Policy'', L_slice (L_basic String_kind))]"

definition TorClientSpec_layout :: layout where
  "TorClientSpec_layout = L_struct [
     (''DNS'', TorGenericPortWithFlagSpec_layout), (''NATD'', TorGenericPortWithFlagSpec_layout),
     (''Socks'', TorGenericPortWithFlagSpec_layout),
     (''HTTPTunnel'', TorGenericPortWithFlagSpec_layout),
     (''Trans'', TorGenericPortWithFlagSpec_layout), (''TransProxyType'', L_basic String_kind)]"

definition TorServerSpec_layout :: layout where
  "TorServerSpec_layout = L_struct [
     (''TorGenericPortWithFlagSpec'', TorGenericPortWithFlagSpec_layout)]"

definition TorControlSpec_layout :: layout where
  "TorControlSpec_layout = L_struct [
     (''TorGenericPortWithFlagSpec'', TorGenericPortWithFlagSpec_layout),
     (''Secret'', L_slice (L_basic String_kind)),
     (''SecretRef'', L_slice (L_library ''SecretKeySelector''))]"

definition TorSpec_layout :: layout where
  "TorSpec_layout = L_struct [
     (''Replicas'', L_basic Int_kind), (''Template'', TorPodTemplate_layout),
     (''Client'', TorClientSpec_layout), (''Server'', TorServerSpec_layout),
     (''Control'', TorControlSpec_layout), (''Metrics'', TorGenericPortWithFlagSpec_layout),
     (''ServiceMonitor'', L_basic Bool_kind), (''Config'', L_basic String_kind),
     (''ConfigMapKeyRef'', L_slice (L_library ''ConfigMapKeySelector'')),
     (''ExtraArgs'', L_slice (L_basic String_kind))]"

definition TorStatus_layout :: layout where
  "TorStatus_layout = L_struct [
     (''Config'', L_basic String_kind)]"

definition Tor_layout :: layout where
  "Tor_layout = L_struct [
     (''TypeMeta'', TypeMeta_layout), (''ObjectMeta'', L_library ''ObjectMeta''),
     (''Spec'', TorSpec_layout), (''Status'', TorStatus_layout)]"

definition TorList_layout :: layout where
  "TorList_layout = L_struct [
     (''TypeMeta'', TypeMeta_layout), (''ListMeta'', L_library ''ListMeta''),
     (''Items'', L_slice Tor_layout)]"

definition TorGenericPortDef_layout :: layout where
  "TorGenericPortDef_layout = L_struct [
     (''Name'', L_basic String_kind), (''Protocol'', L_basic String_kind),
     (''Port'', TorGenericPortSpec_layout)]"

definition TemplateReference_layout :: layout where
  "TemplateReference_layout = L_struct [
     (''Spec'', OnionServiceSpec_layout)]"

definition BalancerTemplate_layout :: layout where
  "BalancerTemplate_layout = L_struct [
     (''ObjectMeta'', L_library ''ObjectMeta''), (''Spec'', L_library ''PodSpec''),
     (''TorResources'', L_library ''ResourceRequirements''),
     (''BalancerResources'', L_library ''ResourceRequirements'')]"

definition OnionBalancedServiceSpec_layout :: layout where
  "OnionBalancedServiceSpec_layout = L_struct [
     (''Backends'', L_basic Int_kind), (''PrivateKeySecret'', SecretReference_layout),
     (''Version'', L_basic Int_kind), (''ServiceMonitor'', L_basic Bool_kind),
     (''Template'', TemplateReference_layout), (''BalancerTemplate'', BalancerTemplate_layout)]"

definition OnionBalancedServiceStatus_layout :: layout where
  "OnionBalancedServiceStatus_layout = L_struct [
     (''Hostname'', L_basic String_kind), (''TargetClusterIP'', L_basic String_kind),
     (''Backends'', L_map OnionServiceStatus_layout)]"

definition OnionBalancedService_layout :: layout where
  "OnionBalancedService_layout = L_struct [
     (''TypeMeta'', TypeMeta_layout), (''ObjectMeta'', L_library ''ObjectMeta''),
     (''Spec'', OnionBalancedServiceSpec_layout), (''Status'', OnionBalancedServiceStatus_layout)]"

definition OnionBalancedServiceList_layout :: layout where
  "OnionBalancedServiceList_layout = L_struct [
     (''TypeMeta'', TypeMeta_layout), (''ListMeta'', L_library ''ListMeta''),
     (''Items'', L_slice OnionBalancedService_layout)]"

section \<open>v1alpha1\<close>

definition V1_ServicePort_layout :: layout where
  "V1_ServicePort_layout = L_struct [
     (''Name'', L_basic String_kind), (''PublicPort'', L_basic Int_kind),
     (''TargetPort'', L_basic Int_kind)]"

definition V1_SecretReference_layout :: layout where
  "V1_SecretReference_layout = L_struct [
     (''Name'', L_basic String_kind), (''Key'', L_basic String_kind)]"

definition V1_OnionServiceSpec_layout :: layout where
  "V1_OnionServiceSpec_layout = L_struct [
     (''Ports'', L_slice V1_ServicePort_layout), (''Selector'', L_map (L_basic String_kind)),
     (''PrivateKeySecret'', V1_SecretReference_layout), (''Version'', L_basic Int_kind),
     (''ExtraConfig'', L_basic String_kind)]"

definition V1_OnionServiceStatus_layout :: layout where
  "V1_OnionServiceStatus_layout = L_struct [
     (''Hostname'', L_basic String_kind), (''TargetClusterIP'', L_basic String_kind)]"

definition V1_OnionService_layout :: layout where
  "V1_OnionService_layout = L_struct [
     (''TypeMeta'', TypeMeta_layout), (''ObjectMeta'', L_library ''ObjectMeta''),
     (''Spec'', V1_OnionServiceSpec_layout), (''Status'', V1_OnionServiceStatus_layout)]"

definition V1_OnionServiceList_layout :: layout where
  "V1_OnionServiceList_layout = L_struct [
     (''TypeMeta'', TypeMeta_layout), (''ListMeta'', L_library ''ListMeta''),
     (''Items'', L_slice V1_OnionService_layout)]"

section \<open>The project configuration\<close>

definition TorDaemonType_layout :: layout where
  "TorDaemonType_layout = L_struct [
     (''Image'', L_basic String_kind)]"

definition TorDaemonManagerType_layout :: layout where
  "TorDaemonManagerType_layout = L_struct [
     (''Image'', L_basic String_kind)]"

definition TorOnionbalanceManagerType_layout :: layout where
  "TorOnionbalanceManagerType_layout = L_struct [
     (''Image'', L_basic String_kind)]"

definition ProjectConfig_layout :: layout where
  "ProjectConfig_layout = L_struct [
     (''TypeMeta'', TypeMeta_layout),
     (''ControllerManagerConfigurationSpec'', L_library ''ControllerManagerConfigurationSpec''),
     (''TorDaemon'', TorDaemonType_layout), (''TorDaemonManager'', TorDaemonManagerType_layout),
     (''TorOnionbalanceManager'', TorOnionbalanceManagerType_layout),
     (''Namespace'', L_basic String_kind)]"

section \<open>Types that an assignment copies\<close>

lemma flat_layouts [simp]:
  "flat_layout SecretReference_layout" "flat_layout OnionServiceStatus_layout" "flat_layout ServicePort_layout" "flat_layout TorStatus_layout"
  by (simp_all add: SecretReference_layout_def OnionServiceStatus_layout_def ServicePort_layout_def TorStatus_layout_def)

lemma V1_flat_layouts [simp]:
  "flat_layout V1_ServicePort_layout" "flat_layout V1_SecretReference_layout" "flat_layout V1_OnionServiceStatus_layout"
  by (simp_all add: V1_ServicePort_layout_def V1_SecretReference_layout_def V1_OnionServiceStatus_layout_def)

lemma config_flat_layouts [simp]:
  "flat_layout TorDaemonType_layout" "flat_layout TorDaemonManagerType_layout" "flat_layout TorOnionbalanceManagerType_layout"
  by (simp_all add: TorDaemonType_layout_def TorDaemonManagerType_layout_def TorOnionbalanceManagerType_layout_def)

end
