(* ===== verification/Deep_Copy.thy ===== *)
theory Deep_Copy
  imports Api_Layouts
begin

text \<open>
  \<open>apis/tor/v1alpha2/zz_generated.deepcopy.go\<close>: for every type the function that copies into a struct
  (one entry per statement after \<open>*out = *in\<close>), the one that allocates, and for the resources and
  their lists the one that makes a \<open>runtime.Object\<close>.  The copy functions of library types are the
  parameter \<open>X\<close>.  The lemmas show that every function is a deep copy for the layout of its type.
\<close>

section \<open>Library types\<close>

type_synonym library = "string \<Rightarrow> copier"

definition library_types :: "string list" where
  "library_types = [''ObjectMeta'', ''ListMeta'', ''PodSpec'', ''ResourceRequirements'',
     ''IngressBackend'', ''SecretKeySelector'', ''ConfigMapKeySelector'',
     ''ControllerManagerConfigurationSpec'']"

text \<open>The documented behaviour of the library's own \<open>DeepCopyInto\<close> functions.\<close>

definition library_copies :: "(string \<Rightarrow> tree \<Rightarrow> bool) \<Rightarrow> library \<Rightarrow> bool" where
  "library_copies E X \<longleftrightarrow> (\<forall>n \<in> set library_types. deep_copier (E n) (X n))"

lemma library_copier [copying]:
  "library_copies E X \<Longrightarrow> n \<in> set library_types \<Longrightarrow> deep_copier (has_layout E (L_library n)) (X n)"
  by (simp add: library_copies_def deep_copier_def)

declare library_types_def [simp]

section \<open>The functions of v1alpha2\<close>

definition BalancerTemplate_DeepCopyInto :: "library \<Rightarrow> copier" where
  "BalancerTemplate_DeepCopyInto X = struct_copy [
     (''ObjectMeta'', X ''ObjectMeta''), (''Spec'', X ''PodSpec''),
     (''TorResources'', X ''ResourceRequirements''),
     (''BalancerResources'', X ''ResourceRequirements'')]"

definition SecretReference_DeepCopyInto :: "library \<Rightarrow> copier" where
  "SecretReference_DeepCopyInto X = assign"

definition ServiceRule_DeepCopyInto :: "library \<Rightarrow> copier" where
  "ServiceRule_DeepCopyInto X = struct_copy [
     (''Port'', assign), (''Backend'', X ''IngressBackend'')]"

definition ServicePodTemplate_DeepCopyInto :: "library \<Rightarrow> copier" where
  "ServicePodTemplate_DeepCopyInto X = struct_copy [
     (''ObjectMeta'', X ''ObjectMeta''), (''Spec'', X ''PodSpec''),
     (''Resources'', X ''ResourceRequirements'')]"

definition OnionServiceSpec_DeepCopyInto :: "library \<Rightarrow> copier" where
  "OnionServiceSpec_DeepCopyInto X = struct_copy [
     (''Rules'', slice_copy (ServiceRule_DeepCopyInto X)),
     (''Template'', ServicePodTemplate_DeepCopyInto X), (''PrivateKeySecret'', assign),
     (''AuthorizedClients'', slice_copy assign)]"

definition TemplateReference_DeepCopyInto :: "library \<Rightarrow> copier" where
  "TemplateReference_DeepCopyInto X = struct_copy [
     (''Spec'', OnionServiceSpec_DeepCopyInto X)]"

definition OnionBalancedServiceSpec_DeepCopyInto :: "library \<Rightarrow> copier" where
  "OnionBalancedServiceSpec_DeepCopyInto X = struct_copy [
     (''PrivateKeySecret'', assign), (''Template'', TemplateReference_DeepCopyInto X),
     (''BalancerTemplate'', BalancerTemplate_DeepCopyInto X)]"

definition OnionServiceStatus_DeepCopyInto :: "library \<Rightarrow> copier" where
  "OnionServiceStatus_DeepCopyInto X = assign"

definition OnionBalancedServiceStatus_DeepCopyInto :: "library \<Rightarrow> copier" where
  "OnionBalancedServiceStatus_DeepCopyInto X = struct_copy [
     (''Backends'', map_copy)]"

definition OnionBalancedService_DeepCopyInto :: "library \<Rightarrow> copier" where
  "OnionBalancedService_DeepCopyInto X = struct_copy [
     (''TypeMeta'', assign), (''ObjectMeta'', X ''ObjectMeta''),
     (''Spec'', OnionBalancedServiceSpec_DeepCopyInto X),
     (''Status'', OnionBalancedServiceStatus_DeepCopyInto X)]"

definition OnionBalancedServiceList_DeepCopyInto :: "library \<Rightarrow> copier" where
  "OnionBalancedServiceList_DeepCopyInto X = struct_copy [
     (''TypeMeta'', assign), (''ListMeta'', X ''ListMeta''),
     (''Items'', slice_copy (OnionBalancedService_DeepCopyInto X))]"

definition OnionService_DeepCopyInto :: "library \<Rightarrow> copier" where
  "OnionService_DeepCopyInto X = struct_copy [
     (''TypeMeta'', assign), (''ObjectMeta'', X ''ObjectMeta''),
     (''Spec'', OnionServiceSpec_DeepCopyInto X), (''Status'', assign)]"

definition OnionServiceList_DeepCopyInto :: "library \<Rightarrow> copier" where
  "OnionServiceList_DeepCopyInto X = struct_copy [
     (''TypeMeta'', assign), (''ListMeta'', X ''ListMeta''),
     (''Items'', slice_copy (OnionService_DeepCopyInto X))]"

definition ServicePort_DeepCopyInto :: "library \<Rightarrow> copier" where
  "ServicePort_DeepCopyInto X = assign"

definition TorPodTemplate_DeepCopyInto :: "library \<Rightarrow> copier" where
  "TorPodTemplate_DeepCopyInto X = struct_copy [
     (''ObjectMeta'', X ''ObjectMeta''), (''Spec'', X ''PodSpec''),
     (''Resources'', X ''ResourceRequirements'')]"

definition TorGenericPortSpec_DeepCopyInto :: "library \<Rightarrow> copier" where
  "TorGenericPortSpec_DeepCopyInto X = struct_copy [
     (''Address'', slice_copy assign)]"

definition TorGenericPortWithFlagSpec_DeepCopyInto :: "library \<Rightarrow> copier" where
  "TorGenericPortWithFlagSpec_DeepCopyInto X = struct_copy [
     (''TorGenericPortSpec'', TorGenericPortSpec_DeepCopyInto X), (''Flags'', slice_copy assign),
     (''Policy'', slice_copy assign)]"

definition TorClientSpec_DeepCopyInto :: "library \<Rightarrow> copier" where
  "TorClientSpec_DeepCopyInto X = struct_copy [
     (''DNS'', TorGenericPortWithFlagSpec_DeepCopyInto X),
     (''NATD'', TorGenericPortWithFlagSpec_DeepCopyInto X),
     (''Socks'', TorGenericPortWithFlagSpec_DeepCopyInto X),
     (''HTTPTunnel'', TorGenericPortWithFlagSpec_DeepCopyInto X),
     (''Trans'', TorGenericPortWithFlagSpec_DeepCopyInto X)]"

definition TorServerSpec_DeepCopyInto :: "library \<Rightarrow> copier" where
  "TorServerSpec_DeepCopyInto X = struct_copy [
     (''TorGenericPortWithFlagSpec'', TorGenericPortWithFlagSpec_DeepCopyInto X)]"

definition TorControlSpec_DeepCopyInto :: "library \<Rightarrow> copier" where
  "TorControlSpec_DeepCopyInto X = struct_copy [
     (''TorGenericPortWithFlagSpec'', TorGenericPortWithFlagSpec_DeepCopyInto X),
     (''Secret'', slice_copy assign), (''SecretRef'', slice_copy (X ''SecretKeySelector''))]"

definition TorSpec_DeepCopyInto :: "library \<Rightarrow> copier" where
  "TorSpec_DeepCopyInto X = struct_copy [
     (''Template'', TorPodTemplate_DeepCopyInto X), (''Client'', TorClientSpec_DeepCopyInto X),
     (''Server'', TorServerSpec_DeepCopyInto X), (''Control'', TorControlSpec_DeepCopyInto X),
     (''Metrics'', TorGenericPortWithFlagSpec_DeepCopyInto X),
     (''ConfigMapKeyRef'', slice_copy (X ''ConfigMapKeySelector'')),
     (''ExtraArgs'', slice_copy assign)]"

definition TorStatus_DeepCopyInto :: "library \<Rightarrow> copier" where
  "TorStatus_DeepCopyInto X = assign"

definition Tor_DeepCopyInto :: "library \<Rightarrow> copier" where
  "Tor_DeepCopyInto X = struct_copy [
     (''TypeMeta'', assign), (''ObjectMeta'', X ''ObjectMeta''),
     (''Spec'', TorSpec_DeepCopyInto X), (''Status'', assign)]"

definition TorGenericPortDef_DeepCopyInto :: "library \<Rightarrow> copier" where
  "TorGenericPortDef_DeepCopyInto X = struct_copy [
     (''Port'', TorGenericPortSpec_DeepCopyInto X)]"

definition TorList_DeepCopyInto :: "library \<Rightarrow> copier" where
  "TorList_DeepCopyInto X = struct_copy [
     (''TypeMeta'', assign), (''ListMeta'', X ''ListMeta''),
     (''Items'', slice_copy (Tor_DeepCopyInto X))]"

definition BalancerTemplate_DeepCopy :: "library \<Rightarrow> nat option \<Rightarrow> (heap, nat option) state" where
  "BalancerTemplate_DeepCopy X = deep_copy (BalancerTemplate_DeepCopyInto X)"

definition SecretReference_DeepCopy :: "library \<Rightarrow> nat option \<Rightarrow> (heap, nat option) state" where
  "SecretReference_DeepCopy X = deep_copy (SecretReference_DeepCopyInto X)"

definition ServiceRule_DeepCopy :: "library \<Rightarrow> nat option \<Rightarrow> (heap, nat option) state" where
  "ServiceRule_DeepCopy X = deep_copy (ServiceRule_DeepCopyInto X)"

definition ServicePodTemplate_DeepCopy :: "library \<Rightarrow> nat option \<Rightarrow> (heap, nat option) state" where
  "ServicePodTemplate_DeepCopy X = deep_copy (ServicePodTemplate_DeepCopyInto X)"

definition OnionServiceSpec_DeepCopy :: "library \<Rightarrow> nat option \<Rightarrow> (heap, nat option) state" where
  "OnionServiceSpec_DeepCopy X = deep_copy (OnionServiceSpec_DeepCopyInto X)"

definition TemplateReference_DeepCopy :: "library \<Rightarrow> nat option \<Rightarrow> (heap, nat option) state" where
  "TemplateReference_DeepCopy X = deep_copy (TemplateReference_DeepCopyInto X)"

definition OnionBalancedServiceSpec_DeepCopy :: "library \<Rightarrow> nat option \<Rightarrow> (heap, nat option) state" where
  "OnionBalancedServiceSpec_DeepCopy X = deep_copy (OnionBalancedServiceSpec_DeepCopyInto X)"

definition OnionServiceStatus_DeepCopy :: "library \<Rightarrow> nat option \<Rightarrow> (heap, nat option) state" where
  "OnionServiceStatus_DeepCopy X = deep_copy (OnionServiceStatus_DeepCopyInto X)"

definition OnionBalancedServiceStatus_DeepCopy :: "library \<Rightarrow> nat option \<Rightarrow> (heap, nat option) state" where
  "OnionBalancedServiceStatus_DeepCopy X = deep_copy (OnionBalancedServiceStatus_DeepCopyInto X)"

definition OnionBalancedService_DeepCopy :: "library \<Rightarrow> nat option \<Rightarrow> (heap, nat option) state" where
  "OnionBalancedService_DeepCopy X = deep_copy (OnionBalancedService_DeepCopyInto X)"

definition OnionBalancedServiceList_DeepCopy :: "library \<Rightarrow> nat option \<Rightarrow> (heap, nat option) state" where
  "OnionBalancedServiceList_DeepCopy X = deep_copy (OnionBalancedServiceList_DeepCopyInto X)"

definition OnionService_DeepCopy :: "library \<Rightarrow> nat option \<Rightarrow> (heap, nat option) state" where
  "OnionService_DeepCopy X = deep_copy (OnionService_DeepCopyInto X)"

definition OnionServiceList_DeepCopy :: "library \<Rightarrow> nat option \<Rightarrow> (heap, nat option) state" where
  "OnionServiceList_DeepCopy X = deep_copy (OnionServiceList_DeepCopyInto X)"

definition ServicePort_DeepCopy :: "library \<Rightarrow> nat option \<Rightarrow> (heap, nat option) state" where
  "ServicePort_DeepCopy X = deep_copy (ServicePort_DeepCopyInto X)"

definition TorPodTemplate_DeepCopy :: "library \<Rightarrow> nat option \<Rightarrow> (heap, nat option) state" where
  "TorPodTemplate_DeepCopy X = deep_copy (TorPodTemplate_DeepCopyInto X)"

definition TorGenericPortSpec_DeepCopy :: "library \<Rightarrow> nat option \<Rightarrow> (heap, nat option) state" where
  "TorGenericPortSpec_DeepCopy X = deep_copy (TorGenericPortSpec_DeepCopyInto X)"

definition TorGenericPortWithFlagSpec_DeepCopy :: "library \<Rightarrow> nat option \<Rightarrow> (heap, nat option) state" where
  "TorGenericPortWithFlagSpec_DeepCopy X = deep_copy (TorGenericPortWithFlagSpec_DeepCopyInto X)"

definition TorClientSpec_DeepCopy :: "library \<Rightarrow> nat option \<Rightarrow> (heap, nat option) state" where
  "TorClientSpec_DeepCopy X = deep_copy (TorClientSpec_DeepCopyInto X)"

definition TorServerSpec_DeepCopy :: "library \<Rightarrow> nat option \<Rightarrow> (heap, nat option) state" where
  "TorServerSpec_DeepCopy X = deep_copy (TorServerSpec_DeepCopyInto X)"

definition TorControlSpec_DeepCopy :: "library \<Rightarrow> nat option \<Rightarrow> (heap, nat option) state" where
  "TorControlSpec_DeepCopy X = deep_copy (TorControlSpec_DeepCopyInto X)"

definition TorSpec_DeepCopy :: "library \<Rightarrow> nat option \<Rightarrow> (heap, nat option) state" where
  "TorSpec_DeepCopy X = deep_copy (TorSpec_DeepCopyInto X)"

definition TorStatus_DeepCopy :: "library \<Rightarrow> nat option \<Rightarrow> (heap, nat option) state" where
  "TorStatus_DeepCopy X = deep_copy (TorStatus_DeepCopyInto X)"

definition Tor_DeepCopy :: "library \<Rightarrow> nat option \<Rightarrow> (heap, nat option) state" where
  "Tor_DeepCopy X = deep_copy (Tor_DeepCopyInto X)"

definition TorGenericPortDef_DeepCopy :: "library \<Rightarrow> nat option \<Rightarrow> (heap, nat option) state" where
  "TorGenericPortDef_DeepCopy X = deep_copy (TorGenericPortDef_DeepCopyInto X)"

definition TorList_DeepCopy :: "library \<Rightarrow> nat option \<Rightarrow> (heap, nat option) state" where
  "TorList_DeepCopy X = deep_copy (TorList_DeepCopyInto X)"

definition OnionBalancedService_DeepCopyObject :: "library \<Rightarrow> nat option \<Rightarrow> (heap, object) state" where
  "OnionBalancedService_DeepCopyObject X = deep_copy_object ''OnionBalancedService'' (OnionBalancedService_DeepCopy X)"

definition OnionBalancedServiceList_DeepCopyObject :: "library \<Rightarrow> nat option \<Rightarrow> (heap, object) state" where
  "OnionBalancedServiceList_DeepCopyObject X = deep_copy_object ''OnionBalancedServiceList'' (OnionBalancedServiceList_DeepCopy X)"

definition OnionService_DeepCopyObject :: "library \<Rightarrow> nat option \<Rightarrow> (heap, object) state" where
  "OnionService_DeepCopyObject X = deep_copy_object ''OnionService'' (OnionService_DeepCopy X)"

definition OnionServiceList_DeepCopyObject :: "library \<Rightarrow> nat option \<Rightarrow> (heap, object) state" where
  "OnionServiceList_DeepCopyObject X = deep_copy_object ''OnionServiceList'' (OnionServiceList_DeepCopy X)"

definition Tor_DeepCopyObject :: "library \<Rightarrow> nat option \<Rightarrow> (heap, object) state" where
  "Tor_DeepCopyObject X = deep_copy_object ''Tor'' (Tor_DeepCopy X)"

definition TorList_DeepCopyObject :: "library \<Rightarrow> nat option \<Rightarrow> (heap, object) state" where
  "TorList_DeepCopyObject X = deep_copy_object ''TorList'' (TorList_DeepCopy X)"

section \<open>They are deep copies\<close>

lemma BalancerTemplate_copies [copying]:
  "library_copies E X \<Longrightarrow> deep_copier (has_layout E BalancerTemplate_layout) (BalancerTemplate_DeepCopyInto X)"
  unfolding BalancerTemplate_layout_def BalancerTemplate_DeepCopyInto_def
  by (rule struct_copies) (auto simp: field_covered_def intro!: copying)

lemma SecretReference_copies [copying]: "deep_copier (has_layout E SecretReference_layout) (SecretReference_DeepCopyInto X)"
  unfolding SecretReference_DeepCopyInto_def by (rule assign_copies) simp

lemma ServiceRule_copies [copying]:
  "library_copies E X \<Longrightarrow> deep_copier (has_layout E ServiceRule_layout) (ServiceRule_DeepCopyInto X)"
  unfolding ServiceRule_layout_def ServiceRule_DeepCopyInto_def
  by (rule struct_copies) (auto simp: field_covered_def intro!: copying)

lemma ServicePodTemplate_copies [copying]:
  "library_copies E X \<Longrightarrow> deep_copier (has_layout E ServicePodTemplate_layout) (ServicePodTemplate_DeepCopyInto X)"
  unfolding ServicePodTemplate_layout_def ServicePodTemplate_DeepCopyInto_def
  by (rule struct_copies) (auto simp: field_covered_def intro!: copying)

lemma OnionServiceSpec_copies [copying]:
  "library_copies E X \<Longrightarrow> deep_copier (has_layout E OnionServiceSpec_layout) (OnionServiceSpec_DeepCopyInto X)"
  unfolding OnionServiceSpec_layout_def OnionServiceSpec_DeepCopyInto_def
  by (rule struct_copies) (auto simp: field_covered_def intro!: copying)

lemma TemplateReference_copies [copying]:
  "library_copies E X \<Longrightarrow> deep_copier (has_layout E TemplateReference_layout) (TemplateReference_DeepCopyInto X)"
  unfolding TemplateReference_layout_def TemplateReference_DeepCopyInto_def
  by (rule struct_copies) (auto simp: field_covered_def intro!: copying)

lemma OnionBalancedServiceSpec_copies [copying]:
  "library_copies E X \<Longrightarrow> deep_copier (has_layout E OnionBalancedServiceSpec_layout) (OnionBalancedServiceSpec_DeepCopyInto X)"
  unfolding OnionBalancedServiceSpec_layout_def OnionBalancedServiceSpec_DeepCopyInto_def
  by (rule struct_copies) (auto simp: field_covered_def intro!: copying)

lemma OnionServiceStatus_copies [copying]: "deep_copier (has_layout E OnionServiceStatus_layout) (OnionServiceStatus_DeepCopyInto X)"
  unfolding OnionServiceStatus_DeepCopyInto_def by (rule assign_copies) simp

lemma OnionBalancedServiceStatus_copies [copying]:
  "library_copies E X \<Longrightarrow> deep_copier (has_layout E OnionBalancedServiceStatus_layout) (OnionBalancedServiceStatus_DeepCopyInto X)"
  unfolding OnionBalancedServiceStatus_layout_def OnionBalancedServiceStatus_DeepCopyInto_def
  by (rule struct_copies) (auto simp: field_covered_def intro!: copying)

lemma OnionBalancedService_copies [copying]:
  "library_copies E X \<Longrightarrow> deep_copier (has_layout E OnionBalancedService_layout) (OnionBalancedService_DeepCopyInto X)"
  unfolding OnionBalancedService_layout_def OnionBalancedService_DeepCopyInto_def
  by (rule struct_copies) (auto simp: field_covered_def intro!: copying)

lemma OnionBalancedServiceList_copies [copying]:
  "library_copies E X \<Longrightarrow> deep_copier (has_layout E OnionBalancedServiceList_layout) (OnionBalancedServiceList_DeepCopyInto X)"
  unfolding OnionBalancedServiceList_layout_def OnionBalancedServiceList_DeepCopyInto_def
  by (rule struct_copies) (auto simp: field_covered_def intro!: copying)

lemma OnionService_copies [copying]:
  "library_copies E X \<Longrightarrow> deep_copier (has_layout E OnionService_layout) (OnionService_DeepCopyInto X)"
  unfolding OnionService_layout_def OnionService_DeepCopyInto_def
  by (rule struct_copies) (auto simp: field_covered_def intro!: copying)

lemma OnionServiceList_copies [copying]:
  "library_copies E X \<Longrightarrow> deep_copier (has_layout E OnionServiceList_layout) (OnionServiceList_DeepCopyInto X)"
  unfolding OnionServiceList_layout_def OnionServiceList_DeepCopyInto_def
  by (rule struct_copies) (auto simp: field_covered_def intro!: copying)

lemma ServicePort_copies [copying]: "deep_copier (has_layout E ServicePort_layout) (ServicePort_DeepCopyInto X)"
  unfolding ServicePort_DeepCopyInto_def by (rule assign_copies) simp

lemma TorPodTemplate_copies [copying]:
  "library_copies E X \<Longrightarrow> deep_copier (has_layout E TorPodTemplate_layout) (TorPodTemplate_DeepCopyInto X)"
  unfolding TorPodTemplate_layout_def TorPodTemplate_DeepCopyInto_def
  by (rule struct_copies) (auto simp: field_covered_def intro!: copying)

lemma TorGenericPortSpec_copies [copying]:
  "library_copies E X \<Longrightarrow> deep_copier (has_layout E TorGenericPortSpec_layout) (TorGenericPortSpec_DeepCopyInto X)"
  unfolding TorGenericPortSpec_layout_def TorGenericPortSpec_DeepCopyInto_def
  by (rule struct_copies) (auto simp: field_covered_def intro!: copying)

lemma TorGenericPortWithFlagSpec_copies [copying]:
  "library_copies E X \<Longrightarrow> deep_copier (has_layout E TorGenericPortWithFlagSpec_layout) (TorGenericPortWithFlagSpec_DeepCopyInto X)"
  unfolding TorGenericPortWithFlagSpec_layout_def TorGenericPortWithFlagSpec_DeepCopyInto_def
  by (rule struct_copies) (auto simp: field_covered_def intro!: copying)

lemma TorClientSpec_copies [copying]:
  "library_copies E X \<Longrightarrow> deep_copier (has_layout E TorClientSpec_layout) (TorClientSpec_DeepCopyInto X)"
  unfolding TorClientSpec_layout_def TorClientSpec_DeepCopyInto_def
  by (rule struct_copies) (auto simp: field_covered_def intro!: copying)

lemma TorServerSpec_copies [copying]:
  "library_copies E X \<Longrightarrow> deep_copier (has_layout E TorServerSpec_layout) (TorServerSpec_DeepCopyInto X)"
  unfolding TorServerSpec_layout_def TorServerSpec_DeepCopyInto_def
  by (rule struct_copies) (auto simp: field_covered_def intro!: copying)

lemma TorControlSpec_copies [copying]:
  "library_copies E X \<Longrightarrow> deep_copier (has_layout E TorControlSpec_layout) (TorControlSpec_DeepCopyInto X)"
  unfolding TorControlSpec_layout_def TorControlSpec_DeepCopyInto_def
  by (rule struct_copies) (auto simp: field_covered_def intro!: copying)

lemma TorSpec_copies [copying]:
  "library_copies E X \<Longrightarrow> deep_copier (has_layout E TorSpec_layout) (TorSpec_DeepCopyInto X)"
  unfolding TorSpec_layout_def TorSpec_DeepCopyInto_def
  by (rule struct_copies) (auto simp: field_covered_def intro!: copying)

lemma TorStatus_copies [copying]: "deep_copier (has_layout E TorStatus_layout) (TorStatus_DeepCopyInto X)"
  unfolding TorStatus_DeepCopyInto_def by (rule assign_copies) simp

lemma Tor_copies [copying]:
  "library_copies E X \<Longrightarrow> deep_copier (has_layout E Tor_layout) (Tor_DeepCopyInto X)"
  unfolding Tor_layout_def Tor_DeepCopyInto_def
  by (rule struct_copies) (auto simp: field_covered_def intro!: copying)

lemma TorGenericPortDef_copies [copying]:
  "library_copies E X \<Longrightarrow> deep_copier (has_layout E TorGenericPortDef_layout) (TorGenericPortDef_DeepCopyInto X)"
  unfolding TorGenericPortDef_layout_def TorGenericPortDef_DeepCopyInto_def
  by (rule struct_copies) (auto simp: field_covered_def intro!: copying)

lemma TorList_copies [copying]:
  "library_copies E X \<Longrightarrow> deep_copier (has_layout E TorList_layout) (TorList_DeepCopyInto X)"
  unfolding TorList_layout_def TorList_DeepCopyInto_def
  by (rule struct_copies) (auto simp: field_covered_def intro!: copying)

end
