(* ===== verification/Deep_Copy_Objects.thy ===== *)
theory Deep_Copy_Objects
  imports Deep_Copy
begin

text \<open>
  The remaining generated copy functions, those of \<open>apis/tor/v1alpha1\<close> and \<open>apis/config/v2\<close>, and what
  all of them promise: the original and the copy share no memory.
\<close>

section \<open>The functions of v1alpha1\<close>

definition V1_ServicePort_DeepCopyInto :: "library \<Rightarrow> copier" where
  "V1_ServicePort_DeepCopyInto X = assign"

definition V1_SecretReference_DeepCopyInto :: "library \<Rightarrow> copier" where
  "V1_SecretReference_DeepCopyInto X = assign"

definition V1_OnionServiceSpec_DeepCopyInto :: "library \<Rightarrow> copier" where
  "V1_OnionServiceSpec_DeepCopyInto X = struct_copy [
     (''Ports'', slice_copy assign), (''Selector'', map_copy), (''PrivateKeySecret'', assign)]"

definition V1_OnionServiceStatus_DeepCopyInto :: "library \<Rightarrow> copier" where
  "V1_OnionServiceStatus_DeepCopyInto X = assign"

definition V1_OnionService_DeepCopyInto :: "library \<Rightarrow> copier" where
  "V1_OnionService_DeepCopyInto X = struct_copy [
     (''TypeMeta'', assign), (''ObjectMeta'', X ''ObjectMeta''),
     (''Spec'', V1_OnionServiceSpec_DeepCopyInto X), (''Status'', assign)]"

definition V1_OnionServiceList_DeepCopyInto :: "library \<Rightarrow> copier" where
  "V1_OnionServiceList_DeepCopyInto X = struct_copy [
     (''TypeMeta'', assign), (''ListMeta'', X ''ListMeta''),
     (''Items'', slice_copy (V1_OnionService_DeepCopyInto X))]"

definition V1_ServicePort_DeepCopy :: "library \<Rightarrow> nat option \<Rightarrow> (heap, nat option) state" where
  "V1_ServicePort_DeepCopy X = deep_copy (V1_ServicePort_DeepCopyInto X)"

definition V1_SecretReference_DeepCopy :: "library \<Rightarrow> nat option \<Rightarrow> (heap, nat option) state" where
  "V1_SecretReference_DeepCopy X = deep_copy (V1_SecretReference_DeepCopyInto X)"

definition V1_OnionServiceSpec_DeepCopy :: "library \<Rightarrow> nat option \<Rightarrow> (heap, nat option) state" where
  "V1_OnionServiceSpec_DeepCopy X = deep_copy (V1_OnionServiceSpec_DeepCopyInto X)"

definition V1_OnionServiceStatus_DeepCopy :: "library \<Rightarrow> nat option \<Rightarrow> (heap, nat option) state" where
  "V1_OnionServiceStatus_DeepCopy X = deep_copy (V1_OnionServiceStatus_DeepCopyInto X)"

definition V1_OnionService_DeepCopy :: "library \<Rightarrow> nat option \<Rightarrow> (heap, nat option) state" where
  "V1_OnionService_DeepCopy X = deep_copy (V1_OnionService_DeepCopyInto X)"

definition V1_OnionServiceList_DeepCopy :: "library \<Rightarrow> nat option \<Rightarrow> (heap, nat option) state" where
  "V1_OnionServiceList_DeepCopy X = deep_copy (V1_OnionServiceList_DeepCopyInto X)"

definition V1_OnionService_DeepCopyObject :: "library \<Rightarrow> nat option \<Rightarrow> (heap, object) state" where
  "V1_OnionService_DeepCopyObject X = deep_copy_object ''OnionService'' (V1_OnionService_DeepCopy X)"

definition V1_OnionServiceList_DeepCopyObject :: "library \<Rightarrow> nat option \<Rightarrow> (heap, object) state" where
  "V1_OnionServiceList_DeepCopyObject X = deep_copy_object ''OnionServiceList'' (V1_OnionServiceList_DeepCopy X)"

lemma V1_ServicePort_copies [copying]: "deep_copier (has_layout E V1_ServicePort_layout) (V1_ServicePort_DeepCopyInto X)"
  unfolding V1_ServicePort_DeepCopyInto_def by (rule assign_copies) simp

lemma V1_SecretReference_copies [copying]: "deep_copier (has_layout E V1_SecretReference_layout) (V1_SecretReference_DeepCopyInto X)"
  unfolding V1_SecretReference_DeepCopyInto_def by (rule assign_copies) simp

lemma V1_OnionServiceSpec_copies [copying]:
  "library_copies E X \<Longrightarrow> deep_copier (has_layout E V1_OnionServiceSpec_layout) (V1_OnionServiceSpec_DeepCopyInto X)"
  unfolding V1_OnionServiceSpec_layout_def V1_OnionServiceSpec_DeepCopyInto_def
  by (rule struct_copies) (auto simp: field_covered_def intro!: copying)

lemma V1_OnionServiceStatus_copies [copying]: "deep_copier (has_layout E V1_OnionServiceStatus_layout) (V1_OnionServiceStatus_DeepCopyInto X)"
  unfolding V1_OnionServiceStatus_DeepCopyInto_def by (rule assign_copies) simp

lemma V1_OnionService_copies [copying]:
  "library_copies E X \<Longrightarrow> deep_copier (has_layout E V1_OnionService_layout) (V1_OnionService_DeepCopyInto X)"
  unfolding V1_OnionService_layout_def V1_OnionService_DeepCopyInto_def
  by (rule struct_copies) (auto simp: field_covered_def intro!: copying)

lemma V1_OnionServiceList_copies [copying]:
  "library_copies E X \<Longrightarrow> deep_copier (has_layout E V1_OnionServiceList_layout) (V1_OnionServiceList_DeepCopyInto X)"
  unfolding V1_OnionServiceList_layout_def V1_OnionServiceList_DeepCopyInto_def
  by (rule struct_copies) (auto simp: field_covered_def intro!: copying)

section \<open>The functions of the project configuration\<close>

definition TorDaemonType_DeepCopyInto :: "library \<Rightarrow> copier" where
  "TorDaemonType_DeepCopyInto X = assign"

definition TorDaemonManagerType_DeepCopyInto :: "library \<Rightarrow> copier" where
  "TorDaemonManagerType_DeepCopyInto X = assign"

definition TorOnionbalanceManagerType_DeepCopyInto :: "library \<Rightarrow> copier" where
  "TorOnionbalanceManagerType_DeepCopyInto X = assign"

definition ProjectConfig_DeepCopyInto :: "library \<Rightarrow> copier" where
  "ProjectConfig_DeepCopyInto X = struct_copy [
     (''TypeMeta'', assign),
     (''ControllerManagerConfigurationSpec'', X ''ControllerManagerConfigurationSpec''),
     (''TorDaemon'', assign), (''TorDaemonManager'', assign),
     (''TorOnionbalanceManager'', assign)]"

definition TorDaemonType_DeepCopy :: "library \<Rightarrow> nat option \<Rightarrow> (heap, nat option) state" where
  "TorDaemonType_DeepCopy X = deep_copy (TorDaemonType_DeepCopyInto X)"

definition TorDaemonManagerType_DeepCopy :: "library \<Rightarrow> nat option \<Rightarrow> (heap, nat option) state" where
  "TorDaemonManagerType_DeepCopy X = deep_copy (TorDaemonManagerType_DeepCopyInto X)"

definition TorOnionbalanceManagerType_DeepCopy :: "library \<Rightarrow> nat option \<Rightarrow> (heap, nat option) state" where
  "TorOnionbalanceManagerType_DeepCopy X = deep_copy (TorOnionbalanceManagerType_DeepCopyInto X)"

definition ProjectConfig_DeepCopy :: "library \<Rightarrow> nat option \<Rightarrow> (heap, nat option) state" where
  "ProjectConfig_DeepCopy X = deep_copy (ProjectConfig_DeepCopyInto X)"

definition ProjectConfig_DeepCopyObject :: "library \<Rightarrow> nat option \<Rightarrow> (heap, object) state" where
  "ProjectConfig_DeepCopyObject X = deep_copy_object ''ProjectConfig'' (ProjectConfig_DeepCopy X)"

lemma TorDaemonType_copies [copying]: "deep_copier (has_layout E TorDaemonType_layout) (TorDaemonType_DeepCopyInto X)"
  unfolding TorDaemonType_DeepCopyInto_def by (rule assign_copies) simp

lemma TorDaemonManagerType_copies [copying]: "deep_copier (has_layout E TorDaemonManagerType_layout) (TorDaemonManagerType_DeepCopyInto X)"
  unfolding TorDaemonManagerType_DeepCopyInto_def by (rule assign_copies) simp

lemma TorOnionbalanceManagerType_copies [copying]: "deep_copier (has_layout E TorOnionbalanceManagerType_layout) (TorOnionbalanceManagerType_DeepCopyInto X)"
  unfolding TorOnionbalanceManagerType_DeepCopyInto_def by (rule assign_copies) simp

lemma ProjectConfig_copies [copying]:
  "library_copies E X \<Longrightarrow> deep_copier (has_layout E ProjectConfig_layout) (ProjectConfig_DeepCopyInto X)"
  unfolding ProjectConfig_layout_def ProjectConfig_DeepCopyInto_def
  by (rule struct_copies) (auto simp: field_covered_def intro!: copying)

section \<open>All copy functions\<close>

definition v1alpha2_copies :: "library \<Rightarrow> (layout \<times> (nat option \<Rightarrow> (heap, nat option) state)) list" where
  "v1alpha2_copies X = [
     (BalancerTemplate_layout, BalancerTemplate_DeepCopy X),
     (SecretReference_layout, SecretReference_DeepCopy X),
     (ServiceRule_layout, ServiceRule_DeepCopy X),
     (ServicePodTemplate_layout, ServicePodTemplate_DeepCopy X),
     (OnionServiceSpec_layout, OnionServiceSpec_DeepCopy X),
     (TemplateReference_layout, TemplateReference_DeepCopy X),
     (OnionBalancedServiceSpec_layout, OnionBalancedServiceSpec_DeepCopy X),
     (OnionServiceStatus_layout, OnionServiceStatus_DeepCopy X),
     (OnionBalancedServiceStatus_layout, OnionBalancedServiceStatus_DeepCopy X),
     (OnionBalancedService_layout, OnionBalancedService_DeepCopy X),
     (OnionBalancedServiceList_layout, OnionBalancedServiceList_DeepCopy X),
     (OnionService_layout, OnionService_DeepCopy X),
     (OnionServiceList_layout, OnionServiceList_DeepCopy X),
     (ServicePort_layout, ServicePort_DeepCopy X),
     (TorPodTemplate_layout, TorPodTemplate_DeepCopy X),
     (TorGenericPortSpec_layout, TorGenericPortSpec_DeepCopy X),
     (TorGenericPortWithFlagSpec_layout, TorGenericPortWithFlagSpec_DeepCopy X),
     (TorClientSpec_layout, TorClientSpec_DeepCopy X),
     (TorServerSpec_layout, TorServerSpec_DeepCopy X),
     (TorControlSpec_layout, TorControlSpec_DeepCopy X), (TorSpec_layout, TorSpec_DeepCopy X),
     (TorStatus_layout, TorStatus_DeepCopy X), (Tor_layout, Tor_DeepCopy X),
     (TorGenericPortDef_layout, TorGenericPortDef_DeepCopy X),
     (TorList_layout, TorList_DeepCopy X)]"

definition v1alpha1_copies :: "library \<Rightarrow> (layout \<times> (nat option \<Rightarrow> (heap, nat option) state)) list" where
  "v1alpha1_copies X = [
     (V1_ServicePort_layout, V1_ServicePort_DeepCopy X),
     (V1_SecretReference_layout, V1_SecretReference_DeepCopy X),
     (V1_OnionServiceSpec_layout, V1_OnionServiceSpec_DeepCopy X),
     (V1_OnionServiceStatus_layout, V1_OnionServiceStatus_DeepCopy X),
     (V1_OnionService_layout, V1_OnionService_DeepCopy X),
     (V1_OnionServiceList_layout, V1_OnionServiceList_DeepCopy X)]"

definition config_copies :: "library \<Rightarrow> (layout \<times> (nat option \<Rightarrow> (heap, nat option) state)) list" where
  "config_copies X = [
     (TorDaemonType_layout, TorDaemonType_DeepCopy X),
     (TorDaemonManagerType_layout, TorDaemonManagerType_DeepCopy X),
     (TorOnionbalanceManagerType_layout, TorOnionbalanceManagerType_DeepCopy X),
     (ProjectConfig_layout, ProjectConfig_DeepCopy X)]"

lemmas DeepCopy_defs =
  BalancerTemplate_DeepCopy_def OnionBalancedService_DeepCopy_def
  OnionBalancedServiceList_DeepCopy_def OnionBalancedServiceSpec_DeepCopy_def
  OnionBalancedServiceStatus_DeepCopy_def OnionService_DeepCopy_def
  OnionServiceList_DeepCopy_def OnionServiceSpec_DeepCopy_def OnionServiceStatus_DeepCopy_def
  SecretReference_DeepCopy_def ServicePodTemplate_DeepCopy_def ServicePort_DeepCopy_def
  ServiceRule_DeepCopy_def TemplateReference_DeepCopy_def Tor_DeepCopy_def
  TorClientSpec_DeepCopy_def TorControlSpec_DeepCopy_def TorGenericPortDef_DeepCopy_def
  TorGenericPortSpec_DeepCopy_def TorGenericPortWithFlagSpec_DeepCopy_def TorList_DeepCopy_def
  TorPodTemplate_DeepCopy_def TorServerSpec_DeepCopy_def TorSpec_DeepCopy_def
  TorStatus_DeepCopy_def V1_OnionService_DeepCopy_def V1_OnionServiceList_DeepCopy_def
  V1_OnionServiceSpec_DeepCopy_def V1_OnionServiceStatus_DeepCopy_def
  V1_SecretReference_DeepCopy_def V1_ServicePort_DeepCopy_def ProjectConfig_DeepCopy_def
  TorDaemonManagerType_DeepCopy_def TorDaemonType_DeepCopy_def
  TorOnionbalanceManagerType_DeepCopy_def

definition api_copies :: "library \<Rightarrow> (layout \<times> (nat option \<Rightarrow> (heap, nat option) state)) list" where
  "api_copies X = v1alpha2_copies X @ v1alpha1_copies X @ config_copies X"

text \<open>Every function of the list is \<open>deep_copy\<close> of a deep copier for its layout.\<close>

lemma api_copies_deep:
  assumes "library_copies E X" "(L, dc) \<in> set (api_copies X)"
  obtains f where "dc = deep_copy f" "deep_copier (has_layout E L) f"
proof -
  have "\<exists>f. dc = deep_copy f \<and> deep_copier (has_layout E L) f"
    if "(L, dc) \<in> set (v1alpha2_copies X)"
    using that assms(1) unfolding v1alpha2_copies_def
    by (simp only: list.set insert_iff empty_iff prod.inject)
      (elim disjE FalseE conjE; (hypsubst, rule exI, rule conjI, (simp only: DeepCopy_defs; fail), rule copying, assumption?))
  moreover have "\<exists>f. dc = deep_copy f \<and> deep_copier (has_layout E L) f"
    if "(L, dc) \<in> set (v1alpha1_copies X @ config_copies X)"
    using that assms(1) unfolding v1alpha1_copies_def config_copies_def
    by (simp only: append.simps list.set insert_iff empty_iff prod.inject)
      (elim disjE FalseE conjE; (hypsubst, rule exI, rule conjI, (simp only: DeepCopy_defs; fail), rule copying, assumption?))
  ultimately show ?thesis using assms(2) that by (auto simp: api_copies_def)
qed

text \<open>
  C17: A copy of any API object shares no memory with the original: whatever is written to the cells
  of the copy, the original reads as before, and whatever is written to the other cells, the copy
  reads as the object that was copied; the copy of \<open>nil\<close> is \<open>nil\<close>.
\<close>

theorem api_copies_separate:
  assumes "library_copies E X" "(L, dc) \<in> set (api_copies X)"
    and "denotes h A (Pointer p) t" "has_layout E (L_pointer L) t"
  shows "\<exists>q h'. run_state (dc p) h = (q, h') \<and> (q = None \<longleftrightarrow> p = None) \<and> separate h A p h' q t"
proof -
  obtain f where "dc = deep_copy f" "deep_copier (has_layout E L) f"
    by (rule api_copies_deep [OF assms(1,2)])
  with deep_copy_separate assms(3,4) show ?thesis by blast
qed

section \<open>Objects\<close>

text \<open>
  The types that are API objects: the name, \<open>DeepCopy\<close> and \<open>DeepCopyObject\<close>.
\<close>

definition api_objects ::
  "library \<Rightarrow> (string \<times> (nat option \<Rightarrow> (heap, nat option) state) \<times> (nat option \<Rightarrow> (heap, object) state)) list" where
  "api_objects X = [
     (''OnionBalancedService'', OnionBalancedService_DeepCopy X, OnionBalancedService_DeepCopyObject X),
     (''OnionBalancedServiceList'', OnionBalancedServiceList_DeepCopy X, OnionBalancedServiceList_DeepCopyObject X),
     (''OnionService'', OnionService_DeepCopy X, OnionService_DeepCopyObject X),
     (''OnionServiceList'', OnionServiceList_DeepCopy X, OnionServiceList_DeepCopyObject X),
     (''Tor'', Tor_DeepCopy X, Tor_DeepCopyObject X),
     (''TorList'', TorList_DeepCopy X, TorList_DeepCopyObject X),
     (''OnionService'', V1_OnionService_DeepCopy X, V1_OnionService_DeepCopyObject X),
     (''OnionServiceList'', V1_OnionServiceList_DeepCopy X, V1_OnionServiceList_DeepCopyObject X),
     (''ProjectConfig'', ProjectConfig_DeepCopy X, ProjectConfig_DeepCopyObject X)]"

lemmas DeepCopyObject_defs =
  OnionBalancedService_DeepCopyObject_def OnionBalancedServiceList_DeepCopyObject_def
  OnionService_DeepCopyObject_def OnionServiceList_DeepCopyObject_def Tor_DeepCopyObject_def
  TorList_DeepCopyObject_def V1_OnionService_DeepCopyObject_def
  V1_OnionServiceList_DeepCopyObject_def ProjectConfig_DeepCopyObject_def

lemma deep_copy_nil: "fst (run_state (deep_copy f p) h) = None \<longleftrightarrow> p = None"
  by (cases p) (simp_all add: deep_copy_def split: prod.splits)

text \<open>
  \<open>DeepCopyObject\<close> of \<open>nil\<close> is the \<open>nil\<close> object, and never an object with a \<open>nil\<close> pointer inside
  (which compares unequal to \<open>nil\<close>); otherwise it is the pointer \<open>DeepCopy\<close> returns.
\<close>

theorem api_objects_nil:
  assumes "(T, dc, dco) \<in> set (api_objects X)"
  shows "run_state (dco p) h =
    (case run_state (dc p) h of (q, h') \<Rightarrow> (if p = None then Nil_object else Object T q, h')) \<and>
    fst (run_state (dco p) h) \<noteq> Object T None"
proof -
  have "\<exists>f. dc = deep_copy f \<and> dco = deep_copy_object T dc"
    using assms unfolding api_objects_def
    by (simp only: list.set insert_iff empty_iff prod.inject)
      (elim disjE FalseE conjE; simp only: DeepCopy_defs DeepCopyObject_defs; blast)
  then obtain f where dc: "dc = deep_copy f" "dco = deep_copy_object T dc" by blast
  with deep_copy_nil [of f p h] show ?thesis
    by (auto simp: deep_copy_object_def split: prod.splits)
qed

section \<open>A simulated library\<close>

text \<open>Some fields of the library types, copied in the same way.\<close>

definition strings :: layout where
  "strings = L_slice (L_basic String_kind)"

definition string_map :: layout where
  "string_map = L_map (L_basic String_kind)"

definition sim_library_layout :: "string \<Rightarrow> layout" where
  "sim_library_layout n =
     (if n = ''ObjectMeta'' then L_struct [(''Name'', L_basic String_kind), (''Labels'', string_map),
        (''Finalizers'', strings)]
      else if n = ''PodSpec'' then L_struct [(''Containers'',
        L_slice (L_struct [(''Image'', L_basic String_kind), (''Args'', strings)])),
        (''NodeSelector'', string_map)]
      else if n = ''ResourceRequirements'' then L_struct [(''Limits'', string_map), (''Requests'', string_map)]
      else if n = ''IngressBackend'' then L_struct [(''Service'',
        L_pointer (L_struct [(''Name'', L_basic String_kind), (''Port'', ServiceBackendPort_layout)]))]
      else if n = ''ListMeta'' then L_struct [(''RemainingItemCount'', L_pointer (L_basic Int_kind))]
      else L_struct [(''Name'', L_basic String_kind), (''Optional'', L_pointer (L_basic Bool_kind))])"

definition sim_library :: library where
  "sim_library n =
     (if n = ''ObjectMeta'' then struct_copy [(''Labels'', map_copy), (''Finalizers'', slice_copy assign)]
      else if n = ''PodSpec'' then struct_copy [(''Containers'',
        slice_copy (struct_copy [(''Args'', slice_copy assign)])), (''NodeSelector'', map_copy)]
      else if n = ''ResourceRequirements'' then struct_copy [(''Limits'', map_copy), (''Requests'', map_copy)]
      else if n = ''IngressBackend'' then struct_copy [(''Service'',
        pointer_copy (struct_copy [(''Port'', assign)]))]
      else if n = ''ListMeta'' then struct_copy [(''RemainingItemCount'', pointer_copy assign)]
      else struct_copy [(''Optional'', pointer_copy assign)])"

definition sim_values :: "string \<Rightarrow> tree \<Rightarrow> bool" where
  "sim_values n = has_layout (\<lambda>n t. False) (sim_library_layout n)"

lemma sim_library_copies: "library_copies sim_values sim_library"
proof -
  have "deep_copier (has_layout (\<lambda>n t. False) (sim_library_layout n)) (sim_library n)" for n
    unfolding sim_library_layout_def sim_library_def strings_def string_map_def
    by (cases "n = ''ObjectMeta''"; cases "n = ''PodSpec''"; cases "n = ''ResourceRequirements''";
        cases "n = ''IngressBackend''"; cases "n = ''ListMeta''";
        simp; (rule struct_copies; auto simp: field_covered_def intro!: copying)?)
  then show ?thesis by (simp add: library_copies_def sim_values_def)
qed

text \<open>A status with one backend, its map in the second cell.\<close>

definition backend_value :: go_value where
  "backend_value = Struct (fmap_of_list [(''Hostname'', Basic (String_value ''b.onion'')),
     (''TargetClusterIP'', Basic (String_value ''10.0.0.7''))])"

definition status_value :: go_value where
  "status_value = Struct (fmap_of_list [(''Hostname'', Basic (String_value ''a.onion'')),
     (''TargetClusterIP'', Basic (String_value ''0.0.0.0'')), (''Backends'', Map_ref (Some 1))])"

definition status_heap :: heap where
  "status_heap = [Array [status_value], Table [(''web-obb-1'', backend_value)]]"

definition backend_tree :: tree where
  "backend_tree = Fields (fmap_of_list [(''Hostname'', Leaf (String_value ''b.onion'')),
     (''TargetClusterIP'', Leaf (String_value ''10.0.0.7''))])"

definition status_tree :: tree where
  "status_tree = Fields (fmap_of_list [(''Hostname'', Leaf (String_value ''a.onion'')),
     (''TargetClusterIP'', Leaf (String_value ''0.0.0.0'')),
     (''Backends'', Entries (fmap_of_list [(''web-obb-1'', backend_tree)]))])"

lemma status_in_memory: "denotes status_heap {0, 1} (Pointer (Some 0)) (Target status_tree)"
proof -
  have backend: "denotes h A backend_value backend_tree" for h A
    unfolding backend_value_def backend_tree_def
    by (rule denotes.struct) (auto simp: fmlookup_of_list split: if_splits)
  have "denotes status_heap {0, 1} (Map_ref (Some 1)) (Entries (fmap_of_list [(''web-obb-1'', backend_tree)]))"
    by (rule denotes.map_ref [where es = "[(''web-obb-1'', backend_value)]"])
      (auto simp: status_heap_def backend fmlookup_of_list split: if_splits)
  then have "denotes status_heap {0, 1} status_value status_tree"
    unfolding status_tree_def status_value_def
    by (intro denotes.struct) (auto simp del: One_nat_def split: if_splits)
  then show ?thesis
    by (rule denotes.pointer [rotated -1]) (simp_all add: status_heap_def)
qed

lemma single_entry: "fmran' (fmupd k v fmempty) = {v}"
  by (auto simp: fmlookup_ran'_iff fmempty_lookup split: if_splits)

lemma status_typed: "has_layout sim_values OnionBalancedServiceStatus_layout status_tree"
  by (simp add: OnionBalancedServiceStatus_layout_def OnionServiceStatus_layout_def status_tree_def
      backend_tree_def fmlookup_of_list single_entry)

theorem api_copies_separate_witness:
  "\<exists>q h'. run_state (OnionBalancedServiceStatus_DeepCopy sim_library (Some 0)) status_heap = (q, h') \<and>
     separate status_heap {0, 1} (Some 0) h' q (Target status_tree)"
proof -
  have "(OnionBalancedServiceStatus_layout, OnionBalancedServiceStatus_DeepCopy sim_library)
      \<in> set (api_copies sim_library)"
    by (simp add: api_copies_def v1alpha2_copies_def)
  from api_copies_separate [OF sim_library_copies this status_in_memory] status_typed
  show ?thesis by auto
qed

theorem api_objects_nil_witness:
  "run_state (Tor_DeepCopyObject sim_library None) status_heap = (Nil_object, status_heap)"
  using api_objects_nil [of "''Tor''" "Tor_DeepCopy sim_library" "Tor_DeepCopyObject sim_library"
      sim_library None status_heap]
  by (simp add: api_objects_def Tor_DeepCopy_def deep_copy_def)

end
