(* ===== verification/Status_Copy.thy ===== *)
theory Status_Copy
  imports Deep_Copy_Objects
begin

text \<open>
  The ends of the three \<open>Reconcile\<close> methods (\<open>controllers/tor/tor_controller.go\<close>,
  \<open>onionservice_controller.go\<close> and \<open>onionbalancedservice_controller.go\<close>) on the level of memory: the
  resource is copied, fields of the copy's status are assigned, and the copy is sent.  The resource
  lies in a cell, and so do the items of a listed \<open>OnionServiceList\<close>.
\<close>

section \<open>Writing to a copy\<close>

text \<open>
  \<open>copy.X.Y = value\<close> through a pointer, and what it makes of the tree.
\<close>

fun set_path :: "string list \<Rightarrow> go_value \<Rightarrow> go_value \<Rightarrow> go_value" where
  "set_path [] w v = w"
| "set_path (n # ns) w v = set_field n (set_path ns w (field_of n v)) v"

definition store_path :: "nat \<Rightarrow> string list \<Rightarrow> go_value \<Rightarrow> (heap, unit) state" where
  "store_path a ns w = do { v \<leftarrow> load_element a 0; store_element a 0 (set_path ns w v) }"

fun update_tree :: "string list \<Rightarrow> tree \<Rightarrow> tree \<Rightarrow> tree" where
  "update_tree [] s t = s"
| "update_tree (n # ns) s t =
     (case t of
        Fields ts \<Rightarrow> (case fmlookup ts n of None \<Rightarrow> t | Some u \<Rightarrow> Fields (fmupd n (update_tree ns s u) ts))
      | _ \<Rightarrow> t)"

fun distinct_fields :: "layout \<Rightarrow> bool" where
  "distinct_fields (L_struct Ls) = (distinct (map fst Ls) \<and> (\<forall>p \<in> set Ls. distinct_fields (snd p)))"
| "distinct_fields (L_slice L) = distinct_fields L"
| "distinct_fields (L_map L) = distinct_fields L"
| "distinct_fields (L_pointer L) = distinct_fields L"
| "distinct_fields _ = True"

fun layout_at :: "layout \<Rightarrow> string list \<Rightarrow> layout option" where
  "layout_at L [] = Some L"
| "layout_at (L_struct Ls) (n # ns) = (case map_of Ls n of None \<Rightarrow> None | Some L \<Rightarrow> layout_at L ns)"
| "layout_at _ _ = None"

lemma set_path_denotes:
  assumes "denotes h A v t" "denotes h A w s" "has_layout E L t" "layout_at L ns = Some K"
  shows "denotes h A (set_path ns w v) (update_tree ns s t)"
  using assms
proof (induction L ns arbitrary: v t rule: layout_at.induct)
  case (2 Ls n ns)
  then obtain L where L: "map_of Ls n = Some L" "layout_at L ns = Some K" by (auto split: option.splits)
  then have "(n, L) \<in> set Ls" by (auto dest: map_of_SomeD)
  with "2.prems"(3) obtain ts u where t: "t = Fields ts" "fmlookup ts n = Some u" "has_layout E L u"
    by (fastforce split: tree.splits option.splits)
  with "2.prems"(1) obtain fs where v: "v = Struct fs" "fmdom fs = fmdom ts"
    and old: "\<And>m x y. fmlookup fs m = Some x \<Longrightarrow> fmlookup ts m = Some y \<Longrightarrow> denotes h A x y"
    by (auto simp: denotes_fields)
  from t(2) v(2) obtain x where x: "fmlookup fs n = Some x" by (metis fmdomE fmdomI)
  have "denotes h A (set_path ns w x) (update_tree ns s u)"
    using "2.IH" [OF L(1) old [OF x t(2)] "2.prems"(2) t(3) L(2)] .
  with t v x old show ?case
    by (auto simp: field_of_def set_field_def intro!: denotes.struct split: if_splits)
qed auto

text \<open>Writing a value of the right type keeps the type of the whole.\<close>

lemma update_tree_layout:
  assumes "has_layout E L t" "layout_at L ns = Some K" "has_layout E K s" "distinct_fields L"
  shows "has_layout E L (update_tree ns s t)"
  using assms
proof (induction L ns arbitrary: t rule: layout_at.induct)
  case (2 Ls n ns)
  then obtain L where L: "map_of Ls n = Some L" "layout_at L ns = Some K" by (auto split: option.splits)
  then have mem: "(n, L) \<in> set Ls" by (auto dest: map_of_SomeD)
  with "2.prems"(1) obtain ts u where t: "t = Fields ts" "fmlookup ts n = Some u" "has_layout E L u"
    "fset (fmdom ts) = fst ` set Ls" by (fastforce split: tree.splits option.splits)
  from "2.prems"(4) mem have names: "distinct (map fst Ls)" "distinct_fields L" by auto
  have "has_layout E L (update_tree ns s u)"
    by (rule "2.IH" [OF L(1) t(3) L(2) "2.prems"(3) names(2)])
  moreover have "snd p = L" if "p \<in> set Ls" "fst p = n" for p
    using that names(1) L(1) by (metis map_of_is_SomeI option.inject prod.collapse)
  moreover have "finsert n (fmdom ts) = fmdom ts" using t(2) by (auto intro: fmdomI)
  ultimately show ?case using "2.prems"(1) t by auto
qed auto

lemmas layout_defs =
  TypeMeta_layout_def ServiceBackendPort_layout_def ServicePodTemplate_layout_def
  ServiceRule_layout_def SecretReference_layout_def OnionServiceSpec_layout_def
  ServicePort_layout_def OnionServiceStatus_layout_def OnionService_layout_def
  OnionServiceList_layout_def TorPodTemplate_layout_def TorGenericPortSpec_layout_def
  TorGenericPortWithFlagSpec_layout_def TorClientSpec_layout_def TorServerSpec_layout_def
  TorControlSpec_layout_def TorSpec_layout_def TorStatus_layout_def Tor_layout_def
  TorList_layout_def TorGenericPortDef_layout_def TemplateReference_layout_def
  BalancerTemplate_layout_def OnionBalancedServiceSpec_layout_def
  OnionBalancedServiceStatus_layout_def OnionBalancedService_layout_def
  OnionBalancedServiceList_layout_def V1_ServicePort_layout_def V1_SecretReference_layout_def
  V1_OnionServiceSpec_layout_def V1_OnionServiceStatus_layout_def V1_OnionService_layout_def
  V1_OnionServiceList_layout_def TorDaemonType_layout_def TorDaemonManagerType_layout_def
  TorOnionbalanceManagerType_layout_def ProjectConfig_layout_def

section \<open>The programs\<close>

text \<open>\<open>torCopy := tor.DeepCopy()\<close> and \<open>torCopy.Status.Config = "updateme"\<close>.\<close>

definition tor_status_copy :: "library \<Rightarrow> nat \<Rightarrow> (heap, nat option) state" where
  "tor_status_copy X tor = do {
     torCopy \<leftarrow> Tor_DeepCopy X (Some tor);
     store_path (the torCopy) [''Status'', ''Config''] (Basic (String_value ''updateme''));
     State_Monad.return torCopy
   }"

definition os_status_copy :: "library \<Rightarrow> string \<Rightarrow> nat \<Rightarrow> (heap, nat option) state" where
  "os_status_copy X clusterIP onionService = do {
     onionServiceCopy \<leftarrow> OnionService_DeepCopy X (Some onionService);
     store_path (the onionServiceCopy) [''Status'', ''TargetClusterIP''] (Basic (String_value clusterIP));
     State_Monad.return onionServiceCopy
   }"

text \<open>\<open>*p.DeepCopy()\<close> for a pointer \<open>p\<close> to a part of a value: that part is copied into a new cell, and read.\<close>

definition copy_part :: "copier \<Rightarrow> copier" where
  "copy_part copy_into v = do {
     out \<leftarrow> allocate (Array [Zero]);
     w \<leftarrow> copy_into v;
     store_element out 0 w;
     load_element out 0
   }"

definition item_name :: "go_value \<Rightarrow> string" where
  "item_name v = (case field_of ''Name'' (field_of ''ObjectMeta'' v) of Basic (String_value s) \<Rightarrow> s | _ \<Rightarrow> [])"

text \<open>\<open>backends[Items[index].Name] = *Items[index].Status.DeepCopy()\<close>, for each index.\<close>

fun collect_backends :: "library \<Rightarrow> nat \<Rightarrow> nat \<Rightarrow> nat list \<Rightarrow> (heap, unit) state" where
  "collect_backends X backends a [] = State_Monad.return ()"
| "collect_backends X backends a (i # is) = do {
     item \<leftarrow> load_element a i;
     status \<leftarrow> copy_part (OnionServiceStatus_DeepCopyInto X) (field_of ''Status'' item);
     store_entry backends (item_name item) status;
     collect_backends X backends a is
   }"

definition ob_status_copy ::
  "library \<Rightarrow> string \<Rightarrow> (nat \<times> nat \<times> nat) option \<Rightarrow> nat \<Rightarrow> (heap, nat option) state" where
  "ob_status_copy X clusterIP items OnionBalancedService = do {
     OnionBalancedServiceCopy \<leftarrow> OnionBalancedService_DeepCopy X (Some OnionBalancedService);
     store_path (the OnionBalancedServiceCopy) [''Status'', ''TargetClusterIP''] (Basic (String_value clusterIP));
     backends \<leftarrow> allocate (Table []);
     (case items of
        None \<Rightarrow> State_Monad.return ()
      | Some (a, off, len) \<Rightarrow> collect_backends X backends a [off..<off + len]);
     store_path (the OnionBalancedServiceCopy) [''Status'', ''Backends''] (Map_ref (Some backends));
     State_Monad.return OnionBalancedServiceCopy
   }"

section \<open>A copy that is written to\<close>

text \<open>The copy of an object of the heap \<open>h\<close> lies in the first new cell and reads as \<open>t\<close> from new cells.\<close>

definition copied :: "heap \<Rightarrow> heap \<Rightarrow> tree \<Rightarrow> bool" where
  "copied h h1 t \<longleftrightarrow> grows h h1 \<and> length h < length h1 \<and>
     (\<exists>w. h1 ! length h = Array [w] \<and> denotes h1 (fresh_above h h1) w t)"

lemma copied_start:
  assumes "deep_copier (has_layout E L) f" "denotes h A (Pointer (Some p)) (Target t)" "has_layout E L t"
  shows "\<exists>h1. run_state (deep_copy f (Some p)) h = (Some (length h), h1) \<and> copied h h1 t"
proof -
  from assms(2) obtain v where "p < length h" "h ! p = Array [v]" "denotes h A v t"
    by (auto simp: denotes_target)
  from deep_copy_run [OF assms(1) this assms(3)] show ?thesis by (auto simp: copied_def)
qed

lemma copied_grows:
  assumes "copied h h1 t" "grows h1 h2"
  shows "copied h h2 t"
proof -
  from assms(1) obtain w where w: "h1 ! length h = Array [w]" "denotes h1 (fresh_above h h1) w t"
    and len: "grows h h1" "length h < length h1" by (auto simp: copied_def)
  from w(2) have "denotes h2 (fresh_above h h2) w t"
    by (rule denotes_frame) (use assms(2) in \<open>auto simp: fresh_above_def grows_def\<close>)
  with w(1) len assms(2) show ?thesis by (auto simp: copied_def grows_def)
qed

lemma copied_store:
  assumes "copied h h1 t" "denotes h1 (fresh_above h h1) x s" "has_layout E L t" "layout_at L ns = Some K"
  shows "\<exists>h2. run_state (store_path (length h) ns x) h1 = ((), h2) \<and> copied h h2 (update_tree ns s t)"
proof -
  from assms(1) obtain w where h1: "grows h h1" "length h < length h1" "h1 ! length h = Array [w]"
    "denotes h1 (fresh_above h h1) w t" by (auto simp: copied_def)
  define h2 where "h2 = h1[length h := Array [set_path ns x w]]"
  have "run_state (store_path (length h) ns x) h1 = ((), h2)"
    using h1 by (simp add: store_path_def load_element_def store_element_def heap_array_def h2_def)
  moreover have "denotes h1 (fresh_above h h1) (set_path ns x w) (update_tree ns s t)"
    by (rule set_path_denotes [OF h1(4) assms(2-4)])
  then have "denotes h2 (fresh_above h h2) (set_path ns x w) (update_tree ns s t)"
    by (rule denotes_frame) (auto simp: h2_def fresh_above_def)
  ultimately show ?thesis using h1 grows_update [OF h1(1)] by (auto simp: copied_def h2_def)
qed

lemma copied_pointer:
  assumes "copied h h' t"
  shows "denotes h' (fresh_in h h') (Pointer (Some (length h))) (Target t)"
proof -
  from assms obtain w where h': "length h < length h'" "h' ! length h = Array [w]"
    "denotes h' (fresh_above h h') w t" by (auto simp: copied_def)
  from h'(3) have "denotes h' (fresh_in h h') w t"
    by (rule denotes_widen) (auto simp: fresh_above_def fresh_in_def)
  with h' show ?thesis by (intro denotes.pointer) (auto simp: fresh_in_def)
qed

section \<open>The loop over the items\<close>

definition field_tree :: "string \<Rightarrow> tree \<Rightarrow> tree" where
  "field_tree n t =
     (case t of Fields ts \<Rightarrow> (case fmlookup ts n of None \<Rightarrow> Absent | Some u \<Rightarrow> u) | _ \<Rightarrow> Absent)"

definition tree_name :: "tree \<Rightarrow> string" where
  "tree_name t = (case field_tree ''Name'' (field_tree ''ObjectMeta'' t) of Leaf (String_value s) \<Rightarrow> s | _ \<Rightarrow> [])"

lemma field_denotes:
  assumes "denotes h A v t"
  shows "denotes h A (field_of n v) (field_tree n t) \<or> field_of n v = Zero \<and> field_tree n t = Absent"
  using assms
proof cases
  case (struct fs ts)
  then have "fmlookup fs n = None \<longleftrightarrow> fmlookup ts n = None"
    by (metis fmdom_notD fmdom_notI)
  with struct show ?thesis
    by (cases "fmlookup fs n"; cases "fmlookup ts n") (auto simp: field_of_def field_tree_def)
qed (auto simp: field_of_def field_tree_def)

lemma item_name_tree:
  assumes "denotes h A v t"
  shows "item_name v = tree_name t"
proof -
  let ?v = "field_of ''Name'' (field_of ''ObjectMeta'' v)" and ?t = "field_tree ''Name'' (field_tree ''ObjectMeta'' t)"
  from field_denotes [OF assms, of "''ObjectMeta''"]
  have "denotes h A ?v ?t \<or> ?v = Zero \<and> ?t = Absent"
  proof
    assume "denotes h A (field_of ''ObjectMeta'' v) (field_tree ''ObjectMeta'' t)"
    then show ?thesis by (rule field_denotes)
  qed (simp add: field_of_def field_tree_def)
  then show ?thesis
    unfolding item_name_def tree_name_def by (auto elim: denotes.cases)
qed

text \<open>The entries of a table read as \<open>ts\<close>, without a look at any other cell.\<close>

definition entries_read :: "(string \<times> go_value) list \<Rightarrow> (string, tree) fmap \<Rightarrow> bool" where
  "entries_read es ts \<longleftrightarrow> distinct (map fst es) \<and> fst ` set es = fset (fmdom ts) \<and>
     (\<forall>k v t. (k, v) \<in> set es \<longrightarrow> fmlookup ts k = Some t \<longrightarrow> denotes [] {} v t)"

lemma entries_read_update:
  assumes "entries_read es ts" "denotes [] {} v t"
  shows "entries_read (AList.update k v es) (fmupd k t ts)"
  using assms unfolding entries_read_def
  by (auto simp: distinct_update dom_update update_conv' dest!: map_of_is_SomeI [rotated]
      simp flip: dom_map_of_conv_image_fst split: if_splits)

lemma entries_read_denotes:
  assumes "entries_read es ts" "a \<in> A" "a < length h" "h ! a = Table es"
  shows "denotes h A (Map_ref (Some a)) (Entries ts)"
proof (rule denotes.map_ref [OF assms(2-4)])
  show "denotes h A v t" if "(k, v) \<in> set es" "fmlookup ts k = Some t" for k v t
    by (rule denotes_frame [of "[]" "{}"]) (use assms(1) that in \<open>auto simp: entries_read_def\<close>)
qed (use assms(1) in \<open>auto simp: entries_read_def\<close>)

lemma collect_backends_run:
  assumes a: "a < length h1" "h1 ! a = Array xs" "length h1 \<le> m"
    and items: "\<And>i. i \<in> set ks \<Longrightarrow> i < length xs \<and> denotes h1 B (xs ! i) (T i) \<and> has_layout E OnionService_layout (T i)"
    and start: "grows h1 h" "m < length h" "h ! m = Table es" "entries_read es ts"
  shows "\<exists>h' es'. run_state (collect_backends X m a ks) h = ((), h') \<and> grows h1 h' \<and> m < length h' \<and>
    h' ! m = Table es' \<and>
    entries_read es' (fold (\<lambda>i ts. fmupd (tree_name (T i)) (field_tree ''Status'' (T i)) ts) ks ts)"
  using items start
proof (induction ks arbitrary: h es ts)
  case Nil
  then show ?case by auto
next
  case (Cons i ks)
  have i: "i < length xs" "denotes h1 B (xs ! i) (T i)" "has_layout E OnionService_layout (T i)"
    using Cons.prems(1) [of i] by simp_all
  let ?s = "field_tree ''Status'' (T i)" and ?v = "field_of ''Status'' (xs ! i)"
  have status: "has_layout E OnionServiceStatus_layout ?s"
    using i(3) by (auto simp: OnionService_layout_def field_tree_def split: tree.splits option.splits)
  then have "?s \<noteq> Absent" by (auto simp: OnionServiceStatus_layout_def)
  with field_denotes [OF i(2), of "''Status''"] have v: "denotes h1 B ?v ?s" by blast
  let ?h = "h @ [Array [Zero]]"
  have "denotes ?h B ?v ?s"
    by (rule denotes_grows [OF v grows_trans [OF Cons.prems(2)]]) simp
  from deep_copierE [OF OnionServiceStatus_copies this status] obtain w h2 where
    copy: "run_state (OnionServiceStatus_DeepCopyInto X ?v) ?h = (w, h2)" "grows ?h h2"
      "denotes h2 (fresh_in ?h h2) w ?s" by metis
  have flat: "denotes [] {} w ?s" by (rule denotes_flat [OF _ status copy(3)]) simp
  define h3 where "h3 = h2[length h := Array [w]]"
  define h4 where "h4 = h3[m := Table (AList.update (item_name (xs ! i)) w es)]"
  have len: "length h < length h2" "h2 ! length h = Array [Zero]" "h2 ! m = Table es" "m < length h2"
    using copy(2) Cons.prems(3,4) by (auto simp: grows_def nth_append)
  have load: "run_state (load_element a i) h = (xs ! i, h)"
    using a i(1) Cons.prems(2) by (simp add: load_element_def heap_array_def grows_def)
  have part: "run_state (copy_part (OnionServiceStatus_DeepCopyInto X) ?v) h = (w, h3)"
    using copy(1) len by (simp add: copy_part_def allocate_def store_element_def load_element_def
        heap_array_def h3_def)
  have entry: "run_state (store_entry m (item_name (xs ! i)) w) h3 = ((), h4)"
    using len Cons.prems(3) by (simp add: store_entry_def heap_table_def h3_def h4_def)
  have "grows h h2" using grows_trans [OF _ copy(2)] by simp
  then have grown: "grows h1 h4" unfolding h4_def h3_def
    using Cons.prems(2) a(3) by (intro grows_update) (auto intro: grows_trans simp: grows_def)
  have table: "m < length h4" "h4 ! m = Table (AList.update (item_name (xs ! i)) w es)"
    using len by (simp_all add: h4_def h3_def)
  have read: "entries_read (AList.update (item_name (xs ! i)) w es) (fmupd (tree_name (T i)) ?s ts)"
    using entries_read_update [OF Cons.prems(5) flat] item_name_tree [OF i(2)] by simp
  from Cons.IH [OF _ grown table read] Cons.prems(1) load part entry show ?case by simp
qed

section \<open>The copies are private\<close>

text \<open>
  \<open>private_copy E L h A p t prog t'\<close>: the program leaves the object at \<open>p\<close> as it was, and returns a
  pointer to \<open>t'\<close>, still of the type \<open>L\<close>, which is read from cells allocated by the program alone.
\<close>

definition private_copy ::
  "(string \<Rightarrow> tree \<Rightarrow> bool) \<Rightarrow> layout \<Rightarrow> heap \<Rightarrow> nat set \<Rightarrow> nat \<Rightarrow> tree \<Rightarrow> (heap, nat option) state \<Rightarrow>
   tree \<Rightarrow> bool" where
  "private_copy E L h A p t prog t' \<longleftrightarrow>
     (\<exists>q h'. run_state prog h = (Some q, h') \<and> grows h h' \<and>
        denotes h' A (Pointer (Some p)) (Target t) \<and>
        denotes h' (fresh_in h h') (Pointer (Some q)) (Target t') \<and> has_layout E L t')"

lemma private_copyI:
  assumes "run_state prog h = (Some (length h), h')" "copied h h' t'"
    "denotes h A (Pointer (Some p)) (Target t)" "has_layout E L t'"
  shows "private_copy E L h A p t prog t'"
  unfolding private_copy_def
  using assms copied_pointer [OF assms(2)] denotes_grows [OF assms(3)] by (auto simp: copied_def)

text \<open>The three copies change a field of the copy; here the programs with one assignment.\<close>

lemma one_field_private:
  assumes "deep_copier (has_layout E L) f" "denotes h A (Pointer (Some p)) (Target t)" "has_layout E L t"
    and at: "layout_at L ns = Some (L_basic (kind_of b))" "distinct_fields L"
  shows "private_copy E L h A p t
    (do { q \<leftarrow> deep_copy f (Some p); store_path (the q) ns (Basic b); State_Monad.return q })
    (update_tree ns (Leaf b) t)"
proof -
  obtain h1 where copy: "run_state (deep_copy f (Some p)) h = (Some (length h), h1)" "copied h h1 t"
    using copied_start [OF assms(1-3)] by blast
  obtain h2 where store: "run_state (store_path (length h) ns (Basic b)) h1 = ((), h2)"
    "copied h h2 (update_tree ns (Leaf b) t)"
    using copied_store [OF copy(2) denotes.basic assms(3) at(1)] by blast
  show ?thesis
  proof (rule private_copyI [OF _ store(2) assms(2)])
    show "has_layout E L (update_tree ns (Leaf b) t)"
      by (rule update_tree_layout [OF assms(3) at(1) _ at(2)]) simp
  qed (use copy(1) store(1) in simp)
qed

text \<open>The statuses of the items under the items' names, the last one of a name.\<close>

definition backend_entries :: "tree \<Rightarrow> (string, tree) fmap" where
  "backend_entries l =
     fold (\<lambda>t ts. fmupd (tree_name t) (field_tree ''Status'' t) ts) (case l of Items its \<Rightarrow> its | _ \<Rightarrow> []) fmempty"

lemma backend_entries_layout:
  assumes "has_layout E (L_slice OnionService_layout) l"
  shows "has_layout E (L_map OnionServiceStatus_layout) (Entries (backend_entries l))"
proof -
  have "(\<forall>s \<in> fmran' ts. has_layout E OnionServiceStatus_layout s) \<Longrightarrow>
      (\<forall>t \<in> set its. has_layout E OnionService_layout t) \<Longrightarrow>
      \<forall>s \<in> fmran' (fold (\<lambda>t ts. fmupd (tree_name t) (field_tree ''Status'' t) ts) its ts).
        has_layout E OnionServiceStatus_layout s" for its ts
  proof (induction its arbitrary: ts)
    case (Cons t its)
    then have "has_layout E OnionServiceStatus_layout (field_tree ''Status'' t)"
      by (auto simp: OnionService_layout_def field_tree_def split: tree.splits option.splits)
    with Cons.prems(1) have "\<forall>s \<in> fmran' (fmupd (tree_name t) (field_tree ''Status'' t) ts).
        has_layout E OnionServiceStatus_layout s"
      by (auto simp: fmlookup_ran'_iff split: if_splits)
    from Cons.IH [OF this] Cons.prems(2) show ?case by simp
  qed simp
  note this [of fmempty "case l of Items its \<Rightarrow> its | _ \<Rightarrow> []"]
  moreover have "fmran' (fmempty :: (string, tree) fmap) = {}" by (auto simp: fmlookup_ran'_iff)
  ultimately show ?thesis
    using assms by (cases l) (simp_all add: backend_entries_def)
qed

lemma collect_list_run:
  assumes "denotes h1 B (Slice items) l" "has_layout E (L_slice OnionService_layout) l"
  shows "\<exists>h' es. run_state (case items of
        None \<Rightarrow> State_Monad.return ()
      | Some (a, off, len) \<Rightarrow> collect_backends X (length h1) a [off..<off + len]) (h1 @ [Table []]) = ((), h') \<and>
    grows h1 h' \<and> length h1 < length h' \<and> h' ! length h1 = Table es \<and> entries_read es (backend_entries l)"
  using assms(1)
proof cases
  case nil_slice
  then show ?thesis by (auto simp: backend_entries_def entries_read_def nth_append)
next
  case (slice a xs off len its)
  have len: "len = length its" using slice by (auto dest!: list_all2_lengthD)
  let ?T = "\<lambda>i. its ! (i - off)" and ?is = "[off..<off + len]"
  have items: "i < length xs \<and> denotes h1 B (xs ! i) (?T i) \<and> has_layout E OnionService_layout (?T i)"
    if "i \<in> set ?is" for i
  proof -
    from that have i: "off \<le> i" "i - off < len" "i < length xs" using slice by auto
    have "denotes h1 B (take len (drop off xs) ! (i - off)) (its ! (i - off))"
      by (rule list_all2_nthD2) (use slice i len in auto)
    with i slice assms(2) len show ?thesis by auto
  qed
  have start: "grows h1 (h1 @ [Table []])" "length h1 < length (h1 @ [Table []])"
    "(h1 @ [Table []]) ! length h1 = Table []" "entries_read [] fmempty"
    by (simp_all add: entries_read_def)
  have "map ?T ?is = its" by (rule nth_equalityI) (simp_all add: len)
  then have "fold (\<lambda>t ts. fmupd (tree_name t) (field_tree ''Status'' t) ts) (map ?T ?is) fmempty = backend_entries l"
    using slice(2) by (simp add: backend_entries_def)
  then have "fold (\<lambda>i ts. fmupd (tree_name (?T i)) (field_tree ''Status'' (?T i)) ts) ?is fmempty = backend_entries l"
    unfolding fold_map o_def .
  with collect_backends_run [OF slice(4,5) order_refl items start, where X = X and ks = "[off..<off + len]"] slice show ?thesis
    by simp
qed

lemma ob_status_private:
  assumes X: "library_copies E X" and p: "denotes h A (Pointer (Some p)) (Target t)"
    and t: "has_layout E OnionBalancedService_layout t"
    and l: "denotes h B (Slice items) l" "has_layout E (L_slice OnionService_layout) l"
  shows "private_copy E OnionBalancedService_layout h A p t (ob_status_copy X clusterIP items p)
    (update_tree [''Status'', ''Backends''] (Entries (backend_entries l))
      (update_tree [''Status'', ''TargetClusterIP''] (Leaf (String_value clusterIP)) t))"
proof -
  let ?L = OnionBalancedService_layout and ?ip = "Basic (String_value clusterIP)"
  let ?t1 = "update_tree [''Status'', ''TargetClusterIP''] (Leaf (String_value clusterIP)) t"
  have at: "layout_at ?L [''Status'', ''TargetClusterIP''] = Some (L_basic String_kind)"
    "layout_at ?L [''Status'', ''Backends''] = Some (L_map OnionServiceStatus_layout)" "distinct_fields ?L"
    by (simp_all add: layout_defs)
  obtain h1 where copy: "run_state (OnionBalancedService_DeepCopy X (Some p)) h = (Some (length h), h1)" "copied h h1 t"
    unfolding OnionBalancedService_DeepCopy_def
    using copied_start [OF OnionBalancedService_copies [OF X] p t] by blast
  obtain h2 where store: "run_state (store_path (length h) [''Status'', ''TargetClusterIP''] ?ip) h1 = ((), h2)"
    "copied h h2 ?t1"
    using copied_store [OF copy(2) denotes.basic t at(1)] by blast
  have t1: "has_layout E ?L ?t1" by (rule update_tree_layout [OF t at(1) _ at(3)]) simp
  have alloc: "run_state (allocate (Table [])) h2 = (length h2, h2 @ [Table []])" by (simp add: allocate_def)
  have "denotes h2 B (Slice items) l" using l(1) store(2) by (auto simp: copied_def intro: denotes_grows)
  from collect_list_run [OF this l(2)] obtain h3 es where
    loop: "run_state (case items of
        None \<Rightarrow> State_Monad.return ()
      | Some (a, off, len) \<Rightarrow> collect_backends X (length h2) a [off..<off + len]) (h2 @ [Table []]) = ((), h3)"
    and h3: "grows h2 h3" "length h2 < length h3" "h3 ! length h2 = Table es" "entries_read es (backend_entries l)"
    by blast
  note copied3 = copied_grows [OF store(2) h3(1)]
  have "denotes h3 (fresh_above h h3) (Map_ref (Some (length h2))) (Entries (backend_entries l))"
    by (rule entries_read_denotes [OF h3(4) _ h3(2,3)])
      (use store(2) h3(2) in \<open>auto simp: copied_def fresh_above_def\<close>)
  from copied_store [OF copied3 this t1 at(2)] obtain h4 where
    last: "run_state (store_path (length h) [''Status'', ''Backends''] (Map_ref (Some (length h2)))) h3 = ((), h4)"
    "copied h h4 (update_tree [''Status'', ''Backends''] (Entries (backend_entries l)) ?t1)" by blast
  show ?thesis
  proof (rule private_copyI [OF _ last(2) p])
    show "run_state (ob_status_copy X clusterIP items p) h = (Some (length h), h4)"
      using copy(1) store(1) alloc loop last(1) by (simp add: ob_status_copy_def)
    show "has_layout E ?L (update_tree [''Status'', ''Backends''] (Entries (backend_entries l)) ?t1)"
      by (rule update_tree_layout [OF t1 at(2) backend_entries_layout [OF l(2)] at(3)])
  qed
qed

text \<open>
  C18: The copies on which the three controllers set the status are theirs alone, if values of the
  library's types are copied as they should be.  Each leaves the
  resource it copied as it was, and returns an object of the same type that differs from the resource
  in the assigned fields only: \<open>Status.Config\<close> of a \<open>Tor\<close>, \<open>Status.TargetClusterIP\<close> of an \<open>OnionService\<close>
  and of an \<open>OnionBalancedService\<close>, and for the latter \<open>Status.Backends\<close>, which holds the status of each
  listed item under its name; and all of it, the map and its entries included, is read from memory
  allocated for the copy, so that neither the resource nor the listed items can be changed through it.
\<close>

theorem status_copies_private:
  assumes "library_copies E X" "denotes h A (Pointer (Some p)) (Target t)"
  shows "(has_layout E Tor_layout t \<longrightarrow>
      private_copy E Tor_layout h A p t (tor_status_copy X p)
        (update_tree [''Status'', ''Config''] (Leaf (String_value ''updateme'')) t)) \<and>
    (has_layout E OnionService_layout t \<longrightarrow>
      private_copy E OnionService_layout h A p t (os_status_copy X clusterIP p)
        (update_tree [''Status'', ''TargetClusterIP''] (Leaf (String_value clusterIP)) t)) \<and>
    (has_layout E OnionBalancedService_layout t \<and>
     denotes h B (Slice items) l \<and> has_layout E (L_slice OnionService_layout) l \<longrightarrow>
      private_copy E OnionBalancedService_layout h A p t (ob_status_copy X clusterIP items p)
        (update_tree [''Status'', ''Backends''] (Entries (backend_entries l))
          (update_tree [''Status'', ''TargetClusterIP''] (Leaf (String_value clusterIP)) t)))"
proof (intro conjI impI; (elim conjE)?)
  assume t: "has_layout E Tor_layout t"
  show "private_copy E Tor_layout h A p t (tor_status_copy X p)
      (update_tree [''Status'', ''Config''] (Leaf (String_value ''updateme'')) t)"
    unfolding tor_status_copy_def Tor_DeepCopy_def
    by (rule one_field_private [OF Tor_copies [OF assms(1)] assms(2) t]) (simp_all add: layout_defs)
next
  assume t: "has_layout E OnionService_layout t"
  show "private_copy E OnionService_layout h A p t (os_status_copy X clusterIP p)
      (update_tree [''Status'', ''TargetClusterIP''] (Leaf (String_value clusterIP)) t)"
    unfolding os_status_copy_def OnionService_DeepCopy_def
    by (rule one_field_private [OF OnionService_copies [OF assms(1)] assms(2) t]) (simp_all add: layout_defs)
qed (rule ob_status_private [OF assms])

section \<open>A sample\<close>

text \<open>A value of a type with nothing set in it; \<open>f\<close> gives the values of the library's types.\<close>

fun blank_value :: "(string \<Rightarrow> go_value) \<Rightarrow> layout \<Rightarrow> go_value" where
  "blank_value f (L_basic Int_kind) = Basic (Int_value 0)"
| "blank_value f (L_basic Bool_kind) = Basic (Bool_value False)"
| "blank_value f (L_basic String_kind) = Basic (String_value [])"
| "blank_value f (L_struct Ls) = Struct (fmap_of_list (map (\<lambda>p. (fst p, blank_value f (snd p))) Ls))"
| "blank_value f (L_slice L) = Slice None"
| "blank_value f (L_map L) = Map_ref None"
| "blank_value f (L_pointer L) = Pointer None"
| "blank_value f (L_library n) = f n"

fun blank_tree :: "(string \<Rightarrow> tree) \<Rightarrow> layout \<Rightarrow> tree" where
  "blank_tree f (L_basic Int_kind) = Leaf (Int_value 0)"
| "blank_tree f (L_basic Bool_kind) = Leaf (Bool_value False)"
| "blank_tree f (L_basic String_kind) = Leaf (String_value [])"
| "blank_tree f (L_struct Ls) = Fields (fmap_of_list (map (\<lambda>p. (fst p, blank_tree f (snd p))) Ls))"
| "blank_tree f (L_slice L) = Absent"
| "blank_tree f (L_map L) = Absent"
| "blank_tree f (L_pointer L) = Absent"
| "blank_tree f (L_library n) = f n"

fun library_names :: "layout \<Rightarrow> string set" where
  "library_names (L_struct Ls) = (\<Union>p \<in> set Ls. library_names (snd p))"
| "library_names (L_library n) = {n}"
| "library_names _ = {}"

lemma blank_denotes:
  "\<forall>n \<in> library_names L. denotes h A (f n) (g n) \<Longrightarrow> denotes h A (blank_value f L) (blank_tree g L)"
proof (induction f L rule: blank_value.induct)
  case (4 f Ls)
  have "denotes h A v t" if "map_of (map (\<lambda>p. (fst p, blank_value f (snd p))) Ls) n = Some v"
    "map_of (map (\<lambda>p. (fst p, blank_tree g (snd p))) Ls) n = Some t" for n v t
  proof -
    have keys: "map_of (map (\<lambda>p. (fst p, F (snd p))) Ls) n = map_option F (map_of Ls n)" for F :: "layout \<Rightarrow> 'x"
      by (induction Ls) auto
    from that obtain L where L: "map_of Ls n = Some L" "v = blank_value f L" "t = blank_tree g L"
      by (auto simp: keys)
    then have "(n, L) \<in> set Ls" by (auto dest: map_of_SomeD)
    with "4.IH" [of "(n, L)"] "4.prems" L show ?thesis by force
  qed
  then show ?case
    by (auto simp: fmlookup_of_list o_def fset_of_list.rep_eq intro!: denotes.struct fset_eqI)
qed (auto intro: denotes.intros)

lemma blank_layout:
  "\<forall>n \<in> library_names L. E n (g n) \<Longrightarrow> distinct_fields L \<Longrightarrow> has_layout E L (blank_tree g L)"
proof (induction g L rule: blank_tree.induct)
  case (4 g Ls)
  have "map_of (map (\<lambda>p. (fst p, blank_tree g (snd p))) Ls) n = Some (blank_tree g L)" if "(n, L) \<in> set Ls" for n L
    using that "4.prems"(2) by (intro map_of_is_SomeI) (force simp: o_def)+
  with 4 show ?case
    by (fastforce simp: fmlookup_of_list fset_of_list.rep_eq)
qed auto

definition meta_value :: go_value where
  "meta_value = Struct (fmap_of_list [(''Name'', Basic (String_value ''web-obb-1'')),
     (''Labels'', Map_ref None), (''Finalizers'', Slice None)])"

definition meta_tree :: tree where
  "meta_tree = Fields (fmap_of_list [(''Name'', Leaf (String_value ''web-obb-1'')),
     (''Labels'', Absent), (''Finalizers'', Absent)])"

definition library_value :: "string \<Rightarrow> go_value" where
  "library_value n = (if n = ''ObjectMeta'' then meta_value else blank_value (\<lambda>n. Zero) (sim_library_layout n))"

definition library_tree :: "string \<Rightarrow> tree" where
  "library_tree n = (if n = ''ObjectMeta'' then meta_tree else blank_tree (\<lambda>n. Absent) (sim_library_layout n))"

lemma sim_layouts_plain: "library_names (sim_library_layout n) = {}" "distinct_fields (sim_library_layout n)"
  by (simp_all add: sim_library_layout_def strings_def string_map_def layout_defs)

lemma sample_denotes: "denotes h A (blank_value library_value L) (blank_tree library_tree L)"
proof -
  have "denotes h A (library_value n) (library_tree n)" for n
    using blank_denotes [of "sim_library_layout n"]
    by (auto simp: library_value_def library_tree_def meta_value_def meta_tree_def sim_layouts_plain
        fmlookup_of_list intro!: denotes.struct denotes.intros(3,5) split: if_splits)
  then show ?thesis by (simp add: blank_denotes)
qed

lemma sample_layout: "distinct_fields L \<Longrightarrow> has_layout sim_values L (blank_tree library_tree L)"
proof (rule blank_layout, intro ballI)
  fix n
  show "sim_values n (library_tree n)"
    using blank_layout [of "sim_library_layout n" "\<lambda>n t. False" "\<lambda>n. Absent"] sim_layouts_plain [of n]
    by (auto simp: sim_values_def library_tree_def meta_tree_def sim_library_layout_def strings_def
        string_map_def fmlookup_of_list)
qed

definition resource_tree :: tree where
  "resource_tree = blank_tree library_tree OnionBalancedService_layout"

definition resource_heap :: heap where
  "resource_heap = [Array [blank_value library_value OnionBalancedService_layout],
     Array [blank_value library_value OnionService_layout]]"

theorem status_copies_private_witness:
  "\<exists>q h' t'. run_state (ob_status_copy sim_library ''10.0.0.3'' (Some (1, 0, 1)) 0) resource_heap = (Some q, h') \<and>
     denotes h' {0} (Pointer (Some 0)) (Target resource_tree) \<and>
     denotes h' (fresh_in resource_heap h') (Pointer (Some q)) (Target t') \<and>
     field_tree ''TargetClusterIP'' (field_tree ''Status'' t') = Leaf (String_value ''10.0.0.3'') \<and>
     field_tree ''web-obb-1'' (Fields (backend_entries (Items [blank_tree library_tree OnionService_layout]))) =
       blank_tree library_tree OnionServiceStatus_layout"
proof -
  have p: "denotes resource_heap {0} (Pointer (Some 0)) (Target resource_tree)"
    unfolding resource_tree_def by (rule denotes.pointer [OF _ _ _ sample_denotes]) (simp_all add: resource_heap_def)
  have l: "denotes resource_heap {1} (Slice (Some (1, 0, 1))) (Items [blank_tree library_tree OnionService_layout])"
    by (rule denotes.slice [where xs = "[blank_value library_value OnionService_layout]"])
      (simp_all add: resource_heap_def sample_denotes)
  have typed: "has_layout sim_values OnionBalancedService_layout resource_tree"
    unfolding resource_tree_def by (rule sample_layout) (simp add: layout_defs)
  have "has_layout sim_values OnionService_layout (blank_tree library_tree OnionService_layout)"
    by (rule sample_layout) (simp add: layout_defs)
  then have items: "has_layout sim_values (L_slice OnionService_layout) (Items [blank_tree library_tree OnionService_layout])"
    by simp
  let ?t = "update_tree [''Status'', ''Backends''] (Entries (backend_entries
      (Items [blank_tree library_tree OnionService_layout])))
    (update_tree [''Status'', ''TargetClusterIP''] (Leaf (String_value ''10.0.0.3'')) resource_tree)"
  have "private_copy sim_values OnionBalancedService_layout resource_heap {0} 0 resource_tree
      (ob_status_copy sim_library ''10.0.0.3'' (Some (1, 0, 1)) 0) ?t"
    using status_copies_private [OF sim_library_copies p, where l = "Items [blank_tree library_tree OnionService_layout]"
        and clusterIP = "''10.0.0.3''"] typed items l by blast
  then obtain q h' where "run_state (ob_status_copy sim_library ''10.0.0.3'' (Some (1, 0, 1)) 0) resource_heap = (Some q, h')"
    "denotes h' {0} (Pointer (Some 0)) (Target resource_tree)"
    "denotes h' (fresh_in resource_heap h') (Pointer (Some q)) (Target ?t)"
    by (auto simp: private_copy_def)
  moreover have "field_tree ''TargetClusterIP'' (field_tree ''Status'' ?t) = Leaf (String_value ''10.0.0.3'')"
    by (simp add: resource_tree_def OnionBalancedService_layout_def OnionBalancedServiceStatus_layout_def
        fmlookup_of_list field_tree_def)
  moreover have "field_tree ''web-obb-1'' (Fields (backend_entries (Items [blank_tree library_tree OnionService_layout]))) =
      blank_tree library_tree OnionServiceStatus_layout"
    by (simp add: backend_entries_def OnionService_layout_def fmlookup_of_list field_tree_def tree_name_def
        library_tree_def meta_tree_def)
  ultimately show ?thesis by blast
qed

end
