(* ===== verification/Controller_Watch.thy ===== *)
theory Controller_Watch
  imports Client_Lib
begin

text \<open>
  What makes a controller run: \<open>SetupWithManager\<close> of the three reconcilers and the registration of
  their types (\<open>groupversion_info.go\<close> and the \<open>init\<close> functions).  controller-runtime is a parameter:
  \<open>complete\<close> finishes a builder and \<open>deliver\<close> says which requests an event of the cluster leads to.
  The lemmas state exactly which events reach \<open>Reconcile\<close>.
\<close>

section \<open>Builders\<close>

text \<open>The metadata of an object in an event that the library looks at.\<close>

record watched =
  w_kind :: string
  w_key :: nsname
  w_generation :: int
  w_owners :: "(string \<times> string) list"

datatype event = Created watched | Updated watched watched | Deleted watched | Generic watched

type_synonym filter = "event \<Rightarrow> bool"

record builder =
  bd_for :: string
  bd_owns :: "string list"
  bd_filters :: "filter list"

text \<open>\<open>NewControllerManagedBy(mgr)\<close>, \<open>For\<close> and \<open>WithEventFilter\<close>.\<close>

definition new_builder :: builder where
  "new_builder = \<lparr>bd_for = [], bd_owns = [], bd_filters = []\<rparr>"

definition For :: "string \<Rightarrow> builder \<Rightarrow> builder" where
  "For kind b = b\<lparr>bd_for := kind\<rparr>"

definition WithEventFilter :: "filter \<Rightarrow> builder \<Rightarrow> builder" where
  "WithEventFilter p b = b\<lparr>bd_filters := bd_filters b @ [p]\<rparr>"

section \<open>SetupWithManager\<close>

text \<open>
  \<open>pred\<close> is the library's \<open>GenerationChangedPredicate\<close>, \<open>wrap\<close> is \<open>errors.Wrap\<close>.
\<close>

definition tor_builder :: "filter \<Rightarrow> builder" where
  "tor_builder pred = WithEventFilter pred (For ''Tor'' new_builder)"

definition tor_SetupWithManager ::
  "(builder \<Rightarrow> go_error option) \<Rightarrow> (go_error option \<Rightarrow> string \<Rightarrow> go_error option) \<Rightarrow> filter \<Rightarrow>
   go_error option" where
  "tor_SetupWithManager complete wrap pred =
     (case complete (tor_builder pred) of
        Some err \<Rightarrow> wrap (Some err) ''unable to create controller''
      | None \<Rightarrow> None)"

definition os_builder :: "filter \<Rightarrow> builder" where
  "os_builder pred = WithEventFilter pred (For ''OnionService'' new_builder)"

definition os_SetupWithManager ::
  "(builder \<Rightarrow> go_error option) \<Rightarrow> (go_error option \<Rightarrow> string \<Rightarrow> go_error option) \<Rightarrow> filter \<Rightarrow>
   go_error option" where
  "os_SetupWithManager complete wrap pred =
     (case complete (os_builder pred) of
        Some err \<Rightarrow> wrap (Some err) ''unable to create OnionService controller''
      | None \<Rightarrow> None)"

definition ob_builder :: "filter \<Rightarrow> builder" where
  "ob_builder pred = WithEventFilter pred (For ''OnionBalancedService'' new_builder)"

definition ob_SetupWithManager ::
  "(builder \<Rightarrow> go_error option) \<Rightarrow> (go_error option \<Rightarrow> string \<Rightarrow> go_error option) \<Rightarrow> filter \<Rightarrow>
   go_error option" where
  "ob_SetupWithManager complete wrap pred =
     (case complete (ob_builder pred) of
        Some err \<Rightarrow> wrap (Some err) ''unable to create OnionBalancedService controller''
      | None \<Rightarrow> None)"

section \<open>Documented behaviour of the library\<close>

text \<open>The predicate drops the updates that leave \<open>metadata.generation\<close> as it was, and nothing else.\<close>

definition generation_law :: "filter \<Rightarrow> bool" where
  "generation_law pred \<longleftrightarrow>
     (\<forall>e. pred e = (case e of Updated old new \<Rightarrow> w_generation old \<noteq> w_generation new | _ \<Rightarrow> True))"

fun event_object :: "event \<Rightarrow> watched" where
  "event_object (Created w) = w"
| "event_object (Updated old new) = new"
| "event_object (Deleted w) = w"
| "event_object (Generic w) = w"

definition owner_keys :: "string \<Rightarrow> watched \<Rightarrow> nsname list" where
  "owner_keys kind w =
     [\<lparr>nn_namespace = nn_namespace (w_key w), nn_name = name\<rparr>. (k, name) \<leftarrow> w_owners w, k = kind]"

text \<open>
  An event that passes every filter leads to a request for its object, when that is of the kind of
  \<open>For\<close>, and to one for each owner of that kind, when it is of a kind of \<open>Owns\<close>.
\<close>

definition delivery_law :: "(builder \<Rightarrow> event \<Rightarrow> nsname list) \<Rightarrow> bool" where
  "delivery_law deliver \<longleftrightarrow>
     (\<forall>b e. deliver b e =
        (let w = event_object e in
         if list_all (\<lambda>p. p e) (bd_filters b) then
           (if w_kind w = bd_for b then [w_key w] else []) @
           (if w_kind w \<in> set (bd_owns b)
            then owner_keys (bd_for b) w else [])
         else []))"

section \<open>The events that reach Reconcile\<close>

text \<open>
  C25: the events that ask a controller for a reconciliation are exactly the creations, deletions and
  generic events of its own kind and those updates of it that change the generation, each for the
  resource itself.  An update that keeps the generation, as a change of the status does, asks for
  none, and neither does any event of an object of another kind, such as a child of the resource
  that is edited or deleted, whoever owns it.
\<close>

theorem reconciled_events:
  assumes "generation_law pred" "delivery_law deliver"
  shows "\<forall>(kind, b) \<in> {(''Tor'', tor_builder pred), (''OnionService'', os_builder pred),
      (''OnionBalancedService'', ob_builder pred)}.
    \<forall>e. deliver b e =
      (if w_kind (event_object e) = kind \<and>
          (case e of Updated old new \<Rightarrow> w_generation old \<noteq> w_generation new | _ \<Rightarrow> True)
       then [w_key (event_object e)] else [])"
proof -
  have pred: "pred e = (case e of Updated old new \<Rightarrow> w_generation old \<noteq> w_generation new | _ \<Rightarrow> True)" for e
    using assms(1) by (simp add: generation_law_def)
  show ?thesis
    using assms(2) by (simp add: delivery_law_def pred tor_builder_def os_builder_def ob_builder_def
        WithEventFilter_def For_def new_builder_def Let_def)
qed

section \<open>A simulated library\<close>

definition sim_generation :: filter where
  "sim_generation e = (case e of Updated old new \<Rightarrow> w_generation old \<noteq> w_generation new | _ \<Rightarrow> True)"

definition sim_deliver :: "builder \<Rightarrow> event \<Rightarrow> nsname list" where
  "sim_deliver b e =
     (let w = event_object e in
      if list_all (\<lambda>p. p e) (bd_filters b) then
        (if w_kind w = bd_for b then [w_key w] else []) @
        (if w_kind w \<in> set (bd_owns b)
         then owner_keys (bd_for b) w else [])
      else [])"

lemma sim_watch_laws: "generation_law sim_generation" "delivery_law sim_deliver"
  by (simp_all add: generation_law_def sim_generation_def delivery_law_def sim_deliver_def)

text \<open>The deployment of a \<open>Tor\<close>, which somebody deletes.\<close>

definition child_deployment :: watched where
  "child_deployment = \<lparr>w_kind = ''Deployment'', w_key = \<lparr>nn_namespace = ''default'', nn_name = ''web-tor''\<rparr>,
     w_generation = 1, w_owners = [(''Tor'', ''web'')]\<rparr>"

theorem reconciled_events_witness:
  "sim_deliver (tor_builder sim_generation) (Deleted child_deployment) = []"
  using reconciled_events [OF sim_watch_laws] by (simp add: child_deployment_def)

end
