(* ===== verification/Access_Rules.thy ===== *)
theory Access_Rules
  imports Tor_Reconcile Onion_Reconcile Balanced_Reconcile
begin

text \<open>
  Who may do what: the rules of the operator's own role, which the \<open>+kubebuilder:rbac\<close> markers above
  the three reconcilers declare (the manifest \<open>config/rbac/role.yaml\<close> is generated from them), and
  the roles the controllers create for the pods.  The lemmas show that each side has the rights it
  uses, and that the controllers hand out no right the operator does not have, which the API server
  would refuse.
\<close>

section \<open>Rules\<close>

definition rule_allows :: "policy_rule \<Rightarrow> string \<Rightarrow> string \<Rightarrow> string \<Rightarrow> bool" where
  "rule_allows r grp resource verb \<longleftrightarrow>
     grp \<in> set (pr_api_groups r) \<and> resource \<in> set (pr_resources r) \<and> verb \<in> set (pr_verbs r)"

definition allowed :: "policy_rule list \<Rightarrow> string \<Rightarrow> string \<Rightarrow> string \<Rightarrow> bool" where
  "allowed rules grp resource verb \<longleftrightarrow> (\<exists>r \<in> set rules. rule_allows r grp resource verb)"

text \<open>All the rights of \<open>rules\<close> are rights of \<open>holder\<close>.\<close>

definition within :: "policy_rule list \<Rightarrow> policy_rule list \<Rightarrow> bool" where
  "within rules holder \<longleftrightarrow>
     (\<forall>grp resource verb. allowed rules grp resource verb \<longrightarrow> allowed holder grp resource verb)"

lemma within_checked:
  "(\<forall>r \<in> set rules. \<forall>g \<in> set (pr_api_groups r). \<forall>s \<in> set (pr_resources r). \<forall>v \<in> set (pr_verbs r).
      allowed holder g s v) \<Longrightarrow> within rules holder"
  by (auto simp: within_def allowed_def rule_allows_def)

section \<open>The operator's rules\<close>

definition all_verbs :: "string list" where
  "all_verbs = [''get'', ''list'', ''watch'', ''create'', ''update'', ''patch'', ''delete'']"

definition grant :: "string \<Rightarrow> string \<Rightarrow> string list \<Rightarrow> policy_rule" where
  "grant grp resource verbs =
     \<lparr>pr_api_groups = [grp], pr_verbs = verbs, pr_resources = [resource]\<rparr>"

definition ob_markers :: "policy_rule list" where
  "ob_markers = [
     grant ''tor.k8s.torproject.org'' ''onionbalancedservices'' all_verbs,
     grant ''tor.k8s.torproject.org'' ''onionbalancedservices/status'' [''get'', ''update'', ''patch''],
     grant ''tor.k8s.torproject.org'' ''onionbalancedservices/finalizers'' [''update''],
     grant '''' ''secrets'' all_verbs,
     grant '''' ''configmaps'' all_verbs,
     grant '''' ''services'' all_verbs,
     grant '''' ''serviceaccounts'' all_verbs,
     grant ''rbac.authorization.k8s.io'' ''roles'' all_verbs,
     grant ''rbac.authorization.k8s.io'' ''rolebindings'' all_verbs,
     grant ''apps'' ''deployments'' all_verbs,
     grant '''' ''events'' [''create'', ''update'', ''patch''],
     grant ''monitoring.coreos.com'' ''servicemonitors'' all_verbs,
     grant ''apiextensions.k8s.io'' ''customresourcedefinitions'' [''get'', ''list'', ''watch'']]"

definition os_markers :: "policy_rule list" where
  "os_markers = [
     grant ''tor.k8s.torproject.org'' ''onionservices'' all_verbs,
     grant ''tor.k8s.torproject.org'' ''onionservices/status'' [''get'', ''update'', ''patch''],
     grant ''tor.k8s.torproject.org'' ''onionservices/finalizers'' [''update''],
     grant '''' ''secrets'' all_verbs,
     grant '''' ''services'' all_verbs,
     grant '''' ''serviceaccounts'' all_verbs,
     grant ''rbac.authorization.k8s.io'' ''roles'' all_verbs,
     grant ''rbac.authorization.k8s.io'' ''rolebindings'' all_verbs,
     grant ''apps'' ''deployments'' all_verbs,
     grant '''' ''events'' [''create'', ''update'', ''patch''],
     grant ''monitoring.coreos.com'' ''servicemonitors'' all_verbs,
     grant ''apiextensions.k8s.io'' ''customresourcedefinitions'' [''get'', ''list'', ''watch'']]"

definition tor_markers :: "policy_rule list" where
  "tor_markers = [
     grant ''tor.k8s.torproject.org'' ''tors'' all_verbs,
     grant ''tor.k8s.torproject.org'' ''tors/status'' [''get'', ''update'', ''patch''],
     grant ''tor.k8s.torproject.org'' ''tors/finalizers'' [''update'']]"

definition manager_rules :: "policy_rule list" where
  "manager_rules = ob_markers @ os_markers @ tor_markers"

lemma allowed_append [simp]: "allowed (rs @ ss) g s v \<longleftrightarrow> allowed rs g s v \<or> allowed ss g s v"
  by (auto simp: allowed_def)

lemma allowed_Cons [simp]: "allowed (r # rs) g s v \<longleftrightarrow> rule_allows r g s v \<or> allowed rs g s v"
  by (auto simp: allowed_def)

lemma allowed_Nil [simp]: "\<not> allowed [] g s v"
  by (simp add: allowed_def)

lemma rule_allows_grant [simp]:
  "rule_allows (grant g s vs) g' s' v \<longleftrightarrow> g' = g \<and> s' = s \<and> v \<in> set vs"
  by (auto simp: rule_allows_def grant_def)

lemmas manager_rules_unfold =
  manager_rules_def ob_markers_def os_markers_def tor_markers_def all_verbs_def

section \<open>A client under the rules\<close>

text \<open>
  The API server refuses a call its caller has no right to, with an error \<open>forbidden\<close>.  The
  operator's client reads through a cache, which gets, lists and watches the resource.
\<close>

definition may_read :: "policy_rule list \<Rightarrow> string \<Rightarrow> string \<Rightarrow> bool" where
  "may_read rules grp resource \<longleftrightarrow> list_all (allowed rules grp resource) [''get'', ''list'', ''watch'']"

definition checked :: "bool \<Rightarrow> 'a \<Rightarrow> ('s, 'a) state \<Rightarrow> ('s, 'a) state" where
  "checked ok refused call = (if ok then call else State_Monad.return refused)"

definition checked_ops ::
  "policy_rule list \<Rightarrow> go_error \<Rightarrow> string \<Rightarrow> string \<Rightarrow> ('s, 'o) ops \<Rightarrow> ('s, 'o) ops" where
  "checked_ops rules forbidden grp resource ops =
     \<lparr>op_get = (\<lambda>key. checked (may_read rules grp resource) (Inl forbidden) (op_get ops key)),
      op_create = (\<lambda>x. checked (allowed rules grp resource ''create'') (Inl forbidden) (op_create ops x)),
      op_update = (\<lambda>x. checked (allowed rules grp resource ''update'') (Some forbidden) (op_update ops x)),
      op_delete = (\<lambda>x. checked (allowed rules grp resource ''delete'') (Some forbidden) (op_delete ops x))\<rparr>"

definition authorized :: "policy_rule list \<Rightarrow> go_error \<Rightarrow> 's lib \<Rightarrow> 's lib" where
  "authorized rules e L = L\<lparr>
     l_services := checked_ops rules e '''' ''services'' (l_services L),
     l_secrets := checked_ops rules e '''' ''secrets'' (l_secrets L),
     l_config_maps := checked_ops rules e '''' ''configmaps'' (l_config_maps L),
     l_service_accounts := checked_ops rules e '''' ''serviceaccounts'' (l_service_accounts L),
     l_roles := checked_ops rules e ''rbac.authorization.k8s.io'' ''roles'' (l_roles L),
     l_role_bindings := checked_ops rules e ''rbac.authorization.k8s.io'' ''rolebindings'' (l_role_bindings L),
     l_deployments := checked_ops rules e ''apps'' ''deployments'' (l_deployments L),
     l_service_monitors := checked_ops rules e ''monitoring.coreos.com'' ''servicemonitors'' (l_service_monitors L),
     l_onions := checked_ops rules e api_group ''onionservices'' (l_onions L),
     l_get_crd := (\<lambda>key. checked (may_read rules ''apiextensions.k8s.io'' ''customresourcedefinitions'')
       (Inl e) (l_get_crd L key)),
     l_get_tor := (\<lambda>key. checked (may_read rules api_group ''tors'') (Inl e) (l_get_tor L key)),
     l_get_ob := (\<lambda>key. checked (may_read rules api_group ''onionbalancedservices'') (Inl e) (l_get_ob L key)),
     l_list_onions := (\<lambda>ns. checked (may_read rules api_group ''onionservices'') (Inl e) (l_list_onions L ns)),
     l_status_tor := (\<lambda>x. checked (allowed rules api_group ''tors/status'' ''update'') (Some e) (l_status_tor L x)),
     l_status_os := (\<lambda>x. checked (allowed rules api_group ''onionservices/status'' ''update'') (Some e)
       (l_status_os L x)),
     l_status_ob := (\<lambda>x. checked (allowed rules api_group ''onionbalancedservices/status'' ''update'') (Some e)
       (l_status_ob L x)),
     l_create_nil_secret := checked (allowed rules '''' ''secrets'' ''create'') (Some e) (l_create_nil_secret L)\<rparr>"

definition may_manage :: "policy_rule list \<Rightarrow> string \<Rightarrow> string \<Rightarrow> bool" where
  "may_manage rules grp resource \<longleftrightarrow> may_read rules grp resource \<and>
     list_all (allowed rules grp resource) [''create'', ''update'', ''delete'']"

lemma checked_ops_id: "may_manage rules grp resource \<Longrightarrow> checked_ops rules e grp resource ops = ops"
  by (simp add: checked_ops_def checked_def may_manage_def)

lemma manager_manages:
  "may_manage manager_rules '''' ''services''" "may_manage manager_rules '''' ''secrets''"
  "may_manage manager_rules '''' ''configmaps''" "may_manage manager_rules '''' ''serviceaccounts''"
  "may_manage manager_rules ''rbac.authorization.k8s.io'' ''roles''"
  "may_manage manager_rules ''rbac.authorization.k8s.io'' ''rolebindings''"
  "may_manage manager_rules ''apps'' ''deployments''"
  "may_manage manager_rules ''monitoring.coreos.com'' ''servicemonitors''"
  "may_manage manager_rules api_group ''onionservices''"
  by (simp_all add: may_manage_def may_read_def manager_rules_unfold api_group_def)

lemma manager_authorized: "authorized manager_rules e L = L"
proof -
  have "may_read manager_rules ''apiextensions.k8s.io'' ''customresourcedefinitions''"
    "may_read manager_rules api_group ''tors''" "may_read manager_rules api_group ''onionservices''"
    "may_read manager_rules api_group ''onionbalancedservices''"
    by (simp_all add: may_read_def manager_rules_unfold api_group_def)
  moreover have "allowed manager_rules api_group ''tors/status'' ''update''"
    "allowed manager_rules api_group ''onionservices/status'' ''update''"
    "allowed manager_rules api_group ''onionbalancedservices/status'' ''update''"
    "allowed manager_rules '''' ''secrets'' ''create''"
    by (simp_all add: manager_rules_unfold api_group_def)
  ultimately show ?thesis
    unfolding authorized_def checked_def by (simp add: checked_ops_id manager_manages)
qed

section \<open>Rights of the operator and of the pods\<close>

text \<open>
  The rights a pod needs on the custom resources of its own kind, as the controllers see it: to read
  them, to write their status, and to record events.
\<close>

definition pod_right :: "string \<Rightarrow> string \<Rightarrow> string \<Rightarrow> string \<Rightarrow> bool" where
  "pod_right kind grp resource verb \<longleftrightarrow>
     grp = api_group \<and> resource = kind \<and> verb \<in> {''get'', ''list'', ''watch''} \<or>
     grp = api_group \<and> resource = kind @ ''/status'' \<and> verb \<in> {''update'', ''patch''} \<or>
     grp = '''' \<and> resource = ''events'' \<and> verb \<in> {''create'', ''update'', ''patch''}"

lemma authorized_fields [simp]:
  "l_service_accounts (authorized rules e L) =
     checked_ops rules e '''' ''serviceaccounts'' (l_service_accounts L)"
  "l_get_tor (authorized rules e L) key = checked (may_read rules api_group ''tors'') (Inl e) (l_get_tor L key)"
  "l_is_not_found (authorized rules e L) = l_is_not_found L" "l_wrap (authorized rules e L) = l_wrap L"
  by (simp_all add: authorized_def)

lemma tor_markers_refused:
  assumes "wrap_law L" "\<not> l_is_not_found L e" "run_state (l_get_tor L req) s = (Inr t, s1)"
  shows "\<exists>err. run_state (tor_Reconcile (authorized tor_markers e L) cfg req) s = ((zero_result, Some err), s1)"
proof -
  let ?L = "authorized tor_markers e L" and ?tor = "SetTorDefaults t"
  have rights: "may_read tor_markers api_group ''tors''" "\<not> may_read tor_markers '''' ''serviceaccounts''"
    by (simp_all add: may_read_def tor_markers_def all_verbs_def api_group_def)
  have name: "tor_ServiceAccountName ?tor \<noteq> []" by (simp add: names)
  obtain err where err: "l_wrap L (Some e) ''failed to get ServiceAccount %s'' = Some err"
    using assms(1) by (metis wrap_Some not_None_eq)
  have "run_state (tor_reconcileServiceAccount ?L ?tor) s1 = (Some err, s1)"
    using name err rights(2) assms(2)
    by (simp add: tor_reconcileServiceAccount_def ensure_child_def checked_ops_def checked_def failing_def wrapped_def)
  then show ?thesis
    using assms(3) rights(1) by (simp add: tor_Reconcile_def tor_steps_def checked_def Let_def and_then_def)
qed

text \<open>
  C22: with the rules of the markers the operator can do all its reconcile functions try to: a server
  that checks every call of the client makes no difference to any of them.  The \<open>Tor\<close> controller needs the markers of the others for that:
  under its own alone, a reconciliation of a \<open>Tor\<close> that can be read ends at the service account with
  an error, when the server refuses it with an error other than not found.  The roles they create for
  the pods give exactly the rights to read the resources of the pod's own kind, to update and patch
  their status and to record events, and in particular none to create, change or delete a resource;
  and the operator has all of these rights itself, so that the API server accepts the roles.
\<close>

theorem roles_grantable:
  "tor_Reconcile (authorized manager_rules e L) = tor_Reconcile L \<and>
   os_Reconcile (authorized manager_rules e L) = os_Reconcile L \<and>
   ob_Reconcile (authorized manager_rules e L) = ob_Reconcile L \<and>
   (wrap_law L \<and> \<not> l_is_not_found L e \<and> run_state (l_get_tor L req) s = (Inr t, s1) \<longrightarrow>
     (\<exists>err. run_state (tor_Reconcile (authorized tor_markers e L) cfg req) s = ((zero_result, Some err), s1))) \<and>
   allowed (role_rules (torRole L tor)) = pod_right ''tors'' \<and>
   allowed (role_rules (torOnionRole L onion)) = pod_right ''onionservices'' \<and>
   allowed (role_rules (onionbalanceRole L ob)) = pod_right ''onionbalancedservices'' \<and>
   within (role_rules (torRole L tor)) manager_rules \<and>
   within (role_rules (torOnionRole L onion)) manager_rules \<and>
   within (role_rules (onionbalanceRole L ob)) manager_rules"
proof (intro conjI impI; (elim conjE)?)
  show "\<exists>err. run_state (tor_Reconcile (authorized tor_markers e L) cfg req) s = ((zero_result, Some err), s1)"
    if "wrap_law L" "\<not> l_is_not_found L e" "run_state (l_get_tor L req) s = (Inr t, s1)"
    by (rule tor_markers_refused [OF that])
  show "tor_Reconcile (authorized manager_rules e L) = tor_Reconcile L"
    "os_Reconcile (authorized manager_rules e L) = os_Reconcile L"
    "ob_Reconcile (authorized manager_rules e L) = ob_Reconcile L"
    by (simp_all only: manager_authorized)
  show "allowed (role_rules (torRole L tor)) = pod_right ''tors''"
    "allowed (role_rules (torOnionRole L onion)) = pod_right ''onionservices''"
    "allowed (role_rules (onionbalanceRole L ob)) = pod_right ''onionbalancedservices''"
    by (auto simp: torRole_def torOnionRole_def onionbalanceRole_def rule_allows_def pod_right_def fun_eq_iff)
  show "within (role_rules (torRole L tor)) manager_rules"
    by (rule within_checked) (simp add: torRole_def manager_rules_unfold api_group_def)
  show "within (role_rules (torOnionRole L onion)) manager_rules"
    by (rule within_checked) (simp add: torOnionRole_def manager_rules_unfold api_group_def)
  show "within (role_rules (onionbalanceRole L ob)) manager_rules"
    by (rule within_checked) (simp add: onionbalanceRole_def manager_rules_unfold api_group_def)
qed

theorem roles_grantable_witness:
  "\<exists>err. run_state (tor_Reconcile (authorized tor_markers (GoErr ''forbidden'') sim_lib) sample_project sample_req)
     sample_cluster = ((zero_result, Some err), sample_cluster)"
proof -
  have "run_state (l_get_tor sim_lib sample_req) sample_cluster = (Inr sample_tor, sample_cluster)"
    by (simp add: sim_fields look_up_def sample_cluster_def sample_req_def sample_tor_def zero_tor_def key_of_def
        zero_meta_def)
  moreover have "\<not> l_is_not_found sim_lib (GoErr ''forbidden'')" by (simp add: sim_fields not_found_def)
  ultimately show ?thesis
    using roles_grantable [of "GoErr ''forbidden''" sim_lib sample_req sample_cluster] sim_wrap by blast
qed

end
