(* ===== verification/Agent_Startup.thy ===== *)
theory Agent_Startup
  imports Agent_Manager Access_Rules Onion_Reconcile
begin

text \<open>
  The start of the two agents: \<open>agents/*/main.go\<close> and the functions of \<open>agents/*/local/client.go\<close> that
  make the clients and the informer.  The Kubernetes libraries are the record \<open>agent_lib\<close>; Go's
  \<open>flag\<close> package is modelled as far as string flags go.  The main theorem ties the agents to the
  deployments: started with the arguments the controllers give it, an agent watches the resource its
  deployment was made for, and may do so.
\<close>

section \<open>Command-line flags\<close>

fun split_value :: "string \<Rightarrow> string \<times> string option" where
  "split_value [] = ([], None)"
| "split_value (c # cs) =
     (if c = CHR ''='' then ([], Some cs)
      else (case split_value cs of (n, v) \<Rightarrow> (c # n, v)))"

text \<open>
  \<open>flag.Parse\<close> for flags that take a string: \<open>formal\<close> are the flags that are defined, \<open>vals\<close> their
  values so far.  A syntax error exits with 2, a request for help with 0.
\<close>

fun parse_flags :: "string list \<Rightarrow> string list \<Rightarrow> (string \<Rightarrow> string) \<Rightarrow> nat + (string \<Rightarrow> string)" where
  "parse_flags formal [] vals = Inr vals"
| "parse_flags formal (s # args) vals =
     (if length s < 2 \<or> hd s \<noteq> CHR ''-'' \<or> s = ''--'' then Inr vals
      else (let nm = (if s ! 1 = CHR ''-'' then drop 2 s else drop 1 s) in
        if nm = [] \<or> hd nm = CHR ''-'' \<or> hd nm = CHR ''='' then Inl 2
        else (case split_value nm of (n, v) \<Rightarrow>
          if n \<notin> set formal then Inl (if n = ''help'' \<or> n = ''h'' then 0 else 2)
          else (case v of
             Some x \<Rightarrow> parse_flags formal args (vals(n := x))
           | None \<Rightarrow> (case args of
                [] \<Rightarrow> Inl 2
              | x # rest \<Rightarrow> parse_flags formal rest (vals(n := x)))))))"

text \<open>The \<open>init\<close> functions: two flags, both empty by default.\<close>

definition tor_agent_flags :: "string list" where
  "tor_agent_flags = [''namespace'', ''name'']"

definition balance_agent_flags :: "string list" where
  "balance_agent_flags = [''namespace'', ''name'']"

definition flag_defaults :: "string \<Rightarrow> string" where
  "flag_defaults n = []"

section \<open>The libraries\<close>

text \<open>
  A call ends the process with a code, ends it with a panic, or returns.
\<close>

datatype 'a outcome = Exits nat | Panics string | Value 'a

fun proceed :: "'a outcome \<Rightarrow> ('a \<Rightarrow> 'b outcome) \<Rightarrow> 'b outcome" where
  "proceed (Exits n) f = Exits n"
| "proceed (Panics m) f = Panics m"
| "proceed (Value v) f = f v"

record gvr =
  gvr_group :: string
  gvr_version :: string
  gvr_resource :: string

text \<open>
  \<open>al_flags\<close>: the flags that imported packages define; \<open>al_config\<close>: the error of loading the
  configuration of the cluster, at which \<open>GetConfigOrDie\<close> exits; \<open>al_scheme\<close>, \<open>al_new_client\<close> and
  \<open>al_dynamic\<close>: the errors of registering the types and of making the clients;
  \<open>al_parse_resource\<close>: \<open>ParseResourceArg\<close>, whose first result may be \<open>nil\<close>.
\<close>

record agent_lib =
  al_flags :: "string list"
  al_config :: "go_error option"
  al_scheme :: "go_error option"
  al_new_client :: "go_error option"
  al_dynamic :: "go_error option"
  al_parse_resource :: "string \<Rightarrow> gvr option"
  al_wrap :: "go_error option \<Rightarrow> string \<Rightarrow> go_error option"
  al_aggregate :: "go_error list \<Rightarrow> go_error option"

definition GetConfigOrDie :: "agent_lib \<Rightarrow> unit outcome" where
  "GetConfigOrDie L = (if al_config L = None then Value () else Exits 1)"

section \<open>Clients and informers\<close>

text \<open>An error of \<open>AddToScheme\<close> is only printed; one of \<open>client.New\<close> is fatal.\<close>

definition tor_GetClient :: "agent_lib \<Rightarrow> unit outcome" where
  "tor_GetClient L =
     proceed (GetConfigOrDie L) (\<lambda>kubeconfig.
       if al_new_client L \<noteq> None then Exits 1 else Value ())"

definition balance_GetClient :: "agent_lib \<Rightarrow> unit outcome" where
  "balance_GetClient L =
     proceed (GetConfigOrDie L) (\<lambda>kubeconfig.
       if al_new_client L \<noteq> None then Exits 1 else Value ())"

text \<open>\<open>Must\<close>, which nothing calls: an error ends the process.\<close>

definition tor_Must :: "go_error option \<Rightarrow> unit outcome" where
  "tor_Must err = (if err \<noteq> None then Exits 1 else Value ())"

definition balance_Must :: "go_error option \<Rightarrow> unit outcome" where
  "balance_Must err = (if err \<noteq> None then Exits 1 else Value ())"

text \<open>
  What an informer watches: a resource, in a namespace, restricted by a field selector, with a
  period of resynchronisation (0 for none).
\<close>

record selection =
  sel_gvr :: gvr
  sel_namespace :: string
  sel_fields :: string
  sel_resync :: nat

definition informer_for :: "agent_lib \<Rightarrow> string \<Rightarrow> string \<Rightarrow> string \<Rightarrow> selection outcome" where
  "informer_for L name resourceType namespace =
     (case al_parse_resource L resourceType of
        None \<Rightarrow> Panics ''nil pointer dereference''
      | Some gvr \<Rightarrow> Value \<lparr>sel_gvr = gvr, sel_namespace = namespace,
          sel_fields = ''metadata.name='' @ name, sel_resync = 0\<rparr>)"

definition tor_GetDynamicInformer ::
  "agent_lib \<Rightarrow> string \<Rightarrow> string \<Rightarrow> string \<Rightarrow> (go_error option + selection) outcome" where
  "tor_GetDynamicInformer L onionServiceName resourceType namespace =
     proceed (GetConfigOrDie L) (\<lambda>cfg.
       case al_dynamic L of
         Some err \<Rightarrow> Value (Inl (al_wrap L (Some err) ''error creating dynamic client''))
       | None \<Rightarrow> proceed (informer_for L onionServiceName resourceType namespace) (\<lambda>s. Value (Inr s)))"

definition balance_GetDynamicInformer ::
  "agent_lib \<Rightarrow> string \<Rightarrow> string \<Rightarrow> string \<Rightarrow> (go_error option + selection) outcome" where
  "balance_GetDynamicInformer L onionBalancedServiceName resourceType namespace =
     proceed (GetConfigOrDie L) (\<lambda>cfg.
       case al_dynamic L of
         Some err \<Rightarrow> Value (Inl (al_wrap L (Some err) ''could not create dynamic client''))
       | None \<Rightarrow> proceed (informer_for L onionBalancedServiceName resourceType namespace) (\<lambda>s. Value (Inr s)))"

text \<open>
  The watchers drop the error, so that \<open>Informer()\<close> is then called on \<open>nil\<close>.
\<close>

definition onionServiceCRDWatcher :: "agent_lib \<Rightarrow> string \<Rightarrow> string \<Rightarrow> selection outcome" where
  "onionServiceCRDWatcher L onionServiceName namespace =
     proceed (tor_GetDynamicInformer L onionServiceName
         ''onionservices.v1alpha2.tor.k8s.torproject.org'' namespace)
       (\<lambda>r. case r of Inl err \<Rightarrow> Panics ''nil pointer dereference'' | Inr s \<Rightarrow> Value s)"

definition onionBalancedServiceCRDWatcher :: "agent_lib \<Rightarrow> string \<Rightarrow> string \<Rightarrow> selection outcome" where
  "onionBalancedServiceCRDWatcher L onionBalancedServiceName namespace =
     proceed (balance_GetDynamicInformer L onionBalancedServiceName
         ''onionbalancedservices.v1alpha2.tor.k8s.torproject.org'' namespace)
       (\<lambda>r. case r of Inl err \<Rightarrow> Panics ''nil pointer dereference'' | Inr s \<Rightarrow> Value s)"

section \<open>main\<close>

text \<open>
  \<open>New\<close> makes the client; the manager it returns is the one \<open>Run\<close> starts with.  The value of \<open>main\<close>
  is the manager at the point where the main goroutine waits in the watcher, and what it watches.
\<close>

definition tor_New :: "agent_lib \<Rightarrow> unit outcome" where
  "tor_New L = tor_GetClient L"

definition balance_New :: "agent_lib \<Rightarrow> unit outcome" where
  "balance_New L = balance_GetClient L"

definition tor_agent_main :: "agent_lib \<Rightarrow> string list \<Rightarrow> (manager \<times> selection) outcome" where
  "tor_agent_main L args =
     (case parse_flags (tor_agent_flags @ al_flags L) args flag_defaults of
        Inl code \<Rightarrow> Exits code
      | Inr vals \<Rightarrow> proceed (tor_New L) (\<lambda>localManager.
          case tor_manager_Run (al_aggregate L) (al_wrap L) (vals ''name'') (vals ''namespace'') of
            Inl err \<Rightarrow> (if err \<noteq> None then Exits 1 else Exits 0)
          | Inr m \<Rightarrow> proceed (onionServiceCRDWatcher L (vals ''name'') (vals ''namespace''))
              (\<lambda>s. Value (m, s))))"

definition balance_agent_main :: "agent_lib \<Rightarrow> string list \<Rightarrow> (manager \<times> selection) outcome" where
  "balance_agent_main L args =
     (case parse_flags (balance_agent_flags @ al_flags L) args flag_defaults of
        Inl code \<Rightarrow> Exits code
      | Inr vals \<Rightarrow> proceed (balance_New L) (\<lambda>localManager.
          case balance_manager_Run (al_aggregate L) (vals ''name'') (vals ''namespace'') of
            Inl err \<Rightarrow> (if err \<noteq> None then Exits 1 else Exits 0)
          | Inr m \<Rightarrow> proceed (onionBalancedServiceCRDWatcher L (vals ''name'') (vals ''namespace''))
              (\<lambda>s. Value (m, s))))"

section \<open>A deployed agent watches the resource it was deployed for\<close>

text \<open>
  Working libraries: the clients can be made, \<open>NewAggregate\<close> of no errors is \<open>nil\<close> and of some is an
  error, \<open>ParseResourceArg\<close> reads \<open>resource.version.group\<close>.
\<close>

definition agent_lib_law :: "agent_lib \<Rightarrow> bool" where
  "agent_lib_law L \<longleftrightarrow>
     al_config L = None \<and> al_new_client L = None \<and> al_dynamic L = None \<and>
     (\<forall>es. al_aggregate L es = None \<longleftrightarrow> es = []) \<and>
     (\<forall>r v g. CHR ''.'' \<notin> set r \<longrightarrow> CHR ''.'' \<notin> set v \<longrightarrow>
        al_parse_resource L (r @ ''.'' @ v @ ''.'' @ g) =
          Some \<lparr>gvr_group = g, gvr_version = v, gvr_resource = r\<rparr>)"

lemma parse_own_args:
  "parse_flags (''namespace'' # ''name'' # others) [''-name'', n, ''-namespace'', ns] flag_defaults =
   Inr (flag_defaults(''name'' := n, ''namespace'' := ns))"
  by simp

text \<open>Everything there is to know of one resource, and nothing else.\<close>

definition own_selection :: "string \<Rightarrow> string \<Rightarrow> string \<Rightarrow> selection" where
  "own_selection resource namespace name =
     \<lparr>sel_gvr = \<lparr>gvr_group = api_group, gvr_version = api_version, gvr_resource = resource\<rparr>,
      sel_namespace = namespace, sel_fields = ''metadata.name='' @ name, sel_resync = 0\<rparr>"

lemma informer_for_own:
  assumes "agent_lib_law L"
  shows "informer_for L n ''onionservices.v1alpha2.tor.k8s.torproject.org'' ns =
      Value (own_selection ''onionservices'' ns n)"
    "informer_for L n ''onionbalancedservices.v1alpha2.tor.k8s.torproject.org'' ns =
      Value (own_selection ''onionbalancedservices'' ns n)"
proof -
  have "CHR ''.'' \<notin> set api_version" by (simp add: api_version_def)
  then have parse: "al_parse_resource L (r @ ''.'' @ api_version @ ''.'' @ api_group) =
      Some \<lparr>gvr_group = api_group, gvr_version = api_version, gvr_resource = r\<rparr>"
    if "CHR ''.'' \<notin> set r" for r
    using assms that unfolding agent_lib_law_def by blast
  note unfold = informer_for_def own_selection_def api_group_def api_version_def
  show "informer_for L n ''onionservices.v1alpha2.tor.k8s.torproject.org'' ns =
      Value (own_selection ''onionservices'' ns n)"
    using parse [of "''onionservices''"] by (simp add: unfold)
  show "informer_for L n ''onionbalancedservices.v1alpha2.tor.k8s.torproject.org'' ns =
      Value (own_selection ''onionbalancedservices'' ns n)"
    using parse [of "''onionbalancedservices''"] by (simp add: unfold)
qed

lemma agents_started:
  assumes "agent_lib_law L" "n \<noteq> []" "ns \<noteq> []"
  shows "tor_agent_main L [''-name'', n, ''-namespace'', ns] =
      Value (running, own_selection ''onionservices'' ns n)"
    "balance_agent_main L [''-name'', n, ''-namespace'', ns] =
      Value (running, own_selection ''onionbalancedservices'' ns n)"
proof -
  from assms(1) have ok: "al_config L = None" "al_new_client L = None" "al_dynamic L = None"
    and agg: "\<And>es. al_aggregate L es = None \<longleftrightarrow> es = []" by (simp_all add: agent_lib_law_def)
  have runs: "tor_manager_Run (al_aggregate L) (al_wrap L) n ns = Inr running"
    "balance_manager_Run (al_aggregate L) n ns = Inr running"
    using manager_Run_flags [OF agg] assms(2,3) by simp_all
  note unfold = GetConfigOrDie_def tor_agent_main_def balance_agent_main_def
    tor_New_def balance_New_def tor_GetClient_def balance_GetClient_def onionServiceCRDWatcher_def
    onionBalancedServiceCRDWatcher_def tor_GetDynamicInformer_def balance_GetDynamicInformer_def
    tor_agent_flags_def balance_agent_flags_def parse_own_args
  show "tor_agent_main L [''-name'', n, ''-namespace'', ns] =
      Value (running, own_selection ''onionservices'' ns n)"
    by (simp add: unfold ok runs informer_for_own [OF assms(1)] del: parse_flags.simps)
  show "balance_agent_main L [''-name'', n, ''-namespace'', ns] =
      Value (running, own_selection ''onionbalancedservices'' ns n)"
    by (simp add: unfold ok runs informer_for_own [OF assms(1)] del: parse_flags.simps)
qed

text \<open>
  C19: the container of a deployment starts its agent with arguments that make it watch exactly the
  resource the deployment was made for: that kind at the version the controllers use, in that
  namespace, with that name; and the role made for the pod allows the reads.
\<close>

theorem deployed_agents_watch_their_owner:
  assumes "agent_lib_law A" "os_name onion \<noteq> []" "os_namespace onion \<noteq> []" "ob_name ob \<noteq> []"
    "ob_namespace ob \<noteq> []"
  shows "os_container cfg onion \<in>
      set (ps_containers (pt_spec (ds_template (dep_spec (snd (torOnionServiceDeployment L cfg onion)))))) \<and>
    tor_agent_main A (ct_args (os_container cfg onion)) =
      Value (running, own_selection ''onionservices'' (os_namespace onion) (os_name onion)) \<and>
    list_all (allowed (role_rules (torOnionRole L onion)) api_group ''onionservices'') [''list'', ''watch''] \<and>
    balancer_container cfg ob \<in>
      set (ps_containers (pt_spec (ds_template (dep_spec (snd (onionbalanceDeployment L cfg ob)))))) \<and>
    balance_agent_main A (ct_args (balancer_container cfg ob)) =
      Value (running, own_selection ''onionbalancedservices'' (ob_namespace ob) (ob_name ob)) \<and>
    list_all (allowed (role_rules (onionbalanceRole L ob)) api_group ''onionbalancedservices'') [''list'', ''watch'']"
proof -
  have "list_all (allowed (role_rules (torOnionRole L onion)) api_group ''onionservices'') [''list'', ''watch'']"
    "list_all (allowed (role_rules (onionbalanceRole L ob)) api_group ''onionbalancedservices'') [''list'', ''watch'']"
    by (simp_all add: torOnionRole_def onionbalanceRole_def rule_allows_def)
  then show ?thesis
    using agents_started [OF assms(1)] assms(2-5)
    by (simp add: torOnionServiceDeployment_def onionbalanceDeployment_def os_container_def
        balancer_container_def Let_def)
qed

text \<open>
  When the dynamic client cannot be made, the watchers drop the error and crash the agent.
\<close>

theorem watchers_drop_errors:
  assumes "al_config L = None" "al_dynamic L = Some err"
  shows "onionServiceCRDWatcher L n ns = Panics ''nil pointer dereference''"
    "onionBalancedServiceCRDWatcher L n ns = Panics ''nil pointer dereference''"
  using assms by (simp_all add: onionServiceCRDWatcher_def onionBalancedServiceCRDWatcher_def
      tor_GetDynamicInformer_def balance_GetDynamicInformer_def GetConfigOrDie_def)

section \<open>Simulated libraries\<close>

fun cut_dot :: "string \<Rightarrow> (string \<times> string) option" where
  "cut_dot [] = None"
| "cut_dot (c # cs) =
     (if c = CHR ''.'' then Some ([], cs) else map_option (\<lambda>(a, b). (c # a, b)) (cut_dot cs))"

lemma cut_dot_append: "CHR ''.'' \<notin> set r \<Longrightarrow> cut_dot (r @ CHR ''.'' # s) = Some (r, s)"
  by (induction r) auto

definition sim_agent_lib :: agent_lib where
  "sim_agent_lib =
     \<lparr>al_flags = [''kubeconfig''], al_config = None, al_scheme = None, al_new_client = None,
      al_dynamic = None,
      al_parse_resource = (\<lambda>s. case cut_dot s of
          None \<Rightarrow> None
        | Some (r, t) \<Rightarrow> map_option (\<lambda>(v, g). \<lparr>gvr_group = g, gvr_version = v, gvr_resource = r\<rparr>) (cut_dot t)),
      al_wrap = (\<lambda>e m. e),
      al_aggregate = (\<lambda>es. case es of [] \<Rightarrow> None | e # es \<Rightarrow> Some e)\<rparr>"

lemma sim_agent_lib_law: "agent_lib_law sim_agent_lib"
  by (simp add: agent_lib_law_def sim_agent_lib_def cut_dot_append split: list.splits)

theorem deployed_agents_watch_their_owner_witness:
  "tor_agent_main sim_agent_lib (ct_args (os_container sample_project (zero_onion ''web'' ''default'' []))) =
   Value (running, own_selection ''onionservices'' ''default'' ''web'')"
proof -
  let ?onion = "zero_onion ''web'' ''default'' []"
  let ?ob = "zero_ob ''web'' ''default''"
  have names: "os_name ?onion = ''web''" "os_namespace ?onion = ''default''" "ob_name ?ob = ''web''"
    "ob_namespace ?ob = ''default''" by (simp_all add: zero_onion_def zero_ob_def)
  then have "os_name ?onion \<noteq> []" "os_namespace ?onion \<noteq> []" "ob_name ?ob \<noteq> []" "ob_namespace ?ob \<noteq> []"
    by simp_all
  from deployed_agents_watch_their_owner [OF sim_agent_lib_law this, of sample_project] show ?thesis
    unfolding names by blast
qed

theorem watchers_drop_errors_witness:
  "onionServiceCRDWatcher (sim_agent_lib\<lparr>al_dynamic := Some (GoErr ''no route'')\<rparr>) ''web'' ''default'' =
     Panics ''nil pointer dereference''"
  by (rule watchers_drop_errors) (simp_all add: sim_agent_lib_def)

end
