(* ===== verification/Balance_Daemon.thy ===== *)
theory Balance_Daemon
  imports Balance_Agent Daemons
begin

text \<open>
  The onionbalance agent together with its supervisor: the world of the agent contains the
  supervisor's state, which only \<open>b_ensure\<close> and \<open>b_reload\<close> change.  The lemmas show what a sync makes
  of the supervisor, and how the number of its goroutines grows with the rewrites of the
  configuration.
\<close>

section \<open>Well-formed supervisors\<close>

definition cmd_in_range :: "supervisor \<Rightarrow> bool" where
  "cmd_in_range sv \<longleftrightarrow> (\<forall>c. sv_cmd sv = Some c \<longrightarrow> c < length (sv_cmds sv))"

lemma cmd_in_range_Start [simp]: "cmd_in_range (Start sv) \<longleftrightarrow> cmd_in_range sv"
  by (simp add: cmd_in_range_def Start_def)

lemma cmd_in_range_set_cmd [simp]: "cmd_in_range (set_cmd c p sv) \<longleftrightarrow> cmd_in_range sv"
  by (simp add: cmd_in_range_def set_cmd_def)

lemma cmd_in_range_loops [simp]: "cmd_in_range (sv\<lparr>sv_loops := ls\<rparr>) \<longleftrightarrow> cmd_in_range sv"
  by (simp add: cmd_in_range_def)

lemma loop_stmt_in_range: "loop_stmt ok sv l = Some (sv', l') \<Longrightarrow> cmd_in_range sv \<Longrightarrow> cmd_in_range sv'"
  by (cases l) (auto simp: cmd_in_range_def set_cmd_def split: option.splits process.splits if_splits)

lemma sup_step_in_range: "sup_step sv sv' \<Longrightarrow> cmd_in_range sv \<Longrightarrow> cmd_in_range sv'"
  by (elim sup_stepE) (auto dest: loop_stmt_in_range)

lemma hang_up_in_range: "hang_up sv c = Inr sv' \<Longrightarrow> cmd_in_range sv \<Longrightarrow> cmd_in_range sv'"
  by (auto simp: hang_up_def cmd_in_range_def split: process.splits)

lemma ob_reachable_in_range: "ob_reachable sv w n \<Longrightarrow> cmd_in_range sv"
proof (induction rule: ob_reachable.induct)
  case ob_initial
  show ?case by (simp add: cmd_in_range_def no_daemon_def)
next
  case (ob_moves sv w n sv')
  then show ?case using sup_step_in_range by blast
next
  case (ob_ensures sv n)
  then show ?case by (simp add: EnsureRunning_def ob_Start_def)
next
  case (ob_begins sv n sv' w)
  then show ?case
    by (auto simp: ob_Reload_begin_def dest: hang_up_in_range split: if_splits option.splits sum.splits)
next
  case (ob_returns sv w n sv')
  then show ?case by (auto simp: ob_Reload_end_def ob_Start_def split: option.splits process.splits)
qed

section \<open>A Reload from its call to its return\<close>

text \<open>While \<open>Reload\<close> waits, the goroutines and the processes go on.\<close>

inductive sup_steps :: "supervisor \<Rightarrow> supervisor \<Rightarrow> bool" where
  no_step: "sup_steps sv sv"
| more: "sup_steps sv sv1 \<Longrightarrow> sup_step sv1 sv2 \<Longrightarrow> sup_steps sv sv2"

definition reload_returns :: "supervisor \<Rightarrow> supervisor \<Rightarrow> bool" where
  "reload_returns sv sv' \<longleftrightarrow>
     (\<exists>sv1 w sv2. ob_Reload_begin sv = Inr (sv1, w) \<and> sup_steps sv1 sv2 \<and> ob_Reload_end w sv2 = Some sv')"

lemma sup_steps_reachable: "sup_steps sv sv' \<Longrightarrow> ob_reachable sv w n \<Longrightarrow> ob_reachable sv' w n"
  by (induction rule: sup_steps.induct) (auto intro: ob_moves)

lemma reload_returns_reachable:
  "reload_returns sv sv' \<Longrightarrow> ob_reachable sv None n \<Longrightarrow> ob_reachable sv' None (Suc n)"
  unfolding reload_returns_def by (blast intro: ob_begins ob_returns sup_steps_reachable)

section \<open>The agent on top of the supervisor\<close>

text \<open>
  \<open>daemon s\<close> is the supervisor in the world \<open>s\<close>, or the panic that ended the process.
\<close>

definition balance_daemon_law :: "'s balancer \<Rightarrow> ('s \<Rightarrow> go_error + supervisor) \<Rightarrow> bool" where
  "balance_daemon_law B daemon \<longleftrightarrow>
     (\<forall>s. daemon (snd (run_state (b_ensure B) s)) = map_sum id EnsureRunning (daemon s)) \<and>
     (\<forall>s sv. daemon s = Inr sv \<longrightarrow> cmd_in_range sv \<longrightarrow>
        (case daemon (snd (run_state (b_reload B) s)) of
           Inl e \<Rightarrow> ob_Reload_begin sv = Inl e
         | Inr sv' \<Rightarrow> reload_returns sv sv')) \<and>
     (\<forall>k s. daemon (snd (run_state (b_get_by_key B k) s)) = daemon s) \<and>
     (\<forall>p s. daemon (snd (run_state (b_read B p) s)) = daemon s) \<and>
     (\<forall>p c m s. daemon (snd (run_state (b_write B p c m) s)) = daemon s)"

lemma balance_daemon_lawD:
  assumes "balance_daemon_law B daemon"
  shows "run_state (b_ensure B) s = (u, s') \<Longrightarrow> daemon s' = map_sum id EnsureRunning (daemon s)"
    "run_state (b_reload B) s = (u, s') \<Longrightarrow> daemon s = Inr sv \<Longrightarrow> cmd_in_range sv \<Longrightarrow>
       (case daemon s' of Inl e \<Rightarrow> ob_Reload_begin sv = Inl e | Inr sv' \<Rightarrow> reload_returns sv sv')"
    "run_state (b_get_by_key B k) s = (r, s') \<Longrightarrow> daemon s' = daemon s"
    "run_state (b_read B p) s = (x, s') \<Longrightarrow> daemon s' = daemon s"
    "run_state (b_write B p c m) s = (y, s') \<Longrightarrow> daemon s' = daemon s"
  using assms unfolding balance_daemon_law_def by (metis snd_conv)+

text \<open>
  C21: when a sync of the onionbalance agent handles an object without an error, the supervisor is
  started if need be and otherwise left alone when the configuration file held the rendered
  configuration, and is reloaded otherwise; unless the reload crashes the agent, it leaves one more
  goroutine behind, so that after \<open>n\<close> rewrites of the file at least \<open>n\<close> of them restart the balancer.
\<close>

theorem balance_sync_supervisors:
  assumes laws: "balance_law B files" "balance_daemon_law B daemon"
    and get: "run_state (b_get_by_key B key) s = (Inr (Some obj), t)"
    and parse: "parseOnionBalancedService B obj = Inr onion"
    and conf: "OnionBalanceConfigForService (b_visit B) (b_marshal B) (b_wrap B) onion = (conf, None)"
      "conf \<noteq> []"
    and run: "run_state (balance_sync B key) s = (None, s')"
    and daemon: "daemon s = Inr sv" "ob_reachable sv None n"
  shows "if files t balance_file = Some conf then daemon s' = Inr (EnsureRunning sv)
    else (case daemon s' of
        Inl e \<Rightarrow> ob_Reload_begin sv = Inl e
      | Inr sv' \<Rightarrow> reload_returns sv sv' \<and> ob_reachable sv' None (Suc n) \<and> Suc n \<le> length (sv_loops sv'))"
proof -
  have inst: "run_state (install_config B conf) t = (None, s')"
    using run get parse conf by (simp add: balance_sync_def)
  obtain x u where read: "run_state (b_read B balance_file) t = (x, u)"
    and effect: "if files t balance_file = Some conf then run_state (b_ensure B) u = ((), s')
      else \<exists>v. run_state (b_write B balance_file conf 384) u = (None, v) \<and> run_state (b_reload B) v = ((), s')"
    using install_config_effect [OF laws(1) conf(2) inst] by blast
  note keeps_daemon = balance_daemon_lawD [OF laws(2)]
  have du: "daemon u = Inr sv" using keeps_daemon(3) [OF get] keeps_daemon(4) [OF read] daemon(1) by simp
  show ?thesis
  proof (cases "files t balance_file = Some conf")
    case True
    with effect keeps_daemon(1) [of u] du show ?thesis by simp
  next
    case False
    with effect obtain v where "run_state (b_write B balance_file conf 384) u = (None, v)"
      and reload: "run_state (b_reload B) v = ((), s')" by auto
    with keeps_daemon(5) du have "daemon v = Inr sv" by metis
    from keeps_daemon(2) [OF reload this ob_reachable_in_range [OF daemon(2)]] False
    show ?thesis
      using reload_returns_reachable [OF _ daemon(2)] ob_reloads_accumulate
      by (auto split: sum.splits)
  qed
qed

text \<open>A balancer that ends at a hang-up, so that every reload returns.\<close>

definition ending_reload :: "supervisor \<Rightarrow> go_error + supervisor" where
  "ending_reload sv =
     (case ob_Reload_begin sv of
        Inl e \<Rightarrow> Inl e
      | Inr (sv1, None) \<Rightarrow> Inr (ob_Start sv1)
      | Inr (sv1, Some c) \<Rightarrow>
          (let sv2 = (if sv_cmds sv1 ! c = Running then set_cmd c (Ended False) sv1 else sv1) in
           (case ob_Reload_end (Some c) sv2 of None \<Rightarrow> Inr sv2 | Some sv3 \<Rightarrow> Inr sv3)))"

lemma ending_reload_returns:
  assumes "cmd_in_range sv"
  shows "case ending_reload sv of Inl e \<Rightarrow> ob_Reload_begin sv = Inl e | Inr sv' \<Rightarrow> reload_returns sv sv'"
proof (cases "ob_Reload_begin sv")
  case Inl
  then show ?thesis by (simp add: ending_reload_def)
next
  case (Inr r)
  obtain sv1 w where r: "r = (sv1, w)" by (cases r)
  show ?thesis
  proof (cases w)
    case None
    with Inr r no_step show ?thesis
      by (auto simp: ending_reload_def reload_returns_def ob_Reload_end_def)
  next
    case (Some c)
    with Inr r assms have c: "c < length (sv_cmds sv1)" "sv_cmds sv1 ! c \<noteq> NotStarted"
      by (auto simp: ob_Reload_begin_def cmd_in_range_def hang_up_def
          split: if_splits option.splits sum.splits process.splits)
    show ?thesis
    proof (cases "sv_cmds sv1 ! c = Running")
      case True
      let ?sv2 = "set_cmd c (Ended False) sv1"
      have "sup_steps sv1 ?sv2" by (rule more [OF no_step ends [OF c(1) True]])
      moreover have "ob_Reload_end (Some c) ?sv2 = Some (ob_Start (set_cmd c (Reaped False) ?sv2))"
        using c(1) by (simp add: ob_Reload_end_def set_cmd_def)
      ultimately show ?thesis using Inr r Some True by (auto simp: ending_reload_def reload_returns_def)
    next
      case False
      with c(2) obtain sv3 where "ob_Reload_end (Some c) sv1 = Some sv3"
        by (cases "sv_cmds sv1 ! c") (simp_all add: ob_Reload_end_def)
      with Inr r Some False no_step show ?thesis by (auto simp: ending_reload_def reload_returns_def)
    qed
  qed
qed

record balance_pod = sim_balance +
  bp_daemon :: "go_error + supervisor"

definition pod_balancer :: "balance_pod balancer" where
  "pod_balancer =
     \<lparr>b_get_by_key = (\<lambda>k. State_Monad.return (Inr (Some k))),
      b_unstructured = Some,
      b_convert = (\<lambda>obj. Inr (zero_ob obj ''default'')),
      b_visit = (\<lambda>m. []),
      b_marshal = print_config,
      b_wrap = (\<lambda>e m. e),
      b_read = (\<lambda>p. State (\<lambda>s. (case map_of (sb_files s) p of
         None \<Rightarrow> ([], Some (GoErr ''file does not exist'')) | Some c \<Rightarrow> (c, None), s))),
      b_write = (\<lambda>p c m. State (\<lambda>s. (None, s\<lparr>sb_files := (p, c) # sb_files s\<rparr>))),
      b_not_exist = (\<lambda>e. e = GoErr ''file does not exist''),
      b_reload = State (\<lambda>s. ((), s\<lparr>bp_daemon := case bp_daemon s of Inl e \<Rightarrow> Inl e | Inr sv \<Rightarrow> ending_reload sv\<rparr>)),
      b_ensure = State (\<lambda>s. ((), s\<lparr>bp_daemon := map_sum id EnsureRunning (bp_daemon s)\<rparr>))\<rparr>"

lemma pod_balancer_laws:
  "balance_law pod_balancer (\<lambda>s. map_of (sb_files s))" "balance_daemon_law pod_balancer bp_daemon"
  using ending_reload_returns
  by (auto simp: balance_law_def balance_daemon_law_def pod_balancer_def split: option.splits)

definition fresh_balance_pod :: balance_pod where
  "fresh_balance_pod = \<lparr>sb_files = [], sb_reloads = 0, sb_ensures = 0, bp_daemon = Inr no_daemon\<rparr>"

theorem balance_sync_supervisors_witness:
  "\<exists>s'. run_state (balance_sync pod_balancer ''web'') fresh_balance_pod = (None, s') \<and>
     bp_daemon s' = Inr (Start no_daemon) \<and> ob_reachable (Start no_daemon) None 1"
proof -
  let ?onion = "zero_ob ''web'' ''default''"
  let ?s' = "fresh_balance_pod\<lparr>sb_files := [(balance_file, ''services:'')], bp_daemon := Inr (Start no_daemon)\<rparr>"
  have get: "run_state (b_get_by_key pod_balancer ''web'') fresh_balance_pod =
      (Inr (Some ''web''), fresh_balance_pod)" by (simp add: pod_balancer_def)
  have parse: "parseOnionBalancedService pod_balancer ''web'' = Inr ?onion"
    by (simp add: parseOnionBalancedService_def pod_balancer_def)
  have conf: "OnionBalanceConfigForService (b_visit pod_balancer) (b_marshal pod_balancer)
      (b_wrap pod_balancer) ?onion = (''services:'', None)"
    by (simp add: OnionBalanceConfigForService_def pod_balancer_def print_config_def balance_config_def
        zero_ob_def)
  have reload: "ending_reload no_daemon = Inr (Start no_daemon)"
    by (simp add: ending_reload_def ob_Reload_begin_def IsRunning_def no_daemon_def ob_Start_def)
  have run: "run_state (balance_sync pod_balancer ''web'') fresh_balance_pod = (None, ?s')"
    using get parse conf
    by (simp add: balance_sync_def)
      (simp add: install_config_def write_and_reload_def pod_balancer_def fresh_balance_pod_def reload)
  have daemon: "bp_daemon fresh_balance_pod = Inr no_daemon" by (simp add: fresh_balance_pod_def)
  have "map_of (sb_files fresh_balance_pod) balance_file \<noteq> Some ''services:''"
    by (simp add: fresh_balance_pod_def)
  with balance_sync_supervisors [OF pod_balancer_laws get parse conf _ run daemon ob_initial]
  have "ob_reachable (Start no_daemon) None 1" by simp
  with run show ?thesis by auto
qed

end
