(* ===== verification/Backend_Bounds.thy ===== *)
theory Backend_Bounds
  imports Balanced_Reconcile Tor_Reconcile
begin

text \<open>
  Bounds: the loop over the backends with its \<open>int32\<close> counter as it is written, and the lengths of the
  derived service names.  \<open>Balanced_Children\<close> takes the loop as one over a list of indexes; the lemmas
  show that this is the loop of the code for every number of backends but the largest \<open>int32\<close>, at
  which the counter wraps around and the loop never ends.
\<close>

section \<open>The loop over the backends\<close>

text \<open>
  \<open>for idx := int32(1); idx <= Spec.Backends; idx++\<close>; \<open>None\<close> is a loop that does not end.
\<close>

partial_function (option) backends_for ::
  "'s lib \<Rightarrow> ProjectConfig \<Rightarrow> OnionBalancedService \<Rightarrow> int32 \<Rightarrow> 's \<Rightarrow> 's option" where
  "backends_for L projectConfig onion idx s =
     (if sint idx \<le> sint (ob_Backends (ob_spec onion))
      then backends_for L projectConfig onion (idx + 1)
        (snd (run_state (reconcileBackend L projectConfig onion idx) s))
      else Some s)"

definition max_int32 :: int32 where
  "max_int32 = 0x7FFFFFFF"

lemma sint_max_int32: "sint max_int32 = 2 ^ 31 - 1"
  by (simp add: max_int32_def)

lemma sint_le_max: "sint (x :: int32) \<le> 2 ^ 31 - 1"
  using sint_lt [of x] by simp

lemma sint_plus_one:
  assumes "sint (x :: int32) < 2 ^ 31 - 1"
  shows "sint (x + 1) = sint x + 1"
proof -
  have "- (2 ^ 31) \<le> sint x" using sint_ge [of x] by simp
  moreover have "x + 1 = word_of_int (sint x + 1)" by simp
  ultimately show ?thesis
    using assms by (simp only: sint_sbintrunc') (simp add: signed_take_bit_int_eq_self)
qed

lemma sint_eq_max: "sint (x :: int32) = 2 ^ 31 - 1 \<longleftrightarrow> x = max_int32"
  using sint_max_int32 by (metis signed_word_eqI)

lemma backends_for_ends:
  assumes "backends_for L cfg onion idx s = Some y"
  shows "ob_Backends (ob_spec onion) \<noteq> max_int32"
proof (rule backends_for.raw_induct [OF _ assms,
      where P = "\<lambda>L cfg onion idx s y. ob_Backends (ob_spec onion) \<noteq> max_int32"])
  fix loop and L :: "'s lib" and cfg onion idx s y
  assume IH: "\<And>L cfg onion idx s y. loop L cfg onion idx s = Some y \<Longrightarrow>
      ob_Backends (ob_spec onion) \<noteq> max_int32"
    and body: "(if sint idx \<le> sint (ob_Backends (ob_spec onion))
      then loop L cfg onion (idx + 1) (snd (run_state (reconcileBackend L cfg onion idx) s)) else Some s) = Some y"
  show "ob_Backends (ob_spec onion) \<noteq> max_int32"
  proof (cases "sint idx \<le> sint (ob_Backends (ob_spec onion))")
    case True
    with body have "loop L cfg onion (idx + 1) (snd (run_state (reconcileBackend L cfg onion idx) s)) = Some y"
      by simp
    then show ?thesis by (rule IH)
  next
    case False
    with sint_le_max [of idx] sint_max_int32 show ?thesis by fastforce
  qed
qed

lemma backends_for_list:
  assumes "ob_Backends (ob_spec onion) \<noteq> max_int32"
    and "idxs = map word_of_int [sint idx .. sint (ob_Backends (ob_spec onion))]"
  shows "backends_for L cfg onion idx s = Some (snd (run_state (backend_loop L cfg onion idxs) s))"
  using assms(2)
proof (induction idxs arbitrary: idx s)
  case Nil
  then have "\<not> sint idx \<le> sint (ob_Backends (ob_spec onion))" by simp
  then show ?case by (subst backends_for.simps) simp
next
  case (Cons i idxs)
  let ?b = "sint (ob_Backends (ob_spec onion))"
  from Cons.prems have le: "sint idx \<le> ?b" by (cases "sint idx \<le> ?b") simp_all
  with Cons.prems have idx: "i = idx" and idxs: "idxs = map word_of_int [sint idx + 1 .. ?b]"
    by (simp_all add: upto_rec1)
  have "?b < 2 ^ 31 - 1"
    using assms(1) sint_le_max [of "ob_Backends (ob_spec onion)"] sint_eq_max by (metis order_le_neq_trans)
  with le have "sint (idx + 1) = sint idx + 1" by (intro sint_plus_one) simp
  with Cons.IH [of "idx + 1"] idxs le idx show ?case
    by (subst backends_for.simps) (simp split: prod.splits)
qed

text \<open>
  C23: the loop handles the backends 1 to \<open>Spec.Backends\<close> in this order and ends, whatever becomes of
  the single backends, exactly when \<open>Spec.Backends\<close> is not the largest \<open>int32\<close>; there the counter
  wraps around and the loop runs for ever.
\<close>

theorem backends_loop_ends:
  "backends_for L cfg onion 1 s =
     (if ob_Backends (ob_spec onion) = max_int32 then None
      else Some (snd (run_state (reconcileBackends L cfg onion) s)))"
  using backends_for_ends [of L cfg onion 1 s] backends_for_list [of onion _ 1 L cfg s]
  by (cases "backends_for L cfg onion 1 s") (auto simp: reconcileBackends_def backend_indexes_def)

section \<open>Names of services\<close>

text \<open>
  The names the API server accepts for a service: labels of DNS as in RFC 1035, at most 63
  characters, from lower-case letters, digits and \<open>-\<close>, a letter first and no \<open>-\<close> last.
\<close>

definition lower_letter :: "char \<Rightarrow> bool" where
  "lower_letter c \<longleftrightarrow> c \<in> set ''abcdefghijklmnopqrstuvwxyz''"

definition label_char :: "char \<Rightarrow> bool" where
  "label_char c \<longleftrightarrow> lower_letter c \<or> c \<in> set ''0123456789-''"

definition dns_label :: "string \<Rightarrow> bool" where
  "dns_label n \<longleftrightarrow> n \<noteq> [] \<and> length n \<le> 63 \<and> list_all label_char n \<and> lower_letter (hd n) \<and>
     last n \<noteq> CHR ''-''"

text \<open>What can stand at the front of such a name.\<close>

definition label_start :: "string \<Rightarrow> bool" where
  "label_start n \<longleftrightarrow> n \<noteq> [] \<and> list_all label_char n \<and> lower_letter (hd n)"

lemma dns_label_append:
  assumes "list_all label_char sfx" "sfx \<noteq> []" "hd sfx = CHR ''-''" "last sfx \<noteq> CHR ''-''"
  shows "dns_label (n @ sfx) \<longleftrightarrow> label_start n \<and> length n + length sfx \<le> 63"
  using assms by (cases n) (auto simp: dns_label_def label_start_def lower_letter_def)

lemma label_start_append:
  assumes "list_all label_char sfx" "hd sfx = CHR ''-''" "sfx \<noteq> []"
  shows "label_start (n @ sfx) = label_start n"
  using assms by (cases n) (auto simp: label_start_def lower_letter_def)

definition tor_services :: "Tor \<Rightarrow> string list" where
  "tor_services t = [tor_ServiceName t, tor_ServiceMetricsName t]"

definition os_services :: "OnionService \<Rightarrow> string list" where
  "os_services s = [os_ServiceName s, os_ServiceMetricsName s]"

text \<open>A balanced service has its own services and those of its backends.\<close>

definition ob_services :: "'s lib \<Rightarrow> ProjectConfig \<Rightarrow> OnionBalancedService \<Rightarrow> string list" where
  "ob_services L cfg b =
     [ob_ServiceName b, ob_ServiceMetricsName b] @
     concat (map (\<lambda>i. os_services (onionBalancedServiceBackend L cfg i b)) (backend_indexes b))"

lemma service_suffixes:
  "dns_label (n @ ''-tor-svc'') \<longleftrightarrow> label_start n \<and> length n \<le> 55"
  "dns_label (n @ ''-tor-metrics-svc'') \<longleftrightarrow> label_start n \<and> length n \<le> 47"
  by (auto simp: dns_label_append label_char_def lower_letter_def)

lemma os_services_labels: "list_all dns_label (os_services s) \<longleftrightarrow> label_start (os_name s) \<and> length (os_name s) \<le> 47"
  by (auto simp: os_services_def names service_suffixes)

lemma backend_name:
  assumes "1 \<le> i" "i \<le> 8"
  shows "length (OnionServiceBackendName b (word_of_int i)) = length (ob_name b) + 10"
    "label_start (OnionServiceBackendName b (word_of_int i)) = label_start (ob_name b)"
proof -
  have i: "i = 1 \<or> i = 2 \<or> i = 3 \<or> i = 4 \<or> i = 5 \<or> i = 6 \<or> i = 7 \<or> i = 8"
    using assms by presburger
  then show "length (OnionServiceBackendName b (word_of_int i)) = length (ob_name b) + 10"
    by (elim disjE) (simp_all add: OnionServiceBackendName_def itoa_def nat_digits.simps)
  from i show "label_start (OnionServiceBackendName b (word_of_int i)) = label_start (ob_name b)"
    by (elim disjE) (simp_all add: OnionServiceBackendName_def itoa_def nat_digits.simps label_start_append
        label_char_def lower_letter_def digit_char_def char_of_def bit_simps)
qed

text \<open>
  C24: the services made for a \<open>Tor\<close> or an \<open>OnionService\<close> have names the API server accepts exactly
  when its own name begins with a lower-case letter, consists of lower-case letters, digits and \<open>-\<close>
  and has at most 47 characters; and those made for an \<open>OnionBalancedService\<close> with 1 to 8 backends,
  with those of its backends, exactly when it has that form and at most 37 characters.  So the
  services of a resource whose name has a dot in it, or a digit in front, are refused.
\<close>

theorem service_names_bounded:
  "list_all dns_label (tor_services t) = (label_start (tor_name t) \<and> length (tor_name t) \<le> 47) \<and>
   list_all dns_label (os_services s) = (label_start (os_name s) \<and> length (os_name s) \<le> 47) \<and>
   (1 \<le> sint (ob_Backends (ob_spec b)) \<and> sint (ob_Backends (ob_spec b)) \<le> 8 \<longrightarrow>
     list_all dns_label (ob_services L cfg b) = (label_start (ob_name b) \<and> length (ob_name b) \<le> 37))"
proof (intro conjI impI)
  show "list_all dns_label (tor_services t) = (label_start (tor_name t) \<and> length (tor_name t) \<le> 47)"
    by (auto simp: tor_services_def names service_suffixes)
  show "list_all dns_label (os_services s) = (label_start (os_name s) \<and> length (os_name s) \<le> 47)"
    by (rule os_services_labels)
  assume n: "1 \<le> sint (ob_Backends (ob_spec b)) \<and> sint (ob_Backends (ob_spec b)) \<le> 8"
  have name: "os_name (onionBalancedServiceBackend L cfg i b) = OnionServiceBackendName b i" for i
    by (simp add: onionBalancedServiceBackend_def Let_def)
  have "list_all dns_label (os_services (onionBalancedServiceBackend L cfg (word_of_int i) b)) \<longleftrightarrow>
      label_start (ob_name b) \<and> length (ob_name b) \<le> 37" if "1 \<le> i" "i \<le> sint (ob_Backends (ob_spec b))" for i
    using that n backend_name [of i b] by (auto simp: os_services_labels name)
  moreover have "list_all dns_label (ob_services L cfg b) \<longleftrightarrow>
      list_all dns_label [ob_ServiceName b, ob_ServiceMetricsName b] \<and>
      (\<forall>i \<in> {1 .. sint (ob_Backends (ob_spec b))}.
         list_all dns_label (os_services (onionBalancedServiceBackend L cfg (word_of_int i) b)))"
    by (auto simp: ob_services_def backend_indexes_def list_all_iff)
  moreover have "list_all dns_label [ob_ServiceName b, ob_ServiceMetricsName b] \<longleftrightarrow>
      label_start (ob_name b) \<and> length (ob_name b) \<le> 47"
    by (auto simp: names service_suffixes)
  ultimately show "list_all dns_label (ob_services L cfg b) = (label_start (ob_name b) \<and> length (ob_name b) \<le> 37)"
    using n by force
qed

theorem service_names_bounded_witness:
  "list_all dns_label (ob_services sim_lib sample_project (zero_ob ''web'' ''default'')) \<and>
   \<not> list_all dns_label (tor_services (zero_tor ''my.tor'' ''default''))"
proof -
  have "1 \<le> sint (ob_Backends (ob_spec (zero_ob ''web'' ''default'')))"
    "sint (ob_Backends (ob_spec (zero_ob ''web'' ''default''))) \<le> 8" "ob_name (zero_ob ''web'' ''default'') = ''web''"
    "label_start ''web''"
    by (simp_all add: zero_ob_def label_start_def label_char_def lower_letter_def)
  moreover have "tor_name (zero_tor ''my.tor'' ''default'') = ''my.tor''" "\<not> label_start ''my.tor''"
    by (simp_all add: zero_tor_def label_start_def label_char_def lower_letter_def)
  ultimately show ?thesis
    using service_names_bounded [where b = "zero_ob ''web'' ''default''" and L = sim_lib and cfg = sample_project
        and t = "zero_tor ''my.tor'' ''default''"]
    by simp
qed

end
