(* ===== verification/Scheme_Registry.thy ===== *)
theory Scheme_Registry
  imports Sim_Cluster Tor_Children Balanced_Children
begin

text \<open>
  The types the programs register (\<open>groupversion_info.go\<close>, the \<open>init\<close> functions of the resource types
  and of \<open>main.go\<close>, and \<open>GetClient\<close> of the agents), and the kinds the controllers name as owners of
  the objects they make.  The lemmas show which of these owners exist: an object whose owner
  reference names no kind of the API is never collected when the owner is deleted.
\<close>

section \<open>Registration\<close>

text \<open>The scheme builders of the API groups: \<open>Register\<close> adds kinds, \<open>AddToScheme\<close> hands them over.\<close>

definition kinds_of :: "string \<Rightarrow> string \<Rightarrow> string list \<Rightarrow> gvk list" where
  "kinds_of g v kinds = map (\<lambda>k. \<lparr>gvk_group = g, gvk_version = v, gvk_kind = k\<rparr>) kinds"

definition onion_init :: "string list" where
  "onion_init = [''OnionService'', ''OnionServiceList'']"

definition balanced_init :: "string list" where
  "balanced_init = [''OnionBalancedService'', ''OnionBalancedServiceList'']"

definition tor_init :: "string list" where
  "tor_init = [''Tor'', ''TorList'']"

definition v1alpha2_AddToScheme :: "gvk list \<Rightarrow> gvk list" where
  "v1alpha2_AddToScheme sch =
     sch @ kinds_of api_group api_version (onion_init @ balanced_init @ tor_init)"

definition legacy_onion_init :: "string list" where
  "legacy_onion_init = [''OnionService'', ''OnionServiceList'']"

definition v1alpha1_AddToScheme :: "gvk list \<Rightarrow> gvk list" where
  "v1alpha1_AddToScheme sch = sch @ kinds_of ''tor.k8s.torproject.org'' ''v1alpha1'' legacy_onion_init"

definition project_init :: "string list" where
  "project_init = [''ProjectConfig'']"

definition config_AddToScheme :: "gvk list \<Rightarrow> gvk list" where
  "config_AddToScheme sch = sch @ kinds_of ''config.k8s.torproject.org'' ''v2'' project_init"

text \<open>
  The operator's scheme; \<open>core\<close>, \<open>monitoring\<close> and \<open>extensions\<close> are the kinds of the libraries.
\<close>

definition operator_scheme :: "gvk list \<Rightarrow> gvk list \<Rightarrow> gvk list \<Rightarrow> gvk list" where
  "operator_scheme core monitoring extensions =
     config_AddToScheme (v1alpha2_AddToScheme (v1alpha1_AddToScheme core)) @ monitoring @ extensions"

text \<open>The scheme of an agent's client.\<close>

definition agent_scheme :: "gvk list" where
  "agent_scheme = v1alpha2_AddToScheme []"

lemma agent_kinds_registered:
  "tor_gvk ''OnionService'' \<in> set agent_scheme" "tor_gvk ''OnionBalancedService'' \<in> set agent_scheme"
  by (simp_all add: agent_scheme_def v1alpha2_AddToScheme_def kinds_of_def onion_init_def
      balanced_init_def tor_gvk_def)

section \<open>Owners\<close>

text \<open>\<open>NewControllerRef\<close> puts the kind it is given into the reference.\<close>

definition controller_ref_law :: "'s lib \<Rightarrow> bool" where
  "controller_ref_law L \<longleftrightarrow> (\<forall>m g. or_gvk (l_controller_ref L m g) = g)"

text \<open>The library packages do not define kinds of the program's API group.\<close>

definition foreign_kinds :: "gvk list \<Rightarrow> bool" where
  "foreign_kinds ks \<longleftrightarrow> (\<forall>k \<in> set ks. gvk_group k \<noteq> api_group)"

text \<open>The metadata of the objects made for a resource; the other arguments are what they hold.\<close>

definition tor_child_metas ::
  "'s lib \<Rightarrow> ProjectConfig \<Rightarrow> string \<Rightarrow> string \<Rightarrow> Tor \<Rightarrow> object_meta list" where
  "tor_child_metas L cfg contents password tor =
     [sa_meta (torServiceAccount L tor), role_meta (torRole L tor), rb_meta (torRolebinding L tor),
      svc_meta (torService L tor), svc_meta (torMetricsService L tor), sm_meta (torServiceMonitor L tor),
      cm_meta (config_map_with L contents tor), sec_meta (torSecret L password tor),
      dep_meta (snd (torDeployment L cfg tor))]"

definition os_child_metas ::
  "'s lib \<Rightarrow> ProjectConfig \<Rightarrow> OnionV3 \<Rightarrow> (string, bytes) fmap \<Rightarrow> OnionService \<Rightarrow> object_meta list" where
  "os_child_metas L cfg onionv3 clients onion =
     [sa_meta (torOnionServiceAccount L onion), role_meta (torOnionRole L onion),
      rb_meta (torOnionRolebinding L onion), svc_meta (OnionServiceService L onion),
      svc_meta (osTorMetricsService L onion), sm_meta (osTorServiceMonitor L onion),
      sec_meta (onion_secret_of L onionv3 onion),
      sec_meta (torOnionServiceSecretAuthorizedClients L clients onion),
      dep_meta (snd (torOnionServiceDeployment L cfg onion))]"

definition ob_child_metas ::
  "'s lib \<Rightarrow> ProjectConfig \<Rightarrow> OnionV3 \<Rightarrow> int32 \<Rightarrow> OnionBalancedService \<Rightarrow> object_meta list" where
  "ob_child_metas L cfg onionv3 idx onion =
     [sa_meta (onionbalanceServiceAccount L onion), role_meta (onionbalanceRole L onion),
      svc_meta (onionbalanceService L onion), svc_meta (obsTorMetricsService L onion),
      sm_meta (obsTorServiceMonitor L onion), sec_meta (balance_secret_of L onionv3 onion),
      dep_meta (snd (onionbalanceDeployment L cfg onion)),
      os_meta (onionBalancedServiceBackend L cfg idx onion)]"

definition owned_by_registered :: "gvk list \<Rightarrow> object_meta \<Rightarrow> bool" where
  "owned_by_registered sch m \<longleftrightarrow> (case om_owner_refs m of [r] \<Rightarrow> or_gvk r \<in> set sch | _ \<Rightarrow> False)"

text \<open>
  C20: every object the controllers make has one owner, of a kind that the API has, with two
  exceptions: the config map and the role binding of an \<open>OnionBalancedService\<close> name their owner's kind
  in lower case, which is no kind of the API.
\<close>

theorem owner_kinds_registered:
  assumes "controller_ref_law L" "foreign_kinds (core @ monitoring @ extensions)"
    and "ob_kind b = ''OnionBalancedService''"
  shows "list_all (owned_by_registered (operator_scheme core monitoring extensions))
      (tor_child_metas L cfg contents password t @ os_child_metas L cfg onionv3 clients s @
       ob_child_metas L cfg onionv3 idx b) \<and>
    \<not> owned_by_registered (operator_scheme core monitoring extensions) (cm_meta (onionbalanceTorConfigMap L b)) \<and>
    \<not> owned_by_registered (operator_scheme core monitoring extensions) (rb_meta (onionbalanceRolebinding L b))"
proof -
  let ?sch = "operator_scheme core monitoring extensions"
  have owned: "owned_by_registered ?sch m \<longleftrightarrow> tor_gvk kind \<in> set ?sch"
    if "om_owner_refs m = [l_controller_ref L owner (tor_gvk kind)]" for m owner kind
    using that assms(1) by (simp add: owned_by_registered_def controller_ref_law_def)
  have "tor_gvk kind \<notin> set (core @ monitoring @ extensions)" for kind
    using assms(2) unfolding foreign_kinds_def tor_gvk_def by (metis gvk.select_convs(1))
  then have "tor_gvk kind \<in> set ?sch \<longleftrightarrow> kind \<in> set (onion_init @ balanced_init @ tor_init)" for kind
    by (auto simp: operator_scheme_def config_AddToScheme_def v1alpha2_AddToScheme_def
        v1alpha1_AddToScheme_def kinds_of_def tor_gvk_def api_group_def api_version_def)
  then have registered: "tor_gvk ''Tor'' \<in> set ?sch" "tor_gvk ''OnionService'' \<in> set ?sch"
    "tor_gvk ''OnionBalancedService'' \<in> set ?sch" "tor_gvk ''onionbalancedservice'' \<notin> set ?sch"
    by (simp_all add: onion_init_def balanced_init_def tor_init_def)
  have lower: "to_lower ''OnionBalancedService'' = ''onionbalancedservice''"
    by (simp add: to_lower_def char_lower_def char_of_def bit_simps)
  show ?thesis
    unfolding tor_child_metas_def os_child_metas_def ob_child_metas_def
    by (simp add: built owned registered lower assms(3) Let_def)
qed

definition core_kinds :: "gvk list" where
  "core_kinds = kinds_of [] ''v1'' [''Service'', ''Secret'', ''ConfigMap'', ''ServiceAccount'']"

theorem owner_kinds_registered_witness:
  "\<not> owned_by_registered (operator_scheme core_kinds [] [])
     (cm_meta (onionbalanceTorConfigMap sim_lib (zero_ob ''web'' ''default'')))"
proof -
  have "controller_ref_law sim_lib" by (simp add: controller_ref_law_def sim_lib_def)
  moreover have "foreign_kinds (core_kinds @ [] @ [])"
    by (simp add: foreign_kinds_def core_kinds_def kinds_of_def api_group_def)
  moreover have "ob_kind (zero_ob ''web'' ''default'') = ''OnionBalancedService''"
    by (simp add: zero_ob_def)
  ultimately show ?thesis
    by (rule owner_kinds_registered [THEN conjunct2, THEN conjunct1])
qed

end
