(* ===== verification/Sim_Runs.thy ===== *)
theory Sim_Runs
  imports Sim_Cluster
begin

text \<open>
  On the simulated cluster no call fails, so the reconcilers succeed.  \<open>succeeds P m\<close> says that a step
  reports no error from a state with \<open>P\<close>, \<open>ends_ok P k\<close> that a reconciliation does; the witnesses of
  the theorems on whole reconciliations rest on them.  It models no code of the repository.
\<close>

definition succeeds :: "('s \<Rightarrow> bool) \<Rightarrow> ('s, go_error option) state \<Rightarrow> bool" where
  "succeeds P m \<longleftrightarrow> (\<forall>s. P s \<longrightarrow> fst (run_state m s) = None)"

definition ends_ok :: "('s \<Rightarrow> bool) \<Rightarrow> ('s, ctrl_result \<times> go_error option) state \<Rightarrow> bool" where
  "ends_ok P k \<longleftrightarrow> (\<forall>s. P s \<longrightarrow> snd (fst (run_state k s)) = None)"

lemma succeeds_return [simp]: "succeeds P (State_Monad.return None)"
  by (simp add: succeeds_def)

lemma succeeds_bind:
  "holds_after P m \<Longrightarrow> (\<And>x. succeeds P (f x)) \<Longrightarrow> succeeds P (State_Monad.bind m f)"
  by (auto simp: succeeds_def dest: holds_afterD split: prod.splits)

lemma ends_ok_return [simp]: "ends_ok P (State_Monad.return (r, None))"
  by (simp add: ends_ok_def)

lemma ends_ok_and_then:
  "succeeds P m \<Longrightarrow> holds_after P m \<Longrightarrow> ends_ok P k \<Longrightarrow> ends_ok P (and_then m k)"
  unfolding ends_ok_def
proof (intro allI impI)
  fix s
  assume steps: "succeeds P m" "holds_after P m" "\<forall>s. P s \<longrightarrow> snd (fst (run_state k s)) = None" and P: "P s"
  from steps(1) P obtain t where t: "run_state m s = (None, t)"
    unfolding succeeds_def by (metis prod.collapse)
  with steps(2) P have "P t" by (blast intro: holds_afterD)
  with steps(3) and_then_ok [OF t] show "snd (fst (run_state (and_then m k) s)) = None" by simp
qed

lemma ends_ok_bind:
  assumes "holds_after P m" "\<And>s a t. P s \<Longrightarrow> run_state m s = (a, t) \<Longrightarrow> Q a"
    "\<And>x. Q x \<Longrightarrow> ends_ok P (f x)"
  shows "ends_ok P (State_Monad.bind m f)"
  unfolding ends_ok_def
proof (intro allI impI)
  fix s assume P: "P s"
  obtain a t where "run_state m s = (a, t)" by (cases "run_state m s")
  with P assms show "snd (fst (run_state (State_Monad.bind m f) s)) = None"
    by (auto simp: ends_ok_def dest: holds_afterD)
qed

lemma ends_okE:
  assumes "ends_ok P k" "P s"
  obtains r s' where "run_state k s = ((r, None), s')"
  using assms unfolding ends_ok_def by (metis prod.collapse)

section \<open>The routines\<close>

lemma sim_ensure_child_succeeds:
  assumes "\<And>m c. get (put m c) = m" "key_of (meta new) = key"
  shows "succeeds P (ensure_child sim_lib (sim_ops get put meta) meta equal fails own key skip new)"
  unfolding succeeds_def ensure_child_def update_child_def sim_ops_def
  using assms by (auto simp: sim_fields split: option.splits)

lemma sim_ensure_monitor_succeeds:
  assumes "\<And>m c. get (put m c) = m" "key_of (meta new) = key" "\<And>c. P c \<Longrightarrow> keyed meta (get c)"
  shows "succeeds P (ensure_monitor sim_lib (sim_ops get put meta) meta equal fails own key req new)"
  unfolding succeeds_def ensure_monitor_def update_child_def sim_ops_def
  using assms by (auto simp: sim_fields keyed_def split: option.splits)

lemma sim_ensure_created:
  assumes "\<And>m c. get (put m c) = m"
    and "run_state (op_get (sim_ops get put meta) (key_of (meta new))) s = (r, s1)" "get t = get s1"
    and "run_state (ensure_created sim_lib (sim_ops get put meta) fails r new) t = (c, s')"
  shows "\<exists>x. c = Inr x"
  using assms(2-4) unfolding ensure_created_def sim_ops_def
  by (auto simp: sim_fields split: option.splits)

text \<open>Writing the status of a custom resource leaves the stores of the other kinds alone.\<close>

lemma sim_status_same:
  "holds_after (\<lambda>s. stores_of s = S) (l_status_tor sim_lib t)"
  "holds_after (\<lambda>s. stores_of s = S) (l_status_ob sim_lib b)"
  by (simp_all add: holds_after_def sim_lib_def stores_of_def)

end
