(* ===== verification/Tor_Converge.thy ===== *)
theory Tor_Converge
  imports Tor_Reconcile Sim_Runs
begin

text \<open>
  What a whole reconciliation of a \<open>Tor\<close> achieves (\<open>controllers/tor/tor_controller.go\<close> over the
  reconcilers of \<open>tor_*.go\<close>).  When it reports no error, every child object is the one its builder
  makes, as far as another owner does not control it, and no other object of the cluster has
  changed; and from then on a reconciliation of the same resource changes nothing at all.
\<close>

section \<open>The desired state\<close>

abbreviation settled_in ::
  "'s lib \<Rightarrow> ('o \<Rightarrow> object_meta) \<Rightarrow> object_meta \<Rightarrow> ('o \<Rightarrow> 'o \<Rightarrow> bool) \<Rightarrow> 'o \<Rightarrow> bool \<Rightarrow> nsname \<Rightarrow>
   (nsname \<Rightarrow> 'o option) \<Rightarrow> (nsname \<Rightarrow> 'o option) \<Rightarrow> bool" where
  "settled_in L meta owner agree want skip key old new \<equiv>
     settled L meta owner agree want skip (old key) (new key)"

text \<open>
  The config map and the control secret are created when they are missing and never changed; the
  password is then drawn, and the file is rendered from the specification with more passwords added.
\<close>

definition tor_settled ::
  "'s lib \<Rightarrow> ProjectConfig \<Rightarrow> agreement \<Rightarrow> bool \<Rightarrow> Tor \<Rightarrow> stores \<Rightarrow> stores \<Rightarrow> bool" where
  "tor_settled L cfg ag installed tor old new \<longleftrightarrow>
     (let owner = tor_meta tor; key = tor_key tor in
      settled_in L sa_meta owner (ag_service_accounts ag) (torServiceAccount L tor) False
        (key (tor_ServiceAccountName tor)) (st_service_accounts old) (st_service_accounts new) \<and>
      settled_in L role_meta owner (ag_roles ag) (torRole L tor) False
        (key (tor_RoleName tor)) (st_roles old) (st_roles new) \<and>
      settled_in L rb_meta owner (ag_role_bindings ag) (torRolebinding L tor) False
        (key (tor_RoleName tor)) (st_role_bindings old) (st_role_bindings new) \<and>
      settled_in L svc_meta owner (ag_services ag) (torService L tor) (getTorServicePortList tor = [])
        (key (tor_ServiceName tor)) (st_services old) (st_services new) \<and>
      settled_in L svc_meta owner (ag_services ag) (torMetricsService L tor)
        (\<not> Enable (Metrics (tor_spec tor)))
        (key (tor_ServiceMetricsName tor)) (st_services old) (st_services new) \<and>
      settled_in L dep_meta owner (ag_deployments ag) (snd (torDeployment L cfg tor)) False
        (key (tor_DeploymentName tor)) (st_deployments old) (st_deployments new) \<and>
      monitor_settled L sm_meta owner (ag_service_monitors ag) (torServiceMonitor L tor) installed
        (ServiceMonitor (tor_spec tor)) (st_service_monitors old (key (tor_ServiceMetricsName tor)))
        (st_service_monitors new (key (tor_ServiceMetricsName tor))) \<and>
      (\<exists>password. can_return (generateRandomPassword L) password \<and>
        created_once (ag_secrets ag) (torSecret L password tor)
        (st_secrets old (key (tor_SecretName tor))) (st_secrets new (key (tor_SecretName tor)))) \<and>
      (\<exists>pws file. can_return (torConfigFile L (add_control_secrets pws tor)) file \<and>
        created_once (ag_config_maps ag) (config_map_with L file tor)
        (st_config_maps old (key (tor_ConfigMapName tor))) (st_config_maps new (key (tor_ConfigMapName tor)))))"

text \<open>Every object that is not one of the children is as it was.\<close>

definition tor_frame :: "Tor \<Rightarrow> stores \<Rightarrow> stores \<Rightarrow> bool" where
  "tor_frame tor old new \<longleftrightarrow>
     (let key = tor_key tor in
      same_but {key (tor_ServiceAccountName tor)} (st_service_accounts old) (st_service_accounts new) \<and>
      same_but {key (tor_RoleName tor)} (st_roles old) (st_roles new) \<and>
      same_but {key (tor_RoleName tor)} (st_role_bindings old) (st_role_bindings new) \<and>
      same_but {key (tor_ServiceName tor), key (tor_ServiceMetricsName tor)} (st_services old) (st_services new) \<and>
      same_but {key (tor_DeploymentName tor)} (st_deployments old) (st_deployments new) \<and>
      same_but {key (tor_ServiceMetricsName tor)} (st_service_monitors old) (st_service_monitors new) \<and>
      same_but {key (tor_SecretName tor)} (st_secrets old) (st_secrets new) \<and>
      same_but {key (tor_ConfigMapName tor)} (st_config_maps old) (st_config_maps new) \<and>
      st_onions new = st_onions old)"

section \<open>The steps\<close>

lemma tor_child_steps:
  assumes law: "cluster_law L ag stored" and wrap: "wrap_law L"
  shows
    "run_state (tor_reconcileServiceAccount L tor) s = (None, s') \<Longrightarrow>
     slot_settled L sa_meta (tor_meta tor) (ag_service_accounts ag) (torServiceAccount L tor) False
       (tor_key tor (tor_ServiceAccountName tor)) st_service_accounts put_service_accounts (stored s) (stored s')"
    "run_state (tor_reconcileRole L tor) s = (None, s') \<Longrightarrow>
     slot_settled L role_meta (tor_meta tor) (ag_roles ag) (torRole L tor) False
       (tor_key tor (tor_RoleName tor)) st_roles put_roles (stored s) (stored s')"
    "run_state (tor_reconcileRolebinding L tor) s = (None, s') \<Longrightarrow>
     slot_settled L rb_meta (tor_meta tor) (ag_role_bindings ag) (torRolebinding L tor) False
       (tor_key tor (tor_RoleName tor)) st_role_bindings put_role_bindings (stored s) (stored s')"
    "run_state (tor_reconcileService L tor) s = (None, s') \<Longrightarrow>
     slot_settled L svc_meta (tor_meta tor) (ag_services ag) (torService L tor)
       (getTorServicePortList tor = []) (tor_key tor (tor_ServiceName tor)) st_services put_services
       (stored s) (stored s')"
    "run_state (tor_reconcileMetricsService L tor) s = (None, s') \<Longrightarrow>
     slot_settled L svc_meta (tor_meta tor) (ag_services ag) (torMetricsService L tor)
       (\<not> Enable (Metrics (tor_spec tor))) (tor_key tor (tor_ServiceMetricsName tor)) st_services
       put_services (stored s) (stored s')"
    "run_state (tor_reconcileDeployment L cfg tor) s = ((None, tor'), s') \<Longrightarrow>
     slot_settled L dep_meta (tor_meta tor) (ag_deployments ag) (snd (torDeployment L cfg tor)) False
       (tor_key tor (tor_DeploymentName tor)) st_deployments put_deployments (stored s) (stored s') \<and>
     tor' = fst (torDeployment L cfg tor)"
proof -
  note D = cluster_lawD [OF law] and rep = reports_failing [OF wrap]
  show "run_state (tor_reconcileServiceAccount L tor) s = (None, s') \<Longrightarrow>
     slot_settled L sa_meta (tor_meta tor) (ag_service_accounts ag) (torServiceAccount L tor) False
       (tor_key tor (tor_ServiceAccountName tor)) st_service_accounts put_service_accounts (stored s) (stored s')"
    by (rule tor_sa.ensure_child_stores [OF D(4) slots(4) rep])
      (simp add: tor_reconcileServiceAccount_def names)
  show "run_state (tor_reconcileRole L tor) s = (None, s') \<Longrightarrow>
     slot_settled L role_meta (tor_meta tor) (ag_roles ag) (torRole L tor) False
       (tor_key tor (tor_RoleName tor)) st_roles put_roles (stored s) (stored s')"
    by (rule tor_role.ensure_child_stores [OF D(5) slots(5) rep])
      (simp add: tor_reconcileRole_def names)
  show "run_state (tor_reconcileRolebinding L tor) s = (None, s') \<Longrightarrow>
     slot_settled L rb_meta (tor_meta tor) (ag_role_bindings ag) (torRolebinding L tor) False
       (tor_key tor (tor_RoleName tor)) st_role_bindings put_role_bindings (stored s) (stored s')"
    by (rule tor_rb.ensure_child_stores [OF D(6) slots(6) rep])
      (simp add: tor_reconcileRolebinding_def names)
  show "run_state (tor_reconcileService L tor) s = (None, s') \<Longrightarrow>
     slot_settled L svc_meta (tor_meta tor) (ag_services ag) (torService L tor)
       (getTorServicePortList tor = []) (tor_key tor (tor_ServiceName tor)) st_services put_services
       (stored s) (stored s')"
    by (rule tor_svc.ensure_child_stores [OF D(1) slots(1) rep])
      (simp add: tor_reconcileService_def Let_def names torService_def)
  show "run_state (tor_reconcileMetricsService L tor) s = (None, s') \<Longrightarrow>
     slot_settled L svc_meta (tor_meta tor) (ag_services ag) (torMetricsService L tor)
       (\<not> Enable (Metrics (tor_spec tor))) (tor_key tor (tor_ServiceMetricsName tor)) st_services
       put_services (stored s) (stored s')"
    by (rule tor_msvc.ensure_child_stores [OF D(1) slots(1) rep])
      (simp add: tor_reconcileMetricsService_def names)
  assume run: "run_state (tor_reconcileDeployment L cfg tor) s = ((None, tor'), s')"
  have "slot_settled L dep_meta (tor_meta tor) (ag_deployments ag) (snd (torDeployment L cfg tor)) False
      (tor_key tor (tor_DeploymentName tor)) st_deployments put_deployments (stored s) (stored s')"
    by (rule tor_dep.ensure_child_stores [OF D(7) slots(7) rep])
      (use run in \<open>auto simp: tor_reconcileDeployment_def names split: prod.splits\<close>)
  moreover have "tor' = fst (torDeployment L cfg tor)"
    using run by (auto simp: tor_reconcileDeployment_def names split: prod.splits)
  ultimately show "slot_settled L dep_meta (tor_meta tor) (ag_deployments ag) (snd (torDeployment L cfg tor)) False
      (tor_key tor (tor_DeploymentName tor)) st_deployments put_deployments (stored s) (stored s') \<and>
     tor' = fst (torDeployment L cfg tor)" by simp
qed

lemma tor_monitor_step:
  assumes law: "cluster_law L ag stored" "crd_law L installed" and wrap: "wrap_law L"
    and keyed: "\<And>k y. st_service_monitors (stored s) k = Some y \<Longrightarrow> key_of (sm_meta y) = k"
    and run: "run_state (tor_reconcileServiceMonitor L tor) s = (None, s')"
  shows "slot_monitor L sm_meta (tor_meta tor) (ag_service_monitors ag) (torServiceMonitor L tor) installed
     (ServiceMonitor (tor_spec tor)) (tor_key tor (tor_ServiceMetricsName tor)) st_service_monitors
     put_service_monitors (stored s) (stored s')"
proof -
  have name: "tor_ServiceMetricsName tor \<noteq> []" by (simp add: names)
  show ?thesis
    by (rule tor_sm.monitor_stores [OF law cluster_lawD(8) [OF law(1)] slots(8) reports_failing [OF wrap] keyed
          run [unfolded tor_reconcileServiceMonitor_def Let_def if_not_P [OF name]]])
qed

lemma tor_config_step:
  assumes law: "cluster_law L ag stored" and wrap: "wrap_law L"
    and run: "run_state (tor_reconcileConfigMap L tor) s = (None, s')"
  shows "\<exists>file. can_return (torConfigFile L tor) file \<and>
   slot_created (ag_config_maps ag) (config_map_with L file tor)
     (tor_key tor (tor_ConfigMapName tor)) st_config_maps put_config_maps (stored s) (stored s')"
proof -
  obtain r s1 where get: "run_state (op_get (l_config_maps L) (tor_key tor (tor_ConfigMapName tor))) s = (r, s1)"
    by (cases "run_state (op_get (l_config_maps L) (tor_key tor (tor_ConfigMapName tor))) s")
  obtain cm t where build: "run_state (torConfigMap L tor) s1 = (cm, t)"
    by (cases "run_state (torConfigMap L tor) s1")
  from build obtain contents where torfile: "can_return (torConfigFile L tor) contents"
    and cm: "cm = config_map_with L contents tor"
    by (auto simp: torConfigMap_def split: prod.splits intro: can_returnI)
  have same: "stored t = stored s1"
    using holds_afterD [OF torConfigMap_keeps [OF cluster_lawD(10) [OF law]] refl build] by simp
  obtain c where "run_state (ensure_created L (l_config_maps L)
      (failing L ''failed to create configmap %s/%s'' ''failed to get configmap %s/%s'' [] []) r
      (config_map_with L contents tor)) t = (c, s')" "case c of Inl err \<Rightarrow> err = None | Inr _ \<Rightarrow> True"
    using run get build cm
    by (auto simp: tor_reconcileConfigMap_def names split: prod.splits sum.splits if_splits)
  with tor_cm.ensure_created_stores [OF cluster_lawD(3) [OF law] slots(3) reports_failing [OF wrap] get same] torfile
  show ?thesis by (fastforce split: sum.splits)
qed

text \<open>The secret step hands on the \<open>Tor\<close> with more control passwords, which no child shows.\<close>

lemma add_control_secrets_simps [simp]:
  "add_control_secrets [] tor = tor"
  "add_control_secrets qs (add_control_secrets ps tor) = add_control_secrets (ps @ qs) tor"
  by (simp_all add: add_control_secrets_def)

lemma collect_secret_refs_adds:
  "yields (\<lambda>(err, tor'). \<exists>pws. tor' = add_control_secrets pws tor) (collect_secret_refs L refs tor)"
proof (induction refs arbitrary: tor)
  case Nil
  show ?case by (simp, rule exI [of _ "[]"], simp)
next
  case (Cons ref refs)
  have "yields (\<lambda>(err, tor'). \<exists>pws. tor' = add_control_secrets pws tor)
      (collect_secret_refs L refs (add_control_secrets ps tor))" for ps
    using Cons.IH [of "add_control_secrets ps tor"] by (auto simp: yields_def split: prod.splits) blast
  moreover have "\<exists>pws. tor = add_control_secrets pws tor" by (rule exI [of _ "[]"]) simp
  ultimately show ?case
    unfolding collect_secret_refs.simps by (intro yields_bind yields_cases(1)) auto
qed

lemma collect_secret_refs_same:
  "cluster_law L ag stored \<Longrightarrow> holds_after (\<lambda>s. stored s = S) (collect_secret_refs L refs tor)"
  by (induction refs arbitrary: tor) (auto intro!: keeps dest: cluster_lawD(2) stored_by_reads)

lemma tor_secret_step:
  assumes law: "cluster_law L ag stored" and wrap: "wrap_law L"
    and run: "run_state (reconcileControlSecret L tor) s = ((None, tor'), s')"
  shows "(\<exists>password. can_return (generateRandomPassword L) password \<and>
      slot_created (ag_secrets ag) (torSecret L password tor)
      (tor_key tor (tor_SecretName tor)) st_secrets put_secrets (stored s) (stored s')) \<and>
    (\<exists>pws. tor' = add_control_secrets pws tor)"
proof -
  let ?fails = "failing L ''failed to create secret %#v'' ''failed to get secret %s'' [] []"
  obtain r s1 where get: "run_state (op_get (l_secrets L) (tor_key tor (tor_SecretName tor))) s = (r, s1)"
    by (cases "run_state (op_get (l_secrets L) (tor_key tor (tor_SecretName tor))) s")
  obtain password t where pw: "run_state (generateRandomPassword L) s1 = (password, t)"
    by (cases "run_state (generateRandomPassword L) s1")
  have same: "stored t = stored s1"
    using holds_afterD [OF reads_keepD(6) [OF cluster_lawD(10) [OF law]] refl pw [unfolded generateRandomPassword_def]]
    by simp
  obtain c u where ensure: "run_state (ensure_created L (l_secrets L) ?fails r (torSecret L password tor)) t = (c, u)"
    by (cases "run_state (ensure_created L (l_secrets L) ?fails r (torSecret L password tor)) t")
  note ensured = tor_sec.ensure_created_stores [OF cluster_lawD(2) [OF law] slots(2) reports_failing [OF wrap] get same ensure]
  with run get pw ensure obtain sec where c: "c = Inr sec"
    by (cases c) (auto simp: reconcileControlSecret_def names)
  obtain res v where refs: "run_state (collect_secret_refs L (SecretRef (Control (tor_spec tor))) tor) u = (res, v)"
    by (cases "run_state (collect_secret_refs L (SecretRef (Control (tor_spec tor))) tor) u")
  from yieldsD [OF collect_secret_refs_adds refs] obtain err pws where
    res: "res = (err, add_control_secrets pws tor)" by auto
  have "stored v = stored u"
    using holds_afterD [OF collect_secret_refs_same [OF law] refl refs] by simp
  moreover have "s' = v" "\<exists>pws. tor' = add_control_secrets pws tor"
    using run get pw ensure c refs res
    by (auto simp: reconcileControlSecret_def names default_control_secret_def Let_def
        split: option.splits if_splits)
  ultimately show ?thesis using ensured c can_returnI [OF pw] by auto
qed

text \<open>The builders look at the metadata and at the parts of the specification the steps leave alone.\<close>

lemma same_names:
  assumes "tor_meta t = tor_meta tor"
  shows "tor_ConfigMapName t = tor_ConfigMapName tor" "tor_DeploymentName t = tor_DeploymentName tor"
    "tor_ServiceMetricsName t = tor_ServiceMetricsName tor"
  using assms by (simp_all add: names)

lemma add_control_secrets_builds [simp]:
  "config_map_with L contents (add_control_secrets pws tor) = config_map_with L contents tor"
  "snd (torDeployment L cfg (add_control_secrets pws tor)) = snd (torDeployment L cfg tor)"
  by (simp_all add: add_control_secrets_def config_map_with_def names torDeployment_def Let_def
      tor_PodTemplate_def tor_volumes_def tor_container_def tor_mounts_def getTorContainerPortList_def
      GetAllPorts_def tor_Resources_def tor_DeploymentLabels_def tor_ServiceSelector_def
      TorGenericPortSpec.truncate_def)

lemma deployed_builds [simp]:
  assumes "tor'' = fst (torDeployment L cfg (add_control_secrets pws tor))"
  shows "torMetricsService L tor'' = torMetricsService L tor"
    "torServiceMonitor L tor'' = torServiceMonitor L tor"
    "Metrics (tor_spec tor'') = Metrics (tor_spec tor)"
    "ServiceMonitor (tor_spec tor'') = ServiceMonitor (tor_spec tor)"
  by (simp_all add: assms torDeployment_def Let_def add_control_secrets_def torMetricsService_def
      torServiceMonitor_def names tor_ServiceMetricsSelector_def tor_ServiceSelector_def)

section \<open>A reconciliation without an error\<close>

lemma tor_steps_success:
  assumes "run_state (tor_steps L cfg namespace tor) s = ((r, None), s')"
  obtains s1 s2 s3 s4 s5 s6 s7 s8 s9 t1 t2 where
    "run_state (tor_reconcileServiceAccount L tor) s = (None, s1)"
    "run_state (tor_reconcileRole L tor) s1 = (None, s2)"
    "run_state (tor_reconcileRolebinding L tor) s2 = (None, s3)"
    "run_state (tor_reconcileService L tor) s3 = (None, s4)"
    "run_state (reconcileControlSecret L tor) s4 = ((None, t1), s5)"
    "run_state (tor_reconcileConfigMap L t1) s5 = (None, s6)"
    "run_state (tor_reconcileDeployment L cfg t1) s6 = ((None, t2), s7)"
    "run_state (tor_reconcileMetricsService L t2) s7 = (None, s8)"
    "run_state (tor_reconcileServiceMonitor L t2) s8 = (None, s9)"
    "run_state (tor_status_step L namespace t2) s9 = ((r, None), s')"
proof -
  from assms obtain s1 s2 s3 s4 s5 t1 where
    "run_state (tor_reconcileServiceAccount L tor) s = (None, s1)"
    "run_state (tor_reconcileRole L tor) s1 = (None, s2)"
    "run_state (tor_reconcileRolebinding L tor) s2 = (None, s3)"
    "run_state (tor_reconcileService L tor) s3 = (None, s4)"
    "run_state (reconcileControlSecret L tor) s4 = ((None, t1), s5)"
    and rest: "run_state (tor_steps_after_secret L cfg namespace t1) s5 = ((r, None), s')"
    unfolding tor_steps_def by (elim and_then_success) (auto split: prod.splits option.splits)
  moreover from rest obtain s6 s7 t2 where
    "run_state (tor_reconcileConfigMap L t1) s5 = (None, s6)"
    "run_state (tor_reconcileDeployment L cfg t1) s6 = ((None, t2), s7)"
    and rest: "run_state (tor_steps_after_deployment L namespace t2) s7 = ((r, None), s')"
    unfolding tor_steps_after_secret_def
    by (elim and_then_success) (auto split: prod.splits option.splits)
  moreover from rest obtain s8 s9 where
    "run_state (tor_reconcileMetricsService L t2) s7 = (None, s8)"
    "run_state (tor_reconcileServiceMonitor L t2) s8 = (None, s9)"
    "run_state (tor_status_step L namespace t2) s9 = ((r, None), s')"
    unfolding tor_steps_after_deployment_def by (elim and_then_success)
  ultimately show thesis using that by blast
qed

lemma tor_status_step_same:
  assumes "cluster_law L ag stored" "\<And>S t. holds_after (\<lambda>s. stored s = S) (l_status_tor L t)"
  shows "holds_after (\<lambda>s. stored s = S) (tor_status_step L namespace tor)"
  unfolding tor_status_step_def Let_def
  by (intro keeps assms(2) stored_by_reads [OF cluster_lawD(1) [OF assms(1)]])

lemma tor_steps_settle:
  assumes law: "cluster_law L ag stored" "crd_law L installed" "wrap_law L"
    and status: "\<And>S t. holds_after (\<lambda>s. stored s = S) (l_status_tor L t)"
    and keyed: "\<And>k y. st_service_monitors (stored s) k = Some y \<Longrightarrow> key_of (sm_meta y) = k"
    and run: "run_state (tor_steps L cfg namespace tor) s = ((r, None), s')"
  shows "tor_settled L cfg ag installed tor (stored s) (stored s') \<and> tor_frame tor (stored s) (stored s')"
proof -
  note child = tor_child_steps [OF law(1,3)]
  obtain s1 s2 s3 s4 s5 s6 s7 s8 s9 t1 t2 where
    1: "run_state (tor_reconcileServiceAccount L tor) s = (None, s1)" and
    2: "run_state (tor_reconcileRole L tor) s1 = (None, s2)" and
    3: "run_state (tor_reconcileRolebinding L tor) s2 = (None, s3)" and
    4: "run_state (tor_reconcileService L tor) s3 = (None, s4)" and
    5: "run_state (reconcileControlSecret L tor) s4 = ((None, t1), s5)" and
    6: "run_state (tor_reconcileConfigMap L t1) s5 = (None, s6)" and
    7: "run_state (tor_reconcileDeployment L cfg t1) s6 = ((None, t2), s7)" and
    8: "run_state (tor_reconcileMetricsService L t2) s7 = (None, s8)" and
    9: "run_state (tor_reconcileServiceMonitor L t2) s8 = (None, s9)" and
    10: "run_state (tor_status_step L namespace t2) s9 = ((r, None), s')"
    by (rule tor_steps_success [OF run])
  from tor_secret_step [OF law(1,3) 5] obtain password pws where
    password: "can_return (generateRandomPassword L) password" and secret: "slot_created (ag_secrets ag) (torSecret L password tor) (tor_key tor (tor_SecretName tor))
      st_secrets put_secrets (stored s4) (stored s5)" and t1: "t1 = add_control_secrets pws tor" by blast
  obtain contents where torfile: "can_return (torConfigFile L t1) contents" and config: "slot_created (ag_config_maps ag) (config_map_with L contents t1)
      (tor_key t1 (tor_ConfigMapName t1)) st_config_maps put_config_maps (stored s5) (stored s6)"
    using tor_config_step [OF law(1,3) 6] by blast
  note parts = slot_settledD [OF child(1) [OF 1] slots(4)] slot_settledD [OF child(2) [OF 2] slots(5)]
    slot_settledD [OF child(3) [OF 3] slots(6)] slot_settledD [OF child(4) [OF 4] slots(1)]
    slot_createdD [OF secret slots(2)] slot_createdD [OF config slots(3)]
    slot_settledD [OF conjunct1 [OF child(6) [OF 7]] slots(7)] slot_settledD [OF child(5) [OF 8] slots(1)]
  note kept = touches_service_accounts [OF parts(3)] touches_roles [OF parts(6)]
    touches_role_bindings [OF parts(9)] touches_services [OF parts(12)] touches_secrets [OF parts(15)]
    touches_config_maps [OF parts(18)] touches_deployments [OF parts(21)] touches_services [OF parts(24)]
  note parts9 = slot_monitorD [OF tor_monitor_step [OF law _ 9, unfolded kept, OF keyed] slots(8)]
  note kept = kept touches_service_monitors [OF parts9(3)]
    holds_afterD [OF tor_status_step_same [OF law(1) status] refl 10]
  have t2: "t2 = fst (torDeployment L cfg (add_control_secrets pws tor))" "tor_meta t1 = tor_meta tor"
      "tor_meta t2 = tor_meta tor"
    using child(6) [OF 7] t1 by simp_all
  note names = same_names [OF t2(2)] same_names [OF t2(3)]
  have builds: "config_map_with L contents t1 = config_map_with L contents tor"
    "snd (torDeployment L cfg t1) = snd (torDeployment L cfg tor)" by (simp_all add: t1)
  note all = parts [unfolded names t2(2,3) deployed_builds [OF t2(1)] builds]
    parts9 [unfolded names t2(2,3) deployed_builds [OF t2(1)]]
  have "tor_key tor (tor_ServiceName tor) \<noteq> tor_key tor (tor_ServiceMetricsName tor)"
    by (simp add: tor_ServiceName_def tor_ServiceMetricsName_def)
  note service = same_but_two [OF all(11) all(23) [unfolded kept] this]
  show ?thesis
    unfolding tor_settled_def tor_frame_def Let_def
    using all service password torfile [unfolded t1] by (intro conjI) (simp_all add: kept, blast+)
qed

text \<open>
  C4: a reconciliation of a \<open>Tor\<close> that reports no error leaves every child object in the state its
  builder describes: the service account, role, role binding, services and deployment are as built
  (the services may be missing when they are not wanted), the service monitor is as built or gone
  as requested (and as it was when the cluster does not know monitors), and there is a control secret and a config map; an object of that name that
  another owner controls is left as it was, and so is every other object of the cluster.
\<close>

theorem tor_Reconcile_settles:
  assumes law: "cluster_law L ag stored" "crd_law L installed" "wrap_law L"
    and status: "\<And>S t. holds_after (\<lambda>s. stored s = S) (l_status_tor L t)"
    and keyed: "\<And>k y. st_service_monitors (stored s) k = Some y \<Longrightarrow> key_of (sm_meta y) = k"
    and get: "run_state (l_get_tor L req) s = (Inr tor, t)"
    and run: "run_state (tor_Reconcile L cfg req) s = ((r, None), s')"
  shows "tor_settled L cfg ag installed (SetTorDefaults tor) (stored s) (stored s') \<and>
    tor_frame (SetTorDefaults tor) (stored s) (stored s')"
proof -
  have t: "stored t = stored s"
    using holds_afterD [OF reads_keepD(2) [OF cluster_lawD(10) [OF law(1)]] refl get] by simp
  have "run_state (tor_steps L cfg (tor_namespace tor) (SetTorDefaults tor)) t = ((r, None), s')"
    using run get by (simp add: tor_Reconcile_def Let_def)
  from tor_steps_settle [OF law status _ this] keyed show ?thesis unfolding t by simp
qed

text \<open>On the simulated cluster the reconciliation of the sample reports no error.\<close>

lemma others_kept_keyed: "others_kept owner old c \<Longrightarrow> keyed sm_meta (c_service_monitors c)"
  by (simp add: others_kept_def store_kept_def)

lemma tor_sim_succeeds:
  "succeeds (others_kept (tor_meta tor) old) (tor_reconcileServiceAccount sim_lib tor)"
  "succeeds (others_kept (tor_meta tor) old) (tor_reconcileRole sim_lib tor)"
  "succeeds (others_kept (tor_meta tor) old) (tor_reconcileRolebinding sim_lib tor)"
  "succeeds (others_kept (tor_meta tor) old) (tor_reconcileService sim_lib tor)"
  "succeeds (others_kept (tor_meta tor) old) (tor_reconcileMetricsService sim_lib tor)"
  "succeeds (others_kept (tor_meta tor) old) (tor_reconcileServiceMonitor sim_lib tor)"
proof -
  have mon: "holds_after (others_kept (tor_meta tor) old) (monitoringInstalled sim_lib)"
    by (rule monitoringInstalled_keeps [OF sim_children_permits])
  show
    "succeeds (others_kept (tor_meta tor) old) (tor_reconcileServiceAccount sim_lib tor)"
    "succeeds (others_kept (tor_meta tor) old) (tor_reconcileRole sim_lib tor)"
    "succeeds (others_kept (tor_meta tor) old) (tor_reconcileRolebinding sim_lib tor)"
    "succeeds (others_kept (tor_meta tor) old) (tor_reconcileService sim_lib tor)"
    "succeeds (others_kept (tor_meta tor) old) (tor_reconcileMetricsService sim_lib tor)"
    "succeeds (others_kept (tor_meta tor) old) (tor_reconcileServiceMonitor sim_lib tor)"
    unfolding tor_reconcileServiceAccount_def tor_reconcileRole_def tor_reconcileRolebinding_def
      tor_reconcileService_def tor_reconcileMetricsService_def tor_reconcileServiceMonitor_def
      Let_def sim_ops_of
    by (simp_all add: sim_ensure_child_succeeds tor_sa.build_key tor_role.build_key tor_rb.build_key
        tor_svc.build_key tor_msvc.build_key tor_sm.build_key)
      (auto intro!: succeeds_bind [OF mon] sim_ensure_monitor_succeeds
        simp: tor_sm.build_key others_kept_keyed)
qed

lemma tor_sim_config_succeeds:
  "succeeds (others_kept (tor_meta tor) old) (tor_reconcileConfigMap sim_lib tor)"
proof -
  let ?P = "others_kept (tor_meta tor) old"
  have "fst (run_state (tor_reconcileConfigMap sim_lib tor) s) = None" for s
  proof -
    obtain r s1 where get: "run_state (op_get (l_config_maps sim_lib) (tor_key tor (tor_ConfigMapName tor))) s = (r, s1)"
      by (cases "run_state (op_get (l_config_maps sim_lib) (tor_key tor (tor_ConfigMapName tor))) s")
    obtain cm t where build: "run_state (torConfigMap sim_lib tor) s1 = (cm, t)"
      by (cases "run_state (torConfigMap sim_lib tor) s1")
    from yieldsD [OF torConfigMap_yields build] obtain contents where cm: "cm = config_map_with sim_lib contents tor" by blast
    have "stores_of t = stores_of s1"
      using holds_afterD [OF torConfigMap_keeps [OF cluster_lawD(10) [OF sim_cluster_law]] refl build] by simp
    then have same: "c_config_maps t = c_config_maps s1" by (simp add: stores_of_def)
    obtain c u where ensure: "run_state (ensure_created sim_lib (l_config_maps sim_lib)
        (failing sim_lib ''failed to create configmap %s/%s'' ''failed to get configmap %s/%s'' [] []) r cm) t = (c, u)"
      by (cases "run_state (ensure_created sim_lib (l_config_maps sim_lib)
        (failing sim_lib ''failed to create configmap %s/%s'' ''failed to get configmap %s/%s'' [] []) r cm) t")
    have "\<exists>x. c = Inr x"
      by (rule sim_ensure_created [OF _ _ same ensure [unfolded sim_ops_of]])
        (use get in \<open>simp_all add: sim_ops_of cm tor_cm.build_key\<close>)
    with get build ensure show ?thesis
      by (auto simp: tor_reconcileConfigMap_def Let_def)
  qed
  then show ?thesis by (simp add: succeeds_def)
qed

lemma tor_sim_secret_succeeds:
  assumes "SecretRef (Control (tor_spec tor)) = []"
  shows "fst (fst (run_state (reconcileControlSecret sim_lib tor) s)) = None"
proof -
  let ?fails = "failing sim_lib ''failed to create secret %#v'' ''failed to get secret %s'' [] []"
  obtain r s1 where get: "run_state (op_get (l_secrets sim_lib) (tor_key tor (tor_SecretName tor))) s = (r, s1)"
    by (cases "run_state (op_get (l_secrets sim_lib) (tor_key tor (tor_SecretName tor))) s")
  have pw: "run_state (generateRandomPassword sim_lib) s1 = (''password'', s1)"
    by (simp add: generateRandomPassword_def sim_fields answer_def)
  obtain c u where ensure:
    "run_state (ensure_created sim_lib (l_secrets sim_lib) ?fails r (torSecret sim_lib ''password'' tor)) s1 = (c, u)"
    by (cases "run_state (ensure_created sim_lib (l_secrets sim_lib) ?fails r (torSecret sim_lib ''password'' tor)) s1")
  have "\<exists>x. c = Inr x"
    by (rule sim_ensure_created [OF _ _ refl ensure [unfolded sim_ops_of]])
      (use get in \<open>simp_all add: sim_ops_of tor_sec.build_key\<close>)
  with get pw ensure show ?thesis
    by (auto simp: reconcileControlSecret_def assms Let_def)
qed

lemma tor_sim_deployment_succeeds:
  "yields (\<lambda>(err, tor'). err = None \<and> tor_meta tor' = tor_meta tor) (tor_reconcileDeployment sim_lib cfg tor)"
proof -
  have "succeeds (\<lambda>s. True) (ensure_child sim_lib (l_deployments sim_lib) dep_meta deploymentEqual
      (failing sim_lib ''failed to create Deployment %s/%s'' ''failed to get Deployment %s/%s''
        ''failed to update Deployment %s/%s'' []) (tor_meta tor)
      (tor_key tor (tor_DeploymentName tor)) False (snd (torDeployment sim_lib cfg tor)))"
    unfolding sim_ops_of by (rule sim_ensure_child_succeeds) (simp_all add: key_of_def)
  then show ?thesis
    by (auto simp: yields_def succeeds_def tor_reconcileDeployment_def names torDeployment_tor_meta
        split: prod.splits) (metis fst_conv torDeployment_tor_meta)+
qed

lemma sample_settles:
  "ends_ok (others_kept (tor_meta sample_tor) sample_cluster)
     (tor_steps sim_lib cfg (tor_namespace sample_tor) (SetTorDefaults sample_tor))"
proof -
  let ?P = "others_kept (tor_meta sample_tor) sample_cluster"
  have "c_services c (key_of (svc_meta foreign_service)) = Some foreign_service" if "?P c" for c
    using that by (auto simp: others_kept_def store_kept_def sample_cluster_def foreign_service_def
        zero_meta_def sim_fields)
  moreover have "\<lparr>nn_namespace = tor_namespace sample_tor, nn_name = tor_InstanceName t\<rparr> =
      key_of (svc_meta foreign_service)" if "tor_meta t = tor_meta sample_tor" for t
    using that by (simp add: names sample_tor_def zero_tor_def foreign_service_def key_of_def zero_meta_def)
  ultimately have status: "ends_ok ?P (tor_status_step sim_lib (tor_namespace sample_tor) t)"
    if "tor_meta t = tor_meta sample_tor" for t
    using that unfolding ends_ok_def tor_status_step_def Let_def sim_ops_of
    by (auto simp: sim_ops_def sim_lib_def)
  note kept = tor_ensure_keeps [OF sim_children_permits]
  have meta: "tor_meta (SetTorDefaults sample_tor) = tor_meta sample_tor" by simp
  have dep: "ends_ok ?P (tor_steps_after_deployment sim_lib (tor_namespace sample_tor) t)"
    if "tor_meta t = tor_meta sample_tor" for t
    unfolding tor_steps_after_deployment_def
    using tor_sim_succeeds(5,6) [of t sample_cluster] kept(5,6) [of t sample_cluster] status [OF that] that
    by (intro ends_ok_and_then) simp_all
  have sec: "ends_ok ?P (tor_steps_after_secret sim_lib cfg (tor_namespace sample_tor) t)"
    if t: "tor_meta t = tor_meta sample_tor" for t
    unfolding tor_steps_after_secret_def
  proof (rule ends_ok_and_then [OF _ _ ends_ok_bind])
    show "succeeds ?P (tor_reconcileConfigMap sim_lib t)" "holds_after ?P (tor_reconcileConfigMap sim_lib t)"
      "holds_after ?P (tor_reconcileDeployment sim_lib cfg t)"
      using tor_sim_config_succeeds [of t] tor_configMap_keeps [of ?P sim_lib t]
        tor_deployment_keeps [of ?P sim_lib t] sim_children_permits t by simp_all
    show "(\<lambda>(err, t'). err = None \<and> tor_meta t' = tor_meta t) a"
      if "run_state (tor_reconcileDeployment sim_lib cfg t) s = (a, u)" for s a u
      by (rule yieldsD [OF tor_sim_deployment_succeeds that])
  qed (use dep t in \<open>auto\<close>)
  have secret: "ends_ok ?P (do {
      r \<leftarrow> reconcileControlSecret sim_lib (SetTorDefaults sample_tor);
      (case r of
         (Some err, tor') \<Rightarrow> State_Monad.return (zero_result, Some err)
       | (None, tor') \<Rightarrow> tor_steps_after_secret sim_lib cfg (tor_namespace sample_tor) tor') })"
  proof (rule ends_ok_bind)
    show "holds_after ?P (reconcileControlSecret sim_lib (SetTorDefaults sample_tor))"
      by (rule reconcileControlSecret_keeps) (simp add: sim_children_permits)
    show "(\<lambda>(err, t'). err = None \<and> tor_meta t' = tor_meta sample_tor) a"
      if "run_state (reconcileControlSecret sim_lib (SetTorDefaults sample_tor)) s = (a, u)" for s a u
      using yieldsD [OF reconcileControlSecret_meta that] that
        tor_sim_secret_succeeds [of "SetTorDefaults sample_tor" s]
      by (auto simp: sample_tor_def zero_tor_def)
  qed (use sec in \<open>auto\<close>)
  show ?thesis
    unfolding tor_steps_def
    using tor_sim_succeeds(1-4) [of "SetTorDefaults sample_tor" sample_cluster]
      kept(1-4) [of "SetTorDefaults sample_tor" sample_cluster] secret
    by (intro ends_ok_and_then) simp_all
qed

lemma sample_get: "run_state (l_get_tor sim_lib sample_req) sample_cluster = (Inr sample_tor, sample_cluster)"
  by (simp add: sim_fields look_up_def sample_cluster_def sample_req_def sample_tor_def zero_tor_def
      key_of_def zero_meta_def)

lemma sample_reconciled:
  obtains r s' where
    "run_state (tor_Reconcile sim_lib sample_project sample_req) sample_cluster = ((r, None), s')"
proof -
  obtain r s' where "run_state (tor_steps sim_lib sample_project (tor_namespace sample_tor)
      (SetTorDefaults sample_tor)) sample_cluster = ((r, None), s')"
    by (rule ends_okE [OF sample_settles sample_kept])
  with sample_get that show thesis by (simp add: tor_Reconcile_def Let_def)
qed

lemma sample_no_monitors: "st_service_monitors (stores_of sample_cluster) k = None"
  by (simp add: stores_of_def sample_cluster_def empty_cluster_def)

theorem tor_Reconcile_settles_witness:
  "c_deployments (snd (run_state (tor_Reconcile sim_lib sample_project sample_req) sample_cluster))
     (tor_key sample_tor ''example-tor-daemon'') =
   Some (snd (torDeployment sim_lib sample_project (SetTorDefaults sample_tor)))"
proof -
  obtain r s' where run: "run_state (tor_Reconcile sim_lib sample_project sample_req) sample_cluster = ((r, None), s')"
    by (rule sample_reconciled)
  have settled: "tor_settled sim_lib sample_project exactly True (SetTorDefaults sample_tor)
      (stores_of sample_cluster) (stores_of s')"
    using tor_Reconcile_settles [OF sim_cluster_law sim_crd sim_wrap sim_status_same(1) _ sample_get run]
    by (simp add: sample_no_monitors)
  have "tor_DeploymentName (SetTorDefaults sample_tor) = ''example-tor-daemon''"
    by (simp add: names sample_tor_def zero_tor_def zero_meta_def)
  moreover have "st_deployments (stores_of sample_cluster) k = None" for k
    by (simp add: stores_of_def sample_cluster_def empty_cluster_def)
  ultimately have "st_deployments (stores_of s') (tor_key sample_tor ''example-tor-daemon'') =
      Some (snd (torDeployment sim_lib sample_project (SetTorDefaults sample_tor)))"
    using settled unfolding tor_settled_def Let_def
    by (elim conjE) (simp add: settled_def split: option.splits)
  then show ?thesis by (simp add: run stores_of_def)
qed

end
