(* ===== verification/Tor_Stable.thy ===== *)
theory Tor_Stable
  imports Tor_Converge
begin

text \<open>
  The reconciliation of a \<open>Tor\<close> whose children are settled changes nothing: repeated, late or
  spurious requests do no harm.  Some may send updates, which ask for what is stored already.  Together with \<open>Tor_Converge\<close>: one reconciliation without an error is enough.
\<close>

section \<open>A settled resource stays\<close>

text \<open>The condition under which no step of a reconciliation of \<open>tor\<close> changes anything.\<close>

definition tor_at_rest :: "'s lib \<Rightarrow> ProjectConfig \<Rightarrow> agreement \<Rightarrow> bool \<Rightarrow> Tor \<Rightarrow> stores \<Rightarrow> bool" where
  "tor_at_rest L cfg ag installed tor S \<longleftrightarrow>
     (let owner = tor_meta tor; key = tor_key tor in
      resting L sa_meta owner (ag_service_accounts ag) (torServiceAccount L tor) False
        (st_service_accounts S (key (tor_ServiceAccountName tor))) \<and>
      resting L role_meta owner (ag_roles ag) (torRole L tor) False (st_roles S (key (tor_RoleName tor))) \<and>
      resting L rb_meta owner (ag_role_bindings ag) (torRolebinding L tor) False (st_role_bindings S (key (tor_RoleName tor))) \<and>
      resting L svc_meta owner (ag_services ag) (torService L tor) (getTorServicePortList tor = [])
        (st_services S (key (tor_ServiceName tor))) \<and>
      resting L svc_meta owner (ag_services ag) (torMetricsService L tor) (\<not> Enable (Metrics (tor_spec tor)))
        (st_services S (key (tor_ServiceMetricsName tor))) \<and>
      resting L dep_meta owner (ag_deployments ag) (snd (torDeployment L cfg tor)) False
        (st_deployments S (key (tor_DeploymentName tor))) \<and>
      monitor_rests L sm_meta owner (ag_service_monitors ag) (torServiceMonitor L tor) installed (ServiceMonitor (tor_spec tor))
        (st_service_monitors S (key (tor_ServiceMetricsName tor))) \<and>
      st_secrets S (key (tor_SecretName tor)) \<noteq> None \<and>
      st_config_maps S (key (tor_ConfigMapName tor)) \<noteq> None)"

lemma tor_settled_rests:
  "tor_settled L cfg ag installed tor old new \<Longrightarrow> tor_at_rest L cfg ag installed tor new"
  unfolding tor_settled_def tor_at_rest_def Let_def
  by (intro conjI; elim conjE exE; (rule settled_rests created_there monitor_settled_rests; assumption)?)

lemma tor_rest_steps:
  assumes law: "cluster_law L ag stored" "idle_law L ag stored" and rest: "tor_at_rest L cfg ag installed tor S"
  shows "holds_after (\<lambda>s. stored s = S) (tor_reconcileServiceAccount L tor)"
    "holds_after (\<lambda>s. stored s = S) (tor_reconcileRole L tor)"
    "holds_after (\<lambda>s. stored s = S) (tor_reconcileRolebinding L tor)"
    "holds_after (\<lambda>s. stored s = S) (tor_reconcileService L tor)"
    "holds_after (\<lambda>s. stored s = S) (tor_reconcileDeployment L cfg tor)"
proof -
  note D = cluster_lawD [OF law(1)] and I = idle_lawD [OF law(2)]
  note rest = rest [unfolded tor_at_rest_def Let_def]
  have len: "length (ss_ports (svc_spec (torService L tor))) = 0 \<longleftrightarrow> getTorServicePortList tor = []"
    by (simp add: torService_def)
  show "holds_after (\<lambda>s. stored s = S) (tor_reconcileServiceAccount L tor)"
    unfolding tor_reconcileServiceAccount_def Let_def
    using rest by (intro holds_after_if tor_sa.ensure_child_rests [OF D(4) I(2)]) simp_all
  show "holds_after (\<lambda>s. stored s = S) (tor_reconcileRole L tor)"
    unfolding tor_reconcileRole_def Let_def
    using rest by (intro holds_after_if tor_role.ensure_child_rests [OF D(5) I(3)]) simp_all
  show "holds_after (\<lambda>s. stored s = S) (tor_reconcileRolebinding L tor)"
    unfolding tor_reconcileRolebinding_def Let_def
    using rest by (intro holds_after_if tor_rb.ensure_child_rests [OF D(6) I(4)]) simp_all
  show "holds_after (\<lambda>s. stored s = S) (tor_reconcileService L tor)"
    unfolding tor_reconcileService_def Let_def len
    using rest by (intro holds_after_if tor_svc.ensure_child_rests [OF D(1) I(1)]) simp_all
  have "holds_after (\<lambda>s. stored s = S) (ensure_child L (l_deployments L) dep_meta deploymentEqual fails
      (tor_meta tor) (tor_key tor (tor_DeploymentName tor)) False (snd (torDeployment L cfg tor)))" for fails
    using rest by (intro tor_dep.ensure_child_rests [OF D(7) I(5)]) simp
  then show "holds_after (\<lambda>s. stored s = S) (tor_reconcileDeployment L cfg tor)"
    unfolding tor_reconcileDeployment_def Let_def by (auto split: prod.splits intro!: keeps)
qed

lemma tor_rest_config:
  assumes law: "cluster_law L ag stored" and there: "st_config_maps S (tor_key tor (tor_ConfigMapName tor)) \<noteq> None"
  shows "holds_after (\<lambda>s. stored s = S) (tor_reconcileConfigMap L tor)"
proof (rule holds_afterI)
  fix s a s'
  assume S: "stored s = S" and run: "run_state (tor_reconcileConfigMap L tor) s = (a, s')"
  obtain r s1 where get: "run_state (op_get (l_config_maps L) (tor_key tor (tor_ConfigMapName tor))) s = (r, s1)"
    by (cases "run_state (op_get (l_config_maps L) (tor_key tor (tor_ConfigMapName tor))) s")
  obtain cm t where build: "run_state (torConfigMap L tor) s1 = (cm, t)"
    by (cases "run_state (torConfigMap L tor) s1")
  have "stored s1 = stored s" by (rule stored_byD(2) [OF cluster_lawD(3) [OF law] get])
  moreover have "stored t = stored s1"
    using holds_afterD [OF torConfigMap_keeps [OF cluster_lawD(10) [OF law]] refl build] by simp
  moreover have "s' = t"
    using run get build there S tor_cm.ensure_created_rests [OF cluster_lawD(3) [OF law] _ get]
    by (fastforce simp: tor_reconcileConfigMap_def names split: prod.splits sum.splits if_splits)
  ultimately show "stored s' = S" using S by simp
qed

lemma tor_rest_secret:
  assumes law: "cluster_law L ag stored" and there: "st_secrets S (tor_key tor (tor_SecretName tor)) \<noteq> None"
  shows "holds_after (\<lambda>s. stored s = S) (reconcileControlSecret L tor)"
proof (rule holds_afterI)
  fix s a s'
  assume S: "stored s = S" and run: "run_state (reconcileControlSecret L tor) s = (a, s')"
  let ?fails = "failing L ''failed to create secret %#v'' ''failed to get secret %s'' [] []"
  obtain r s1 where get: "run_state (op_get (l_secrets L) (tor_key tor (tor_SecretName tor))) s = (r, s1)"
    by (cases "run_state (op_get (l_secrets L) (tor_key tor (tor_SecretName tor))) s")
  obtain password t where pw: "run_state (generateRandomPassword L) s1 = (password, t)"
    by (cases "run_state (generateRandomPassword L) s1")
  obtain c u where ensure: "run_state (ensure_created L (l_secrets L) ?fails r (torSecret L password tor)) t = (c, u)"
    by (cases "run_state (ensure_created L (l_secrets L) ?fails r (torSecret L password tor)) t")
  obtain res v where refs: "run_state (collect_secret_refs L (SecretRef (Control (tor_spec tor))) tor) u = (res, v)"
    by (cases "run_state (collect_secret_refs L (SecretRef (Control (tor_spec tor))) tor) u")
  have "stored s1 = stored s" by (rule stored_byD(2) [OF cluster_lawD(2) [OF law] get])
  moreover have "stored t = stored s1"
    using holds_afterD [OF reads_keepD(6) [OF cluster_lawD(10) [OF law]] refl pw [unfolded generateRandomPassword_def]]
    by simp
  moreover have "u = t"
    using tor_sec.ensure_created_rests [OF cluster_lawD(2) [OF law] _ get ensure] there S by simp
  moreover have "stored v = stored u"
    using holds_afterD [OF collect_secret_refs_same [OF law] refl refs] by simp
  moreover have "s' = u \<or> s' = v"
    using run get pw ensure refs
    by (cases c; cases res) (auto simp: reconcileControlSecret_def names Let_def split: option.splits if_splits)
  ultimately show "stored s' = S" using S by auto
qed

text \<open>What the steps make of the \<open>Tor\<close> does not wake its children.\<close>

lemma tor_at_rest_add_secrets:
  "tor_at_rest L cfg ag installed (add_control_secrets pws tor) S = tor_at_rest L cfg ag installed tor S"
proof -
  let ?t = "add_control_secrets pws tor"
  have ports: "GetAllPorts ?t = GetAllPorts tor"
    by (simp add: add_control_secrets_def GetAllPorts_def Let_def TorGenericPortSpec.truncate_def)
  have "torServiceAccount L ?t = torServiceAccount L tor" "torRole L ?t = torRole L tor"
    "torRolebinding L ?t = torRolebinding L tor" "torService L ?t = torService L tor"
    "torMetricsService L ?t = torMetricsService L tor" "torServiceMonitor L ?t = torServiceMonitor L tor"
    "getTorServicePortList ?t = getTorServicePortList tor"
    "Metrics (tor_spec ?t) = Metrics (tor_spec tor)" "ServiceMonitor (tor_spec ?t) = ServiceMonitor (tor_spec tor)"
    by (simp_all add: built names ports getTorServicePortList_def tor_ServiceSelector_def
        tor_ServiceMetricsSelector_def) (simp_all add: add_control_secrets_def)
  then show ?thesis by (simp add: tor_at_rest_def Let_def names)
qed

lemma tor_at_rest_status:
  "tor_at_rest L cfg ag installed (tor\<lparr>tor_status := st\<rparr>) S = tor_at_rest L cfg ag installed tor S"
proof -
  let ?t = "tor\<lparr>tor_status := st\<rparr>"
  have ports: "GetAllPorts ?t = GetAllPorts tor" by (simp add: GetAllPorts_def)
  have deployment: "snd (torDeployment L cfg ?t) = snd (torDeployment L cfg tor)"
    unfolding torDeployment_def Let_def tor_PodTemplate_def tor_volumes_def tor_container_def
      tor_mounts_def getTorContainerPortList_def tor_Resources_def tor_DeploymentLabels_def
      tor_ServiceSelector_def names GetAllPorts_def
    by simp
  have "torServiceAccount L ?t = torServiceAccount L tor" "torRole L ?t = torRole L tor"
    "torRolebinding L ?t = torRolebinding L tor" "torService L ?t = torService L tor"
    "torMetricsService L ?t = torMetricsService L tor" "torServiceMonitor L ?t = torServiceMonitor L tor"
    "getTorServicePortList ?t = getTorServicePortList tor"
    "snd (torDeployment L cfg ?t) = snd (torDeployment L cfg tor)"
    by (simp_all add: built names ports getTorServicePortList_def tor_ServiceSelector_def
        tor_ServiceMetricsSelector_def deployment)
  then show ?thesis by (simp add: tor_at_rest_def Let_def names)
qed

lemma SetTorDefaults_status: "SetTorDefaults (tor\<lparr>tor_status := st\<rparr>) = (SetTorDefaults tor)\<lparr>tor_status := st\<rparr>"
  by (simp add: SetTorDefaults_def Let_def)

section \<open>Reconcile\<close>

lemma tor_rest_metrics:
  assumes "cluster_law L ag stored" "idle_law L ag stored"
    and "resting L svc_meta (tor_meta tor) (ag_services ag) (torMetricsService L tor) (\<not> Enable (Metrics (tor_spec tor)))
      (st_services S (tor_key tor (tor_ServiceMetricsName tor)))"
  shows "holds_after (\<lambda>s. stored s = S) (tor_reconcileMetricsService L tor)"
  unfolding tor_reconcileMetricsService_def Let_def
  using assms(3)
  by (intro holds_after_if tor_msvc.ensure_child_rests [OF cluster_lawD(1) [OF assms(1)] idle_lawD(1) [OF assms(2)]])
    simp_all

lemma tor_rest_monitor:
  assumes law: "cluster_law L ag stored" "crd_law L installed" "idle_law L ag stored"
    and rest: "monitor_rests L sm_meta (tor_meta tor) (ag_service_monitors ag) (torServiceMonitor L tor) installed
      (ServiceMonitor (tor_spec tor)) (st_service_monitors S (tor_key tor (tor_ServiceMetricsName tor)))"
  shows "holds_after (\<lambda>s. stored s = S) (tor_reconcileServiceMonitor L tor)"
proof -
  have name: "tor_ServiceMetricsName tor \<noteq> []" by (simp add: names)
  show ?thesis
    unfolding tor_reconcileServiceMonitor_def Let_def if_not_P [OF name]
    by (rule tor_sm.monitor_step_rests [OF law(1,2) cluster_lawD(8) [OF law(1)] idle_lawD(6) [OF law(3)] rest])
qed

lemma reconcileControlSecret_adds:
  "yields (\<lambda>(err, t). \<exists>pws. t = add_control_secrets pws tor) (reconcileControlSecret L tor)"
proof -
  have none: "\<exists>pws. tor = add_control_secrets pws tor" by (rule exI [of _ "[]"]) simp
  have step: "yields (\<lambda>(err, t). \<exists>pws. t = add_control_secrets pws tor) (do {
      refs \<leftarrow> collect_secret_refs L (SecretRef (Control (tor_spec tor))) tor;
      (case refs of
         (Some err, tor1) \<Rightarrow> State_Monad.return (Some err, tor1)
       | (None, tor1) \<Rightarrow>
           if \<not> l_controlled L (sec_meta secret) (tor_meta (default_control_secret L secret tor1))
           then State_Monad.return (None, default_control_secret L secret tor1)
           else State_Monad.return (None, default_control_secret L secret tor1))})" for secret
    by (rule yields_bind_yields [OF collect_secret_refs_adds])
      (auto simp: default_control_secret_def split: option.splits)
  show ?thesis
    unfolding reconcileControlSecret_def Let_def
    by (rule yields_cases(4), simp add: none, intro yields_bind, rule yields_cases(1), simp add: none, rule step)
qed

lemma tor_steps_rest:
  assumes law: "cluster_law L ag stored" "crd_law L installed" "idle_law L ag stored"
    and status: "\<And>S t. holds_after (\<lambda>s. stored s = S) (l_status_tor L t)"
    and rest: "tor_at_rest L cfg ag installed tor S"
  shows "holds_after (\<lambda>s. stored s = S) (tor_steps L cfg namespace tor)"
proof -
  let ?P = "\<lambda>s. stored s = S"
  have dep: "holds_after ?P (tor_steps_after_deployment L namespace (fst (torDeployment L cfg t)))"
    if "tor_at_rest L cfg ag installed t S" for t
  proof -
    let ?u = "fst (torDeployment L cfg t)"
    note builds = deployed_builds [of ?u L cfg "[]" t, simplified add_control_secrets_simps, OF refl]
    have same: "tor_ServiceMetricsName ?u = tor_ServiceMetricsName t" by (simp add: names)
    have "holds_after ?P (tor_reconcileMetricsService L ?u)"
      by (rule tor_rest_metrics [OF law(1,3)])
        (use that in \<open>simp add: builds same tor_at_rest_def Let_def\<close>)
    moreover have "holds_after ?P (tor_reconcileServiceMonitor L ?u)"
      by (rule tor_rest_monitor [OF law])
        (use that in \<open>simp add: builds same tor_at_rest_def Let_def\<close>)
    ultimately show ?thesis
      unfolding tor_steps_after_deployment_def
      by (intro and_then_keeps tor_status_step_same [OF law(1) status])
  qed
  have sec: "holds_after ?P (tor_steps_after_secret L cfg namespace t)" if "tor_at_rest L cfg ag installed t S" for t
  proof -
    have "yields (\<lambda>(err, u). u = fst (torDeployment L cfg t)) (tor_reconcileDeployment L cfg t)"
      by (auto simp: yields_def tor_reconcileDeployment_def names split: prod.splits)
    note bind = holds_after_bind_yields [OF tor_rest_steps(5) [OF law(1,3) that] this]
    show ?thesis
      unfolding tor_steps_after_secret_def
    proof (intro and_then_keeps tor_rest_config [OF law(1)] bind)
      show "st_config_maps S (tor_key t (tor_ConfigMapName t)) \<noteq> None"
        using that by (simp add: tor_at_rest_def Let_def)
    qed (use dep [OF that] in \<open>auto split: option.splits\<close>)
  qed
  note bind = holds_after_bind_yields [OF tor_rest_secret [OF law(1)] reconcileControlSecret_adds]
  show ?thesis
    unfolding tor_steps_def
  proof (intro and_then_keeps tor_rest_steps(1-4) [OF law(1,3) rest] bind)
    show "st_secrets S (tor_key tor (tor_SecretName tor)) \<noteq> None"
      using rest by (simp add: tor_at_rest_def Let_def)
    fix x :: "go_error option \<times> Tor"
    assume "(\<lambda>(err, t). \<exists>pws. t = add_control_secrets pws tor) x"
    with rest have "tor_at_rest L cfg ag installed (snd x) S"
      by (auto simp: tor_at_rest_add_secrets)
    then show "holds_after ?P (case x of
        (Some err, tor') \<Rightarrow> State_Monad.return (zero_result, Some err)
      | (None, tor') \<Rightarrow> tor_steps_after_secret L cfg namespace tor')"
      using sec by (auto split: prod.splits option.splits)
  qed
qed

text \<open>
  C7: one reconciliation of a \<open>Tor\<close> without an error is enough.  As long as nobody else writes to the
  cluster, any later reconciliation, of the same resource with whatever status and however it ends,
  leaves every object as it is.  The server may fill in fields of its own, so that the comparisons of
  the code fail and the later reconciliation sends its updates again; what is asked of the server is
  that an update that agrees with the stored object, up to such fields, changes nothing
  (\<open>addressing_laws\<close> below is one that fills in cluster addresses).
\<close>

theorem tor_Reconcile_stable:
  assumes law: "cluster_law L ag stored" "crd_law L installed" "wrap_law L" and idle: "idle_law L ag stored"
    and status: "\<And>S t. holds_after (\<lambda>s. stored s = S) (l_status_tor L t)"
    and keyed: "\<And>k y. st_service_monitors (stored s) k = Some y \<Longrightarrow> key_of (sm_meta y) = k"
    and first: "run_state (l_get_tor L req) s = (Inr tor, t)"
      "run_state (tor_Reconcile L cfg req) s = ((r, None), s')"
    and later: "stored u = stored s'" "run_state (l_get_tor L req) u = (Inr (tor\<lparr>tor_status := st\<rparr>), v)"
      "run_state (tor_Reconcile L cfg req) u = (res, u')"
  shows "stored u' = stored s'"
proof -
  have t: "stored t = stored s"
    using holds_afterD [OF reads_keepD(2) [OF cluster_lawD(10) [OF law(1)]] refl first(1)] by simp
  have "run_state (tor_steps L cfg (tor_namespace tor) (SetTorDefaults tor)) t = ((r, None), s')"
    using first by (simp add: tor_Reconcile_def Let_def)
  from tor_steps_settle [OF law status _ this] keyed
  have "tor_settled L cfg ag installed (SetTorDefaults tor) (stored s) (stored s')"
    unfolding t by simp
  then have "tor_at_rest L cfg ag installed (SetTorDefaults (tor\<lparr>tor_status := st\<rparr>)) (stored s')"
    by (simp only: SetTorDefaults_status tor_at_rest_status tor_settled_rests)
  note rest = tor_steps_rest [OF law(1,2) idle status this]
  have "stored v = stored s'"
    using holds_afterD [OF reads_keepD(2) [OF cluster_lawD(10) [OF law(1)]] refl later(2)] later(1) by simp
  moreover have "run_state (tor_steps L cfg (tor_namespace tor) (SetTorDefaults (tor\<lparr>tor_status := st\<rparr>))) v = (res, u')"
    using later(2,3) by (simp add: tor_Reconcile_def Let_def)
  ultimately show ?thesis using holds_afterD [OF rest] by blast
qed

theorem tor_Reconcile_stable_witness:
  "let s = snd (run_state (tor_Reconcile sim_lib sample_project sample_req) sample_cluster);
       again = run_state (tor_Reconcile sim_lib sample_project sample_req) (s\<lparr>c_tors := [sample_tor]\<rparr>)
   in stores_of (snd again) = stores_of s"
proof -
  obtain r s' where run: "run_state (tor_Reconcile sim_lib sample_project sample_req) sample_cluster = ((r, None), s')"
    by (rule sample_reconciled)
  let ?u = "s'\<lparr>c_tors := [sample_tor]\<rparr>"
  obtain res u' where again: "run_state (tor_Reconcile sim_lib sample_project sample_req) ?u = (res, u')"
    by (cases "run_state (tor_Reconcile sim_lib sample_project sample_req) ?u")
  have "stores_of ?u = stores_of s'" by (simp add: stores_of_def)
  moreover have "run_state (l_get_tor sim_lib sample_req) ?u =
      (Inr (sample_tor\<lparr>tor_status := tor_status sample_tor\<rparr>), ?u)"
    by (simp add: sim_fields look_up_def sample_req_def sample_tor_def zero_tor_def key_of_def zero_meta_def)
  ultimately have "stores_of u' = stores_of s'"
    using tor_Reconcile_stable [OF sim_cluster_law sim_crd sim_wrap sim_idle_law sim_status_same(1) _ sample_get run _ _ again,
        where st = "tor_status sample_tor"]
    by (simp add: sample_no_monitors)
  with run again show ?thesis by (simp add: Let_def)
qed

section \<open>A server that fills in addresses\<close>

text \<open>
  The server need not store the services as sent.  This one gives a service that comes without a
  cluster address an address when it is created, and keeps the address it has at an update: the services
  it made differ from those the operator sends, so every reconciliation updates them, and the laws
  hold up to the address.
\<close>

definition with_address :: "service \<Rightarrow> string \<Rightarrow> service" where
  "with_address x ip = (if ss_cluster_ip (svc_spec x) = [] then x\<lparr>svc_spec := (svc_spec x)\<lparr>ss_cluster_ip := ip\<rparr>\<rparr> else x)"

definition up_to_address :: "service \<Rightarrow> service \<Rightarrow> bool" where
  "up_to_address stored sent \<longleftrightarrow> with_address sent (ss_cluster_ip (svc_spec stored)) = stored"

definition addressing_services :: "(cluster, service) ops" where
  "addressing_services = (l_services sim_lib)
     \<lparr>op_create := (\<lambda>x. State (\<lambda>c.
        (let y = with_address x ''10.96.0.7'' in
         case c_services c (key_of (svc_meta x)) of
           None \<Rightarrow> (Inr y, c\<lparr>c_services := (c_services c)(key_of (svc_meta x) := Some y)\<rparr>)
         | Some z \<Rightarrow> (Inl already_exists, c)))),
      op_update := (\<lambda>x. State (\<lambda>c.
        (case c_services c (key_of (svc_meta x)) of
           None \<Rightarrow> (Some not_found, c)
         | Some y \<Rightarrow> (None, c\<lparr>c_services := (c_services c)(key_of (svc_meta x) :=
             Some (with_address x (ss_cluster_ip (svc_spec y))))\<rparr>))))\<rparr>"

definition addressing_lib :: "cluster lib" where
  "addressing_lib = sim_lib\<lparr>l_services := addressing_services\<rparr>"

lemma with_address_twice [simp]:
  "with_address x (ss_cluster_ip (svc_spec (with_address x ip))) = with_address x ip"
  by (simp add: with_address_def)

lemma up_to_address_simps [simp]: "up_to_address x x" "up_to_address (with_address x ip) x"
  by (simp_all add: up_to_address_def) (simp add: with_address_def)

lemma stored_by_lib:
  "l_is_not_found L = l_is_not_found L' \<Longrightarrow>
   stored_by L ops meta get put agree stored = stored_by L' ops meta get put agree stored"
  by (simp add: stored_by_def cong: sum.case_cong)

lemma addressing_stored_by:
  "stored_by sim_lib addressing_services svc_meta st_services put_services up_to_address stores_of"
proof -
  have "\<exists>v. stores_of c = stores_of c\<lparr>st_services := (c_services c)(k := v)\<rparr>" for c k
    by (intro exI [of _ "c_services c k"]) (simp add: stores_of_def)
  then show ?thesis
    unfolding stored_by_def addressing_services_def sim_ops_of sim_ops_def
    by (auto simp: stores_of_def sim_lib_def not_found_def Let_def split: option.splits)
qed

lemma addressing_fields:
  "l_services addressing_lib = addressing_services" "l_is_not_found addressing_lib = l_is_not_found sim_lib"
  "l_secrets addressing_lib = l_secrets sim_lib" "l_config_maps addressing_lib = l_config_maps sim_lib"
  "l_service_accounts addressing_lib = l_service_accounts sim_lib" "l_roles addressing_lib = l_roles sim_lib"
  "l_role_bindings addressing_lib = l_role_bindings sim_lib" "l_deployments addressing_lib = l_deployments sim_lib"
  "l_service_monitors addressing_lib = l_service_monitors sim_lib" "l_onions addressing_lib = l_onions sim_lib"
  by (simp_all add: addressing_lib_def)

lemma addressing_laws:
  "cluster_law addressing_lib (exactly\<lparr>ag_services := up_to_address\<rparr>) stores_of"
  "idle_law addressing_lib (exactly\<lparr>ag_services := up_to_address\<rparr>) stores_of"
proof -
  note lib = stored_by_lib [OF addressing_fields(2)]
  have "reads_keep (\<lambda>s. stores_of s = S) addressing_lib" for S
    using cluster_lawD(10) [OF sim_cluster_law] by (simp add: reads_keep_def addressing_lib_def)
  then show "cluster_law addressing_lib (exactly\<lparr>ag_services := up_to_address\<rparr>) stores_of"
    using sim_cluster_law addressing_stored_by by (simp add: cluster_law_def lib addressing_fields)
  have "idle_updates addressing_services svc_meta st_services up_to_address stores_of"
    unfolding idle_updates_def addressing_services_def
    by (auto simp: up_to_address_def stores_of_def fun_upd_idem split: option.splits)
  then show "idle_law addressing_lib (exactly\<lparr>ag_services := up_to_address\<rparr>) stores_of"
    using sim_idle_law by (simp add: idle_law_def addressing_fields)
qed

end
