(* ===== verification/Onion_Converge.thy ===== *)
theory Onion_Converge
  imports Onion_Reconcile Sim_Runs
begin

text \<open>
  What a whole reconciliation of an \<open>OnionService\<close> achieves
  (\<open>controllers/tor/onionservice_controller.go\<close> over the reconcilers of \<open>onionservice_*.go\<close>): when
  it passes the check of the rules and reports no error, every child object is the one its builder
  makes, as far as another owner does not control it, and no other object of the cluster changed
  but \<open>OnionService\<close>s, whose status is written; from then on a reconciliation changes nothing else.
\<close>

section \<open>The desired state\<close>

text \<open>A secret with generated keys: what is there stays, and what is missing gets fresh keys.\<close>

abbreviation made_key :: "'s lib \<Rightarrow> OnionV3 \<Rightarrow> bool" where
  "made_key L keys \<equiv> can_return (GenerateOnionV3 (l_gen_key L) (l_wrap L) (l_onion_id L)) (Some keys, None)"

definition keys_drawn ::
  "'s lib \<Rightarrow> (secret \<Rightarrow> secret \<Rightarrow> bool) \<Rightarrow> (OnionV3 \<Rightarrow> secret) \<Rightarrow> secret option \<Rightarrow> secret option \<Rightarrow> bool" where
  "keys_drawn L agree build old new =
     (case old of
        Some x \<Rightarrow> new = Some x
      | None \<Rightarrow> \<exists>keys sec. made_key L keys \<and> new = Some sec \<and> agree sec (build keys))"

lemma keys_drawnI:
  assumes "created_once agree want old new" "old = None \<longrightarrow> (\<exists>keys. made_key L keys \<and> want = build keys)"
  shows "keys_drawn L agree build old new"
  using assms by (auto simp: created_once_def keys_drawn_def split: option.splits)

text \<open>
  The two secrets are created when they are missing and never changed; the clients' secret is made of
  the clients collected from the secrets of that moment.  The user names the key secret; when the
  name is that of the clients' secret there is only the latter.
\<close>

definition clients_in ::
  "'s lib \<Rightarrow> ('s \<Rightarrow> stores) \<Rightarrow> stores \<Rightarrow> OnionService \<Rightarrow> (string, bytes) fmap \<Rightarrow> bool" where
  "clients_in L stored S onion clients \<longleftrightarrow>
     (\<exists>s s'. stored s = S \<and> run_state (collect_clients L (os_namespace onion) 0
        (os_AuthorizedClients (os_spec onion)) fmempty) s = (clients, s'))"

definition os_settled ::
  "'s lib \<Rightarrow> ProjectConfig \<Rightarrow> agreement \<Rightarrow> bool \<Rightarrow> ('s \<Rightarrow> stores) \<Rightarrow> OnionService \<Rightarrow> stores \<Rightarrow> stores \<Rightarrow> bool" where
  "os_settled L cfg ag installed stored onion old new \<longleftrightarrow>
     (let owner = os_meta onion; key = os_key onion in
      (\<exists>clients. clients_in L stored old onion clients \<and>
        created_once (ag_secrets ag) (torOnionServiceSecretAuthorizedClients L clients onion)
        (st_secrets old (key (os_AuthorizedClientsSecretName onion)))
        (st_secrets new (key (os_AuthorizedClientsSecretName onion)))) \<and>
      (os_SecretName onion \<noteq> os_AuthorizedClientsSecretName onion \<longrightarrow>
        keys_drawn L (ag_secrets ag) (\<lambda>keys. onion_secret_of L keys onion)
          (st_secrets old (key (os_SecretName onion))) (st_secrets new (key (os_SecretName onion)))) \<and>
      st_secrets new (key (os_SecretName onion)) \<noteq> None \<and>
      settled L sa_meta owner (ag_service_accounts ag) (torOnionServiceAccount L onion) False
        (st_service_accounts old (key (os_ServiceAccountName onion)))
        (st_service_accounts new (key (os_ServiceAccountName onion))) \<and>
      settled L role_meta owner (ag_roles ag) (torOnionRole L onion) False
        (st_roles old (key (os_RoleName onion))) (st_roles new (key (os_RoleName onion))) \<and>
      settled L rb_meta owner (ag_role_bindings ag) (torOnionRolebinding L onion) False
        (st_role_bindings old (key (os_RoleName onion))) (st_role_bindings new (key (os_RoleName onion))) \<and>
      settled L svc_meta owner (ag_services ag) (OnionServiceService L onion) False
        (st_services old (key (os_ServiceName onion))) (st_services new (key (os_ServiceName onion))) \<and>
      settled L svc_meta owner (ag_services ag) (osTorMetricsService L onion) False
        (st_services old (key (os_ServiceMetricsName onion)))
        (st_services new (key (os_ServiceMetricsName onion))) \<and>
      settled L dep_meta owner (ag_deployments ag) (snd (torOnionServiceDeployment L cfg onion)) False
        (st_deployments old (key (os_DeploymentName onion)))
        (st_deployments new (key (os_DeploymentName onion))) \<and>
      monitor_settled L sm_meta owner (ag_service_monitors ag) (osTorServiceMonitor L onion) installed
        (os_ServiceMonitor (os_spec onion)) (st_service_monitors old (key (os_ServiceMetricsName onion)))
        (st_service_monitors new (key (os_ServiceMetricsName onion))))"

definition os_frame :: "OnionService \<Rightarrow> stores \<Rightarrow> stores \<Rightarrow> bool" where
  "os_frame onion old new \<longleftrightarrow>
     (let key = os_key onion in
      same_but {key (os_AuthorizedClientsSecretName onion), key (os_SecretName onion)}
        (st_secrets old) (st_secrets new) \<and>
      same_but {key (os_ServiceAccountName onion)} (st_service_accounts old) (st_service_accounts new) \<and>
      same_but {key (os_RoleName onion)} (st_roles old) (st_roles new) \<and>
      same_but {key (os_RoleName onion)} (st_role_bindings old) (st_role_bindings new) \<and>
      same_but {key (os_ServiceName onion), key (os_ServiceMetricsName onion)} (st_services old) (st_services new) \<and>
      same_but {key (os_DeploymentName onion)} (st_deployments old) (st_deployments new) \<and>
      same_but {key (os_ServiceMetricsName onion)} (st_service_monitors old) (st_service_monitors new) \<and>
      st_config_maps new = st_config_maps old)"

section \<open>The steps\<close>

lemma os_child_steps:
  assumes law: "cluster_law L ag stored" and wrap: "wrap_law L"
  shows
    "run_state (os_reconcileServiceAccount L onion) s = (None, s') \<Longrightarrow>
     slot_settled L sa_meta (os_meta onion) (ag_service_accounts ag) (torOnionServiceAccount L onion) False
       (os_key onion (os_ServiceAccountName onion)) st_service_accounts put_service_accounts (stored s) (stored s')"
    "run_state (os_reconcileRole L onion) s = (None, s') \<Longrightarrow>
     slot_settled L role_meta (os_meta onion) (ag_roles ag) (torOnionRole L onion) False
       (os_key onion (os_RoleName onion)) st_roles put_roles (stored s) (stored s')"
    "run_state (os_reconcileRolebinding L onion) s = (None, s') \<Longrightarrow>
     slot_settled L rb_meta (os_meta onion) (ag_role_bindings ag) (torOnionRolebinding L onion) False
       (os_key onion (os_RoleName onion)) st_role_bindings put_role_bindings (stored s) (stored s')"
    "run_state (os_reconcileService L onion) s = (None, s') \<Longrightarrow>
     slot_settled L svc_meta (os_meta onion) (ag_services ag) (OnionServiceService L onion) False
       (os_key onion (os_ServiceName onion)) st_services put_services (stored s) (stored s')"
    "run_state (os_reconcileMetricsService L onion) s = (None, s') \<Longrightarrow>
     slot_settled L svc_meta (os_meta onion) (ag_services ag) (osTorMetricsService L onion) False
       (os_key onion (os_ServiceMetricsName onion)) st_services put_services (stored s) (stored s')"
  by (rule os_sa.ensure_child_stores [OF cluster_lawD(4) [OF law] slots(4) reports_failing [OF wrap]],
      simp add: os_reconcileServiceAccount_def names,
      rule os_role.ensure_child_stores [OF cluster_lawD(5) [OF law] slots(5) reports_failing [OF wrap]],
      simp add: os_reconcileRole_def names,
      rule os_rb.ensure_child_stores [OF cluster_lawD(6) [OF law] slots(6) reports_failing [OF wrap]],
      simp add: os_reconcileRolebinding_def names,
      rule os_svc.ensure_child_stores [OF cluster_lawD(1) [OF law] slots(1) reports_failing [OF wrap]],
      simp add: os_reconcileService_def names,
      rule os_msvc.ensure_child_stores [OF cluster_lawD(1) [OF law] slots(1) reports_failing [OF wrap]],
      simp add: os_reconcileMetricsService_def names)

lemma os_deployment_step:
  assumes law: "cluster_law L ag stored"
    and run: "run_state (os_reconcileDeployment L cfg onion) s = ((None, onion'), s')"
  shows "slot_settled L dep_meta (os_meta onion) (ag_deployments ag) (snd (torOnionServiceDeployment L cfg onion))
      False (os_key onion (os_DeploymentName onion)) st_deployments put_deployments (stored s) (stored s') \<and>
    onion' = fst (torOnionServiceDeployment L cfg onion)"
proof (rule conjI)
  show "slot_settled L dep_meta (os_meta onion) (ag_deployments ag) (snd (torOnionServiceDeployment L cfg onion))
      False (os_key onion (os_DeploymentName onion)) st_deployments put_deployments (stored s) (stored s')"
    by (rule os_dep.ensure_child_stores [OF cluster_lawD(7) [OF law] slots(7)])
      (use run in \<open>auto simp: os_reconcileDeployment_def names reports_def new_error_def split: prod.splits\<close>)
  show "onion' = fst (torOnionServiceDeployment L cfg onion)"
    using run by (auto simp: os_reconcileDeployment_def names split: prod.splits)
qed

lemma os_monitor_step:
  assumes law: "cluster_law L ag stored" "crd_law L installed" and wrap: "wrap_law L"
    and keyed: "\<And>k y. st_service_monitors (stored s) k = Some y \<Longrightarrow> key_of (sm_meta y) = k"
    and run: "run_state (os_reconcileServiceMonitor L onion) s = (None, s')"
  shows "slot_monitor L sm_meta (os_meta onion) (ag_service_monitors ag) (osTorServiceMonitor L onion) installed
     (os_ServiceMonitor (os_spec onion)) (os_key onion (os_ServiceMetricsName onion)) st_service_monitors
     put_service_monitors (stored s) (stored s')"
proof -
  have name: "os_ServiceMetricsName onion \<noteq> []" by (simp add: names)
  show ?thesis
    by (rule os_sm.monitor_stores [OF law cluster_lawD(8) [OF law(1)] slots(8) reports_failing [OF wrap] keyed
          run [unfolded os_reconcileServiceMonitor_def Let_def if_not_P [OF name]]])
qed

text \<open>The secrets; without keys the key secret must be there already.\<close>

lemma ensure_key_secret_none:
  assumes "wrap_law L" "run_state (ensure_key_secret L r None) t = (c, s')"
  shows "case c of Inl err \<Rightarrow> err \<noteq> None | Inr sec \<Rightarrow> r = Inr sec \<and> s' = t"
  using assms by (cases r) (auto simp: ensure_key_secret_def wrapped_def split: if_splits prod.splits option.splits)

lemma collect_clients_same:
  "cluster_law L ag stored \<Longrightarrow> holds_after (\<lambda>s. stored s = S) (collect_clients L ns i refs acc)"
  by (induction refs arbitrary: i acc) (auto intro!: keeps dest: cluster_lawD(2) stored_by_reads)

lemma key_generation_same:
  "cluster_law L ag stored \<Longrightarrow>
   holds_after (\<lambda>s. stored s = S) (GenerateOnionV3 (l_gen_key L) (l_wrap L) (l_onion_id L))"
  unfolding GenerateOnionV3_def by (intro keeps) (auto dest: cluster_lawD(10) reads_keepD(7))

lemma os_auth_step:
  assumes law: "cluster_law L ag stored" and wrap: "wrap_law L"
    and run: "run_state (reconcileSecretAuthorizedClients L onion) s = (None, s')"
  shows "\<exists>clients. clients_in L stored (stored s) onion clients \<and>
   slot_created (ag_secrets ag) (torOnionServiceSecretAuthorizedClients L clients onion)
     (os_key onion (os_AuthorizedClientsSecretName onion)) st_secrets put_secrets (stored s) (stored s')"
proof -
  let ?get = "op_get (l_secrets L) (os_key onion (os_AuthorizedClientsSecretName onion))"
  let ?collect = "collect_clients L (os_namespace onion) 0 (os_AuthorizedClients (os_spec onion)) fmempty"
  obtain r s1 where get: "run_state ?get s = (r, s1)" by (cases "run_state ?get s")
  obtain clients t where collect: "run_state ?collect s1 = (clients, t)" by (cases "run_state ?collect s1")
  have same: "stored t = stored s1"
    using holds_afterD [OF collect_clients_same [OF law] refl collect] by simp
  obtain c where "run_state (ensure_created L (l_secrets L)
      (failing L ''failed to create secret'' ''failed to get secret'' [] []) r
      (torOnionServiceSecretAuthorizedClients L clients onion)) t = (c, s')" and
    "case c of Inl err \<Rightarrow> err = None | Inr _ \<Rightarrow> True"
    using run get collect
    by (auto simp: reconcileSecretAuthorizedClients_def names split: prod.splits sum.splits if_splits)
  moreover have "clients_in L stored (stored s) onion clients"
    using collect stored_byD(2) [OF cluster_lawD(2) [OF law] get] unfolding clients_in_def by blast
  ultimately show ?thesis
    using os_auth.ensure_created_stores [OF cluster_lawD(2) [OF law] slots(2) reports_failing [OF wrap] get same]
    by (fastforce split: sum.splits)
qed

lemma torOnionServiceSecret_keys:
  "yields (\<lambda>new. \<forall>sec. new = Some sec \<longrightarrow> (\<exists>keys. made_key L keys \<and>
      sec = onion_secret_of L keys onion)) (torOnionServiceSecret L onion)"
  unfolding torOnionServiceSecret_def yields_def by (auto split: prod.splits option.splits intro: can_returnI)

lemma os_secret_step:
  assumes law: "cluster_law L ag stored" and wrap: "wrap_law L"
    and run: "run_state (os_reconcileSecret L onion) s = (None, s')"
  shows "\<exists>want. slot_created (ag_secrets ag) want
     (os_key onion (os_SecretName onion)) st_secrets put_secrets (stored s) (stored s') \<and>
   (st_secrets (stored s) (os_key onion (os_SecretName onion)) = None \<longrightarrow>
     (\<exists>keys. made_key L keys \<and> want = onion_secret_of L keys onion))"
proof -
  note D = cluster_lawD(2) [OF law]
  let ?get = "op_get (l_secrets L) (os_key onion (os_SecretName onion))"
  have name: "os_SecretName onion \<noteq> []" by (simp add: os_SecretName_def)
  obtain r s1 where get: "run_state ?get s = (r, s1)" by (cases "run_state ?get s")
  obtain new t where new: "run_state (torOnionServiceSecret L onion) s1 = (new, t)"
    by (cases "run_state (torOnionServiceSecret L onion) s1")
  have "holds_after (\<lambda>u. stored u = stored s1) (torOnionServiceSecret L onion)"
    unfolding torOnionServiceSecret_def by (intro keeps key_generation_same [OF law])
  from holds_afterD [OF this refl new] have same: "stored t = stored s1" by simp
  obtain c where ensure: "run_state (ensure_key_secret L r new) t = (c, s')"
    and ok: "case c of Inl err \<Rightarrow> err = None | Inr _ \<Rightarrow> True"
    using run get new name
    by (auto simp: os_reconcileSecret_def Let_def split: prod.splits sum.splits if_splits)
  show ?thesis
  proof (cases new)
    case None
    with ensure_key_secret_none [OF wrap ensure [unfolded None]] ok obtain sec where "r = Inr sec" "s' = t"
      by (auto split: sum.splits)
    with stored_byD(3) [OF D] get stored_byD(2) [OF D get] same
    have there: "st_secrets (stored s) (os_key onion (os_SecretName onion)) = Some sec" "stored s' = stored s"
      by simp_all
    then have "slot_created (ag_secrets ag) sec (os_key onion (os_SecretName onion)) st_secrets put_secrets
        (stored s) (stored s')"
      unfolding slot_created_def created_once_def by (intro exI [of _ "st_secrets (stored s)"]) simp
    with there show ?thesis by auto
  next
    case (Some sec)
    with yieldsD [OF torOnionServiceSecret_keys new] obtain keys where keys: "made_key L keys" "sec = onion_secret_of L keys onion" by blast
    with Some keys ensure have "run_state (ensure_created L (l_secrets L)
        (failing L ''failed to create secret'' ''failed to get secret'' [] []) r (onion_secret_of L keys onion)) t = (c, s')"
      by (simp add: ensure_key_secret_def)
    from os_sec.ensure_created_stores [OF D slots(2) reports_failing [OF wrap] get same this] ok keys(1)
    show ?thesis by (auto split: sum.splits)
  qed
qed

text \<open>Writing the status changes \<open>OnionService\<close>s only.\<close>

definition os_status_law :: "'s lib \<Rightarrow> ('s \<Rightarrow> stores) \<Rightarrow> bool" where
  "os_status_law L stored \<longleftrightarrow>
     (\<forall>onion s. touches put_onions (stored s) (stored (snd (run_state (l_status_os L onion) s))))"

lemma os_status_step_touches:
  assumes law: "cluster_law L ag stored" "os_status_law L stored"
    and run: "run_state (os_status_step L ns onion) s = (r, s')"
  shows "touches put_onions (stored s) (stored s')"
proof -
  let ?get = "op_get (l_services L) \<lparr>nn_namespace = ns, nn_name = os_ServiceName onion\<rparr>"
  obtain x s1 where get: "run_state ?get s = (x, s1)" by (cases "run_state ?get s")
  have same: "stored s1 = stored s" by (rule stored_byD(2) [OF cluster_lawD(1) [OF law(1)] get])
  have "touches put_onions (stored s1) (stored s1)"
    unfolding touches_def by (rule exI [of _ "st_onions (stored s1)"]) simp
  moreover have "touches put_onions (stored s1) (stored u)" if "run_state (l_status_os L t) s1 = (e, u)" for t e u
    using law(2) that unfolding os_status_law_def by (metis snd_conv)
  ultimately show ?thesis
    using run get same
    by (auto simp: os_status_step_def Let_def split: sum.splits if_splits prod.splits)
qed

lemma os_steps_success:
  assumes "run_state (os_steps L cfg namespace onion) s = ((r, None), s')"
  obtains s1 s2 s3 s4 s5 s6 s7 s8 s9 onion' where
    "run_state (reconcileSecretAuthorizedClients L onion) s = (None, s1)"
    "run_state (os_reconcileSecret L onion) s1 = (None, s2)"
    "run_state (os_reconcileServiceAccount L onion) s2 = (None, s3)"
    "run_state (os_reconcileRole L onion) s3 = (None, s4)"
    "run_state (os_reconcileRolebinding L onion) s4 = (None, s5)"
    "run_state (os_reconcileService L onion) s5 = (None, s6)"
    "run_state (os_reconcileDeployment L cfg onion) s6 = ((None, onion'), s7)"
    "run_state (os_reconcileMetricsService L onion') s7 = (None, s8)"
    "run_state (os_reconcileServiceMonitor L onion') s8 = (None, s9)"
    "run_state (os_status_step L namespace onion') s9 = ((r, None), s')"
proof -
  from assms obtain s1 s2 s3 s4 s5 s6 s7 onion' where
    "run_state (reconcileSecretAuthorizedClients L onion) s = (None, s1)"
    "run_state (os_reconcileSecret L onion) s1 = (None, s2)"
    "run_state (os_reconcileServiceAccount L onion) s2 = (None, s3)"
    "run_state (os_reconcileRole L onion) s3 = (None, s4)"
    "run_state (os_reconcileRolebinding L onion) s4 = (None, s5)"
    "run_state (os_reconcileService L onion) s5 = (None, s6)"
    "run_state (os_reconcileDeployment L cfg onion) s6 = ((None, onion'), s7)"
    and rest: "run_state (os_steps_after_deployment L namespace onion') s7 = ((r, None), s')"
    unfolding os_steps_def by (elim and_then_success) (auto split: prod.splits option.splits)
  moreover from rest obtain s8 s9 where
    "run_state (os_reconcileMetricsService L onion') s7 = (None, s8)"
    "run_state (os_reconcileServiceMonitor L onion') s8 = (None, s9)"
    "run_state (os_status_step L namespace onion') s9 = ((r, None), s')"
    unfolding os_steps_after_deployment_def by (elim and_then_success)
  ultimately show thesis using that by blast
qed

lemma os_deployed_builds:
  assumes "onion' = fst (torOnionServiceDeployment L cfg onion)"
  shows "osTorMetricsService L onion' = osTorMetricsService L onion"
    "osTorServiceMonitor L onion' = osTorServiceMonitor L onion"
    "os_ServiceMonitor (os_spec onion') = os_ServiceMonitor (os_spec onion)"
    "os_ServiceMetricsName onion' = os_ServiceMetricsName onion" "os_meta onion' = os_meta onion"
  by (simp_all add: assms torOnionServiceDeployment_def Let_def osTorMetricsService_def
      osTorServiceMonitor_def names os_ServiceMetricsSelector_def os_ServiceSelector_def)

lemma two_created:
  assumes "created_once agree want (old a) (mid a)" "same_but {a} old mid"
    "created_once agree' want' (mid b) (new b)" "same_but {b} mid new"
  shows "new a = mid a" "new b \<noteq> None" "same_but {a, b} old new" "a \<noteq> b \<Longrightarrow> old b = mid b"
  using assms by (cases "a = b"; auto simp: same_but_def created_once_def split: option.splits)+

lemma os_steps_settle:
  assumes law: "cluster_law L ag stored" "crd_law L installed" and wrap: "wrap_law L"
    and status: "os_status_law L stored"
    and keyed: "\<And>k y. st_service_monitors (stored s) k = Some y \<Longrightarrow> key_of (sm_meta y) = k"
    and run: "run_state (os_steps L cfg namespace onion) s = ((r, None), s')"
  shows "os_settled L cfg ag installed stored onion (stored s) (stored s') \<and> os_frame onion (stored s) (stored s')"
proof -
  note child = os_child_steps [OF law(1) wrap]
  obtain s1 s2 s3 s4 s5 s6 s7 s8 s9 onion' where
    1: "run_state (reconcileSecretAuthorizedClients L onion) s = (None, s1)" and
    2: "run_state (os_reconcileSecret L onion) s1 = (None, s2)" and
    3: "run_state (os_reconcileServiceAccount L onion) s2 = (None, s3)" and
    4: "run_state (os_reconcileRole L onion) s3 = (None, s4)" and
    5: "run_state (os_reconcileRolebinding L onion) s4 = (None, s5)" and
    6: "run_state (os_reconcileService L onion) s5 = (None, s6)" and
    7: "run_state (os_reconcileDeployment L cfg onion) s6 = ((None, onion'), s7)" and
    8: "run_state (os_reconcileMetricsService L onion') s7 = (None, s8)" and
    9: "run_state (os_reconcileServiceMonitor L onion') s8 = (None, s9)" and
    10: "run_state (os_status_step L namespace onion') s9 = ((r, None), s')"
    by (rule os_steps_success [OF run])
  obtain clients where clients: "clients_in L stored (stored s) onion clients" and auth: "slot_created (ag_secrets ag) (torOnionServiceSecretAuthorizedClients L clients onion)
      (os_key onion (os_AuthorizedClientsSecretName onion)) st_secrets put_secrets (stored s) (stored s1)"
    using os_auth_step [OF law(1) wrap 1] by blast
  obtain want where secret: "slot_created (ag_secrets ag) want
      (os_key onion (os_SecretName onion)) st_secrets put_secrets (stored s1) (stored s2)"
    and want: "st_secrets (stored s1) (os_key onion (os_SecretName onion)) = None \<longrightarrow>
      (\<exists>keys. made_key L keys \<and> want = onion_secret_of L keys onion)"
    using os_secret_step [OF law(1) wrap 2] by (elim exE conjE)
  note dep = os_deployment_step [OF law(1) 7]
  note builds = os_deployed_builds [OF conjunct2 [OF dep]]
  note parts = slot_createdD [OF auth slots(2)] slot_createdD [OF secret slots(2)]
    slot_settledD [OF child(1) [OF 3] slots(4)] slot_settledD [OF child(2) [OF 4] slots(5)]
    slot_settledD [OF child(3) [OF 5] slots(6)] slot_settledD [OF child(4) [OF 6] slots(1)]
    slot_settledD [OF conjunct1 [OF dep] slots(7)] slot_settledD [OF child(5) [OF 8] slots(1)]
  note kept = touches_secrets [OF parts(3)] touches_secrets [OF parts(6)]
    touches_service_accounts [OF parts(9)] touches_roles [OF parts(12)]
    touches_role_bindings [OF parts(15)] touches_services [OF parts(18)]
    touches_deployments [OF parts(21)] touches_services [OF parts(24)]
  note parts9 = slot_monitorD [OF os_monitor_step [OF law wrap _ 9, unfolded kept, OF keyed] slots(8)]
  note kept = kept touches_service_monitors [OF parts9(3)]
    touches_onions [OF os_status_step_touches [OF law(1) status 10]]
  note all = parts [unfolded builds] parts9 [unfolded builds]
  have "os_key onion (os_ServiceName onion) \<noteq> os_key onion (os_ServiceMetricsName onion)"
    by (simp add: names)
  note service = same_but_two [OF all(17) all(23) [unfolded kept] this]
  note secrets = two_created [OF all(1,2,4,5)]
  have auth: "st_secrets (stored s') = st_secrets (stored s2)" by (simp add: kept)
  show ?thesis
    unfolding os_settled_def os_frame_def Let_def
  proof (intro conjI)
    show "\<exists>clients. clients_in L stored (stored s) onion clients \<and> created_once (ag_secrets ag) (torOnionServiceSecretAuthorizedClients L clients onion)
        (st_secrets (stored s) (os_key onion (os_AuthorizedClientsSecretName onion)))
        (st_secrets (stored s') (os_key onion (os_AuthorizedClientsSecretName onion)))"
      using all(1) clients unfolding auth secrets(1) by blast
    show "os_SecretName onion \<noteq> os_AuthorizedClientsSecretName onion \<longrightarrow>
        keys_drawn L (ag_secrets ag) (\<lambda>keys. onion_secret_of L keys onion)
          (st_secrets (stored s) (os_key onion (os_SecretName onion)))
          (st_secrets (stored s') (os_key onion (os_SecretName onion)))"
      using keys_drawnI [OF all(4) want] secrets(4) unfolding auth by (metis nsname.select_convs(2))
    show "st_secrets (stored s') (os_key onion (os_SecretName onion)) \<noteq> None"
      unfolding auth by (rule secrets(2))
    show "same_but {os_key onion (os_AuthorizedClientsSecretName onion), os_key onion (os_SecretName onion)}
        (st_secrets (stored s)) (st_secrets (stored s'))"
      unfolding auth by (rule secrets(3))
  qed (use all service in \<open>simp_all add: kept\<close>)
qed

lemma check_rules_same:
  "cluster_law L ag stored \<Longrightarrow> holds_after (\<lambda>s. stored s = S) (check_rules L ns e rules)"
  by (induction rules) (auto intro!: keeps dest: cluster_lawD(1) stored_by_reads)

text \<open>
  C5: a reconciliation of an \<open>OnionService\<close> whose rules all lead to ports that exist, and that
  reports no error, leaves every child object in the state its builder describes, as far as another
  owner does not control it (the service monitor is left as it was when the cluster does not know
  monitors); the key secret and the authorized clients' secret exist, and are those
  that were there if they were; no other object of the cluster changed, \<open>OnionService\<close>s apart.
\<close>

theorem os_Reconcile_settles:
  assumes law: "cluster_law L ag stored" "crd_law L installed" and wrap: "wrap_law L"
    and status: "os_status_law L stored"
    and keyed: "\<And>k y. st_service_monitors (stored s) k = Some y \<Longrightarrow> key_of (sm_meta y) = k"
    and get: "run_state (op_get (l_onions L) req) s = (Inr onion, t)"
    and rules: "run_state (check_rules L (os_namespace onion) None (os_Rules (os_spec onion))) t = (None, u)"
    and run: "run_state (os_Reconcile L cfg req) s = ((r, None), s')"
  shows "os_settled L cfg ag installed stored onion (stored s) (stored s') \<and> os_frame onion (stored s) (stored s')"
proof -
  have "stored t = stored s" by (rule stored_byD(2) [OF cluster_lawD(9) [OF law(1)] get])
  with holds_afterD [OF check_rules_same [OF law(1)] refl rules] have u: "stored u = stored s" by simp
  have "run_state (os_steps L cfg (os_namespace onion) onion) u = ((r, None), s')"
    using run get rules by (simp add: os_Reconcile_def Let_def)
  from os_steps_settle [OF law wrap status _ this] keyed show ?thesis unfolding u by simp
qed

section \<open>The sample\<close>

lemma os_sim_succeeds:
  "succeeds (others_kept (os_meta onion) old) (os_reconcileServiceAccount sim_lib onion)"
  "succeeds (others_kept (os_meta onion) old) (os_reconcileRole sim_lib onion)"
  "succeeds (others_kept (os_meta onion) old) (os_reconcileRolebinding sim_lib onion)"
  "succeeds (others_kept (os_meta onion) old) (os_reconcileService sim_lib onion)"
  "succeeds (others_kept (os_meta onion) old) (os_reconcileMetricsService sim_lib onion)"
  "succeeds (others_kept (os_meta onion) old) (os_reconcileServiceMonitor sim_lib onion)"
proof -
  have mon: "holds_after (others_kept (os_meta onion) old) (monitoringInstalled sim_lib)"
    by (rule monitoringInstalled_keeps [OF sim_children_permits])
  show
    "succeeds (others_kept (os_meta onion) old) (os_reconcileServiceAccount sim_lib onion)"
    "succeeds (others_kept (os_meta onion) old) (os_reconcileRole sim_lib onion)"
    "succeeds (others_kept (os_meta onion) old) (os_reconcileRolebinding sim_lib onion)"
    "succeeds (others_kept (os_meta onion) old) (os_reconcileService sim_lib onion)"
    "succeeds (others_kept (os_meta onion) old) (os_reconcileMetricsService sim_lib onion)"
    "succeeds (others_kept (os_meta onion) old) (os_reconcileServiceMonitor sim_lib onion)"
    unfolding os_reconcileServiceAccount_def os_reconcileRole_def os_reconcileRolebinding_def
      os_reconcileService_def os_reconcileMetricsService_def os_reconcileServiceMonitor_def
      Let_def sim_ops_of
    by (simp_all add: sim_ensure_child_succeeds os_sa.build_key os_role.build_key os_rb.build_key
        os_svc.build_key os_msvc.build_key os_sm.build_key)
      (auto intro!: succeeds_bind [OF mon] sim_ensure_monitor_succeeds
        simp: os_sm.build_key others_kept_def store_kept_def)
qed

lemma os_sim_auth_succeeds: "succeeds P (reconcileSecretAuthorizedClients sim_lib onion)"
  unfolding succeeds_def
proof (intro allI impI)
  fix s
  let ?get = "op_get (l_secrets sim_lib) (os_key onion (os_AuthorizedClientsSecretName onion))"
  let ?collect = "collect_clients sim_lib (os_namespace onion) 0 (os_AuthorizedClients (os_spec onion)) fmempty"
  obtain r s1 where get: "run_state ?get s = (r, s1)" by (cases "run_state ?get s")
  obtain clients t where collect: "run_state ?collect s1 = (clients, t)" by (cases "run_state ?collect s1")
  let ?ensure = "ensure_created sim_lib (l_secrets sim_lib)
      (failing sim_lib ''failed to create secret'' ''failed to get secret'' [] []) r
      (torOnionServiceSecretAuthorizedClients sim_lib clients onion)"
  obtain c u where ensure: "run_state ?ensure t = (c, u)" by (cases "run_state ?ensure t")
  have "stores_of t = stores_of s1"
    using holds_afterD [OF collect_clients_same [OF sim_cluster_law] refl collect] by simp
  then have same: "c_secrets t = c_secrets s1" by (simp add: stores_of_def)
  have "\<exists>x. c = Inr x"
    by (rule sim_ensure_created [OF _ _ same ensure [unfolded sim_ops_of]])
      (use get in \<open>simp_all add: sim_ops_of os_auth.build_key\<close>)
  with get collect ensure show "fst (run_state (reconcileSecretAuthorizedClients sim_lib onion) s) = None"
    by (auto simp: reconcileSecretAuthorizedClients_def Let_def)
qed

lemma os_sim_secret_succeeds: "succeeds P (os_reconcileSecret sim_lib onion)"
  unfolding succeeds_def
proof (intro allI impI)
  fix s
  let ?get = "op_get (l_secrets sim_lib) (os_key onion (os_SecretName onion))"
  obtain r s1 where get: "run_state ?get s = (r, s1)" by (cases "run_state ?get s")
  obtain keys where new: "run_state (torOnionServiceSecret sim_lib onion) s1 = (Some (onion_secret_of sim_lib keys onion), s1)"
    by (auto simp: torOnionServiceSecret_def GenerateOnionV3_def sim_fields answer_def)
  let ?ensure = "ensure_created sim_lib (l_secrets sim_lib)
      (failing sim_lib ''failed to create secret'' ''failed to get secret'' [] []) r
      (onion_secret_of sim_lib keys onion)"
  obtain c u where ensure: "run_state ?ensure s1 = (c, u)" by (cases "run_state ?ensure s1")
  have "\<exists>x. c = Inr x"
    by (rule sim_ensure_created [OF _ _ refl ensure [unfolded sim_ops_of]])
      (use get in \<open>simp_all add: sim_ops_of os_sec.build_key\<close>)
  with get new ensure show "fst (run_state (os_reconcileSecret sim_lib onion) s) = None"
    by (auto simp: os_reconcileSecret_def Let_def ensure_key_secret_def)
qed

lemma os_sim_deployment_succeeds:
  "yields (\<lambda>(err, onion'). err = None \<and> os_meta onion' = os_meta onion) (os_reconcileDeployment sim_lib cfg onion)"
proof -
  have "fst (run_state (os_reconcileDeployment sim_lib cfg onion) s) = (None, fst (torOnionServiceDeployment sim_lib cfg onion))"
    for s
  proof -
    have "succeeds (\<lambda>s. True) (ensure_child sim_lib (l_deployments sim_lib) dep_meta deploymentEqual fails
        (os_meta onion) (os_key onion (os_DeploymentName onion)) False (snd (torOnionServiceDeployment sim_lib cfg onion)))" for fails
      unfolding sim_ops_of by (rule sim_ensure_child_succeeds) (simp_all add: key_of_def)
    then show ?thesis
      by (auto simp: succeeds_def os_reconcileDeployment_def names split: prod.splits) (metis fst_conv)+
  qed
  then show ?thesis by (simp add: yields_def)
qed

lemma os_sim_status_ok: "ends_ok P (os_status_step sim_lib ns onion)"
  unfolding ends_ok_def os_status_step_def Let_def sim_ops_of
  by (auto simp: sim_ops_def sim_lib_def not_found_def split: option.splits)

lemma os_sample_settles:
  "ends_ok (others_kept (os_meta onion) old) (os_steps sim_lib cfg ns onion)"
proof -
  let ?P = "others_kept (os_meta onion) old"
  note kept = os_ensure_keeps [OF sim_children_permits]
  have dep: "ends_ok ?P (os_steps_after_deployment sim_lib ns t)" if "os_meta t = os_meta onion" for t
    unfolding os_steps_after_deployment_def
    using os_sim_succeeds(5,6) [of t old] kept(5,6) [of t old] that
    by (intro ends_ok_and_then os_sim_status_ok) simp_all
  have rest: "ends_ok ?P (do {
      r \<leftarrow> os_reconcileDeployment sim_lib cfg onion;
      (case r of
         (Some err, onion') \<Rightarrow> State_Monad.return (zero_result, Some err)
       | (None, onion') \<Rightarrow> os_steps_after_deployment sim_lib ns onion') })"
  proof (rule ends_ok_bind)
    show "holds_after ?P (os_reconcileDeployment sim_lib cfg onion)"
      by (rule os_deployment_keeps [OF sim_children_permits])
    show "(\<lambda>(err, t'). err = None \<and> os_meta t' = os_meta onion) a"
      if "run_state (os_reconcileDeployment sim_lib cfg onion) s = (a, u)" for s a u
      by (rule yieldsD [OF os_sim_deployment_succeeds that])
  qed (use dep in \<open>auto\<close>)
  show ?thesis
    unfolding os_steps_def
    using os_sim_succeeds(1-4) [of onion old] kept(1-4) [of onion old] rest
    by (intro ends_ok_and_then os_sim_auth_succeeds os_sim_secret_succeeds
        os_auth_keeps [OF sim_children_permits] os_secret_keeps [OF sim_children_permits sim_nil_keeps])
      simp_all
qed

lemma sim_os_status: "os_status_law sim_lib stores_of"
  unfolding os_status_law_def touches_def
proof (intro allI)
  fix onion s
  have "stores_of (snd (run_state (l_status_os sim_lib onion) s)) =
      (stores_of s)\<lparr>st_onions := set_onion_status onion (c_onions s)\<rparr>"
    by (simp add: sim_lib_def stores_of_def)
  then show "\<exists>m. stores_of (snd (run_state (l_status_os sim_lib onion) s)) = (stores_of s)\<lparr>st_onions := m\<rparr>"
    by blast
qed

lemma onion_sample_get:
  "run_state (op_get (l_onions sim_lib) onion_req) (onion_cluster sample_onion) =
     (Inr sample_onion, onion_cluster sample_onion)"
  by (simp add: sim_fields sim_onions_def sim_ops_def onion_cluster_def sample_onion_def zero_onion_def
      onion_req_def key_of_def zero_meta_def)

lemma onion_sample_rules:
  "run_state (check_rules sim_lib (os_namespace sample_onion) None (os_Rules (os_spec sample_onion)))
     (onion_cluster sample_onion) = (None, onion_cluster sample_onion)"
  unfolding sample_onion_def
  by (simp add: zero_onion_def sim_ops_of sim_ops_def onion_cluster_def web_service_def web_rule_def
      key_of_def zero_meta_def portExists_iff rule_backend_port_def)

theorem os_Reconcile_settles_witness:
  "c_deployments (snd (run_state (os_Reconcile sim_lib sample_project onion_req) (onion_cluster sample_onion)))
     (os_key sample_onion ''hidden-tor-daemon'') =
   Some (snd (torOnionServiceDeployment sim_lib sample_project sample_onion))"
proof -
  let ?s = "onion_cluster sample_onion"
  obtain r s' where steps: "run_state (os_steps sim_lib sample_project (os_namespace sample_onion) sample_onion) ?s =
      ((r, None), s')"
    by (rule ends_okE [OF os_sample_settles onion_cluster_kept])
  then have run: "run_state (os_Reconcile sim_lib sample_project onion_req) ?s = ((r, None), s')"
    using onion_sample_get onion_sample_rules by (simp add: os_Reconcile_def Let_def)
  have empty: "st_service_monitors (stores_of ?s) k = None" "st_deployments (stores_of ?s) k = None" for k
    by (simp_all add: stores_of_def onion_cluster_def empty_cluster_def)
  have settled: "os_settled sim_lib sample_project exactly True stores_of sample_onion (stores_of ?s) (stores_of s')"
    using os_Reconcile_settles [OF sim_cluster_law sim_crd sim_wrap sim_os_status _ onion_sample_get
        onion_sample_rules run] by (simp add: empty)
  have name: "os_DeploymentName sample_onion = ''hidden-tor-daemon''"
    by (simp add: names sample_onion_def zero_onion_def zero_meta_def)
  have "st_deployments (stores_of s') (os_key sample_onion ''hidden-tor-daemon'') =
      Some (snd (torOnionServiceDeployment sim_lib sample_project sample_onion))"
    using settled name unfolding os_settled_def Let_def
    by (elim conjE) (simp add: settled_def empty split: option.splits)
  then show ?thesis by (simp add: run stores_of_def)
qed

end
