(* ===== verification/Balanced_Converge.thy ===== *)
theory Balanced_Converge
  imports Balanced_Reconcile Onion_Converge
begin

text \<open>
  What a whole reconciliation of an \<open>OnionBalancedService\<close> achieves
  (\<open>controllers/tor/onionbalancedservice_controller.go\<close> over the reconcilers of
  \<open>onionbalancedservice_*.go\<close>): when it reports no error, every child object is the one its builder
  makes, as far as another owner does not control it, and no other object of the cluster changed.
  The loop over the backends reports no error, so that each backend is there, with the address of
  the stored key as its master address, is known only when the calls on \<open>OnionService\<close>s succeed.
\<close>

section \<open>The backends\<close>

text \<open>The calls on \<open>OnionService\<close>s succeed: a read fails for a missing object only, a creation for one that is there.\<close>

definition onions_served :: "'s lib \<Rightarrow> ('s \<Rightarrow> stores) \<Rightarrow> bool" where
  "onions_served L stored \<longleftrightarrow>
     (\<forall>key s e s'. run_state (op_get (l_onions L) key) s = (Inl e, s') \<longrightarrow> l_is_not_found L e) \<and>
     (\<forall>x s e s'. run_state (op_create (l_onions L) x) s = (Inl e, s') \<longrightarrow>
        st_onions (stored s) (key_of (os_meta x)) \<noteq> None)"

abbreviation backend_key :: "OnionBalancedService \<Rightarrow> int32 \<Rightarrow> nsname" where
  "backend_key onion idx \<equiv> ob_key onion (OnionServiceBackendName onion idx)"

text \<open>
  What the steps for some backends do: nothing to those that are there, and the others are created;
  nothing at all as long as the service has no hostname.
\<close>

definition backends_made ::
  "'s lib \<Rightarrow> ProjectConfig \<Rightarrow> (OnionService \<Rightarrow> OnionService \<Rightarrow> bool) \<Rightarrow> OnionBalancedService \<Rightarrow> bool \<Rightarrow>
   int32 list \<Rightarrow> (nsname \<Rightarrow> OnionService option) \<Rightarrow> (nsname \<Rightarrow> OnionService option) \<Rightarrow> bool" where
  "backends_made L cfg agree onion ok idxs old new \<longleftrightarrow>
     same_but (backend_key onion ` set idxs) old new \<and> old \<subseteq>\<^sub>m new \<and>
     (obs_Hostname (ob_status onion) = [] \<longrightarrow> new = old) \<and>
     (ok \<longrightarrow> (\<forall>idx \<in> set idxs. created_once agree (onionBalancedServiceBackend L cfg idx onion)
        (old (backend_key onion idx)) (new (backend_key onion idx))))"

lemma backends_made_Nil [simp]: "backends_made L cfg agree onion ok [] old old"
  by (simp add: backends_made_def same_but_def)

lemma same_backend:
  "OnionServiceBackendName onion i = OnionServiceBackendName onion j \<Longrightarrow>
   onionBalancedServiceBackend L cfg i onion = onionBalancedServiceBackend L cfg j onion"
  by (simp add: onionBalancedServiceBackend_def)

lemma backends_made_Cons:
  assumes one: "backends_made L cfg agree onion ok [idx] old mid"
    and rest: "backends_made L cfg agree onion ok idxs mid new"
  shows "backends_made L cfg agree onion ok (idx # idxs) old new"
proof -
  have keep: "new k = Some x" if "mid k = Some x" for k x
    using rest that unfolding backends_made_def map_le_def by (metis domI)
  have "created_once agree (onionBalancedServiceBackend L cfg i onion)
      (old (backend_key onion i)) (new (backend_key onion i))" if ok and i: "i \<in> set (idx # idxs)" for i
  proof (cases "backend_key onion i = backend_key onion idx")
    case True
    then have "created_once agree (onionBalancedServiceBackend L cfg i onion)
        (old (backend_key onion i)) (mid (backend_key onion i))"
      using one \<open>ok\<close> same_backend [of onion i idx L cfg] by (simp add: backends_made_def)
    with keep show ?thesis by (auto simp: created_once_def split: option.splits)
  next
    case False
    with i have "i \<in> set idxs" by auto
    with rest \<open>ok\<close> have "created_once agree (onionBalancedServiceBackend L cfg i onion)
        (mid (backend_key onion i)) (new (backend_key onion i))" by (simp add: backends_made_def)
    with one False show ?thesis by (simp add: backends_made_def same_but_def)
  qed
  moreover have "old \<subseteq>\<^sub>m new" using one rest unfolding backends_made_def by (blast intro: map_le_trans)
  moreover have "same_but (backend_key onion ` set (idx # idxs)) old new"
    using one rest by (simp add: backends_made_def same_but_def)
  moreover have "obs_Hostname (ob_status onion) = [] \<longrightarrow> new = old"
    using one rest by (simp add: backends_made_def)
  ultimately show ?thesis unfolding backends_made_def by blast
qed

lemma ob_backend_step:
  assumes law: "cluster_law L ag stored"
    and run: "run_state (reconcileBackend L cfg onion idx) s = (r, s')"
  shows "touches put_onions (stored s) (stored s') \<and>
    backends_made L cfg (ag_onions ag) onion (onions_served L stored \<and> obs_Hostname (ob_status onion) \<noteq> [])
      [idx] (st_onions (stored s)) (st_onions (stored s'))"
proof -
  note D = stored_byD [OF cluster_lawD(9) [OF law]]
  let ?key = "backend_key onion idx" and ?want = "onionBalancedServiceBackend L cfg idx onion"
  let ?ok = "onions_served L stored \<and> obs_Hostname (ob_status onion) \<noteq> []"
  obtain v s1 where get: "run_state (op_get (l_onions L) ?key) s = (v, s1)"
    by (cases "run_state (op_get (l_onions L) ?key) s")
  have same: "stored s1 = stored s" by (rule D(2) [OF get])
  have unchanged: ?thesis if "stored s' = stored s" "?ok \<Longrightarrow> st_onions (stored s) ?key \<noteq> None"
    using that unfolding touches_def
    by (auto simp: backends_made_def same_but_def created_once_def intro: exI [of _ "st_onions (stored s)"])
  have name: "OnionServiceBackendName onion idx \<noteq> []" by (simp add: OnionServiceBackendName_def)
  have key: "key_of (os_meta ?want) = ?key" by (rule ob_back.build_key)
  show ?thesis
  proof (cases "obs_Hostname (ob_status onion) \<noteq> [] \<and> (\<exists>e. v = Inl e \<and> l_is_not_found L e)")
    case False
    have "s' = s1"
      using run get name False
      by (auto simp: reconcileBackend_def ensure_created_def split: sum.splits if_splits)
    moreover have "st_onions (stored s) ?key \<noteq> None" if ?ok
    proof (cases v)
      case (Inl e)
      with that get have "l_is_not_found L e" unfolding onions_served_def by blast
      with False that Inl show ?thesis by blast
    next
      case (Inr x)
      with D(3) [of ?key s x] get show ?thesis by simp
    qed
    ultimately show ?thesis using unchanged same by simp
  next
    case True
    then obtain e where v: "v = Inl e" and nf: "l_is_not_found L e" by blast
    have none: "st_onions (stored s) ?key = None" by (rule D(4) [OF get [unfolded v] nf])
    obtain c s2 where create: "run_state (op_create (l_onions L) ?want) s1 = (c, s2)"
      by (cases "run_state (op_create (l_onions L) ?want) s1")
    have s2: "s' = s2"
      using run get name True v nf create
      by (auto simp: reconcileBackend_def ensure_created_def split: sum.splits)
    obtain w where w: "stored s2 = put_onions ((st_onions (stored s))(?key := w)) (stored s)"
      "\<And>y. c = Inr y \<Longrightarrow> w = Some y \<and> ag_onions ag y ?want"
      using D(5) [OF create] key same by auto
    have "\<exists>y. c = Inr y" if ?ok
    proof (cases c)
      case (Inl err)
      with that create have "st_onions (stored s1) (key_of (os_meta ?want)) \<noteq> None"
        unfolding onions_served_def by blast
      with key same none show ?thesis by simp
    qed blast
    with w none True show ?thesis
      unfolding s2 by (auto simp: touches_def backends_made_def same_but_def created_once_def map_le_def)
  qed
qed

lemma ob_backends_step:
  assumes law: "cluster_law L ag stored"
    and run: "run_state (reconcileBackends L cfg onion) s = (r, s')"
  shows "touches put_onions (stored s) (stored s') \<and>
    backends_made L cfg (ag_onions ag) onion (onions_served L stored \<and> obs_Hostname (ob_status onion) \<noteq> [])
      (backend_indexes onion) (st_onions (stored s)) (st_onions (stored s'))"
proof -
  have "run_state (backend_loop L cfg onion idxs) s = (r, s') \<Longrightarrow>
    touches put_onions (stored s) (stored s') \<and>
    backends_made L cfg (ag_onions ag) onion (onions_served L stored \<and> obs_Hostname (ob_status onion) \<noteq> [])
      idxs (st_onions (stored s)) (st_onions (stored s'))" for idxs
  proof (induction idxs arbitrary: s)
    case Nil
    then show ?case by (auto simp: touches_def intro: exI [of _ "st_onions (stored s)"])
  next
    case (Cons idx idxs)
    obtain x t where head: "run_state (reconcileBackend L cfg onion idx) s = (x, t)"
      by (cases "run_state (reconcileBackend L cfg onion idx) s")
    from Cons.prems head have "run_state (backend_loop L cfg onion idxs) t = (r, s')" by simp
    from Cons.IH [OF this] ob_backend_step [OF law head] show ?case
      by (auto simp: touches_def intro: backends_made_Cons)
  qed
  with run show ?thesis by (simp add: reconcileBackends_def)
qed

section \<open>The desired state\<close>

definition ob_settled ::
  "'s lib \<Rightarrow> ProjectConfig \<Rightarrow> agreement \<Rightarrow> bool \<Rightarrow> bool \<Rightarrow> OnionBalancedService \<Rightarrow> stores \<Rightarrow> stores \<Rightarrow> bool" where
  "ob_settled L cfg ag installed ok onion old new \<longleftrightarrow>
     (let owner = ob_meta onion; key = ob_key onion in
      (\<exists>sec. keys_drawn L (ag_secrets ag) (\<lambda>keys. balance_secret_of L keys onion)
          (st_secrets old (key (ob_SecretName onion))) (st_secrets new (key (ob_SecretName onion))) \<and>
        st_secrets new (key (ob_SecretName onion)) = Some sec \<and>
        backends_made L cfg (ag_onions ag) (set_hostname sec onion)
          (ok \<and> obs_Hostname (ob_status (set_hostname sec onion)) \<noteq> [])
          (backend_indexes onion) (st_onions old) (st_onions new)) \<and>
      settled L sa_meta owner (ag_service_accounts ag) (onionbalanceServiceAccount L onion) False
        (st_service_accounts old (key (ob_ServiceAccountName onion)))
        (st_service_accounts new (key (ob_ServiceAccountName onion))) \<and>
      settled L role_meta owner (ag_roles ag) (onionbalanceRole L onion) False
        (st_roles old (key (ob_RoleName onion))) (st_roles new (key (ob_RoleName onion))) \<and>
      settled L rb_meta owner (ag_role_bindings ag) (onionbalanceRolebinding L onion) False
        (st_role_bindings old (key (ob_RoleName onion))) (st_role_bindings new (key (ob_RoleName onion))) \<and>
      settled L svc_meta owner (ag_services ag) (onionbalanceService L onion) False
        (st_services old (key (ob_ServiceName onion))) (st_services new (key (ob_ServiceName onion))) \<and>
      settled L svc_meta owner (ag_services ag) (obsTorMetricsService L onion) False
        (st_services old (key (ob_ServiceMetricsName onion)))
        (st_services new (key (ob_ServiceMetricsName onion))) \<and>
      created_once (ag_config_maps ag) (onionbalanceTorConfigMap L onion)
        (st_config_maps old (key (ob_ConfigMapName onion))) (st_config_maps new (key (ob_ConfigMapName onion))) \<and>
      settled L dep_meta owner (ag_deployments ag) (snd (onionbalanceDeployment L cfg onion)) False
        (st_deployments old (key (ob_DeploymentName onion)))
        (st_deployments new (key (ob_DeploymentName onion))) \<and>
      monitor_settled L sm_meta owner (ag_service_monitors ag) (obsTorServiceMonitor L onion) installed
        (ob_ServiceMonitor (ob_spec onion)) (st_service_monitors old (key (ob_ServiceMetricsName onion)))
        (st_service_monitors new (key (ob_ServiceMetricsName onion))))"

text \<open>The onion services are bounded by \<open>backends_made\<close>.\<close>

definition ob_frame :: "OnionBalancedService \<Rightarrow> stores \<Rightarrow> stores \<Rightarrow> bool" where
  "ob_frame onion old new \<longleftrightarrow>
     (let key = ob_key onion in
      same_but {key (ob_SecretName onion)} (st_secrets old) (st_secrets new) \<and>
      same_but {key (ob_ServiceAccountName onion)} (st_service_accounts old) (st_service_accounts new) \<and>
      same_but {key (ob_RoleName onion)} (st_roles old) (st_roles new) \<and>
      same_but {key (ob_RoleName onion)} (st_role_bindings old) (st_role_bindings new) \<and>
      same_but {key (ob_ServiceName onion), key (ob_ServiceMetricsName onion)} (st_services old) (st_services new) \<and>
      same_but {key (ob_ConfigMapName onion)} (st_config_maps old) (st_config_maps new) \<and>
      same_but {key (ob_DeploymentName onion)} (st_deployments old) (st_deployments new) \<and>
      same_but {key (ob_ServiceMetricsName onion)} (st_service_monitors old) (st_service_monitors new))"

section \<open>The steps\<close>

lemma ob_child_steps:
  assumes law: "cluster_law L ag stored" and wrap: "wrap_law L"
  shows
    "run_state (ob_reconcileServiceAccount L onion) s = (None, s') \<Longrightarrow>
     slot_settled L sa_meta (ob_meta onion) (ag_service_accounts ag) (onionbalanceServiceAccount L onion) False
       (ob_key onion (ob_ServiceAccountName onion)) st_service_accounts put_service_accounts (stored s) (stored s')"
    "run_state (ob_reconcileRole L onion) s = (None, s') \<Longrightarrow>
     slot_settled L role_meta (ob_meta onion) (ag_roles ag) (onionbalanceRole L onion) False
       (ob_key onion (ob_RoleName onion)) st_roles put_roles (stored s) (stored s')"
    "run_state (ob_reconcileRolebinding L onion) s = (None, s') \<Longrightarrow>
     slot_settled L rb_meta (ob_meta onion) (ag_role_bindings ag) (onionbalanceRolebinding L onion) False
       (ob_key onion (ob_RoleName onion)) st_role_bindings put_role_bindings (stored s) (stored s')"
    "run_state (ob_reconcileService L onion) s = (None, s') \<Longrightarrow>
     slot_settled L svc_meta (ob_meta onion) (ag_services ag) (onionbalanceService L onion) False
       (ob_key onion (ob_ServiceName onion)) st_services put_services (stored s) (stored s')"
    "run_state (ob_reconcileMetricsService L onion) s = (None, s') \<Longrightarrow>
     slot_settled L svc_meta (ob_meta onion) (ag_services ag) (obsTorMetricsService L onion) False
       (ob_key onion (ob_ServiceMetricsName onion)) st_services put_services (stored s) (stored s')"
  by (rule ob_sa.ensure_child_stores [OF cluster_lawD(4) [OF law] slots(4) reports_failing [OF wrap]],
      simp add: ob_reconcileServiceAccount_def names,
      rule ob_role.ensure_child_stores [OF cluster_lawD(5) [OF law] slots(5) reports_failing [OF wrap]],
      simp add: ob_reconcileRole_def names,
      rule ob_rb.ensure_child_stores [OF cluster_lawD(6) [OF law] slots(6) reports_failing [OF wrap]],
      simp add: ob_reconcileRolebinding_def names,
      rule ob_svc.ensure_child_stores [OF cluster_lawD(1) [OF law] slots(1) reports_failing [OF wrap]],
      simp add: ob_reconcileService_def names,
      rule ob_msvc.ensure_child_stores [OF cluster_lawD(1) [OF law] slots(1) reports_failing [OF wrap]],
      simp add: ob_reconcileMetricsService_def names)

lemma ob_deployment_step:
  assumes law: "cluster_law L ag stored" and wrap: "wrap_law L"
    and run: "run_state (ob_reconcileDeployment L cfg onion) s = ((None, onion'), s')"
  shows "slot_settled L dep_meta (ob_meta onion) (ag_deployments ag) (snd (onionbalanceDeployment L cfg onion))
      False (ob_key onion (ob_DeploymentName onion)) st_deployments put_deployments (stored s) (stored s') \<and>
    onion' = fst (onionbalanceDeployment L cfg onion)"
proof (rule conjI)
  show "slot_settled L dep_meta (ob_meta onion) (ag_deployments ag) (snd (onionbalanceDeployment L cfg onion))
      False (ob_key onion (ob_DeploymentName onion)) st_deployments put_deployments (stored s) (stored s')"
    by (rule ob_dep.ensure_child_stores [OF cluster_lawD(7) [OF law] slots(7) reports_failing [OF wrap]])
      (use run in \<open>auto simp: ob_reconcileDeployment_def names split: prod.splits\<close>)
  show "onion' = fst (onionbalanceDeployment L cfg onion)"
    using run by (auto simp: ob_reconcileDeployment_def names split: prod.splits)
qed

lemma ob_monitor_step:
  assumes law: "cluster_law L ag stored" "crd_law L installed" and wrap: "wrap_law L"
    and keyed: "\<And>k y. st_service_monitors (stored s) k = Some y \<Longrightarrow> key_of (sm_meta y) = k"
    and run: "run_state (ob_reconcileServiceMonitor L onion) s = (None, s')"
  shows "slot_monitor L sm_meta (ob_meta onion) (ag_service_monitors ag) (obsTorServiceMonitor L onion) installed
     (ob_ServiceMonitor (ob_spec onion)) (ob_key onion (ob_ServiceMetricsName onion)) st_service_monitors
     put_service_monitors (stored s) (stored s')"
proof -
  have name: "ob_ServiceMetricsName onion \<noteq> []" by (simp add: names)
  show ?thesis
    by (rule ob_sm.monitor_stores [OF law cluster_lawD(8) [OF law(1)] slots(8) reports_failing [OF wrap] keyed
          run [unfolded ob_reconcileServiceMonitor_def Let_def if_not_P [OF name]]])
qed

lemma ob_config_step:
  assumes law: "cluster_law L ag stored" and wrap: "wrap_law L"
    and run: "run_state (ob_reconcileConfigMap L onion) s = (None, s')"
  shows "slot_created (ag_config_maps ag) (onionbalanceTorConfigMap L onion)
     (ob_key onion (ob_ConfigMapName onion)) st_config_maps put_config_maps (stored s) (stored s')"
proof -
  let ?get = "op_get (l_config_maps L) (ob_key onion (ob_ConfigMapName onion))"
  obtain r s1 where get: "run_state ?get s = (r, s1)" by (cases "run_state ?get s")
  obtain c where "run_state (ensure_created L (l_config_maps L)
      (failing L ''failed to create configmap %s'' ''failed to get configmap %s'' [] []) r
      (onionbalanceTorConfigMap L onion)) s1 = (c, s')"
    "case c of Inl err \<Rightarrow> err = None | Inr _ \<Rightarrow> True"
    using run get by (auto simp: ob_reconcileConfigMap_def names split: prod.splits sum.splits if_splits)
  with ob_cm.ensure_created_stores [OF cluster_lawD(3) [OF law] slots(3) reports_failing [OF wrap] get refl]
  show ?thesis by (fastforce split: sum.splits)
qed

lemma onionbalanceSecret_keys:
  "yields (\<lambda>new. \<forall>sec. new = Some sec \<longrightarrow> (\<exists>keys. made_key L keys \<and>
      sec = balance_secret_of L keys onion)) (onionbalanceSecret L onion)"
  unfolding onionbalanceSecret_def yields_def by (auto split: prod.splits option.splits intro: can_returnI)

lemma ob_secret_step:
  assumes law: "cluster_law L ag stored" and wrap: "wrap_law L"
    and run: "run_state (ob_reconcileSecret L onion) s = ((None, onion'), s')"
  shows "\<exists>want sec. slot_created (ag_secrets ag) want
      (ob_key onion (ob_SecretName onion)) st_secrets put_secrets (stored s) (stored s') \<and>
    (st_secrets (stored s) (ob_key onion (ob_SecretName onion)) = None \<longrightarrow>
      (\<exists>keys. made_key L keys \<and> want = balance_secret_of L keys onion)) \<and>
    st_secrets (stored s') (ob_key onion (ob_SecretName onion)) = Some sec \<and> onion' = set_hostname sec onion"
proof -
  note D = cluster_lawD(2) [OF law]
  let ?get = "op_get (l_secrets L) (ob_key onion (ob_SecretName onion))"
  have name: "ob_SecretName onion \<noteq> []" by (simp add: ob_SecretName_def)
  obtain r s1 where get: "run_state ?get s = (r, s1)" by (cases "run_state ?get s")
  obtain new t where new: "run_state (onionbalanceSecret L onion) s1 = (new, t)"
    by (cases "run_state (onionbalanceSecret L onion) s1")
  have "holds_after (\<lambda>u. stored u = stored s1) (onionbalanceSecret L onion)"
    unfolding onionbalanceSecret_def by (intro keeps key_generation_same [OF law])
  from holds_afterD [OF this refl new] have same: "stored t = stored s1" by simp
  obtain c where ensure: "run_state (ensure_key_secret L r new) t = (c, s')"
    and ok: "case c of Inl err \<Rightarrow> err = None | Inr sec \<Rightarrow> onion' = set_hostname sec onion"
    using run get new name
    by (auto simp: ob_reconcileSecret_def Let_def split: prod.splits sum.splits if_splits)
  show ?thesis
  proof (cases new)
    case None
    with ensure_key_secret_none [OF wrap ensure [unfolded None]] ok obtain sec where
      r: "r = Inr sec" "s' = t" "onion' = set_hostname sec onion"
      by (auto split: sum.splits)
    have there: "st_secrets (stored s) (ob_key onion (ob_SecretName onion)) = Some sec" "stored s' = stored s"
      using stored_byD(3) [OF D] get stored_byD(2) [OF D get] same r by simp_all
    then have "slot_created (ag_secrets ag) sec
        (ob_key onion (ob_SecretName onion)) st_secrets put_secrets (stored s) (stored s')"
      unfolding slot_created_def created_once_def by (intro exI [of _ "st_secrets (stored s)"]) simp
    with there r show ?thesis by auto
  next
    case (Some sec)
    with yieldsD [OF onionbalanceSecret_keys new] obtain keys where keys: "made_key L keys" "sec = balance_secret_of L keys onion" by blast
    with Some keys ensure have "run_state (ensure_created L (l_secrets L)
        (failing L ''failed to create secret'' ''failed to get secret'' [] []) r (balance_secret_of L keys onion)) t = (c, s')"
      by (simp add: ensure_key_secret_def)
    from ob_sec.ensure_created_stores [OF D slots(2) reports_failing [OF wrap] get same this] ok keys(1)
    show ?thesis by (auto split: sum.splits)
  qed
qed

text \<open>The builders look at what the secret and the deployment steps leave alone.\<close>

lemma hostname_builds [simp]:
  "onionbalanceServiceAccount L (set_hostname sec onion) = onionbalanceServiceAccount L onion"
  "onionbalanceRole L (set_hostname sec onion) = onionbalanceRole L onion"
  "onionbalanceRolebinding L (set_hostname sec onion) = onionbalanceRolebinding L onion"
  "onionbalanceService L (set_hostname sec onion) = onionbalanceService L onion"
  "onionbalanceTorConfigMap L (set_hostname sec onion) = onionbalanceTorConfigMap L onion"
  "snd (onionbalanceDeployment L cfg (set_hostname sec onion)) = snd (onionbalanceDeployment L cfg onion)"
  by (simp_all add: set_hostname_def built names ob_ServiceSelector_def onionbalanceTorConfig_def
      onionbalanceDeployment_def Let_def ob_PodTemplate_def ob_DeploymentLabels_def ob_volumes_def
      balancer_container_def balanced_tor_container_def ob_BalancerResources_def ob_TorResources_def
      ob_SecretName_def)

lemma ob_deployed_builds:
  assumes "onion' = fst (onionbalanceDeployment L cfg (set_hostname sec onion))"
  shows "obsTorMetricsService L onion' = obsTorMetricsService L onion"
    "obsTorServiceMonitor L onion' = obsTorServiceMonitor L onion"
    "ob_ServiceMonitor (ob_spec onion') = ob_ServiceMonitor (ob_spec onion)" "ob_meta onion' = ob_meta onion"
    "onionBalancedServiceBackend L cfg idx onion' = onionBalancedServiceBackend L cfg idx (set_hostname sec onion)"
    "backend_indexes onion' = backend_indexes onion" "ob_status onion' = ob_status (set_hostname sec onion)"
  by (simp_all add: assms onionbalanceDeployment_def Let_def obsTorMetricsService_def set_hostname_def
      obsTorServiceMonitor_def names ob_ServiceMetricsSelector_def ob_ServiceSelector_def
      onionBalancedServiceBackend_def OnionServiceBackendName_def backend_indexes_def)

lemma backends_made_cong:
  assumes "\<And>idx. onionBalancedServiceBackend L cfg idx onion' = onionBalancedServiceBackend L cfg idx onion"
    "ob_meta onion' = ob_meta onion" "ob_status onion' = ob_status onion"
  shows "backends_made L cfg agree onion' ok idxs old new = backends_made L cfg agree onion ok idxs old new"
  by (simp add: backends_made_def assms OnionServiceBackendName_def)

lemma same_ob_names:
  assumes "ob_meta t = ob_meta onion"
  shows "ob_ServiceAccountName t = ob_ServiceAccountName onion" "ob_RoleName t = ob_RoleName onion"
    "ob_ServiceName t = ob_ServiceName onion" "ob_ConfigMapName t = ob_ConfigMapName onion"
    "ob_DeploymentName t = ob_DeploymentName onion" "ob_ServiceMetricsName t = ob_ServiceMetricsName onion"
  using assms by (simp_all add: names)

lemma ob_steps_success:
  assumes "run_state (ob_steps L cfg rns namespace onion) s = ((r, None), s')"
  obtains s1 s2 s3 s4 s5 s6 s7 s8 s9 s10 t1 t2 b where
    "run_state (ob_reconcileSecret L onion) s = ((None, t1), s1)"
    "run_state (ob_reconcileServiceAccount L t1) s1 = (None, s2)"
    "run_state (ob_reconcileRole L t1) s2 = (None, s3)"
    "run_state (ob_reconcileRolebinding L t1) s3 = (None, s4)"
    "run_state (ob_reconcileService L t1) s4 = (None, s5)"
    "run_state (ob_reconcileConfigMap L t1) s5 = (None, s6)"
    "run_state (ob_reconcileDeployment L cfg t1) s6 = ((None, t2), s7)"
    "run_state (reconcileBackends L cfg t2) s7 = (b, s8)"
    "run_state (ob_reconcileMetricsService L t2) s8 = (None, s9)"
    "run_state (ob_reconcileServiceMonitor L t2) s9 = (None, s10)"
    "run_state (ob_status_step L rns namespace t2) s10 = ((r, None), s')"
proof -
  from assms obtain s1 t1 where
    1: "run_state (ob_reconcileSecret L onion) s = ((None, t1), s1)" and
    rest: "run_state (ob_steps_after_secret L cfg rns namespace t1) s1 = ((r, None), s')"
    unfolding ob_steps_def by (auto split: prod.splits option.splits)
  from rest obtain s2 s3 s4 s5 s6 s7 t2 where
    "run_state (ob_reconcileServiceAccount L t1) s1 = (None, s2)"
    "run_state (ob_reconcileRole L t1) s2 = (None, s3)"
    "run_state (ob_reconcileRolebinding L t1) s3 = (None, s4)"
    "run_state (ob_reconcileService L t1) s4 = (None, s5)"
    "run_state (ob_reconcileConfigMap L t1) s5 = (None, s6)"
    "run_state (ob_reconcileDeployment L cfg t1) s6 = ((None, t2), s7)"
    and rest: "run_state (ob_steps_after_deployment L cfg rns namespace t2) s7 = ((r, None), s')"
    unfolding ob_steps_after_secret_def by (elim and_then_success) (auto split: prod.splits option.splits)
  moreover from rest obtain s8 s9 s10 where
    "run_state (reconcileBackends L cfg t2) s7 = (None, s8)"
    "run_state (ob_reconcileMetricsService L t2) s8 = (None, s9)"
    "run_state (ob_reconcileServiceMonitor L t2) s9 = (None, s10)"
    "run_state (ob_status_step L rns namespace t2) s10 = ((r, None), s')"
    unfolding ob_steps_after_deployment_def by (elim and_then_success)
  ultimately show thesis using that 1 by blast
qed

lemma ob_status_step_same:
  assumes "cluster_law L ag stored" "\<And>S t. holds_after (\<lambda>s. stored s = S) (l_status_ob L t)"
  shows "holds_after (\<lambda>s. stored s = S) (ob_status_step L rns namespace onion)"
  unfolding ob_status_step_def ob_update_status_def Let_def
  using reads_keepD [OF cluster_lawD(10) [OF assms(1)]]
  by (intro keeps assms(2) stored_by_reads [OF cluster_lawD(1) [OF assms(1)]])

lemma ob_steps_settle:
  assumes law: "cluster_law L ag stored" "crd_law L installed" and wrap: "wrap_law L"
    and status: "\<And>S t. holds_after (\<lambda>s. stored s = S) (l_status_ob L t)"
    and keyed: "\<And>k y. st_service_monitors (stored s) k = Some y \<Longrightarrow> key_of (sm_meta y) = k"
    and run: "run_state (ob_steps L cfg rns namespace onion) s = ((r, None), s')"
  shows "ob_settled L cfg ag installed (onions_served L stored) onion (stored s) (stored s') \<and>
    ob_frame onion (stored s) (stored s')"
proof -
  note child = ob_child_steps [OF law(1) wrap]
  obtain s1 s2 s3 s4 s5 s6 s7 s8 s9 s10 t1 t2 b where
    1: "run_state (ob_reconcileSecret L onion) s = ((None, t1), s1)" and
    2: "run_state (ob_reconcileServiceAccount L t1) s1 = (None, s2)" and
    3: "run_state (ob_reconcileRole L t1) s2 = (None, s3)" and
    4: "run_state (ob_reconcileRolebinding L t1) s3 = (None, s4)" and
    5: "run_state (ob_reconcileService L t1) s4 = (None, s5)" and
    6: "run_state (ob_reconcileConfigMap L t1) s5 = (None, s6)" and
    7: "run_state (ob_reconcileDeployment L cfg t1) s6 = ((None, t2), s7)" and
    8: "run_state (reconcileBackends L cfg t2) s7 = (b, s8)" and
    9: "run_state (ob_reconcileMetricsService L t2) s8 = (None, s9)" and
    10: "run_state (ob_reconcileServiceMonitor L t2) s9 = (None, s10)" and
    11: "run_state (ob_status_step L rns namespace t2) s10 = ((r, None), s')"
    by (rule ob_steps_success [OF run])
  obtain want sec where secret: "slot_created (ag_secrets ag) want
      (ob_key onion (ob_SecretName onion)) st_secrets put_secrets (stored s) (stored s1)"
    and want: "st_secrets (stored s) (ob_key onion (ob_SecretName onion)) = None \<longrightarrow>
      (\<exists>keys. made_key L keys \<and> want = balance_secret_of L keys onion)"
    and sec: "st_secrets (stored s1) (ob_key onion (ob_SecretName onion)) = Some sec"
    and t1: "t1 = set_hostname sec onion"
    using ob_secret_step [OF law(1) wrap 1] by (elim exE conjE)
  note dep = ob_deployment_step [OF law(1) wrap 7]
  have t2: "t2 = fst (onionbalanceDeployment L cfg (set_hostname sec onion))" using dep t1 by simp
  note builds = ob_deployed_builds [OF t2]
  have meta: "ob_meta t1 = ob_meta onion" "ob_meta t2 = ob_meta onion" using t1 builds(4) by simp_all
  note made = ob_backends_step [OF law(1) 8]
  note parts = slot_createdD [OF secret slots(2)] slot_settledD [OF child(1) [OF 2] slots(4)]
    slot_settledD [OF child(2) [OF 3] slots(5)] slot_settledD [OF child(3) [OF 4] slots(6)]
    slot_settledD [OF child(4) [OF 5] slots(1)] slot_createdD [OF ob_config_step [OF law(1) wrap 6] slots(3)]
    slot_settledD [OF conjunct1 [OF dep] slots(7)] slot_settledD [OF child(5) [OF 9] slots(1)]
  note kept = touches_secrets [OF parts(3)] touches_service_accounts [OF parts(6)] touches_roles [OF parts(9)]
    touches_role_bindings [OF parts(12)] touches_services [OF parts(15)] touches_config_maps [OF parts(18)]
    touches_deployments [OF parts(21)] touches_onions [OF conjunct1 [OF made]] touches_services [OF parts(24)]
  note parts10 = slot_monitorD [OF ob_monitor_step [OF law wrap _ 10, unfolded kept, OF keyed] slots(8)]
  note kept = kept touches_service_monitors [OF parts10(3)]
    holds_afterD [OF ob_status_step_same [OF law(1) status] refl 11]
  note names = same_ob_names [OF meta(2)] same_ob_names [OF set_hostname_meta [of sec onion]]
  note all = parts [unfolded t1 names set_hostname_meta meta(2) builds(1,2,3) hostname_builds]
    parts10 [unfolded names meta(2) builds(1,2,3)]
  have "ob_key onion (ob_ServiceName onion) \<noteq> ob_key onion (ob_ServiceMetricsName onion)"
    by (simp add: ob_ServiceName_def ob_ServiceMetricsName_def)
  note service = same_but_two [OF all(14) all(23) [unfolded kept] this]
  have backends: "backends_made L cfg (ag_onions ag) (set_hostname sec onion)
      (onions_served L stored \<and> obs_Hostname (ob_status (set_hostname sec onion)) \<noteq> [])
      (backend_indexes onion) (st_onions (stored s)) (st_onions (stored s'))"
    using conjunct2 [OF made] backends_made_cong [of L cfg t2 "set_hostname sec onion"]
    by (simp add: kept builds)
  show ?thesis
    unfolding ob_settled_def ob_frame_def Let_def
  proof (intro conjI exI [of _ sec])
    show "keys_drawn L (ag_secrets ag) (\<lambda>keys. balance_secret_of L keys onion)
        (st_secrets (stored s) (ob_key onion (ob_SecretName onion)))
        (st_secrets (stored s') (ob_key onion (ob_SecretName onion)))"
      using keys_drawnI [OF all(1) want] by (simp add: kept)
    show "st_secrets (stored s') (ob_key onion (ob_SecretName onion)) = Some sec" by (simp add: kept sec)
    show "backends_made L cfg (ag_onions ag) (set_hostname sec onion)
      (onions_served L stored \<and> obs_Hostname (ob_status (set_hostname sec onion)) \<noteq> [])
      (backend_indexes onion) (st_onions (stored s)) (st_onions (stored s'))" by (rule backends)
  qed (use all service in \<open>simp_all add: kept\<close>)
qed

section \<open>A reconciliation without an error\<close>

text \<open>
  C6: a reconciliation of an \<open>OnionBalancedService\<close> that reports no error leaves every child object in
  the state its builder describes, as far as another owner does not control it (the service monitor
  is left as it was when the cluster does not know monitors); the key secret and the config map
  exist and are those that were there if they were.  No existing \<open>OnionService\<close> changes.  When the
  secret names an \<open>onionAddress\<close> and the calls on \<open>OnionService\<close>s succeed, every backend is there, one
  that was missing as the builder makes it, with that address as its master address; when the secret
  names none, no backend is made and still no error is reported.  No other object of the cluster
  changed.
\<close>

theorem ob_Reconcile_settles:
  assumes law: "cluster_law L ag stored" "crd_law L installed" and wrap: "wrap_law L"
    and status: "\<And>S t. holds_after (\<lambda>s. stored s = S) (l_status_ob L t)"
    and keyed: "\<And>k y. st_service_monitors (stored s) k = Some y \<Longrightarrow> key_of (sm_meta y) = k"
    and get: "run_state (l_get_ob L req) s = (Inr onion, t)"
    and run: "run_state (ob_Reconcile L cfg req) s = ((r, None), s')"
  shows "ob_settled L cfg ag installed (onions_served L stored) onion (stored s) (stored s') \<and>
    ob_frame onion (stored s) (stored s')"
proof -
  have t: "stored t = stored s"
    using holds_afterD [OF reads_keepD(3) [OF cluster_lawD(10) [OF law(1)]] refl get] by simp
  have "run_state (ob_steps L cfg (nn_namespace req) (ob_namespace onion) onion) t = ((r, None), s')"
    using run get by (simp add: ob_Reconcile_def)
  from ob_steps_settle [OF law wrap status _ this] keyed show ?thesis unfolding t by simp
qed

section \<open>The sample\<close>

lemma sim_onions_served: "onions_served sim_lib stores_of"
  by (auto simp: onions_served_def sim_fields sim_onions_def sim_ops_def stores_of_def split: option.splits)

lemma ob_sim_succeeds:
  "succeeds (others_kept (ob_meta onion) old) (ob_reconcileServiceAccount sim_lib onion)"
  "succeeds (others_kept (ob_meta onion) old) (ob_reconcileRole sim_lib onion)"
  "succeeds (others_kept (ob_meta onion) old) (ob_reconcileRolebinding sim_lib onion)"
  "succeeds (others_kept (ob_meta onion) old) (ob_reconcileService sim_lib onion)"
  "succeeds (others_kept (ob_meta onion) old) (ob_reconcileMetricsService sim_lib onion)"
  "succeeds (others_kept (ob_meta onion) old) (ob_reconcileServiceMonitor sim_lib onion)"
proof -
  have mon: "holds_after (others_kept (ob_meta onion) old) (monitoringInstalled sim_lib)"
    by (rule monitoringInstalled_keeps [OF sim_children_permits])
  show
    "succeeds (others_kept (ob_meta onion) old) (ob_reconcileServiceAccount sim_lib onion)"
    "succeeds (others_kept (ob_meta onion) old) (ob_reconcileRole sim_lib onion)"
    "succeeds (others_kept (ob_meta onion) old) (ob_reconcileRolebinding sim_lib onion)"
    "succeeds (others_kept (ob_meta onion) old) (ob_reconcileService sim_lib onion)"
    "succeeds (others_kept (ob_meta onion) old) (ob_reconcileMetricsService sim_lib onion)"
    "succeeds (others_kept (ob_meta onion) old) (ob_reconcileServiceMonitor sim_lib onion)"
    unfolding ob_reconcileServiceAccount_def ob_reconcileRole_def ob_reconcileRolebinding_def
      ob_reconcileService_def ob_reconcileMetricsService_def ob_reconcileServiceMonitor_def
      Let_def sim_ops_of
    by (simp_all add: sim_ensure_child_succeeds ob_sa.build_key ob_role.build_key ob_rb.build_key
        ob_svc.build_key ob_msvc.build_key ob_sm.build_key)
      (auto intro!: succeeds_bind [OF mon] sim_ensure_monitor_succeeds
        simp: ob_sm.build_key others_kept_def store_kept_def)
qed

lemma ob_sim_config_succeeds: "succeeds P (ob_reconcileConfigMap sim_lib onion)"
  unfolding succeeds_def
proof (intro allI impI)
  fix s
  let ?get = "op_get (l_config_maps sim_lib) (ob_key onion (ob_ConfigMapName onion))"
  obtain r s1 where get: "run_state ?get s = (r, s1)" by (cases "run_state ?get s")
  let ?ensure = "ensure_created sim_lib (l_config_maps sim_lib)
      (failing sim_lib ''failed to create configmap %s'' ''failed to get configmap %s'' [] []) r
      (onionbalanceTorConfigMap sim_lib onion)"
  obtain c u where ensure: "run_state ?ensure s1 = (c, u)" by (cases "run_state ?ensure s1")
  have "\<exists>x. c = Inr x"
    by (rule sim_ensure_created [OF _ _ refl ensure [unfolded sim_ops_of]])
      (use get in \<open>simp_all add: sim_ops_of ob_cm.build_key\<close>)
  with get ensure show "fst (run_state (ob_reconcileConfigMap sim_lib onion) s) = None"
    by (auto simp: ob_reconcileConfigMap_def Let_def)
qed

lemma ob_sim_secret_succeeds:
  "yields (\<lambda>(err, onion'). err = None \<and> ob_meta onion' = ob_meta onion) (ob_reconcileSecret sim_lib onion)"
proof -
  have "fst (fst (run_state (ob_reconcileSecret sim_lib onion) s)) = None" for s
  proof -
    let ?get = "op_get (l_secrets sim_lib) (ob_key onion (ob_SecretName onion))"
    obtain r s1 where get: "run_state ?get s = (r, s1)" by (cases "run_state ?get s")
    obtain keys where new: "run_state (onionbalanceSecret sim_lib onion) s1 = (Some (balance_secret_of sim_lib keys onion), s1)"
      by (auto simp: onionbalanceSecret_def GenerateOnionV3_def sim_fields answer_def)
    let ?ensure = "ensure_created sim_lib (l_secrets sim_lib)
        (failing sim_lib ''failed to create secret'' ''failed to get secret'' [] []) r
        (balance_secret_of sim_lib keys onion)"
    obtain c u where ensure: "run_state ?ensure s1 = (c, u)" by (cases "run_state ?ensure s1")
    have "\<exists>x. c = Inr x"
      by (rule sim_ensure_created [OF _ _ refl ensure [unfolded sim_ops_of]])
        (use get in \<open>simp_all add: sim_ops_of ob_sec.build_key\<close>)
    with get new ensure show ?thesis
      by (auto simp: ob_reconcileSecret_def Let_def ensure_key_secret_def)
  qed
  with ob_secret_meta [of onion sim_lib] show ?thesis
    by (simp add: yields_def case_prod_unfold)
qed

lemma ob_sim_deployment_succeeds:
  "yields (\<lambda>(err, onion'). err = None \<and> ob_meta onion' = ob_meta onion) (ob_reconcileDeployment sim_lib cfg onion)"
proof -
  have "fst (run_state (ob_reconcileDeployment sim_lib cfg onion) s) = (None, fst (onionbalanceDeployment sim_lib cfg onion))"
    for s
  proof -
    have "succeeds (\<lambda>s. True) (ensure_child sim_lib (l_deployments sim_lib) dep_meta deploymentEqual fails
        (ob_meta onion) (ob_key onion (ob_DeploymentName onion)) False (snd (onionbalanceDeployment sim_lib cfg onion)))" for fails
      unfolding sim_ops_of by (rule sim_ensure_child_succeeds) (simp_all add: key_of_def)
    then show ?thesis
      by (auto simp: succeeds_def ob_reconcileDeployment_def names split: prod.splits) (metis fst_conv)+
  qed
  then show ?thesis by (simp add: yields_def)
qed

lemma ob_sim_status_ok: "ends_ok P (ob_status_step sim_lib rns ns onion)"
  unfolding ends_ok_def ob_status_step_def ob_update_status_def Let_def sim_ops_of
  by (auto simp: sim_ops_def sim_lib_def not_found_def split: option.splits)

lemma backend_loop_succeeds: "succeeds P (backend_loop L cfg onion idxs)"
proof -
  have "fst (run_state (backend_loop L cfg onion idxs) s) = None" for s
    by (induction idxs arbitrary: s) (auto split: prod.splits)
  then show ?thesis by (simp add: succeeds_def)
qed

lemma ob_sim_settles: "ends_ok (others_kept (ob_meta onion) old) (ob_steps sim_lib cfg rns ns onion)"
proof -
  let ?P = "others_kept (ob_meta onion) old"
  have dep: "ends_ok ?P (ob_steps_after_deployment sim_lib cfg rns ns t)" if "ob_meta t = ob_meta onion" for t
    unfolding ob_steps_after_deployment_def
    using ob_sim_succeeds(5,6) [of t old] ob_ensure_keeps(5,6) [of ?P sim_lib t]
      reconcileBackends_keeps [of ?P sim_lib t cfg] sim_children_permits that
    by (intro ends_ok_and_then ob_sim_status_ok) (simp_all add: reconcileBackends_def backend_loop_succeeds)
  have sec: "ends_ok ?P (ob_steps_after_secret sim_lib cfg rns ns t)" if t: "ob_meta t = ob_meta onion" for t
  proof -
    have perm: "children_permits ?P sim_lib (ob_meta t)" using t sim_children_permits by simp
    have "ends_ok ?P (do {
        r \<leftarrow> ob_reconcileDeployment sim_lib cfg t;
        (case r of
           (Some err, onion') \<Rightarrow> State_Monad.return (zero_result, Some err)
         | (None, onion') \<Rightarrow> ob_steps_after_deployment sim_lib cfg rns ns onion') })"
    proof (rule ends_ok_bind)
      show "holds_after ?P (ob_reconcileDeployment sim_lib cfg t)" by (rule ob_deployment_keeps [OF perm])
      show "(\<lambda>(err, t'). err = None \<and> ob_meta t' = ob_meta t) a"
        if "run_state (ob_reconcileDeployment sim_lib cfg t) s = (a, u)" for s a u
        by (rule yieldsD [OF ob_sim_deployment_succeeds that])
    qed (use dep t in \<open>auto\<close>)
    then show ?thesis
      unfolding ob_steps_after_secret_def
      using ob_sim_succeeds(1-4) [of t old] ob_ensure_keeps(1-4) [OF perm] ob_configMap_keeps [OF perm] t
      by (intro ends_ok_and_then ob_sim_config_succeeds) simp_all
  qed
  show ?thesis
    unfolding ob_steps_def
  proof (rule ends_ok_bind)
    show "holds_after ?P (ob_reconcileSecret sim_lib onion)"
      by (rule ob_secret_keeps [OF sim_children_permits sim_nil_secret_keeps])
    show "(\<lambda>(err, t'). err = None \<and> ob_meta t' = ob_meta onion) a"
      if "run_state (ob_reconcileSecret sim_lib onion) s = (a, u)" for s a u
      by (rule yieldsD [OF ob_sim_secret_succeeds that])
  qed (use sec in \<open>auto\<close>)
qed

lemma sim_made_key:
  "made_key sim_lib keys \<Longrightarrow> onionAddress keys = ''onion.onion''"
  by (auto simp: can_return_def GenerateOnionV3_def sim_fields answer_def GenerateOnionV3FromKeys_def)

theorem ob_Reconcile_settles_witness:
  "\<exists>backend. c_onions (snd (run_state (ob_Reconcile sim_lib sample_project ob_req) ob_cluster))
      (backend_key sample_ob 1) = Some backend \<and>
    os_MasterOnionAddress (os_spec backend) = ''onion.onion''"
proof -
  have get: "run_state (l_get_ob sim_lib ob_req) ob_cluster = (Inr sample_ob, ob_cluster)"
    by (simp add: sim_fields look_up_def ob_cluster_def ob_req_def sample_ob_def key_of_def zero_meta_def)
  obtain r s' where "run_state (ob_steps sim_lib sample_project (nn_namespace ob_req) (ob_namespace sample_ob)
      sample_ob) ob_cluster = ((r, None), s')"
    by (rule ends_okE [OF ob_sim_settles ob_cluster_kept])
  then have run: "run_state (ob_Reconcile sim_lib sample_project ob_req) ob_cluster = ((r, None), s')"
    using get by (simp add: ob_Reconcile_def)
  have empty: "st_service_monitors (stores_of ob_cluster) k = None" "st_secrets (stores_of ob_cluster) k = None"
    "st_onions (stores_of ob_cluster) k = None" for k
    by (simp_all add: stores_of_def ob_cluster_def empty_cluster_def)
  have "ob_settled sim_lib sample_project exactly True (onions_served sim_lib stores_of) sample_ob
      (stores_of ob_cluster) (stores_of s')"
    using ob_Reconcile_settles [OF sim_cluster_law sim_crd sim_wrap sim_status_same(2) _ get run]
    by (simp add: empty)
  then obtain sec where
    drawn: "keys_drawn sim_lib (=) (\<lambda>keys. balance_secret_of sim_lib keys sample_ob) None (Some sec)" and
    made: "backends_made sim_lib sample_project (=) (set_hostname sec sample_ob)
      (obs_Hostname (ob_status (set_hostname sec sample_ob)) \<noteq> [])
      (backend_indexes sample_ob) (st_onions (stores_of ob_cluster)) (st_onions (stores_of s'))"
    unfolding ob_settled_def Let_def by (auto simp: empty sim_onions_served)
  have host: "obs_Hostname (ob_status (set_hostname sec sample_ob)) = ''onion.onion''"
    using drawn by (auto simp: keys_drawn_def set_hostname_def balance_secret_of_def onion_secret_data_def
        fmlookup_of_list sim_made_key)
  have "1 \<in> set (backend_indexes sample_ob)"
    by (simp add: backend_indexes_def sample_ob_def zero_ob_def)
  with made host have "st_onions (stores_of s') (backend_key (set_hostname sec sample_ob) 1) =
      Some (onionBalancedServiceBackend sim_lib sample_project 1 (set_hostname sec sample_ob))"
    by (simp add: backends_made_def created_once_def empty)
  moreover have "backend_key (set_hostname sec sample_ob) 1 = backend_key sample_ob 1"
    by (simp add: OnionServiceBackendName_def)
  ultimately show ?thesis
    using host by (simp add: run stores_of_def onionBalancedServiceBackend_def)
qed

end
