(* ===== verification/Spec2Isabelle.thy ===== *)
theory Spec2Isabelle
  imports Tor_Reconcile Onion_Reconcile Balanced_Reconcile Agent_Daemon Balance_Agent
    Agent_Manager Operator_Main Legacy_Types Status_Copy Controller_Watch Agent_Startup
    Balance_Daemon Backend_Bounds Scheme_Registry Tor_Stable Balanced_Converge
begin

text \<open>
  tor-controller runs Tor on Kubernetes.  Three controllers reconcile three custom resources with
  the cluster: a \<open>Tor\<close> becomes a Tor daemon, an \<open>OnionService\<close> a daemon that publishes services
  under an onion address, and an \<open>OnionBalancedService\<close> an onionbalance pod in front of several
  \<open>OnionService\<close> backends.  Inside the pods of the last two an agent watches the resource, writes
  the daemon's configuration and supervises the daemon.  This development is a model of both halves
  in HOL, translated from the Go sources, with the theorems that make them correct and the ones
  that state where they are not.

  Theories, in the order of their imports, with the code they model:

  \<^item> \<open>Go_Prelude\<close>: strings, numbers, errors, and the state monad that stands for calls out of the
    program; \<open>holds_after\<close> and \<open>yields\<close> carry facts through monadic code.
  \<^item> \<open>K8s_Types\<close>: the Kubernetes objects (the fields the code uses; the others are one \<open>opaque\<close>
    field), and the comparisons of \<open>controllers/tor/utils_equal.go\<close> and \<open>utils_exist.go\<close>.
  \<^item> \<open>Derived_Names\<close>: the locale \<open>derived_children\<close>, the contract of the name functions;
    \<open>Tor_Types\<close>, \<open>Onion_Types\<close> and \<open>Legacy_Types\<close> model \<open>apis/tor/v1alpha2\<close> and \<open>v1alpha1\<close>
    (records, names, labels, defaults) and interpret it.
  \<^item> \<open>Go_Memory\<close>: values with pointers, slices and maps in a memory of cells, what a value denotes
    (\<open>denotes\<close>, an inductive relation to trees), the types of the trees, and the contract
    \<open>deep_copier\<close> with the combinators that keep it.  \<open>Api_Layouts\<close>: the fields of every API type;
    \<open>Deep_Copy\<close>, \<open>Deep_Copy_Objects\<close>: the three files \<open>zz_generated.deepcopy.go\<close>; \<open>Status_Copy\<close>: the
    copies on which the three \<open>Reconcile\<close> methods set the status, as programs over that memory.
  \<^item> \<open>Onion_Crypto\<close>: \<open>controllers/tor/util.go\<close>, the key files and the hash of a control password
    (SHA-1 included).
  \<^item> \<open>Client_Lib\<close>: the record \<open>lib\<close> of everything the controllers call (API server, error library,
    generators) and the laws its documentation promises.  \<open>Ensure_Child\<close>: the pattern the reconcile
    functions share (get, compare, create or update, check the owner) and the locale \<open>owned_child\<close>,
    the contract of a builder of child objects; every builder of the three controllers interprets it.
  \<^item> \<open>Config_Types\<close>: \<open>apis/config/v2\<close>, the operator's own configuration.
  \<^item> \<open>Tor_Torfile\<close>, \<open>Tor_Children\<close>, \<open>Tor_Reconcile\<close>: \<open>controllers/tor/tor_*.go\<close>;
    \<open>Onion_Children\<close>, \<open>Onion_Reconcile\<close>: \<open>onionservice_*.go\<close>; \<open>Balanced_Children\<close>,
    \<open>Balanced_Reconcile\<close>: \<open>onionbalancedservice_*.go\<close>.  The functions keep their names, with the
    prefix \<open>tor_\<close>, \<open>os_\<close> or \<open>ob_\<close> where two controllers use the same one.  \<open>Backend_Bounds\<close>: the loop over
    the backends with its 32-bit counter, and which names lead to services the API server accepts.
  \<^item> \<open>Controller_Watch\<close>: the three \<open>SetupWithManager\<close>, and which events reach \<open>Reconcile\<close>;
    \<open>Access_Rules\<close>: the rights the \<open>kubebuilder:rbac\<close> markers give the operator, against the roles
    the controllers create and the calls of their client; \<open>Scheme_Registry\<close>: \<open>groupversion_info.go\<close> and
    the schemes, against the kinds that the owner references name.
  \<^item> \<open>Cluster_State\<close>: the objects of a cluster kind by kind (\<open>stores\<close>), the documented behaviour of the
    API server on them (\<open>cluster_law\<close>), and what each shared routine does to its own kind while the
    others stay.  \<open>Tor_Converge\<close>, \<open>Onion_Converge\<close>, \<open>Balanced_Converge\<close>: the desired state of each
    resource (\<open>tor_settled\<close>, \<open>os_settled\<close>, \<open>ob_settled\<close>) and that a reconciliation that reports no
    error reaches it; \<open>Tor_Stable\<close>: a reconciliation in that state changes nothing on a server that does
    not write an object that would stay the same (\<open>idle_law\<close>).
  \<^item> \<open>Sim_Cluster\<close>: a cluster that satisfies the laws of \<open>lib\<close>, on which the witnesses run;
    \<open>Sim_Runs\<close>: its calls succeed, and with them whole reconciliations.
  \<^item> \<open>Agent_Config\<close>: \<open>agents/*/config\<close>.  \<open>Tor_Agent\<close>, \<open>Agent_Sync\<close>: \<open>agents/tor/local/controller.go\<close>;
    \<open>Balance_Agent\<close>: \<open>agents/onionbalance/local/controller.go\<close>; \<open>Agent_Queue\<close>: the work loop of both;
    \<open>Agent_Manager\<close>: \<open>agents/*/local/client.go\<close> and \<open>Run\<close>; \<open>Agent_Startup\<close>: \<open>agents/*/main.go\<close>, the
    flags, clients, informers and watchers, from the arguments in the deployment to the resource
    that is watched; \<open>Daemons\<close>: the two supervisors; \<open>Agent_Daemon\<close>, \<open>Balance_Daemon\<close>: each agent
    on top of its supervisor.
  \<^item> \<open>Operator_Main\<close>: \<open>main.go\<close>.

  State and errors.  A function that calls out of the program is a state monad over an arbitrary
  world \<open>'s\<close>; what it calls is a field of the record \<open>lib\<close>, \<open>agent\<close>, \<open>balancer\<close>, \<open>queue\<close> or
  \<open>platform\<close>, and the laws such a field is expected to obey are named predicates (\<open>wrap_law\<close>,
  \<open>ownership_law\<close>, \<open>files_law\<close>, \<open>requeue_law\<close> and so on) that appear as hypotheses.  An \<open>error\<close> is
  \<open>go_error option\<close>; a message keeps its format string only.  A pointer argument the function
  changes is returned.  Goroutines are step relations: \<open>sup_step\<close> for the supervisors, which
  interleaves the statements of the loops, and \<open>manager_step\<close> for the manager.

  The lemmas show, per component: which objects a reconciliation may touch and that it touches no
  others (\<open>tor_Reconcile_permitted\<close> and its siblings); that a whole reconciliation without an error
  implements the specification of its resource, object by object (\<open>tor_Reconcile_settles\<close> and its
  siblings: nobody else writes while it runs, and the server stores objects that agree with those
  it is sent, \<open>agreement\<close>, which leaves it free to fill in fields); that the objects it builds fit each other
  (selectors and labels, mounts and volumes, ports, names that never collide); the contents of the
  files as lists of lines; the exact conditions of the checks, requeues and reloads; the invariants
  of the supervisors and of the manager; and, in this theory, that what the controllers prepare is
  what the agents expect.

  Loops.  \<open>runWorker\<close> is a \<open>partial_function\<close>, and \<open>worker_ends\<close> proves that it returns once the
  queue is shut down; the stretching loop of the password hash is a \<open>while_option\<close> that
  \<open>hash_loop_stretches\<close> proves to end.  The loop over the backends counts in 32 bits:
  \<open>backends_for\<close> is the loop as it is written, a \<open>partial_function\<close>, and \<open>backends_loop_ends\<close>
  proves that it ends unless \<open>Spec.Backends\<close> is the largest 32-bit number, with the result of
  \<open>reconcileBackends\<close>, which folds over the list of indices (the resource definition bounds the
  field by 8).  The other loops recurse on lists.  No fuel is used.

  Values and memory.  The controllers and agents are modelled over values, so that a value is its
  own copy; \<open>api_copies_separate\<close> and \<open>status_copies_private\<close> are the justification: over a memory
  with sharing, every generated copy function returns a copy that denotes the same tree in fresh
  cells, a write to one of the two is never seen through the other, and the copies on which the
  controllers set the status stay in cells of their own.

  Not modelled: logging and events; the code of the libraries (client-go and controller-runtime,
  \<open>flag\<close>, YAML, Ed25519, the deep copies of Kubernetes types), whose documented laws are hypotheses;
  the test suite.  Of the supervisors, a call of \<open>Reload\<close> is one step, races within it are left out,
  and while an agent writes its files the supervisor's goroutines are taken to stand still
  (\<open>daemon_law\<close>, \<open>balance_daemon_law\<close>).  The trimming of white space by the Go templates is carried
  out in the definitions, a \<open>ServiceRule\<close> always has a backend service where the Go pointer may be
  \<open>nil\<close>, and an interrupt no handler is registered for, which ends a Go process, has no effect.
\<close>

section \<open>What the controllers prepare and what the agents find\<close>

text \<open>
  The file names the agent of an onion service copies from the key directory are the names the
  deployment mounts there.  With a generated key these are the public key, the private key and the
  hostname; with a key of the user's only the private key is there, and the copies of the other two
  fail, which is logged only.
\<close>

theorem mounted_keys_match:
  fixes onion :: OnionService
  defines "wanted \<equiv> {''hostname'', fst (key_file_names onion), snd (key_file_names onion)}"
  shows "vm_path (hd os_mounts) @ ''/'' = torServiceDir @ ''key/'' \<and>
    vm_path (hd (tl os_mounts)) = torServiceDir @ ''.authorized_clients'' \<and>
    (if sr_key (os_PrivateKeySecret (os_spec onion)) = []
     then set (map kp_path (key_volume_items onion)) = wanted
     else set (map kp_path (key_volume_items onion)) = {snd (key_file_names onion)}) \<and>
    has_suffix (client_file i) ''.auth''"
  by (auto simp: wanted_def os_mounts_def torServiceDir_def key_volume_items_def key_file_names_def
      Let_def has_suffix_def client_file_def suffix_def)

text \<open>
  C12: the chain of the master address: a backend that the controller of a balanced service builds makes
  the tor agent switch onionbalance on in the torfile, and name the hostname of the balanced
  service in \<open>ob_config\<close>.
\<close>

theorem backend_agent_files:
  fixes L :: "'s lib" and onion :: OnionBalancedService and cfg :: ProjectConfig and idx :: int32
  defines "backend \<equiv> onionBalancedServiceBackend L cfg idx onion"
  assumes address: "obs_Hostname (ob_status onion) \<noteq> []" "single_line (obs_Hostname (ob_status onion))"
    and rules: "list_all (\<lambda>r. single_line (sb_name (rule_backend r))) (os_Rules (tr_spec (ob_Template (ob_spec onion))))"
  shows "\<exists>torfile ob_config.
    TorConfigForService backend = Inr torfile \<and> ObConfigForService backend = Inr ob_config \<and>
    ''HiddenServiceOnionbalanceInstance 1'' \<in> set (text_lines torfile) \<and>
    text_lines ob_config = [''MasterOnionAddress '' @ obs_Hostname (ob_status onion)]"
proof -
  have master: "os_MasterOnionAddress (os_spec backend) = obs_Hostname (ob_status onion)"
    and "os_Rules (os_spec backend) = os_Rules (tr_spec (ob_Template (ob_spec onion)))"
    by (simp_all add: backend_def onionBalancedServiceBackend_def Let_def)
  with rules have "list_all (\<lambda>r. single_line (sb_name (rule_backend r))) (os_Rules (os_spec backend))"
    by simp
  from configFormat_lines [OF input_data_single_line [OF this]] master address(1)
  have "''HiddenServiceOnionbalanceInstance 1'' \<in>
      set (text_lines (configFormat (OnionServiceInputData backend)))"
    by (simp add: OnionServiceInputData_def Let_def)
  with ob_config_lines [of backend] master address show ?thesis
    by (auto simp: TorConfigForService_def Let_def)
qed

theorem backend_agent_files_witness:
  "\<exists>torfile ob_config.
    TorConfigForService (onionBalancedServiceBackend sim_lib sample_project 1
      (sample_ob\<lparr>ob_status := (ob_status sample_ob)\<lparr>obs_Hostname := ''m.onion''\<rparr>\<rparr>)) = Inr torfile \<and>
    ObConfigForService (onionBalancedServiceBackend sim_lib sample_project 1
      (sample_ob\<lparr>ob_status := (ob_status sample_ob)\<lparr>obs_Hostname := ''m.onion''\<rparr>\<rparr>)) = Inr ob_config \<and>
    ''HiddenServiceOnionbalanceInstance 1'' \<in> set (text_lines torfile) \<and>
    text_lines ob_config = [''MasterOnionAddress m.onion'']"
proof -
  let ?ob = "sample_ob\<lparr>ob_status := (ob_status sample_ob)\<lparr>obs_Hostname := ''m.onion''\<rparr>\<rparr>"
  have "obs_Hostname (ob_status ?ob) \<noteq> []" "single_line (obs_Hostname (ob_status ?ob))"
    "list_all (\<lambda>r. single_line (sb_name (rule_backend r))) (os_Rules (tr_spec (ob_Template (ob_spec ?ob))))"
    by (simp_all add: sample_ob_def zero_ob_def)
  from backend_agent_files [OF this, of sim_lib sample_project 1] show ?thesis by simp
qed

text \<open>
  C13: when the status of a balanced service is synced, so that the controller does not repeat its
  request, the agent marshals a configuration of one service, which lists exactly as many instances
  as there are backends, each with the hostname the status has for it, in the order in which the map
  is visited.
\<close>

theorem synced_config_complete:
  fixes onion :: OnionBalancedService
  defines "m \<equiv> obs_Backends (ob_status onion)"
  assumes "IsSynced onion"
    and "distinct (map fst (visit m))" "map_of (visit m) = fmlookup m"
  shows "\<exists>be. OnionBalanceConfigForService visit marshal wrap onion =
      (case marshal \<lparr>bc_Services = [be]\<rparr> of
         Inl err \<Rightarrow> ([], wrap (Some err) ''Error while Marshaling. %v'')
       | Inr text \<Rightarrow> (text, None)) \<and>
    int (length (be_Instances be)) = sint (ob_Backends (ob_spec onion)) \<and>
    map (\<lambda>i. (in_Name i, in_Address i)) (be_Instances be) =
      map (\<lambda>(n, b). (n, oss_Hostname b)) (visit m) \<and>
    (\<forall>i\<in>set (be_Instances be). in_Address i \<noteq> [])"
proof -
  let ?entries = "visit m"
  note assms = assms(2-) [unfolded m_def] and m = m_def
  have entry: "fmlookup m n = Some b" if "(n, b) \<in> set ?entries" for n b
    using that assms(2,3) by (metis m map_of_is_SomeI)
  have hosts: "oss_Hostname b \<noteq> []" if "(n, b) \<in> set ?entries" for n b
    using entry [OF that] assms(1) by (auto simp: m IsSynced_def split: if_splits dest: fmpredD)
  have "fset (fmdom m) = set (map fst ?entries)"
    using assms(3) [symmetric] by (simp add: m fmdom.rep_eq dom_map_of_conv_image_fst)
  then have "fcard (fmdom m) = length ?entries"
    using distinct_card [OF assms(2)] by (simp add: m fcard.rep_eq)
  then have size: "int (length ?entries) = sint (ob_Backends (ob_spec onion))"
    using assms(1) by (simp add: m IsSynced_def ob_GetBackends_def split: if_splits)
  have all: "filter (\<lambda>(n, b). oss_Hostname b \<noteq> []) ?entries = ?entries"
    using hosts by (intro filter_True) auto
  obtain be where "bc_Services (balance_config ?entries) = [be]"
    and be: "be_Instances be = map (\<lambda>(n, b). \<lparr>in_Name = n, in_Address = oss_Hostname b\<rparr>) ?entries"
    using balance_config_services [of ?entries] unfolding all by blast
  then have "balance_config ?entries = \<lparr>bc_Services = [be]\<rparr>" by simp
  with size hosts show ?thesis
    by (intro exI [of _ be]) (auto simp: OnionBalanceConfigForService_def m be o_def case_prod_beta)
qed

definition synced_ob :: OnionBalancedService where
  "synced_ob = (zero_ob ''web'' ''default'')
     \<lparr>ob_spec := (ob_spec (zero_ob ''web'' ''default''))\<lparr>ob_Backends := 1\<rparr>,
      ob_status := \<lparr>obs_Hostname = ''m.onion'', obs_TargetClusterIP = [], obs_Backends = fmap_of_list
          [(''web-tor-obb-1'', \<lparr>oss_Hostname = ''b.onion'', oss_TargetClusterIP = []\<rparr>)]\<rparr>\<rparr>"

theorem synced_config_complete_witness:
  "\<exists>be. OnionBalanceConfigForService (\<lambda>m. [(''web-tor-obb-1'', the (fmlookup m ''web-tor-obb-1''))])
      print_config (\<lambda>e m. e) synced_ob =
      (case print_config \<lparr>bc_Services = [be]\<rparr> of Inl err \<Rightarrow> ([], Some err) | Inr text \<Rightarrow> (text, None)) \<and>
    map in_Address (be_Instances be) = [''b.onion'']"
proof -
  let ?visit = "\<lambda>m. [(''web-tor-obb-1'', the (fmlookup m ''web-tor-obb-1''))] :: (string \<times> OnionServiceStatus) list"
  let ?m = "obs_Backends (ob_status synced_ob)"
  have 1: "IsSynced synced_ob"
    by (simp add: IsSynced_iff synced_ob_def fcard.rep_eq)
  have 2: "distinct (map fst (?visit ?m))" by simp
  have 3: "map_of (?visit ?m) = fmlookup ?m"
    by (auto simp: synced_ob_def fun_eq_iff)
  from synced_config_complete [where onion = synced_ob and visit = ?visit and marshal = print_config
      and wrap = "\<lambda>e m. e", OF 1 2 3]
  obtain be where be: "OnionBalanceConfigForService ?visit print_config (\<lambda>e m. e) synced_ob =
      (case print_config \<lparr>bc_Services = [be]\<rparr> of Inl err \<Rightarrow> ([], Some err) | Inr text \<Rightarrow> (text, None))"
    and names: "map (\<lambda>i. (in_Name i, in_Address i)) (be_Instances be) =
      map (\<lambda>(n, b). (n, oss_Hostname b)) (?visit ?m)"
    by (elim exE conjE) (rule that)
  from arg_cong [OF names, of "map snd"] have "map in_Address (be_Instances be) = [''b.onion'']"
    by (simp add: synced_ob_def o_def)
  with be show ?thesis by (intro exI [of _ be] conjI)
qed





end
